(* ===== verification/Prelude.thy ===== *)
theory Prelude
  imports Main "HOL-Library.Word" "HOL-Library.Monad_Syntax" "HOL-Library.Finite_Map"
begin

text \<open>
  Shared vocabulary of the development: the machine types, C strings in fixed
  buffers, bounded arrays, the counting loop and the copy loops that the mapping
  functions of \<^verbatim>\<open>upsf/upsf_c_mapping.cpp\<close> are made of, and the lemma collections
  the component theories use.

  A computation that C or C++ leaves undefined (an access outside an array, a read
  past the end of an unterminated buffer, a read of a union member that is not the
  active one) is the value \<open>None\<close>; a defined computation is \<open>Some\<close>. A theorem that
  a function returns \<open>Some\<close> is therefore a memory safety statement.
\<close>

section \<open>Machine types and lemma collections\<close>

type_synonym int32 = "32 word"
type_synonym size_t = "64 word"
type_synonym 'a ub = "'a option"

named_theorems zero_defs \<open>the all-zero structures that \<open>memset\<close> leaves\<close>
named_theorems dflt_defs \<open>default protobuf messages\<close>
named_theorems c_defs \<open>closed forms of the message to structure mappings\<close>
named_theorems p_defs \<open>closed forms of the structure to message mappings\<close>
named_theorems ok_defs \<open>readable structures\<close>
named_theorems clean_defs \<open>canonical structures\<close>
named_theorems fits_defs \<open>messages within the limits of the structures\<close>

section \<open>Arrays\<close>

definition arr_get :: "'a list \<Rightarrow> nat \<Rightarrow> 'a ub" where
  "arr_get xs i = (if i < length xs then Some (xs ! i) else None)"

definition arr_set :: "'a list \<Rightarrow> nat \<Rightarrow> 'a \<Rightarrow> 'a list ub" where
  "arr_set xs i x = (if i < length xs then Some (xs[i := x]) else None)"

lemma arr_get_in [simp]: "i < length xs \<Longrightarrow> arr_get xs i = Some (xs ! i)"
  by (simp add: arr_get_def)

lemma arr_get_out [simp]: "length xs \<le> i \<Longrightarrow> arr_get xs i = None"
  by (simp add: arr_get_def)

lemma arr_set_in [simp]: "i < length xs \<Longrightarrow> arr_set xs i x = Some (xs[i := x])"
  by (simp add: arr_set_def)

lemma arr_set_out [simp]: "length xs \<le> i \<Longrightarrow> arr_set xs i x = None"
  by (simp add: arr_set_def)

section \<open>Counting loops\<close>

text \<open>\<^verbatim>\<open>for (int i = i0; i < n; i++) body\<close>, the body acting on the loop state.\<close>

function for_up :: "nat \<Rightarrow> nat \<Rightarrow> (nat \<Rightarrow> 's \<Rightarrow> 's ub) \<Rightarrow> 's \<Rightarrow> 's ub" where
  "for_up i n body s =
     (if i < n then do { s' \<leftarrow> body i s; for_up (Suc i) n body s' } else Some s)"
  by pat_completeness auto
termination
  by (relation "measure (\<lambda>(i, n, _, _). n - i)") auto

declare for_up.simps [simp del]

lemma for_up_done [simp]: "n \<le> i \<Longrightarrow> for_up i n body s = Some s"
  by (subst for_up.simps) simp

lemma for_up_step:
  "i < n \<Longrightarrow> for_up i n body s = do { s' \<leftarrow> body i s; for_up (Suc i) n body s' }"
  by (subst for_up.simps) simp

lemma for_up_add:
  "for_up i (i + n) body s =
     (case n of 0 \<Rightarrow> Some s
      | Suc m \<Rightarrow> do { s' \<leftarrow> body i s; for_up (Suc i) (Suc i + m) body s' })"
  by (cases n) (auto simp: for_up_step)

text \<open>An invariant of the loop holds of its result.\<close>

lemma for_up_invariant:
  assumes "P i s"
    and "\<And>k t. i \<le> k \<Longrightarrow> k < n \<Longrightarrow> P k t \<Longrightarrow> \<exists>t'. body k t = Some t' \<and> P (Suc k) t'"
    and "i \<le> n"
  shows "\<exists>t. for_up i n body s = Some t \<and> P n t"
  using assms
proof (induction "n - i" arbitrary: i s)
  case 0
  then show ?case by simp
next
  case (Suc d)
  then have i: "i < n" by simp
  with Suc.prems(1,2) obtain s' where s': "body i s = Some s'" "P (Suc i) s'"
    by blast
  have "\<exists>t. for_up (Suc i) n body s' = Some t \<and> P n t"
    using Suc.hyps(2) Suc.prems i s' by (intro Suc.hyps(1)) auto
  with i s' show ?case by (simp add: for_up_step)
qed

section \<open>C strings\<close>

definition UPSF_MAX_STRING_SIZE :: nat where
  "UPSF_MAX_STRING_SIZE = 64"

abbreviation NUL :: char where
  "NUL \<equiv> CHR 0x00"

text \<open>The bytes before the first NUL: what \<open>c_str()\<close> and a \<^verbatim>\<open>char*\<close> denote.\<close>

definition c_str :: "string \<Rightarrow> string" where
  "c_str s = takeWhile (\<lambda>c. c \<noteq> NUL) s"

text \<open>
  \<open>strncpy(dst, src, n)\<close>: at most \<open>n\<close> bytes of \<open>src\<close> up to its NUL, padded with NUL
  to \<open>n\<close> bytes; it always writes \<open>n\<close> bytes, which must lie inside \<open>dst\<close>.
\<close>

definition strncpy :: "string \<Rightarrow> string \<Rightarrow> nat \<Rightarrow> string ub" where
  "strncpy dst src n =
     (if n \<le> length dst
      then (let c = take n (c_str src) in Some (c @ replicate (n - length c) NUL @ drop n dst))
      else None)"

text \<open>\<open>strlen\<close> of a buffer: undefined when no NUL is inside it.\<close>

definition strlen :: "string \<Rightarrow> nat ub" where
  "strlen b = (if NUL \<in> set b then Some (length (c_str b)) else None)"

record upsf_string_t =
  cs_str :: string
  cs_len :: size_t

definition zero_string :: upsf_string_t where [zero_defs]:
  "zero_string = \<lparr>cs_str = replicate UPSF_MAX_STRING_SIZE NUL, cs_len = 0\<rparr>"

text \<open>
  The idiom \<^verbatim>\<open>strncpy(to.f.str, from.f().c_str(), sizeof(to.f.str) - 1);
  to.f.len = strlen(to.f.str);\<close>
\<close>

definition put_string :: "upsf_string_t \<Rightarrow> string \<Rightarrow> upsf_string_t ub" where
  "put_string e s = do {
     b \<leftarrow> strncpy (cs_str e) s (UPSF_MAX_STRING_SIZE - 1);
     n \<leftarrow> strlen b;
     Some (e\<lparr>cs_str := b, cs_len := of_nat n\<rparr>)
   }"

text \<open>\<^verbatim>\<open>std::string(from.f.str)\<close>: the bytes up to the NUL; the length field is not read.\<close>

definition std_string :: "upsf_string_t \<Rightarrow> string ub" where
  "std_string e = (if NUL \<in> set (cs_str e) then Some (c_str (cs_str e)) else None)"

subsection \<open>Closed forms\<close>

definition c_cut :: "string \<Rightarrow> string" where
  "c_cut s = take (UPSF_MAX_STRING_SIZE - 1) (c_str s)"

definition c_string :: "string \<Rightarrow> upsf_string_t" where
  "c_string s = \<lparr>cs_str = c_cut s @ replicate (UPSF_MAX_STRING_SIZE - length (c_cut s)) NUL,
                 cs_len = of_nat (length (c_cut s))\<rparr>"

definition p_string :: "upsf_string_t \<Rightarrow> string" where
  "p_string e = c_str (cs_str e)"

definition ok_string :: "upsf_string_t \<Rightarrow> bool" where
  "ok_string e \<longleftrightarrow> length (cs_str e) = UPSF_MAX_STRING_SIZE \<and> NUL \<in> set (cs_str e)"

definition clean_string :: "upsf_string_t \<Rightarrow> bool" where
  "clean_string e \<longleftrightarrow> e = c_string (p_string e)"

definition fits_string :: "string \<Rightarrow> bool" where
  "fits_string s \<longleftrightarrow> length s < UPSF_MAX_STRING_SIZE \<and> NUL \<notin> set s"

lemma NUL_notin_c_str [simp]: "NUL \<notin> set (c_str s)"
  by (auto simp: c_str_def dest: set_takeWhileD)

lemma c_str_id [simp]: "NUL \<notin> set s \<Longrightarrow> c_str s = s"
  by (auto simp: c_str_def takeWhile_eq_all_conv)

lemma c_str_append_NUL: "NUL \<notin> set s \<Longrightarrow> c_str (s @ NUL # t) = s"
  by (auto simp: c_str_def takeWhile_append)

lemma length_c_cut: "length (c_cut s) < UPSF_MAX_STRING_SIZE"
  by (simp add: c_cut_def UPSF_MAX_STRING_SIZE_def)

lemma NUL_notin_c_cut [simp]: "NUL \<notin> set (c_cut s)"
  by (auto simp: c_cut_def dest: in_set_takeD)

lemma c_cut_fits: "fits_string s \<Longrightarrow> c_cut s = s"
  by (auto simp: fits_string_def c_cut_def)

lemma c_cut_fits_string [simp]: "fits_string (c_cut s)"
  using length_c_cut[of s] by (simp add: fits_string_def)

lemma c_cut_c_cut [simp]: "c_cut (c_cut s) = c_cut s"
  by (simp add: c_cut_fits)

lemma c_string_c_cut [simp]: "c_string (c_cut s) = c_string s"
  by (simp add: c_string_def)

lemma pad_NUL:
  "n < m \<Longrightarrow> replicate (m - n) NUL = NUL # replicate (m - Suc n) NUL"
  by (metis Suc_diff_Suc replicate_Suc)

lemma c_str_c_string: "c_str (cs_str (c_string s)) = c_cut s"
  using length_c_cut[of s] by (simp add: c_string_def pad_NUL c_str_append_NUL)

lemma p_string_c_string [simp]: "p_string (c_string s) = c_cut s"
  by (simp add: p_string_def c_str_c_string)

lemma ok_c_string [simp]: "ok_string (c_string s)"
  using length_c_cut[of s] by (auto simp: ok_string_def c_string_def)

lemma clean_c_string [simp]: "clean_string (c_string s)"
  by (simp add: clean_string_def)

lemma clean_string_eq: "clean_string e \<Longrightarrow> c_string (p_string e) = e"
  by (simp add: clean_string_def)

lemma clean_string_ok: "clean_string e \<Longrightarrow> ok_string e"
  by (metis clean_string_def ok_c_string)

lemma std_string_ok [simp]: "ok_string e \<Longrightarrow> std_string e = Some (p_string e)"
  by (simp add: ok_string_def std_string_def p_string_def)

lemma std_string_iff: "(std_string e = None) = (NUL \<notin> set (cs_str e))"
  by (simp add: std_string_def)

lemma put_string_zero [simp]: "put_string zero_string s = Some (c_string s)"
proof -
  define n where "n = length (c_cut s)"
  have le: "n < UPSF_MAX_STRING_SIZE" unfolding n_def by (rule length_c_cut)
  have pad: "replicate (UPSF_MAX_STRING_SIZE - 1 - n) NUL @ [NUL]
      = replicate (UPSF_MAX_STRING_SIZE - n) NUL"
    using le by (simp add: UPSF_MAX_STRING_SIZE_def replicate_append_same Suc_diff_le
        flip: replicate_Suc)
  have "strncpy (cs_str zero_string) s (UPSF_MAX_STRING_SIZE - 1)
      = Some (c_cut s @ replicate (UPSF_MAX_STRING_SIZE - 1 - n) NUL @ [NUL])"
    unfolding strncpy_def Let_def c_cut_def[symmetric] n_def
    by (simp add: zero_string_def UPSF_MAX_STRING_SIZE_def)
  then have copy: "strncpy (cs_str zero_string) s (UPSF_MAX_STRING_SIZE - 1)
      = Some (cs_str (c_string s))"
    by (simp only: pad) (simp add: c_string_def n_def)
  have len: "strlen (cs_str (c_string s)) = Some n"
    using ok_c_string[of s] by (simp add: strlen_def ok_string_def c_str_c_string n_def)
  show ?thesis
    unfolding put_string_def copy by (simp add: len) (simp add: c_string_def zero_string_def n_def)
qed

section \<open>Bounded copies between repeated fields and arrays\<close>

definition UPSF_MAX_ELEMS :: nat where
  "UPSF_MAX_ELEMS = 16"

text \<open>\<^verbatim>\<open>(from.f_size() < MAX) ? from.f_size() : MAX\<close>\<close>

definition bounded_size :: "'a list \<Rightarrow> nat \<Rightarrow> size_t" where
  "bounded_size xs mx = of_nat (if length xs < mx then length xs else mx)"

text \<open>
  \<^verbatim>\<open>for (int i = 0; i < n; i++) put(to[i], from(i));\<close> with the array \<open>a\<close> as the loop
  state: both the read of \<open>from\<close> and the write to \<open>to\<close> are checked.
\<close>

definition copy_n :: "('e \<Rightarrow> 'x \<Rightarrow> 'e ub) \<Rightarrow> 'x list \<Rightarrow> nat \<Rightarrow> 'e list \<Rightarrow> 'e list ub" where
  "copy_n put xs n a =
     for_up 0 n (\<lambda>i a. do {
       x \<leftarrow> arr_get xs i;
       e \<leftarrow> arr_get a i;
       e' \<leftarrow> put e x;
       arr_set a i e'
     }) a"

text \<open>
  \<^verbatim>\<open>int i = 0; for (auto it : from) { put(to[i], it); if (++i == MAX) break; }\<close>:
  the final \<open>i\<close> and the array.
\<close>

fun copy_range :: "('e \<Rightarrow> 'x \<Rightarrow> 'e ub) \<Rightarrow> nat \<Rightarrow> 'x list \<Rightarrow> nat \<Rightarrow> 'e list \<Rightarrow> (nat \<times> 'e list) ub" where
  "copy_range put mx [] i a = Some (i, a)"
| "copy_range put mx (x # xs) i a = do {
     e \<leftarrow> arr_get a i;
     e' \<leftarrow> put e x;
     a' \<leftarrow> arr_set a i e';
     if i + 1 = mx then Some (i + 1, a') else copy_range put mx xs (i + 1) a'
   }"

text \<open>\<^verbatim>\<open>for (int i = 0; i < n; i++) to.add_f(get(from[i]));\<close>\<close>

definition add_n :: "('e \<Rightarrow> 'x ub) \<Rightarrow> 'e list \<Rightarrow> nat \<Rightarrow> 'x list \<Rightarrow> 'x list ub" where
  "add_n get a n xs =
     for_up 0 n (\<lambda>i xs. do {
       e \<leftarrow> arr_get a i;
       x \<leftarrow> get e;
       Some (xs @ [x])
     }) xs"

subsection \<open>Closed forms of the copies\<close>

definition c_array :: "'e \<Rightarrow> ('x \<Rightarrow> 'e) \<Rightarrow> 'x list \<Rightarrow> 'e list" where
  "c_array z f xs = map f (take UPSF_MAX_ELEMS xs) @ replicate (UPSF_MAX_ELEMS - length xs) z"

definition c_size :: "'x list \<Rightarrow> size_t" where
  "c_size xs = of_nat (min (length xs) UPSF_MAX_ELEMS)"

definition p_array :: "('e \<Rightarrow> 'x) \<Rightarrow> 'e list \<Rightarrow> size_t \<Rightarrow> 'x list" where
  "p_array g a n = map g (take (unat n) a)"

definition ok_array :: "('e \<Rightarrow> bool) \<Rightarrow> 'e list \<Rightarrow> size_t \<Rightarrow> bool" where
  "ok_array p a n \<longleftrightarrow> length a = UPSF_MAX_ELEMS \<and> unat n \<le> UPSF_MAX_ELEMS \<and> list_all p (take (unat n) a)"

definition clean_array :: "'e \<Rightarrow> ('e \<Rightarrow> bool) \<Rightarrow> 'e list \<Rightarrow> size_t \<Rightarrow> bool" where
  "clean_array z p a n \<longleftrightarrow>
     ok_array p a n \<and> drop (unat n) a = replicate (UPSF_MAX_ELEMS - unat n) z"

definition fits_list :: "('x \<Rightarrow> bool) \<Rightarrow> 'x list \<Rightarrow> bool" where
  "fits_list p xs \<longleftrightarrow> length xs \<le> UPSF_MAX_ELEMS \<and> list_all p xs"

lemma length_c_array [simp]: "length (c_array z f xs) = UPSF_MAX_ELEMS"
  by (simp add: c_array_def)

lemma unat_of_small: "n \<le> UPSF_MAX_ELEMS \<Longrightarrow> unat (of_nat n :: size_t) = n"
  by (simp add: unat_of_nat take_bit_eq_mod UPSF_MAX_ELEMS_def)

lemma unat_c_size: "unat (c_size xs) = min (length xs) UPSF_MAX_ELEMS"
  by (simp add: c_size_def unat_of_small del: of_nat_min)

lemma bounded_size_eq [simp]: "bounded_size xs UPSF_MAX_ELEMS = c_size xs"
  by (simp add: bounded_size_def c_size_def min_def)

lemma take_c_array: "take (unat (c_size xs)) (c_array z f xs) = map f (take UPSF_MAX_ELEMS xs)"
  by (simp add: unat_c_size c_array_def)

lemma drop_c_array:
  "drop (unat (c_size xs)) (c_array z f xs) = replicate (UPSF_MAX_ELEMS - unat (c_size xs)) z"
  by (simp add: unat_c_size c_array_def min_def)

lemma copy_n_replicate:
  assumes "n \<le> length xs" and "n \<le> m" and "\<And>x. x \<in> set xs \<Longrightarrow> put z x = Some (f x)"
  shows "copy_n put xs n (replicate m z) = Some (map f (take n xs) @ replicate (m - n) z)"
proof -
  let ?inv = "\<lambda>k a. a = map f (take k xs) @ replicate (m - k) z"
  let ?body = "\<lambda>i a. do { x \<leftarrow> arr_get xs i; e \<leftarrow> arr_get a i; e' \<leftarrow> put e x; arr_set a i e' }"
  have step: "\<exists>a'. ?body k a = Some a' \<and> ?inv (Suc k) a'" if "k < n" and "?inv k a" for k a
  proof -
    from that assms have k: "k < length xs" "k < m" and put: "put z (xs ! k) = Some (f (xs ! k))"
      by auto
    then have "replicate (m - k) z = z # replicate (m - Suc k) z"
      by (metis Suc_diff_Suc replicate_Suc)
    then show ?thesis
      using that k put by (simp add: take_Suc_conv_app_nth nth_append list_update_append)
  qed
  have "\<exists>t. for_up 0 n ?body (replicate m z) = Some t \<and> ?inv n t"
    by (rule for_up_invariant) (use step in auto)
  then show ?thesis by (auto simp: copy_n_def)
qed

lemma copy_n_c_array:
  assumes "\<And>x. x \<in> set xs \<Longrightarrow> put z x = Some (f x)"
  shows "copy_n put xs (unat (c_size xs)) (replicate UPSF_MAX_ELEMS z) = Some (c_array z f xs)"
proof -
  have "copy_n put xs (unat (c_size xs)) (replicate UPSF_MAX_ELEMS z)
      = Some (map f (take (unat (c_size xs)) xs) @ replicate (UPSF_MAX_ELEMS - unat (c_size xs)) z)"
    by (rule copy_n_replicate) (auto simp: unat_c_size assms)
  then show ?thesis by (simp add: unat_c_size c_array_def min_def)
qed

text \<open>
  The two loops that fill an array from a list, one by index and one over the elements with a
  break at the bound, are the same, whatever they do to the elements.
\<close>

lemma copy_range_drop:
  assumes "i < mx" and "i \<le> length xs"
  shows "copy_range put mx (drop i xs) i a = do {
      a \<leftarrow> for_up i (min (length xs) mx) (\<lambda>i a. do {
        x \<leftarrow> arr_get xs i; e \<leftarrow> arr_get a i; e' \<leftarrow> put e x; arr_set a i e' }) a;
      Some (min (length xs) mx, a) }"
  using assms
proof (induction "length xs - i" arbitrary: i a)
  case (Suc d)
  then have i: "i < length xs" by simp
  then have drop: "drop i xs = xs ! i # drop (Suc i) xs" by (rule Cons_nth_drop_Suc[symmetric])
  show ?case
  proof (cases "Suc i = mx")
    case False
    with Suc.prems i Suc.hyps(2) Suc.hyps(1)[of "Suc i"] show ?thesis
      by (simp add: drop for_up_step)
  next
    case True
    with i have "min (length xs) mx = mx" by simp
    with True show ?thesis by (simp add: drop for_up_step)
  qed
qed simp

lemma zero_less_max: "0 < UPSF_MAX_ELEMS"
  by (simp add: UPSF_MAX_ELEMS_def)

lemma copy_range_copy_n:
  "0 < mx \<Longrightarrow> copy_range put mx xs 0 a = do {
     a \<leftarrow> copy_n put xs (min (length xs) mx) a; Some (min (length xs) mx, a) }"
  using copy_range_drop[of 0 mx xs put a] by (simp add: copy_n_def)

lemma copy_range_c_array:
  assumes "\<And>x. x \<in> set xs \<Longrightarrow> put z x = Some (f x)"
  shows "copy_range put UPSF_MAX_ELEMS xs 0 (replicate UPSF_MAX_ELEMS z)
    = Some (unat (c_size xs), c_array z f xs)"
  using copy_n_c_array[of xs put z f, OF assms]
  by (simp add: copy_range_copy_n unat_c_size zero_less_max)

lemma add_n_p_array:
  assumes "ok_array p a n" and "\<And>e. p e \<Longrightarrow> get e = Some (g e)"
  shows "add_n get a (unat n) xs = Some (xs @ p_array g a n)"
proof -
  let ?inv = "\<lambda>k ys. ys = xs @ map g (take k a)"
  let ?body = "\<lambda>i xs. do { e \<leftarrow> arr_get a i; x \<leftarrow> get e; Some (xs @ [x]) }"
  have len: "unat n \<le> length a" and p: "\<And>k. k < unat n \<Longrightarrow> p (a ! k)"
    using assms(1) by (auto simp: ok_array_def list_all_length)
  have "\<exists>t. for_up 0 (unat n) ?body xs = Some t \<and> ?inv (unat n) t"
    by (rule for_up_invariant) (use len p assms(2) in \<open>auto simp: take_Suc_conv_app_nth\<close>)
  then show ?thesis by (auto simp: add_n_def p_array_def)
qed

text \<open>A loop with a round that is undefined in every state is undefined.\<close>

lemma for_up_undefined:
  assumes "i \<le> k" and "k < n" and "\<And>s. body k s = None"
  shows "for_up i n body s = None"
  using assms(1)
proof (induction "k - i" arbitrary: i s)
  case 0
  then have "i = k" by simp
  with assms(2,3) show ?case by (simp add: for_up_step)
next
  case (Suc d)
  then have "i < n" and "\<And>t. for_up (Suc i) n body t = None" using assms(2) by auto
  then show ?case by (cases "body i s") (simp_all add: for_up_step)
qed

lemma add_n_undefined:
  assumes "k < n" and "length a \<le> k \<or> get (a ! k) = None"
  shows "add_n get a n xs = None"
  unfolding add_n_def using assms by (intro for_up_undefined[of 0 k]) (auto simp: arr_get_def)

text \<open>\<^verbatim>\<open>for (int i = 0; i < n; i++) step(from[i]);\<close>, the steps acting on a state.\<close>

definition fold_n :: "('e \<Rightarrow> 's \<Rightarrow> 's ub) \<Rightarrow> 'e list \<Rightarrow> nat \<Rightarrow> 's \<Rightarrow> 's ub" where
  "fold_n step a n s = for_up 0 n (\<lambda>i s. do { e \<leftarrow> arr_get a i; step e s }) s"

lemma fold_n_fold:
  assumes "ok_array p a n" and "\<And>e s. p e \<Longrightarrow> step e s = Some (f e s)"
  shows "fold_n step a (unat n) s = Some (fold f (take (unat n) a) s)"
proof -
  let ?inv = "\<lambda>k t. t = fold f (take k a) s"
  let ?body = "\<lambda>i s. do { e \<leftarrow> arr_get a i; step e s }"
  have len: "unat n \<le> length a" and p: "\<And>k. k < unat n \<Longrightarrow> p (a ! k)"
    using assms(1) by (auto simp: ok_array_def list_all_length)
  have "\<exists>t. for_up 0 (unat n) ?body s = Some t \<and> ?inv (unat n) t"
    by (rule for_up_invariant) (use len p assms(2) in \<open>auto simp: take_Suc_conv_app_nth\<close>)
  then show ?thesis by (auto simp: fold_n_def)
qed

subsection \<open>Round trips of arrays\<close>

lemma list_all_map_take: "(\<And>x. x \<in> set xs \<Longrightarrow> p (f x)) \<Longrightarrow> list_all p (map f (take n xs))"
  by (auto simp: list_all_iff dest: in_set_takeD)

lemma ok_c_array:
  "(\<And>x. x \<in> set xs \<Longrightarrow> p (f x)) \<Longrightarrow> ok_array p (c_array z f xs) (c_size xs)"
  by (simp add: ok_array_def take_c_array list_all_map_take) (simp add: unat_c_size)

lemma clean_c_array:
  "(\<And>x. x \<in> set xs \<Longrightarrow> p (f x)) \<Longrightarrow> clean_array z p (c_array z f xs) (c_size xs)"
  by (simp add: clean_array_def ok_c_array drop_c_array)

lemma clean_array_ok: "clean_array z p a n \<Longrightarrow> ok_array p a n"
  by (simp add: clean_array_def)

lemma ok_array_mono: "ok_array p a n \<Longrightarrow> (\<And>e. p e \<Longrightarrow> q e) \<Longrightarrow> ok_array q a n"
  by (auto simp: ok_array_def list_all_iff)

lemma p_array_c_array:
  "p_array g (c_array z f xs) (c_size xs) = map (g \<circ> f) (take UPSF_MAX_ELEMS xs)"
  by (simp add: p_array_def take_c_array)

lemma p_array_c_array_fits:
  assumes "fits_list p xs" and "\<And>x. p x \<Longrightarrow> g (f x) = x"
  shows "p_array g (c_array z f xs) (c_size xs) = xs"
  using assms by (simp add: p_array_c_array fits_list_def list_all_iff map_idI)

lemma length_p_array: "ok_array p a n \<Longrightarrow> length (p_array g a n) = unat n"
  by (simp add: p_array_def ok_array_def)

lemma c_size_p_array: "ok_array p a n \<Longrightarrow> c_size (p_array g a n) = n"
  by (simp add: c_size_def length_p_array min_def) (simp add: ok_array_def)

lemma c_array_p_array:
  assumes "clean_array z p a n" and "\<And>e. p e \<Longrightarrow> f (g e) = e"
  shows "c_array z f (p_array g a n) = a"
proof -
  have "map (f \<circ> g) (take (unat n) a) = take (unat n) a"
    using assms by (intro map_idI) (auto simp: clean_array_def ok_array_def list_all_iff)
  moreover have "drop (unat n) a = replicate (UPSF_MAX_ELEMS - unat n) z"
    and "unat n \<le> UPSF_MAX_ELEMS" and "length a = UPSF_MAX_ELEMS"
    using assms(1) by (auto simp: clean_array_def ok_array_def)
  ultimately show ?thesis
    by (simp add: c_array_def p_array_def min_def) (metis append_take_drop_id)
qed

subsection \<open>String arrays\<close>

abbreviation c_strings :: "string list \<Rightarrow> upsf_string_t list" where
  "c_strings \<equiv> c_array zero_string c_string"

abbreviation p_strings :: "upsf_string_t list \<Rightarrow> size_t \<Rightarrow> string list" where
  "p_strings \<equiv> p_array p_string"

abbreviation ok_strings :: "upsf_string_t list \<Rightarrow> size_t \<Rightarrow> bool" where
  "ok_strings \<equiv> ok_array ok_string"

abbreviation clean_strings :: "upsf_string_t list \<Rightarrow> size_t \<Rightarrow> bool" where
  "clean_strings \<equiv> clean_array zero_string clean_string"

abbreviation fits_strings :: "string list \<Rightarrow> bool" where
  "fits_strings \<equiv> fits_list fits_string"

definition zero_strings :: "upsf_string_t list" where
  "zero_strings = replicate UPSF_MAX_ELEMS zero_string"

lemma copy_strings [simp]:
  "copy_n put_string xs (unat (c_size xs)) zero_strings = Some (c_strings xs)"
  by (simp add: zero_strings_def copy_n_c_array)

lemma copy_range_strings [simp]:
  "copy_range put_string UPSF_MAX_ELEMS xs 0 zero_strings
     = Some (unat (c_size xs), c_strings xs)"
  by (simp add: zero_strings_def copy_range_c_array)

lemma add_strings [simp]:
  "ok_strings a n \<Longrightarrow> add_n std_string a (unat n) xs = Some (xs @ p_strings a n)"
  by (erule add_n_p_array) simp

lemma ok_c_strings [simp]: "ok_strings (c_strings xs) (c_size xs)"
  by (simp add: ok_c_array)

lemma clean_c_strings [simp]: "clean_strings (c_strings xs) (c_size xs)"
  by (simp add: clean_c_array)

lemma clean_strings_ok: "clean_strings a n \<Longrightarrow> ok_strings a n"
  by (auto intro: ok_array_mono clean_array_ok clean_string_ok)

lemma p_c_strings [simp]: "fits_strings xs \<Longrightarrow> p_strings (c_strings xs) (c_size xs) = xs"
  by (erule p_array_c_array_fits) (simp add: c_cut_fits)

lemma c_p_strings [simp]: "clean_strings a n \<Longrightarrow> c_strings (p_strings a n) = a"
  by (erule c_array_p_array) (simp add: clean_string_eq)

lemma c_size_p_strings [simp]: "clean_strings a n \<Longrightarrow> c_size (p_strings a n) = n"
  by (rule c_size_p_array) (rule clean_array_ok)

section \<open>Singular message fields\<close>

text \<open>
  A singular message field records whether it is present; \<^verbatim>\<open>from.f()\<close> of an absent field
  is the default instance, and \<^verbatim>\<open>to.mutable_f()\<close> makes the field present.
\<close>

definition sub_msg :: "'m \<Rightarrow> 'm option \<Rightarrow> 'm" where
  "sub_msg d f = (case f of None \<Rightarrow> d | Some m \<Rightarrow> m)"

lemma sub_msg_simps [simp]: "sub_msg d None = d" "sub_msg d (Some m) = m"
  by (simp_all add: sub_msg_def)

definition has_fitting :: "('m \<Rightarrow> bool) \<Rightarrow> 'm option \<Rightarrow> bool" where
  "has_fitting p f = (case f of None \<Rightarrow> False | Some m \<Rightarrow> p m)"

lemma has_fitting_simps [simp]: "has_fitting p None = False" "has_fitting p (Some m) = p m"
  by (simp_all add: has_fitting_def)

lemma has_fittingE [elim!]: "has_fitting p f \<Longrightarrow> (\<And>m. f = Some m \<Longrightarrow> p m \<Longrightarrow> Q) \<Longrightarrow> Q"
  by (cases f) auto

section \<open>Properties\<close>

text \<open>
  C30. Writing any string into a fresh string field is defined, leaves a buffer of the full
  size that is NUL-terminated at the recorded length, and the field reads back as the first 63
  bytes of the string up to its first NUL.
\<close>

theorem string_field_bounded:
  "\<exists>e. put_string zero_string s = Some e \<and> length (cs_str e) = UPSF_MAX_STRING_SIZE \<and>
     strlen (cs_str e) = Some (unat (cs_len e)) \<and>
     std_string e = Some (take (UPSF_MAX_STRING_SIZE - 1) (c_str s))"
proof -
  have cut: "c_cut s = take (UPSF_MAX_STRING_SIZE - 1) (c_str s)" by (simp add: c_cut_def)
  have "unat (of_nat (length (c_cut s)) :: size_t) = length (c_cut s)"
    using length_c_cut[of s] by (simp add: unat_of_nat take_bit_eq_mod UPSF_MAX_STRING_SIZE_def)
  then have "strlen (cs_str (c_string s)) = Some (unat (cs_len (c_string s)))"
    using ok_c_string[of s] by (simp add: strlen_def ok_string_def c_str_c_string)
      (simp add: c_string_def)
  moreover have "length (cs_str (c_string s)) = UPSF_MAX_STRING_SIZE"
    using ok_c_string[of s] by (simp only: ok_string_def)
  ultimately show ?thesis using cut by simp
qed

end
