(* ===== verification/Messages.thy ===== *)
theory Messages
  imports Prelude
begin

text \<open>
  The protobuf messages of \<^verbatim>\<open>upsf/protos/wt474_upsf_messages/v1/messages_v1.proto\<close> and
  \<^verbatim>\<open>upsf/protos/wt474_upsf_service/v1/service_v1.proto\<close>, as the C++ code sees them:
  strings are byte strings, \<^verbatim>\<open>int32\<close> fields and (open, proto3) enumerations are 32 bit
  words, repeated fields are lists, singular message fields are options (presence), a
  \<^verbatim>\<open>oneof\<close> is a datatype with a constructor for "not set", and a protobuf map is a
  finite map whose iteration order is a parameter wherever the code iterates. The
  default instance of each message is the one an absent field denotes.
\<close>

section \<open>Enumerations\<close>

definition DerivedState_unknown :: int32 where "DerivedState_unknown = 0"
definition DerivedState_inactive :: int32 where "DerivedState_inactive = 1"
definition DerivedState_active :: int32 where "DerivedState_active = 2"
definition DerivedState_updating :: int32 where "DerivedState_updating = 3"
definition DerivedState_deleting :: int32 where "DerivedState_deleting = 4"
definition DerivedState_deleted :: int32 where "DerivedState_deleted = 5"

definition MbbState_mbb_failure :: int32 where "MbbState_mbb_failure = 999"

section \<open>Common messages\<close>

text \<open>\<^verbatim>\<open>google.protobuf.Timestamp\<close>: seconds and nanoseconds.\<close>

type_synonym Timestamp = "64 word \<times> 32 word"

record MetaData =
  md_description :: string
  md_created :: "Timestamp option"
  md_last_updated :: "Timestamp option"
  md_derived_state :: int32

definition dflt_MetaData :: MetaData where [dflt_defs]:
  "dflt_MetaData = \<lparr>md_description = [], md_created = None, md_last_updated = None,
                    md_derived_state = 0\<rparr>"

record Maintenance =
  mt_maintenance_req :: int32

definition dflt_Maintenance :: Maintenance where [dflt_defs]:
  "dflt_Maintenance = \<lparr>mt_maintenance_req = 0\<rparr>"

section \<open>Transport endpoints\<close>

record Vtep =
  vt_ip_address :: string
  vt_udp_port :: int32
  vt_vni :: int32

definition dflt_Vtep :: Vtep where [dflt_defs]:
  "dflt_Vtep = \<lparr>vt_ip_address = [], vt_udp_port = 0, vt_vni = 0\<rparr>"

record L2vpn =
  l2_vpn_id :: int32

definition dflt_L2vpn :: L2vpn where [dflt_defs]:
  "dflt_L2vpn = \<lparr>l2_vpn_id = 0\<rparr>"

record PortVlan =
  pv_logical_port :: string
  pv_svlan :: int32
  pv_cvlan :: int32

definition dflt_PortVlan :: PortVlan where [dflt_defs]:
  "dflt_PortVlan = \<lparr>pv_logical_port = [], pv_svlan = 0, pv_cvlan = 0\<rparr>"

datatype transport_endpoint =
    TE_not_set
  | TE_vtep Vtep
  | TE_l2vpn L2vpn
  | TE_port_vlan PortVlan

record Endpoint =
  ep_endpoint_name :: string
  ep_transport :: transport_endpoint

definition dflt_Endpoint :: Endpoint where [dflt_defs]:
  "dflt_Endpoint = \<lparr>ep_endpoint_name = [], ep_transport = TE_not_set\<rparr>"

text \<open>
  \<^verbatim>\<open>mutable_vtep()\<close> and its kin select the alternative, creating a default message when
  another one (or none) is set.
\<close>

definition mutable_vtep :: "transport_endpoint \<Rightarrow> Vtep" where
  "mutable_vtep t = (case t of TE_vtep v \<Rightarrow> v | _ \<Rightarrow> dflt_Vtep)"

definition mutable_l2vpn :: "transport_endpoint \<Rightarrow> L2vpn" where
  "mutable_l2vpn t = (case t of TE_l2vpn v \<Rightarrow> v | _ \<Rightarrow> dflt_L2vpn)"

definition mutable_port_vlan :: "transport_endpoint \<Rightarrow> PortVlan" where
  "mutable_port_vlan t = (case t of TE_port_vlan v \<Rightarrow> v | _ \<Rightarrow> dflt_PortVlan)"

section \<open>Network connection\<close>

record SsPtpSpec =
  ssp_sgup_endpoint :: "Endpoint list"
  ssp_tsf_endpoint :: "Endpoint option"

record SsMptpSpec =
  ssm_sgup_endpoint :: "Endpoint list"
  ssm_tsf_endpoint :: "Endpoint list"

record MsPtpSpec =
  msp_sgup_endpoint :: "Endpoint option"
  msp_tsf_endpoint :: "Endpoint option"

record MsMptpSpec =
  msm_sgup_endpoint :: "Endpoint option"
  msm_tsf_endpoint :: "Endpoint list"

definition dflt_SsPtpSpec :: SsPtpSpec where [dflt_defs]:
  "dflt_SsPtpSpec = \<lparr>ssp_sgup_endpoint = [], ssp_tsf_endpoint = None\<rparr>"

definition dflt_SsMptpSpec :: SsMptpSpec where [dflt_defs]:
  "dflt_SsMptpSpec = \<lparr>ssm_sgup_endpoint = [], ssm_tsf_endpoint = []\<rparr>"

definition dflt_MsPtpSpec :: MsPtpSpec where [dflt_defs]:
  "dflt_MsPtpSpec = \<lparr>msp_sgup_endpoint = None, msp_tsf_endpoint = None\<rparr>"

definition dflt_MsMptpSpec :: MsMptpSpec where [dflt_defs]:
  "dflt_MsMptpSpec = \<lparr>msm_sgup_endpoint = None, msm_tsf_endpoint = []\<rparr>"

datatype nc_spec_oneof =
    NC_not_set
  | NC_ss_ptp SsPtpSpec
  | NC_ss_mptpc SsMptpSpec
  | NC_ms_ptp MsPtpSpec
  | NC_ms_mptp MsMptpSpec

definition mutable_ss_ptp :: "nc_spec_oneof \<Rightarrow> SsPtpSpec" where
  "mutable_ss_ptp n = (case n of NC_ss_ptp v \<Rightarrow> v | _ \<Rightarrow> dflt_SsPtpSpec)"

definition mutable_ss_mptpc :: "nc_spec_oneof \<Rightarrow> SsMptpSpec" where
  "mutable_ss_mptpc n = (case n of NC_ss_mptpc v \<Rightarrow> v | _ \<Rightarrow> dflt_SsMptpSpec)"

definition mutable_ms_ptp :: "nc_spec_oneof \<Rightarrow> MsPtpSpec" where
  "mutable_ms_ptp n = (case n of NC_ms_ptp v \<Rightarrow> v | _ \<Rightarrow> dflt_MsPtpSpec)"

definition mutable_ms_mptp :: "nc_spec_oneof \<Rightarrow> MsMptpSpec" where
  "mutable_ms_mptp n = (case n of NC_ms_mptp v \<Rightarrow> v | _ \<Rightarrow> dflt_MsMptpSpec)"

record NetworkConnectionSpec =
  ncs_maximum_supported_quality :: int32
  ncs_nc_spec :: nc_spec_oneof

definition dflt_NetworkConnectionSpec :: NetworkConnectionSpec where [dflt_defs]:
  "dflt_NetworkConnectionSpec = \<lparr>ncs_maximum_supported_quality = 0, ncs_nc_spec = NC_not_set\<rparr>"

record NetworkConnectionStatus =
  nct_nc_active :: "(string, bool) fmap"
  nct_allocated_shards :: int32

definition dflt_NetworkConnectionStatus :: NetworkConnectionStatus where [dflt_defs]:
  "dflt_NetworkConnectionStatus = \<lparr>nct_nc_active = fmempty, nct_allocated_shards = 0\<rparr>"

record NetworkConnection =
  nc_name :: string
  nc_metadata :: "MetaData option"
  nc_maintenance :: "Maintenance option"
  nc_spec :: "NetworkConnectionSpec option"
  nc_status :: "NetworkConnectionStatus option"

definition dflt_NetworkConnection :: NetworkConnection where [dflt_defs]:
  "dflt_NetworkConnection = \<lparr>nc_name = [], nc_metadata = None, nc_maintenance = None,
                             nc_spec = None, nc_status = None\<rparr>"

section \<open>Service gateway and its user planes\<close>

record ServiceGateway =
  sg_name :: string
  sg_metadata :: "MetaData option"

definition dflt_ServiceGateway :: ServiceGateway where [dflt_defs]:
  "dflt_ServiceGateway = \<lparr>sg_name = [], sg_metadata = None\<rparr>"

record ServiceGatewayUserPlaneSpec =
  ups_max_session_count :: int32
  ups_max_shards :: int32
  ups_supported_service_group :: "string list"
  ups_default_endpoint :: "Endpoint option"

definition dflt_ServiceGatewayUserPlaneSpec :: ServiceGatewayUserPlaneSpec where [dflt_defs]:
  "dflt_ServiceGatewayUserPlaneSpec = \<lparr>ups_max_session_count = 0, ups_max_shards = 0,
     ups_supported_service_group = [], ups_default_endpoint = None\<rparr>"

record ServiceGatewayUserPlaneStatus =
  upt_allocated_session_count :: int32
  upt_allocated_shards :: int32

definition dflt_ServiceGatewayUserPlaneStatus :: ServiceGatewayUserPlaneStatus where [dflt_defs]:
  "dflt_ServiceGatewayUserPlaneStatus =
     \<lparr>upt_allocated_session_count = 0, upt_allocated_shards = 0\<rparr>"

record ServiceGatewayUserPlane =
  up_name :: string
  up_service_gateway_name :: string
  up_metadata :: "MetaData option"
  up_maintenance :: "Maintenance option"
  up_spec :: "ServiceGatewayUserPlaneSpec option"
  up_status :: "ServiceGatewayUserPlaneStatus option"

definition dflt_ServiceGatewayUserPlane :: ServiceGatewayUserPlane where [dflt_defs]:
  "dflt_ServiceGatewayUserPlane = \<lparr>up_name = [], up_service_gateway_name = [],
     up_metadata = None, up_maintenance = None, up_spec = None, up_status = None\<rparr>"

section \<open>Traffic steering function\<close>

record TrafficSteeringFunctionSpec =
  tss_default_endpoint :: "Endpoint option"

definition dflt_TrafficSteeringFunctionSpec :: TrafficSteeringFunctionSpec where [dflt_defs]:
  "dflt_TrafficSteeringFunctionSpec = \<lparr>tss_default_endpoint = None\<rparr>"

record TrafficSteeringFunction =
  tsf_name :: string
  tsf_metadata :: "MetaData option"
  tsf_spec :: "TrafficSteeringFunctionSpec option"

definition dflt_TrafficSteeringFunction :: TrafficSteeringFunction where [dflt_defs]:
  "dflt_TrafficSteeringFunction = \<lparr>tsf_name = [], tsf_metadata = None, tsf_spec = None\<rparr>"

section \<open>Shard\<close>

record ShardSpecDesiredState =
  shd_service_gateway_user_plane :: string
  shd_network_connection :: "string list"

definition dflt_ShardSpecDesiredState :: ShardSpecDesiredState where [dflt_defs]:
  "dflt_ShardSpecDesiredState = \<lparr>shd_service_gateway_user_plane = [], shd_network_connection = []\<rparr>"

record ShardSpec =
  shs_max_session_count :: int32
  shs_virtual_mac :: string
  shs_desired_state :: "ShardSpecDesiredState option"
  shs_prefix :: "string list"

definition dflt_ShardSpec :: ShardSpec where [dflt_defs]:
  "dflt_ShardSpec = \<lparr>shs_max_session_count = 0, shs_virtual_mac = [],
                     shs_desired_state = None, shs_prefix = []\<rparr>"

record ShardStatusCurrentState =
  shc_service_gateway_user_plane :: string
  shc_tsf_network_connection :: "(string, string) fmap"

definition dflt_ShardStatusCurrentState :: ShardStatusCurrentState where [dflt_defs]:
  "dflt_ShardStatusCurrentState =
     \<lparr>shc_service_gateway_user_plane = [], shc_tsf_network_connection = fmempty\<rparr>"

record ShardStatus =
  sht_allocated_session_count :: int32
  sht_maximum_allocated_quality :: int32
  sht_service_groups_supported :: "string list"
  sht_current_state :: "ShardStatusCurrentState option"

definition dflt_ShardStatus :: ShardStatus where [dflt_defs]:
  "dflt_ShardStatus = \<lparr>sht_allocated_session_count = 0, sht_maximum_allocated_quality = 0,
                       sht_service_groups_supported = [], sht_current_state = None\<rparr>"

record ShardMbb =
  shm_mbb_state :: int32

definition dflt_ShardMbb :: ShardMbb where [dflt_defs]:
  "dflt_ShardMbb = \<lparr>shm_mbb_state = 0\<rparr>"

record Shard =
  sh_name :: string
  sh_metadata :: "MetaData option"
  sh_spec :: "ShardSpec option"
  sh_status :: "ShardStatus option"
  sh_mbb :: "ShardMbb option"

definition dflt_Shard :: Shard where [dflt_defs]:
  "dflt_Shard = \<lparr>sh_name = [], sh_metadata = None, sh_spec = None, sh_status = None, sh_mbb = None\<rparr>"

section \<open>Session context\<close>

record SessionFilter =
  sf_source_mac_address :: string
  sf_svlan :: int32
  sf_cvlan :: int32

definition dflt_SessionFilter :: SessionFilter where [dflt_defs]:
  "dflt_SessionFilter = \<lparr>sf_source_mac_address = [], sf_svlan = 0, sf_cvlan = 0\<rparr>"

record SessionContextSpecDesiredState =
  scd_shard :: string

definition dflt_SessionContextSpecDesiredState :: SessionContextSpecDesiredState where [dflt_defs]:
  "dflt_SessionContextSpecDesiredState = \<lparr>scd_shard = []\<rparr>"

record SessionContextSpec =
  scs_traffic_steering_function :: string
  scs_required_service_group :: "string list"
  scs_required_quality :: int32
  scs_circuit_id :: string
  scs_remote_id :: string
  scs_session_filter :: "SessionFilter option"
  scs_desired_state :: "SessionContextSpecDesiredState option"
  scs_network_connection :: string

definition dflt_SessionContextSpec :: SessionContextSpec where [dflt_defs]:
  "dflt_SessionContextSpec = \<lparr>scs_traffic_steering_function = [],
     scs_required_service_group = [], scs_required_quality = 0, scs_circuit_id = [],
     scs_remote_id = [], scs_session_filter = None, scs_desired_state = None,
     scs_network_connection = []\<rparr>"

record SessionContextStatusCurrentState =
  scc_user_plane_shard :: string
  scc_tsf_shard :: string

definition dflt_SessionContextStatusCurrentState :: SessionContextStatusCurrentState where [dflt_defs]:
  "dflt_SessionContextStatusCurrentState = \<lparr>scc_user_plane_shard = [], scc_tsf_shard = []\<rparr>"

record SessionContextStatus =
  sct_current_state :: "SessionContextStatusCurrentState option"

definition dflt_SessionContextStatus :: SessionContextStatus where [dflt_defs]:
  "dflt_SessionContextStatus = \<lparr>sct_current_state = None\<rparr>"

record SessionContext =
  sc_name :: string
  sc_metadata :: "MetaData option"
  sc_spec :: "SessionContextSpec option"
  sc_status :: "SessionContextStatus option"

definition dflt_SessionContext :: SessionContext where [dflt_defs]:
  "dflt_SessionContext = \<lparr>sc_name = [], sc_metadata = None, sc_spec = None, sc_status = None\<rparr>"

section \<open>Items and requests\<close>

datatype Item =
    Item_not_set
  | Item_shard Shard
  | Item_session_context SessionContext
  | Item_network_connection NetworkConnection
  | Item_service_gateway_user_plane ServiceGatewayUserPlane
  | Item_traffic_steering_function TrafficSteeringFunction
  | Item_service_gateway ServiceGateway

datatype ItemType =
    IT_service_gateway
  | IT_service_gateway_user_plane
  | IT_traffic_steering_function
  | IT_network_connection
  | IT_shard
  | IT_session_context

datatype ListMergeStrategy = LMS_union | LMS_replace | LMS_subtract

record UpdateOptions =
  uo_list_merge_strategy :: ListMergeStrategy

definition dflt_UpdateOptions :: UpdateOptions where [dflt_defs]:
  "dflt_UpdateOptions = \<lparr>uo_list_merge_strategy = LMS_union\<rparr>"

record UpdateReq =
  ur_item :: "Item option"
  ur_update_options :: "UpdateOptions option"

record ReadReq =
  rr_itemtype :: "ItemType list"
  rr_itemstate :: "int32 list"
  rr_parent :: "string list"
  rr_name :: "string list"
  rr_watch :: bool

definition dflt_ReadReq :: ReadReq where [dflt_defs]:
  "dflt_ReadReq = \<lparr>rr_itemtype = [], rr_itemstate = [], rr_parent = [], rr_name = [],
                   rr_watch = False\<rparr>"

end
