(* ===== verification/Client.thy ===== *)
theory Client
  imports Messages
begin

text \<open>
  \<^verbatim>\<open>UpsfClient\<close> of \<^verbatim>\<open>upsf/upsf.hpp\<close>: the typed wrappers around the five remote calls. The
  gRPC stub (generated code and the gRPC library) is a parameter: a record of functions on
  a state \<open>'s\<close> of everything behind the stub. A unary call takes the request, what the
  reply object holds before the call and the state, and gives whether the status is ok,
  what the reply object holds afterwards and the new state; \<^verbatim>\<open>ReadV1\<close> gives the items that
  the reader delivers before the stream ends, whether the final status is ok, and the state.
  Each overload is one generic function, as their texts differ only in the item type, and
  an instance per item type. The mutex of the stub is in \<open>Locks\<close>.
\<close>

section \<open>The stub\<close>

record 's upsf_stub =
  stub_CreateV1 :: "Item \<Rightarrow> Item \<Rightarrow> 's \<Rightarrow> bool \<times> Item \<times> 's"
  stub_UpdateV1 :: "UpdateReq \<Rightarrow> Item \<Rightarrow> 's \<Rightarrow> bool \<times> Item \<times> 's"
  stub_DeleteV1 :: "string \<Rightarrow> string \<Rightarrow> 's \<Rightarrow> bool \<times> string \<times> 's"
  stub_LookupV1 :: "SessionContextSpec \<Rightarrow> SessionContext \<Rightarrow> 's \<Rightarrow> bool \<times> SessionContext \<times> 's"
  stub_ReadV1 :: "ReadReq \<Rightarrow> 's \<Rightarrow> Item list \<times> bool \<times> 's"

section \<open>Alternatives of an item\<close>

text \<open>\<^verbatim>\<open>has_X()\<close> and \<^verbatim>\<open>X()\<close> of an item, as one partial function per alternative.\<close>

definition item_shard :: "Item \<Rightarrow> Shard option" where
  "item_shard i = (case i of Item_shard m \<Rightarrow> Some m | _ \<Rightarrow> None)"

definition item_session_context :: "Item \<Rightarrow> SessionContext option" where
  "item_session_context i = (case i of Item_session_context m \<Rightarrow> Some m | _ \<Rightarrow> None)"

definition item_network_connection :: "Item \<Rightarrow> NetworkConnection option" where
  "item_network_connection i = (case i of Item_network_connection m \<Rightarrow> Some m | _ \<Rightarrow> None)"

definition item_service_gateway_user_plane :: "Item \<Rightarrow> ServiceGatewayUserPlane option" where
  "item_service_gateway_user_plane i =
     (case i of Item_service_gateway_user_plane m \<Rightarrow> Some m | _ \<Rightarrow> None)"

definition item_traffic_steering_function :: "Item \<Rightarrow> TrafficSteeringFunction option" where
  "item_traffic_steering_function i =
     (case i of Item_traffic_steering_function m \<Rightarrow> Some m | _ \<Rightarrow> None)"

definition item_service_gateway :: "Item \<Rightarrow> ServiceGateway option" where
  "item_service_gateway i = (case i of Item_service_gateway m \<Rightarrow> Some m | _ \<Rightarrow> None)"

section \<open>Unary calls\<close>

text \<open>\<^verbatim>\<open>CreateV1(Item)\<close>, \<^verbatim>\<open>UpdateV1(UpdateReq)\<close>: the status decides the result.\<close>

definition CreateV1 :: "'s upsf_stub \<Rightarrow> Item \<Rightarrow> Item \<Rightarrow> 's \<Rightarrow> bool \<times> Item \<times> 's" where
  "CreateV1 stub request reply s =
     (let (ok, reply, s) = stub_CreateV1 stub request reply s in
      if \<not> ok then (False, reply, s) else (True, reply, s))"

definition UpdateV1 :: "'s upsf_stub \<Rightarrow> UpdateReq \<Rightarrow> Item \<Rightarrow> 's \<Rightarrow> bool \<times> Item \<times> 's" where
  "UpdateV1 stub req resp s =
     (let (ok, resp, s) = stub_UpdateV1 stub req resp s in
      if \<not> ok then (False, resp, s) else (True, resp, s))"

definition DeleteV1 :: "'s upsf_stub \<Rightarrow> string \<Rightarrow> string \<Rightarrow> 's \<Rightarrow> bool \<times> string \<times> 's" where
  "DeleteV1 stub req resp s =
     (let (ok, resp, s) = stub_DeleteV1 stub req resp s in
      if \<not> ok then (False, resp, s) else (True, resp, s))"

text \<open>The overload on strings leaves the reply alone when the call fails.\<close>

definition DeleteV1_string :: "'s upsf_stub \<Rightarrow> string \<Rightarrow> string \<Rightarrow> 's \<Rightarrow> bool \<times> string \<times> 's" where
  "DeleteV1_string stub request reply s =
     (let (ok, str_p, s) = stub_DeleteV1 stub request [] s in
      if \<not> ok then (False, reply, s) else (True, str_p, s))"

definition LookupV1 ::
    "'s upsf_stub \<Rightarrow> SessionContextSpec \<Rightarrow> SessionContext \<Rightarrow> 's \<Rightarrow> bool \<times> SessionContext \<times> 's" where
  "LookupV1 stub session_context_spec resp s =
     (let (ok, resp, s) = stub_LookupV1 stub session_context_spec resp s in
      if \<not> ok then (False, resp, s) else (True, resp, s))"

text \<open>
  \<^verbatim>\<open>CreateV1\<close> on a typed item: \<open>mk\<close> is \<^verbatim>\<open>*item_q.mutable_X() = request\<close>, \<open>sel\<close> the
  alternative of the reply, \<open>dflt\<close> what \<^verbatim>\<open>X()\<close> gives when it is not the one set. The
  reply is assigned on failure too.
\<close>

definition create_as ::
    "('m \<Rightarrow> Item) \<Rightarrow> (Item \<Rightarrow> 'm option) \<Rightarrow> 'm \<Rightarrow> 's upsf_stub \<Rightarrow> 'm \<Rightarrow> 'm \<Rightarrow> 's
      \<Rightarrow> bool \<times> 'm \<times> 's" where
  "create_as mk sel dflt stub request reply s =
     (let item_q = mk request;
          (result, item_p, s) = CreateV1 stub item_q Item_not_set s;
          reply = sub_msg dflt (sel item_p)
      in (result, reply, s))"

text \<open>\<^verbatim>\<open>UpdateV1\<close> on a typed item: here the reply is assigned on success only.\<close>

definition update_as ::
    "('m \<Rightarrow> Item) \<Rightarrow> (Item \<Rightarrow> 'm option) \<Rightarrow> 'm \<Rightarrow> 's upsf_stub \<Rightarrow> 'm \<Rightarrow> 'm \<Rightarrow> UpdateOptions \<Rightarrow> 's
      \<Rightarrow> bool \<times> 'm \<times> 's" where
  "update_as mk sel dflt stub request reply options s =
     (let req = \<lparr>ur_item = Some (mk request), ur_update_options = Some options\<rparr>;
          (success, item, s) = UpdateV1 stub req Item_not_set s
      in if \<not> success then (False, reply, s)
         else (success, sub_msg dflt (sel item), s))"

section \<open>Reads\<close>

text \<open>
  \<^verbatim>\<open>while (reader->Read(&item)) { if (item.has_X()) { x = item.X(); break; } }\<close>: the
  last item read and the target.
\<close>

fun read_first :: "(Item \<Rightarrow> 'm option) \<Rightarrow> Item list \<Rightarrow> Item \<Rightarrow> 'm \<Rightarrow> Item \<times> 'm" where
  "read_first sel [] item x = (item, x)"
| "read_first sel (i # is) item x =
     (case sel i of Some m \<Rightarrow> (i, m) | None \<Rightarrow> read_first sel is i x)"

definition read_as ::
    "ItemType \<Rightarrow> (Item \<Rightarrow> 'm option) \<Rightarrow> 'm \<Rightarrow> ('m \<Rightarrow> string) \<Rightarrow> 's upsf_stub \<Rightarrow> string \<Rightarrow> 'm \<Rightarrow> 's
      \<Rightarrow> bool \<times> 'm \<times> 's" where
  "read_as ty sel dflt name_of stub name x s =
     (let req = dflt_ReadReq;
          req = req\<lparr>rr_itemtype := rr_itemtype req @ [ty]\<rparr>;
          req = req\<lparr>rr_name := rr_name req @ [name]\<rparr>;
          req = req\<lparr>rr_watch := False\<rparr>;
          (is, ok, s) = stub_ReadV1 stub req s;
          (item, x) = read_first sel is Item_not_set x
      in if \<not> ok then (False, x, s)
         else if name_of (sub_msg dflt (sel item)) \<noteq> name then (False, x, s)
         else (True, x, s))"

text \<open>\<^verbatim>\<open>while (reader->Read(&item)) { if (not item.has_X()) continue; xs.push_back(item.X()); }\<close>\<close>

fun read_each :: "(Item \<Rightarrow> 'm option) \<Rightarrow> Item list \<Rightarrow> 'm list \<Rightarrow> 'm list" where
  "read_each sel [] xs = xs"
| "read_each sel (i # is) xs =
     (case sel i of None \<Rightarrow> read_each sel is xs | Some m \<Rightarrow> read_each sel is (xs @ [m]))"

definition read_list_as ::
    "ItemType \<Rightarrow> (Item \<Rightarrow> 'm option) \<Rightarrow> 's upsf_stub \<Rightarrow> 'm list \<Rightarrow> 's \<Rightarrow> bool \<times> 'm list \<times> 's" where
  "read_list_as ty sel stub xs s =
     (let req = dflt_ReadReq;
          req = req\<lparr>rr_itemtype := rr_itemtype req @ [ty]\<rparr>;
          req = req\<lparr>rr_watch := False\<rparr>;
          (is, ok, s) = stub_ReadV1 stub req s;
          xs = read_each sel is xs
      in if \<not> ok then (False, xs, s) else (True, xs, s))"

section \<open>The overloads\<close>

definition CreateV1_Shard ::
    "'s upsf_stub \<Rightarrow> Shard \<Rightarrow> Shard \<Rightarrow> 's \<Rightarrow> bool \<times> Shard \<times> 's" where
  "CreateV1_Shard = create_as Item_shard item_shard dflt_Shard"

definition UpdateV1_Shard ::
    "'s upsf_stub \<Rightarrow> Shard \<Rightarrow> Shard \<Rightarrow> UpdateOptions \<Rightarrow> 's \<Rightarrow> bool \<times> Shard \<times> 's" where
  "UpdateV1_Shard = update_as Item_shard item_shard dflt_Shard"

definition ReadV1_Shard ::
    "'s upsf_stub \<Rightarrow> string \<Rightarrow> Shard \<Rightarrow> 's \<Rightarrow> bool \<times> Shard \<times> 's" where
  "ReadV1_Shard = read_as IT_shard item_shard dflt_Shard sh_name"

definition ReadV1_Shards ::
    "'s upsf_stub \<Rightarrow> Shard list \<Rightarrow> 's \<Rightarrow> bool \<times> Shard list \<times> 's" where
  "ReadV1_Shards = read_list_as IT_shard item_shard"

definition CreateV1_SessionContext ::
    "'s upsf_stub \<Rightarrow> SessionContext \<Rightarrow> SessionContext \<Rightarrow> 's \<Rightarrow> bool \<times> SessionContext \<times> 's" where
  "CreateV1_SessionContext = create_as Item_session_context item_session_context dflt_SessionContext"

definition UpdateV1_SessionContext ::
    "'s upsf_stub \<Rightarrow> SessionContext \<Rightarrow> SessionContext \<Rightarrow> UpdateOptions \<Rightarrow> 's \<Rightarrow> bool \<times> SessionContext \<times> 's" where
  "UpdateV1_SessionContext = update_as Item_session_context item_session_context dflt_SessionContext"

definition ReadV1_SessionContext ::
    "'s upsf_stub \<Rightarrow> string \<Rightarrow> SessionContext \<Rightarrow> 's \<Rightarrow> bool \<times> SessionContext \<times> 's" where
  "ReadV1_SessionContext = read_as IT_session_context item_session_context dflt_SessionContext sc_name"

definition ReadV1_SessionContexts ::
    "'s upsf_stub \<Rightarrow> SessionContext list \<Rightarrow> 's \<Rightarrow> bool \<times> SessionContext list \<times> 's" where
  "ReadV1_SessionContexts = read_list_as IT_session_context item_session_context"

definition CreateV1_NetworkConnection ::
    "'s upsf_stub \<Rightarrow> NetworkConnection \<Rightarrow> NetworkConnection \<Rightarrow> 's \<Rightarrow> bool \<times> NetworkConnection \<times> 's" where
  "CreateV1_NetworkConnection = create_as Item_network_connection item_network_connection dflt_NetworkConnection"

definition UpdateV1_NetworkConnection ::
    "'s upsf_stub \<Rightarrow> NetworkConnection \<Rightarrow> NetworkConnection \<Rightarrow> UpdateOptions \<Rightarrow> 's \<Rightarrow> bool \<times> NetworkConnection \<times> 's" where
  "UpdateV1_NetworkConnection = update_as Item_network_connection item_network_connection dflt_NetworkConnection"

definition ReadV1_NetworkConnection ::
    "'s upsf_stub \<Rightarrow> string \<Rightarrow> NetworkConnection \<Rightarrow> 's \<Rightarrow> bool \<times> NetworkConnection \<times> 's" where
  "ReadV1_NetworkConnection = read_as IT_network_connection item_network_connection dflt_NetworkConnection nc_name"

definition ReadV1_NetworkConnections ::
    "'s upsf_stub \<Rightarrow> NetworkConnection list \<Rightarrow> 's \<Rightarrow> bool \<times> NetworkConnection list \<times> 's" where
  "ReadV1_NetworkConnections = read_list_as IT_network_connection item_network_connection"

definition CreateV1_ServiceGatewayUserPlane ::
    "'s upsf_stub \<Rightarrow> ServiceGatewayUserPlane \<Rightarrow> ServiceGatewayUserPlane \<Rightarrow> 's \<Rightarrow> bool \<times> ServiceGatewayUserPlane \<times> 's" where
  "CreateV1_ServiceGatewayUserPlane = create_as Item_service_gateway_user_plane item_service_gateway_user_plane dflt_ServiceGatewayUserPlane"

definition UpdateV1_ServiceGatewayUserPlane ::
    "'s upsf_stub \<Rightarrow> ServiceGatewayUserPlane \<Rightarrow> ServiceGatewayUserPlane \<Rightarrow> UpdateOptions \<Rightarrow> 's \<Rightarrow> bool \<times> ServiceGatewayUserPlane \<times> 's" where
  "UpdateV1_ServiceGatewayUserPlane = update_as Item_service_gateway_user_plane item_service_gateway_user_plane dflt_ServiceGatewayUserPlane"

definition ReadV1_ServiceGatewayUserPlane ::
    "'s upsf_stub \<Rightarrow> string \<Rightarrow> ServiceGatewayUserPlane \<Rightarrow> 's \<Rightarrow> bool \<times> ServiceGatewayUserPlane \<times> 's" where
  "ReadV1_ServiceGatewayUserPlane = read_as IT_service_gateway_user_plane item_service_gateway_user_plane dflt_ServiceGatewayUserPlane up_name"

definition ReadV1_ServiceGatewayUserPlanes ::
    "'s upsf_stub \<Rightarrow> ServiceGatewayUserPlane list \<Rightarrow> 's \<Rightarrow> bool \<times> ServiceGatewayUserPlane list \<times> 's" where
  "ReadV1_ServiceGatewayUserPlanes = read_list_as IT_service_gateway_user_plane item_service_gateway_user_plane"

definition CreateV1_TrafficSteeringFunction ::
    "'s upsf_stub \<Rightarrow> TrafficSteeringFunction \<Rightarrow> TrafficSteeringFunction \<Rightarrow> 's \<Rightarrow> bool \<times> TrafficSteeringFunction \<times> 's" where
  "CreateV1_TrafficSteeringFunction = create_as Item_traffic_steering_function item_traffic_steering_function dflt_TrafficSteeringFunction"

definition UpdateV1_TrafficSteeringFunction ::
    "'s upsf_stub \<Rightarrow> TrafficSteeringFunction \<Rightarrow> TrafficSteeringFunction \<Rightarrow> UpdateOptions \<Rightarrow> 's \<Rightarrow> bool \<times> TrafficSteeringFunction \<times> 's" where
  "UpdateV1_TrafficSteeringFunction = update_as Item_traffic_steering_function item_traffic_steering_function dflt_TrafficSteeringFunction"

definition ReadV1_TrafficSteeringFunction ::
    "'s upsf_stub \<Rightarrow> string \<Rightarrow> TrafficSteeringFunction \<Rightarrow> 's \<Rightarrow> bool \<times> TrafficSteeringFunction \<times> 's" where
  "ReadV1_TrafficSteeringFunction = read_as IT_traffic_steering_function item_traffic_steering_function dflt_TrafficSteeringFunction tsf_name"

definition ReadV1_TrafficSteeringFunctions ::
    "'s upsf_stub \<Rightarrow> TrafficSteeringFunction list \<Rightarrow> 's \<Rightarrow> bool \<times> TrafficSteeringFunction list \<times> 's" where
  "ReadV1_TrafficSteeringFunctions = read_list_as IT_traffic_steering_function item_traffic_steering_function"

definition CreateV1_ServiceGateway ::
    "'s upsf_stub \<Rightarrow> ServiceGateway \<Rightarrow> ServiceGateway \<Rightarrow> 's \<Rightarrow> bool \<times> ServiceGateway \<times> 's" where
  "CreateV1_ServiceGateway = create_as Item_service_gateway item_service_gateway dflt_ServiceGateway"

definition UpdateV1_ServiceGateway ::
    "'s upsf_stub \<Rightarrow> ServiceGateway \<Rightarrow> ServiceGateway \<Rightarrow> UpdateOptions \<Rightarrow> 's \<Rightarrow> bool \<times> ServiceGateway \<times> 's" where
  "UpdateV1_ServiceGateway = update_as Item_service_gateway item_service_gateway dflt_ServiceGateway"

definition ReadV1_ServiceGateway ::
    "'s upsf_stub \<Rightarrow> string \<Rightarrow> ServiceGateway \<Rightarrow> 's \<Rightarrow> bool \<times> ServiceGateway \<times> 's" where
  "ReadV1_ServiceGateway = read_as IT_service_gateway item_service_gateway dflt_ServiceGateway sg_name"

definition ReadV1_ServiceGateways ::
    "'s upsf_stub \<Rightarrow> ServiceGateway list \<Rightarrow> 's \<Rightarrow> bool \<times> ServiceGateway list \<times> 's" where
  "ReadV1_ServiceGateways = read_list_as IT_service_gateway item_service_gateway"

section \<open>Laws of an alternative\<close>

text \<open>
  What the client relies on in the generated accessors of the \<^verbatim>\<open>oneof\<close>: reading the
  alternative that was set, and no other, gives the message back.
\<close>

locale item_kind =
  fixes mk :: "'m \<Rightarrow> Item"
    and sel :: "Item \<Rightarrow> 'm option"
    and dflt :: 'm
    and name_of :: "'m \<Rightarrow> string"
  assumes sel_mk [simp]: "sel (mk m) = Some m"
    and mk_sel: "sel i = Some m \<Longrightarrow> i = mk m"
    and sel_not_set [simp]: "sel Item_not_set = None"
    and name_dflt [simp]: "name_of dflt = []"
begin

lemma mk_eq [simp]: "mk a = mk b \<longleftrightarrow> a = b"
  by (metis sel_mk option.inject)

lemma sel_iff: "sel i = Some m \<longleftrightarrow> i = mk m"
  using mk_sel by auto

text \<open>The request carries the message; a reply of the same kind is handed through.\<close>

lemma create_as_reply:
  "stub_CreateV1 stub (mk q) Item_not_set s = (ok, mk p, s') \<Longrightarrow>
   create_as mk sel dflt stub q r s = (ok, p, s')"
  by (simp add: create_as_def CreateV1_def)

lemma update_as_reply:
  "stub_UpdateV1 stub \<lparr>ur_item = Some (mk q), ur_update_options = Some opts\<rparr> Item_not_set s
      = (True, mk p, s') \<Longrightarrow>
   update_as mk sel dflt stub q r opts s = (True, p, s')"
  by (simp add: update_as_def UpdateV1_def)

text \<open>A failed update leaves the reply alone, a failed creation does not.\<close>

lemma update_as_failure:
  "stub_UpdateV1 stub \<lparr>ur_item = Some (mk q), ur_update_options = Some opts\<rparr> Item_not_set s
      = (False, i, s') \<Longrightarrow>
   update_as mk sel dflt stub q r opts s = (False, r, s')"
  by (simp add: update_as_def UpdateV1_def)

lemma create_as_failure:
  "stub_CreateV1 stub (mk q) Item_not_set s = (False, Item_not_set, s') \<Longrightarrow>
   create_as mk sel dflt stub q r s = (False, dflt, s')"
  by (simp add: create_as_def CreateV1_def)

lemma read_first_find:
  "read_first sel is item x =
     (case find (\<lambda>i. sel i \<noteq> None) is of
        Some i \<Rightarrow> (i, the (sel i))
      | None \<Rightarrow> (if is = [] then item else last is, x))"
  by (induction "is" arbitrary: item) (auto split: option.split)

text \<open>The first item of the kind is the one read; without one the target stays.\<close>

lemma read_first_found:
  "List.map_filter sel is = m # ms \<Longrightarrow> read_first sel is item x = (mk m, m)"
proof (induction "is" arbitrary: item)
  case (Cons i "is")
  then show ?case
    by (cases "sel i") (simp_all add: List.map_filter_simps mk_sel)
qed (simp add: List.map_filter_simps)

lemma read_first_none:
  "List.map_filter sel is = [] \<Longrightarrow> sel item = None \<Longrightarrow>
   \<exists>i. read_first sel is item x = (i, x) \<and> sel i = None"
proof (induction "is" arbitrary: item)
  case (Cons i "is")
  then show ?case
    by (cases "sel i") (simp_all add: List.map_filter_simps)
qed simp

text \<open>
  A read succeeds with an item of the name asked for, the first of the kind in the stream;
  or it was asked for the empty name and found none.
\<close>

lemma read_as_success:
  assumes "read_as ty sel dflt name_of stub nm x s = (True, y, s')"
  shows "(\<exists>is. stub_ReadV1 stub
             \<lparr>rr_itemtype = [ty], rr_itemstate = [], rr_parent = [], rr_name = [nm], rr_watch = False\<rparr> s
           = (is, True, s') \<and>
         (if List.map_filter sel is = [] then nm = [] \<and> y = x
          else y = hd (List.map_filter sel is) \<and> name_of y = nm))"
proof -
  let ?req = "\<lparr>rr_itemtype = [ty], rr_itemstate = [], rr_parent = [], rr_name = [nm], rr_watch = False\<rparr>"
  obtain "is" ok s1 where call: "stub_ReadV1 stub ?req s = (is, ok, s1)"
    by (metis prod_cases3)
  note read = assms[unfolded read_as_def dflt_ReadReq_def, simplified, unfolded call, simplified]
  show ?thesis
  proof (cases "List.map_filter sel is")
    case Nil
    from read_first_none[OF this, of Item_not_set x] obtain i
      where "read_first sel is Item_not_set x = (i, x)" "sel i = None" by auto
    with read have "ok" "y = x" "nm = []" "s1 = s'" by (simp_all split: if_splits)
    with call Nil show ?thesis by simp
  next
    case (Cons m ms)
    from read read_first_found[OF this, of Item_not_set x]
    have "ok" "y = m" "name_of m = nm" "s1 = s'" by (simp_all split: if_splits)
    with call Cons show ?thesis by simp
  qed
qed

text \<open>A read of a server that answers with one item of the name asked for.\<close>

lemma read_as_single:
  assumes "stub_ReadV1 stub
      \<lparr>rr_itemtype = [ty], rr_itemstate = [], rr_parent = [], rr_name = [name_of m], rr_watch = False\<rparr> s
    = ([mk m], True, s')"
  shows "read_as ty sel dflt name_of stub (name_of m) x s = (True, m, s')"
  using assms by (simp add: read_as_def dflt_ReadReq_def Let_def)

lemma read_each_map_filter: "read_each sel is xs = xs @ List.map_filter sel is"
  by (induction "is" arbitrary: xs) (auto simp: List.map_filter_simps split: option.split)

text \<open>The list read delivers the items of the kind, in the order of the stream.\<close>

lemma read_list_as_result:
  assumes "stub_ReadV1 stub
      \<lparr>rr_itemtype = [ty], rr_itemstate = [], rr_parent = [], rr_name = [], rr_watch = False\<rparr> s
    = (is, ok, s')"
  shows "read_list_as ty sel stub [] s = (ok, List.map_filter sel is, s')"
  using assms by (simp add: read_list_as_def dflt_ReadReq_def Let_def read_each_map_filter)

end

lemmas item_selectors = item_shard_def item_session_context_def item_network_connection_def
  item_service_gateway_user_plane_def item_traffic_steering_function_def item_service_gateway_def

lemmas call_defs = ReadV1_ServiceGateway_def ReadV1_ServiceGatewayUserPlane_def
  ReadV1_TrafficSteeringFunction_def ReadV1_Shard_def ReadV1_SessionContext_def
  ReadV1_NetworkConnection_def ReadV1_ServiceGateways_def ReadV1_ServiceGatewayUserPlanes_def
  ReadV1_TrafficSteeringFunctions_def ReadV1_Shards_def ReadV1_SessionContexts_def
  ReadV1_NetworkConnections_def CreateV1_ServiceGateway_def CreateV1_ServiceGatewayUserPlane_def
  CreateV1_TrafficSteeringFunction_def CreateV1_Shard_def CreateV1_SessionContext_def
  CreateV1_NetworkConnection_def UpdateV1_ServiceGateway_def UpdateV1_ServiceGatewayUserPlane_def
  UpdateV1_TrafficSteeringFunction_def UpdateV1_Shard_def UpdateV1_SessionContext_def
  UpdateV1_NetworkConnection_def

interpretation sh_kind: item_kind Item_shard item_shard dflt_Shard sh_name
  by unfold_locales (auto simp: item_shard_def dflt_Shard_def split: Item.splits)

interpretation sc_kind: item_kind Item_session_context item_session_context dflt_SessionContext sc_name
  by unfold_locales (auto simp: item_session_context_def dflt_SessionContext_def split: Item.splits)

interpretation nc_kind: item_kind Item_network_connection item_network_connection dflt_NetworkConnection nc_name
  by unfold_locales (auto simp: item_network_connection_def dflt_NetworkConnection_def split: Item.splits)

interpretation up_kind: item_kind Item_service_gateway_user_plane item_service_gateway_user_plane dflt_ServiceGatewayUserPlane up_name
  by unfold_locales (auto simp: item_service_gateway_user_plane_def dflt_ServiceGatewayUserPlane_def split: Item.splits)

interpretation tsf_kind: item_kind Item_traffic_steering_function item_traffic_steering_function dflt_TrafficSteeringFunction tsf_name
  by unfold_locales (auto simp: item_traffic_steering_function_def dflt_TrafficSteeringFunction_def split: Item.splits)

interpretation sg_kind: item_kind Item_service_gateway item_service_gateway dflt_ServiceGateway sg_name
  by unfold_locales (auto simp: item_service_gateway_def dflt_ServiceGateway_def split: Item.splits)

section \<open>Properties\<close>

definition item_stub :: "Item list \<Rightarrow> bool \<Rightarrow> unit upsf_stub" where
  "item_stub is ok = \<lparr>stub_CreateV1 = (\<lambda>i r s. (ok, if ok then i else r, s)),
     stub_UpdateV1 = (\<lambda>q r s. (ok, case ur_item q of Some i \<Rightarrow> if ok then i else r | None \<Rightarrow> r, s)),
     stub_DeleteV1 = (\<lambda>n r s. (ok, n, s)),
     stub_LookupV1 = (\<lambda>q r s. (ok, r, s)),
     stub_ReadV1 = (\<lambda>q s. (is, ok, s))\<rparr>"

text \<open>
  C24. When the read of a session context by a name that is not empty succeeds, the server
  ended the stream without an error, and what is read is the first session context of the
  stream, of the name that was asked for.
\<close>

theorem read_session_context_success:
  assumes "ReadV1_SessionContext stub name x s = (True, y, s')" and "name \<noteq> []"
  shows "\<exists>is. stub_ReadV1 stub \<lparr>rr_itemtype = [IT_session_context], rr_itemstate = [], rr_parent = [],
        rr_name = [name], rr_watch = False\<rparr> s = (is, True, s') \<and>
    y = hd (List.map_filter item_session_context is) \<and> Item_session_context y \<in> set is \<and>
    sc_name y = name"
proof -
  from sc_kind.read_as_success[OF assms(1)[unfolded ReadV1_SessionContext_def]] assms(2)
  obtain "is" where call: "stub_ReadV1 stub \<lparr>rr_itemtype = [IT_session_context], rr_itemstate = [],
        rr_parent = [], rr_name = [name], rr_watch = False\<rparr> s = (is, True, s')"
    and ne: "List.map_filter item_session_context is \<noteq> []"
    and y: "y = hd (List.map_filter item_session_context is)" "sc_name y = name"
    by (auto split: if_splits)
  from ne y(1) have "y \<in> set (List.map_filter item_session_context is)" by simp
  then have "Item_session_context y \<in> set is"
    by (auto simp: List.map_filter_def dest: sc_kind.mk_sel)
  with call y show ?thesis by blast
qed

definition found_context :: SessionContext where
  "found_context = dflt_SessionContext\<lparr>sc_name := ''a'', sc_spec := Some dflt_SessionContextSpec\<rparr>"

definition two_items :: "unit upsf_stub" where
  "two_items = item_stub [Item_shard dflt_Shard, Item_session_context found_context] True"

lemma read_session_context_success_witness:
  "\<exists>y. ReadV1_SessionContext two_items ''a'' dflt_SessionContext () = (True, y, ()) \<and> sc_name y = ''a'' \<and>
     (\<exists>is. stub_ReadV1 two_items \<lparr>rr_itemtype = [IT_session_context], rr_itemstate = [], rr_parent = [],
         rr_name = [''a''], rr_watch = False\<rparr> () = (is, True, ()) \<and>
       y = hd (List.map_filter item_session_context is) \<and> Item_session_context y \<in> set is)"
proof -
  have "ReadV1_SessionContext two_items ''a'' dflt_SessionContext () = (True, found_context, ())"
    by (simp add: ReadV1_SessionContext_def read_as_def dflt_ReadReq_def two_items_def item_stub_def
        found_context_def item_session_context_def)
  with read_session_context_success[OF this] show ?thesis by (intro exI[of _ found_context]) auto
qed

text \<open>
  Reading the list of shards asks for all shards without watch, and appends the shards of
  the stream, in its order and without the items of other kinds, to what the vector held; they
  are appended also when the stream ends with an error and the read fails.
\<close>

theorem read_shards_in_order:
  "ReadV1_Shards stub xs s =
    (case stub_ReadV1 stub \<lparr>rr_itemtype = [IT_shard], rr_itemstate = [], rr_parent = [], rr_name = [],
        rr_watch = False\<rparr> s of
       (is, ok, s') \<Rightarrow> (ok, xs @ List.map_filter item_shard is, s'))"
  by (simp add: ReadV1_Shards_def read_list_as_def dflt_ReadReq_def sh_kind.read_each_map_filter
      Let_def split: prod.split)



end
