(* ===== verification/CTypes.thy ===== *)
theory CTypes
  imports Prelude
begin

text \<open>
  The C structures of \<^verbatim>\<open>upsf/upsf.h\<close>. A \<^verbatim>\<open>T f[16]\<close> is a list (of length 16 in every
  structure that \<^verbatim>\<open>memset\<close> initialised), a \<^verbatim>\<open>size_t\<close> a 64 bit word, an \<^verbatim>\<open>int\<close> or an
  enumeration a 32 bit word. A union is a datatype with one constructor per member plus
  one for the all-zero bytes that \<^verbatim>\<open>memset\<close> leaves, which read as a zero value through
  every member; reading any other inactive member is undefined, except for the common
  initial sequence of the members.
\<close>

section \<open>Enumerations and limits\<close>

definition UPSF_DERIVED_STATE_MAX :: int32 where "UPSF_DERIVED_STATE_MAX = 6"
definition UPSF_ITEM_TYPE_MAX :: int32 where "UPSF_ITEM_TYPE_MAX = 6"
definition UPSF_MAINTENANCE_REQ_MAX :: int32 where "UPSF_MAINTENANCE_REQ_MAX = 3"
definition UPSF_MBB_STATE_MAX :: int32 where "UPSF_MBB_STATE_MAX = 6"

definition UPSF_NC_SPEC_TYPE_SS_PTP :: int32 where "UPSF_NC_SPEC_TYPE_SS_PTP = 0"
definition UPSF_NC_SPEC_TYPE_SS_MPTP :: int32 where "UPSF_NC_SPEC_TYPE_SS_MPTP = 1"
definition UPSF_NC_SPEC_TYPE_MS_PTP :: int32 where "UPSF_NC_SPEC_TYPE_MS_PTP = 2"
definition UPSF_NC_SPEC_TYPE_MS_MPTP :: int32 where "UPSF_NC_SPEC_TYPE_MS_MPTP = 3"

definition UPSF_EP_TYPE_UNSPECIFIED :: int32 where "UPSF_EP_TYPE_UNSPECIFIED = 0"
definition UPSF_EP_TYPE_VTEP :: int32 where "UPSF_EP_TYPE_VTEP = 1"
definition UPSF_EP_TYPE_L2VPN :: int32 where "UPSF_EP_TYPE_L2VPN = 2"
definition UPSF_EP_TYPE_PORT_VLAN :: int32 where "UPSF_EP_TYPE_PORT_VLAN = 3"

lemmas nc_spec_types = UPSF_NC_SPEC_TYPE_SS_PTP_def UPSF_NC_SPEC_TYPE_SS_MPTP_def
  UPSF_NC_SPEC_TYPE_MS_PTP_def UPSF_NC_SPEC_TYPE_MS_MPTP_def

lemmas ep_types = UPSF_EP_TYPE_UNSPECIFIED_def UPSF_EP_TYPE_VTEP_def
  UPSF_EP_TYPE_L2VPN_def UPSF_EP_TYPE_PORT_VLAN_def

section \<open>Common structures\<close>

record upsf_key_value_t =
  kv_key :: upsf_string_t
  kv_value :: upsf_string_t

definition zero_upsf_key_value_t :: upsf_key_value_t where [zero_defs]:
  "zero_upsf_key_value_t = \<lparr>kv_key = zero_string, kv_value = zero_string\<rparr>"

definition zero_key_values :: "upsf_key_value_t list" where
  "zero_key_values = replicate UPSF_MAX_ELEMS zero_upsf_key_value_t"

record upsf_metadata_t =
  c_md_description :: upsf_string_t
  c_md_derived_state :: int32

definition zero_upsf_metadata_t :: upsf_metadata_t where [zero_defs]:
  "zero_upsf_metadata_t = \<lparr>c_md_description = zero_string, c_md_derived_state = 0\<rparr>"

record upsf_maintenance_t =
  c_mt_maintenance_req :: int32

definition zero_upsf_maintenance_t :: upsf_maintenance_t where [zero_defs]:
  "zero_upsf_maintenance_t = \<lparr>c_mt_maintenance_req = 0\<rparr>"

section \<open>Endpoints\<close>

record upsf_vtep_t =
  c_vt_ip_address :: upsf_string_t
  c_vt_udp_port :: int32
  c_vt_vni :: int32

definition zero_upsf_vtep_t :: upsf_vtep_t where [zero_defs]:
  "zero_upsf_vtep_t = \<lparr>c_vt_ip_address = zero_string, c_vt_udp_port = 0, c_vt_vni = 0\<rparr>"

record upsf_port_vlan_t =
  c_pv_logical_port :: upsf_string_t
  c_pv_svlan :: int32
  c_pv_cvlan :: int32

definition zero_upsf_port_vlan_t :: upsf_port_vlan_t where [zero_defs]:
  "zero_upsf_port_vlan_t = \<lparr>c_pv_logical_port = zero_string, c_pv_svlan = 0, c_pv_cvlan = 0\<rparr>"

record upsf_l2vpn_t =
  c_l2_vpn_id :: int32

definition zero_upsf_l2vpn_t :: upsf_l2vpn_t where [zero_defs]:
  "zero_upsf_l2vpn_t = \<lparr>c_l2_vpn_id = 0\<rparr>"

datatype ep_spec_u =
    EPU_zero
  | EPU_vtep upsf_vtep_t
  | EPU_l2vpn upsf_l2vpn_t
  | EPU_port_vlan upsf_port_vlan_t

definition ep_spec_vtep :: "ep_spec_u \<Rightarrow> upsf_vtep_t ub" where
  "ep_spec_vtep u = (case u of EPU_zero \<Rightarrow> Some zero_upsf_vtep_t | EPU_vtep v \<Rightarrow> Some v | _ \<Rightarrow> None)"

definition ep_spec_l2vpn :: "ep_spec_u \<Rightarrow> upsf_l2vpn_t ub" where
  "ep_spec_l2vpn u = (case u of EPU_zero \<Rightarrow> Some zero_upsf_l2vpn_t | EPU_l2vpn v \<Rightarrow> Some v | _ \<Rightarrow> None)"

definition ep_spec_port_vlan :: "ep_spec_u \<Rightarrow> upsf_port_vlan_t ub" where
  "ep_spec_port_vlan u =
     (case u of EPU_zero \<Rightarrow> Some zero_upsf_port_vlan_t | EPU_port_vlan v \<Rightarrow> Some v | _ \<Rightarrow> None)"

record upsf_network_connection_spec_endpoint_t =
  c_ep_endpoint_name :: upsf_string_t
  c_ep_type :: int32
  c_ep_spec :: ep_spec_u

definition zero_upsf_network_connection_spec_endpoint_t :: upsf_network_connection_spec_endpoint_t where [zero_defs]:
  "zero_upsf_network_connection_spec_endpoint_t = \<lparr>c_ep_endpoint_name = zero_string, c_ep_type = 0, c_ep_spec = EPU_zero\<rparr>"

definition zero_endpoints :: "upsf_network_connection_spec_endpoint_t list" where
  "zero_endpoints = replicate UPSF_MAX_ELEMS zero_upsf_network_connection_spec_endpoint_t"

section \<open>Network connection\<close>

record upsf_network_connection_spec_ss_ptp_spec_t =
  c_ssp_sgup_endpoint :: "upsf_network_connection_spec_endpoint_t list"
  c_ssp_sgup_endpoint_size :: size_t
  c_ssp_tsf_endpoint :: upsf_network_connection_spec_endpoint_t

definition zero_upsf_network_connection_spec_ss_ptp_spec_t :: upsf_network_connection_spec_ss_ptp_spec_t where [zero_defs]:
  "zero_upsf_network_connection_spec_ss_ptp_spec_t = \<lparr>c_ssp_sgup_endpoint = zero_endpoints, c_ssp_sgup_endpoint_size = 0,
     c_ssp_tsf_endpoint = zero_upsf_network_connection_spec_endpoint_t\<rparr>"

record upsf_network_connection_spec_ss_mptp_spec_t =
  c_ssm_sgup_endpoint :: "upsf_network_connection_spec_endpoint_t list"
  c_ssm_sgup_endpoint_size :: size_t
  c_ssm_tsf_endpoint :: "upsf_network_connection_spec_endpoint_t list"
  c_ssm_tsf_endpoint_size :: size_t

definition zero_upsf_network_connection_spec_ss_mptp_spec_t :: upsf_network_connection_spec_ss_mptp_spec_t where [zero_defs]:
  "zero_upsf_network_connection_spec_ss_mptp_spec_t = \<lparr>c_ssm_sgup_endpoint = zero_endpoints, c_ssm_sgup_endpoint_size = 0,
     c_ssm_tsf_endpoint = zero_endpoints, c_ssm_tsf_endpoint_size = 0\<rparr>"

record upsf_network_connection_spec_ms_ptp_spec_t =
  c_msp_sgup_endpoint :: upsf_network_connection_spec_endpoint_t
  c_msp_tsf_endpoint :: upsf_network_connection_spec_endpoint_t

definition zero_upsf_network_connection_spec_ms_ptp_spec_t :: upsf_network_connection_spec_ms_ptp_spec_t where [zero_defs]:
  "zero_upsf_network_connection_spec_ms_ptp_spec_t = \<lparr>c_msp_sgup_endpoint = zero_upsf_network_connection_spec_endpoint_t,
     c_msp_tsf_endpoint = zero_upsf_network_connection_spec_endpoint_t\<rparr>"

record upsf_network_connection_spec_ms_mptp_spec_t =
  c_msm_sgup_endpoint :: upsf_network_connection_spec_endpoint_t
  c_msm_tsf_endpoint :: "upsf_network_connection_spec_endpoint_t list"
  c_msm_tsf_endpoint_size :: size_t

definition zero_upsf_network_connection_spec_ms_mptp_spec_t :: upsf_network_connection_spec_ms_mptp_spec_t where [zero_defs]:
  "zero_upsf_network_connection_spec_ms_mptp_spec_t = \<lparr>c_msm_sgup_endpoint = zero_upsf_network_connection_spec_endpoint_t,
     c_msm_tsf_endpoint = zero_endpoints, c_msm_tsf_endpoint_size = 0\<rparr>"

datatype nc_spec_u =
    NCU_zero
  | NCU_ss_ptp upsf_network_connection_spec_ss_ptp_spec_t
  | NCU_ss_mptp upsf_network_connection_spec_ss_mptp_spec_t
  | NCU_ms_ptp upsf_network_connection_spec_ms_ptp_spec_t
  | NCU_ms_mptp upsf_network_connection_spec_ms_mptp_spec_t

text \<open>
  Reads of the members. \<open>ss_ptp\<close> and \<open>ss_mptp\<close> share their first two fields, the
  \<open>sgup_endpoint\<close> array and its size; \<open>ms_ptp\<close> and \<open>ms_mptp\<close> share their first field,
  the single \<open>sgup_endpoint\<close>.
\<close>

definition nc_spec_ss_ptp :: "nc_spec_u \<Rightarrow> upsf_network_connection_spec_ss_ptp_spec_t ub" where
  "nc_spec_ss_ptp u =
     (case u of NCU_zero \<Rightarrow> Some zero_upsf_network_connection_spec_ss_ptp_spec_t | NCU_ss_ptp v \<Rightarrow> Some v | _ \<Rightarrow> None)"

definition nc_spec_ss_mptp :: "nc_spec_u \<Rightarrow> upsf_network_connection_spec_ss_mptp_spec_t ub" where
  "nc_spec_ss_mptp u =
     (case u of NCU_zero \<Rightarrow> Some zero_upsf_network_connection_spec_ss_mptp_spec_t | NCU_ss_mptp v \<Rightarrow> Some v | _ \<Rightarrow> None)"

definition nc_spec_ms_ptp :: "nc_spec_u \<Rightarrow> upsf_network_connection_spec_ms_ptp_spec_t ub" where
  "nc_spec_ms_ptp u =
     (case u of NCU_zero \<Rightarrow> Some zero_upsf_network_connection_spec_ms_ptp_spec_t | NCU_ms_ptp v \<Rightarrow> Some v | _ \<Rightarrow> None)"

definition nc_spec_ms_mptp :: "nc_spec_u \<Rightarrow> upsf_network_connection_spec_ms_mptp_spec_t ub" where
  "nc_spec_ms_mptp u =
     (case u of NCU_zero \<Rightarrow> Some zero_upsf_network_connection_spec_ms_mptp_spec_t | NCU_ms_mptp v \<Rightarrow> Some v | _ \<Rightarrow> None)"

text \<open>\<^verbatim>\<open>nc_spec.ss_ptp.sgup_endpoint\<close>, readable too while \<open>ss_mptp\<close> is the active member.\<close>

definition nc_spec_ss_sgup_endpoint :: "nc_spec_u \<Rightarrow> upsf_network_connection_spec_endpoint_t list ub" where
  "nc_spec_ss_sgup_endpoint u =
     (case u of
        NCU_zero \<Rightarrow> Some zero_endpoints
      | NCU_ss_ptp v \<Rightarrow> Some (c_ssp_sgup_endpoint v)
      | NCU_ss_mptp v \<Rightarrow> Some (c_ssm_sgup_endpoint v)
      | _ \<Rightarrow> None)"

definition nc_spec_ss_sgup_endpoint_size :: "nc_spec_u \<Rightarrow> size_t ub" where
  "nc_spec_ss_sgup_endpoint_size u =
     (case u of
        NCU_zero \<Rightarrow> Some 0
      | NCU_ss_ptp v \<Rightarrow> Some (c_ssp_sgup_endpoint_size v)
      | NCU_ss_mptp v \<Rightarrow> Some (c_ssm_sgup_endpoint_size v)
      | _ \<Rightarrow> None)"

text \<open>\<^verbatim>\<open>nc_spec.ms_ptp.sgup_endpoint\<close>, the common initial member of \<open>ms_ptp\<close> and \<open>ms_mptp\<close>.\<close>

definition nc_spec_ms_sgup_endpoint :: "nc_spec_u \<Rightarrow> upsf_network_connection_spec_endpoint_t ub" where
  "nc_spec_ms_sgup_endpoint u =
     (case u of
        NCU_zero \<Rightarrow> Some zero_upsf_network_connection_spec_endpoint_t
      | NCU_ms_ptp v \<Rightarrow> Some (c_msp_sgup_endpoint v)
      | NCU_ms_mptp v \<Rightarrow> Some (c_msm_sgup_endpoint v)
      | _ \<Rightarrow> None)"

lemmas union_reads = ep_spec_vtep_def ep_spec_l2vpn_def ep_spec_port_vlan_def
  nc_spec_ss_ptp_def nc_spec_ss_mptp_def nc_spec_ms_ptp_def nc_spec_ms_mptp_def
  nc_spec_ss_sgup_endpoint_def nc_spec_ss_sgup_endpoint_size_def nc_spec_ms_sgup_endpoint_def

record upsf_network_connection_spec_t =
  c_ncs_maximum_supported_quality :: int32
  c_ncs_nc_spec_type :: int32
  c_ncs_nc_spec :: nc_spec_u

definition zero_upsf_network_connection_spec_t :: upsf_network_connection_spec_t where [zero_defs]:
  "zero_upsf_network_connection_spec_t = \<lparr>c_ncs_maximum_supported_quality = 0,
     c_ncs_nc_spec_type = 0, c_ncs_nc_spec = NCU_zero\<rparr>"

record upsf_network_connection_status_t =
  c_nct_nc_active :: "upsf_key_value_t list"
  c_nct_nc_active_size :: size_t
  c_nct_allocated_shards :: int32

definition zero_upsf_network_connection_status_t :: upsf_network_connection_status_t where [zero_defs]:
  "zero_upsf_network_connection_status_t = \<lparr>c_nct_nc_active = zero_key_values,
     c_nct_nc_active_size = 0, c_nct_allocated_shards = 0\<rparr>"

record upsf_network_connection_t =
  c_nc_name :: upsf_string_t
  c_nc_metadata :: upsf_metadata_t
  c_nc_maintenance :: upsf_maintenance_t
  c_nc_spec :: upsf_network_connection_spec_t
  c_nc_status :: upsf_network_connection_status_t

definition zero_upsf_network_connection_t :: upsf_network_connection_t where [zero_defs]:
  "zero_upsf_network_connection_t = \<lparr>c_nc_name = zero_string, c_nc_metadata = zero_upsf_metadata_t,
     c_nc_maintenance = zero_upsf_maintenance_t, c_nc_spec = zero_upsf_network_connection_spec_t,
     c_nc_status = zero_upsf_network_connection_status_t\<rparr>"

section \<open>Service gateway and its user planes\<close>

record upsf_service_gateway_user_plane_spec_t =
  c_ups_max_session_count :: int32
  c_ups_max_shards :: int32
  c_ups_supported_service_group :: "upsf_string_t list"
  c_ups_supported_service_group_size :: size_t
  c_ups_default_endpoint :: upsf_network_connection_spec_endpoint_t

definition zero_upsf_service_gateway_user_plane_spec_t :: upsf_service_gateway_user_plane_spec_t
  where [zero_defs]:
  "zero_upsf_service_gateway_user_plane_spec_t = \<lparr>c_ups_max_session_count = 0,
     c_ups_max_shards = 0, c_ups_supported_service_group = zero_strings,
     c_ups_supported_service_group_size = 0, c_ups_default_endpoint = zero_upsf_network_connection_spec_endpoint_t\<rparr>"

record upsf_service_gateway_user_plane_status_t =
  c_upt_allocated_session_count :: int32
  c_upt_allocated_shards :: int32

definition zero_upsf_service_gateway_user_plane_status_t :: upsf_service_gateway_user_plane_status_t
  where [zero_defs]:
  "zero_upsf_service_gateway_user_plane_status_t =
     \<lparr>c_upt_allocated_session_count = 0, c_upt_allocated_shards = 0\<rparr>"

record upsf_service_gateway_t =
  c_sg_name :: upsf_string_t
  c_sg_metadata :: upsf_metadata_t

definition zero_upsf_service_gateway_t :: upsf_service_gateway_t where [zero_defs]:
  "zero_upsf_service_gateway_t = \<lparr>c_sg_name = zero_string, c_sg_metadata = zero_upsf_metadata_t\<rparr>"

record upsf_service_gateway_user_plane_t =
  c_up_name :: upsf_string_t
  c_up_metadata :: upsf_metadata_t
  c_up_service_gateway_name :: upsf_string_t
  c_up_maintenance :: upsf_maintenance_t
  c_up_spec :: upsf_service_gateway_user_plane_spec_t
  c_up_status :: upsf_service_gateway_user_plane_status_t

definition zero_upsf_service_gateway_user_plane_t :: upsf_service_gateway_user_plane_t
  where [zero_defs]:
  "zero_upsf_service_gateway_user_plane_t = \<lparr>c_up_name = zero_string,
     c_up_metadata = zero_upsf_metadata_t, c_up_service_gateway_name = zero_string,
     c_up_maintenance = zero_upsf_maintenance_t,
     c_up_spec = zero_upsf_service_gateway_user_plane_spec_t,
     c_up_status = zero_upsf_service_gateway_user_plane_status_t\<rparr>"

section \<open>Traffic steering function\<close>

record upsf_traffic_steering_function_spec_t =
  c_tss_default_endpoint :: upsf_network_connection_spec_endpoint_t

definition zero_upsf_traffic_steering_function_spec_t :: upsf_traffic_steering_function_spec_t
  where [zero_defs]:
  "zero_upsf_traffic_steering_function_spec_t = \<lparr>c_tss_default_endpoint = zero_upsf_network_connection_spec_endpoint_t\<rparr>"

record upsf_traffic_steering_function_t =
  c_tsf_name :: upsf_string_t
  c_tsf_metadata :: upsf_metadata_t
  c_tsf_spec :: upsf_traffic_steering_function_spec_t

definition zero_upsf_traffic_steering_function_t :: upsf_traffic_steering_function_t
  where [zero_defs]:
  "zero_upsf_traffic_steering_function_t = \<lparr>c_tsf_name = zero_string,
     c_tsf_metadata = zero_upsf_metadata_t,
     c_tsf_spec = zero_upsf_traffic_steering_function_spec_t\<rparr>"

section \<open>Shard\<close>

record upsf_shard_spec_desired_state_t =
  c_shd_service_gateway_user_plane :: upsf_string_t
  c_shd_network_connection :: "upsf_string_t list"
  c_shd_network_connection_size :: size_t

definition zero_upsf_shard_spec_desired_state_t :: upsf_shard_spec_desired_state_t where [zero_defs]:
  "zero_upsf_shard_spec_desired_state_t = \<lparr>c_shd_service_gateway_user_plane = zero_string,
     c_shd_network_connection = zero_strings, c_shd_network_connection_size = 0\<rparr>"

record upsf_shard_spec_t =
  c_shs_max_session_count :: int32
  c_shs_virtual_mac :: upsf_string_t
  c_shs_desired_state :: upsf_shard_spec_desired_state_t
  c_shs_prefix :: "upsf_string_t list"
  c_shs_prefix_size :: size_t

definition zero_upsf_shard_spec_t :: upsf_shard_spec_t where [zero_defs]:
  "zero_upsf_shard_spec_t = \<lparr>c_shs_max_session_count = 0, c_shs_virtual_mac = zero_string,
     c_shs_desired_state = zero_upsf_shard_spec_desired_state_t,
     c_shs_prefix = zero_strings, c_shs_prefix_size = 0\<rparr>"

record upsf_shard_status_current_state_t =
  c_shc_service_gateway_user_plane :: upsf_string_t
  c_shc_tsf_network_connection :: "upsf_key_value_t list"
  c_shc_tsf_network_connection_size :: size_t

definition zero_upsf_shard_status_current_state_t :: upsf_shard_status_current_state_t
  where [zero_defs]:
  "zero_upsf_shard_status_current_state_t = \<lparr>c_shc_service_gateway_user_plane = zero_string,
     c_shc_tsf_network_connection = zero_key_values, c_shc_tsf_network_connection_size = 0\<rparr>"

record upsf_shard_status_t =
  c_sht_allocated_session_count :: int32
  c_sht_maximum_allocated_quality :: int32
  c_sht_service_groups_supported :: "upsf_string_t list"
  c_sht_service_groups_supported_size :: size_t
  c_sht_current_state :: upsf_shard_status_current_state_t

definition zero_upsf_shard_status_t :: upsf_shard_status_t where [zero_defs]:
  "zero_upsf_shard_status_t = \<lparr>c_sht_allocated_session_count = 0,
     c_sht_maximum_allocated_quality = 0, c_sht_service_groups_supported = zero_strings,
     c_sht_service_groups_supported_size = 0,
     c_sht_current_state = zero_upsf_shard_status_current_state_t\<rparr>"

record upsf_shard_mbb_t =
  c_shm_mbb_state :: int32

definition zero_upsf_shard_mbb_t :: upsf_shard_mbb_t where [zero_defs]:
  "zero_upsf_shard_mbb_t = \<lparr>c_shm_mbb_state = 0\<rparr>"

record upsf_shard_t =
  c_sh_name :: upsf_string_t
  c_sh_metadata :: upsf_metadata_t
  c_sh_spec :: upsf_shard_spec_t
  c_sh_status :: upsf_shard_status_t
  c_sh_mbb :: upsf_shard_mbb_t

definition zero_upsf_shard_t :: upsf_shard_t where [zero_defs]:
  "zero_upsf_shard_t = \<lparr>c_sh_name = zero_string, c_sh_metadata = zero_upsf_metadata_t,
     c_sh_spec = zero_upsf_shard_spec_t, c_sh_status = zero_upsf_shard_status_t,
     c_sh_mbb = zero_upsf_shard_mbb_t\<rparr>"

section \<open>Session context\<close>

record upsf_session_filter_t =
  c_sf_source_mac_address :: upsf_string_t
  c_sf_svlan :: int32
  c_sf_cvlan :: int32

definition zero_upsf_session_filter_t :: upsf_session_filter_t where [zero_defs]:
  "zero_upsf_session_filter_t = \<lparr>c_sf_source_mac_address = zero_string, c_sf_svlan = 0,
     c_sf_cvlan = 0\<rparr>"

record upsf_session_context_spec_desired_state_t =
  c_scd_shard :: upsf_string_t

definition zero_upsf_session_context_spec_desired_state_t :: upsf_session_context_spec_desired_state_t
  where [zero_defs]:
  "zero_upsf_session_context_spec_desired_state_t = \<lparr>c_scd_shard = zero_string\<rparr>"

record upsf_session_context_spec_t =
  c_scs_traffic_steering_function :: upsf_string_t
  c_scs_required_service_group :: "upsf_string_t list"
  c_scs_required_service_group_size :: size_t
  c_scs_required_quality :: int32
  c_scs_circuit_id :: upsf_string_t
  c_scs_remote_id :: upsf_string_t
  c_scs_session_filter :: upsf_session_filter_t
  c_scs_desired_state :: upsf_session_context_spec_desired_state_t
  c_scs_network_connection :: upsf_string_t

definition zero_upsf_session_context_spec_t :: upsf_session_context_spec_t where [zero_defs]:
  "zero_upsf_session_context_spec_t = \<lparr>c_scs_traffic_steering_function = zero_string,
     c_scs_required_service_group = zero_strings, c_scs_required_service_group_size = 0,
     c_scs_required_quality = 0, c_scs_circuit_id = zero_string, c_scs_remote_id = zero_string,
     c_scs_session_filter = zero_upsf_session_filter_t,
     c_scs_desired_state = zero_upsf_session_context_spec_desired_state_t,
     c_scs_network_connection = zero_string\<rparr>"

record upsf_session_context_status_current_state_t =
  c_scc_user_plane_shard :: upsf_string_t
  c_scc_tsf_shard :: upsf_string_t

definition zero_upsf_session_context_status_current_state_t ::
    upsf_session_context_status_current_state_t where [zero_defs]:
  "zero_upsf_session_context_status_current_state_t =
     \<lparr>c_scc_user_plane_shard = zero_string, c_scc_tsf_shard = zero_string\<rparr>"

record upsf_session_context_status_t =
  c_sct_current_state :: upsf_session_context_status_current_state_t

definition zero_upsf_session_context_status_t :: upsf_session_context_status_t where [zero_defs]:
  "zero_upsf_session_context_status_t =
     \<lparr>c_sct_current_state = zero_upsf_session_context_status_current_state_t\<rparr>"

record upsf_session_context_t =
  c_sc_name :: upsf_string_t
  c_sc_metadata :: upsf_metadata_t
  c_sc_spec :: upsf_session_context_spec_t
  c_sc_status :: upsf_session_context_status_t

definition zero_upsf_session_context_t :: upsf_session_context_t where [zero_defs]:
  "zero_upsf_session_context_t = \<lparr>c_sc_name = zero_string, c_sc_metadata = zero_upsf_metadata_t,
     c_sc_spec = zero_upsf_session_context_spec_t,
     c_sc_status = zero_upsf_session_context_status_t\<rparr>"

end
