(* ===== verification/MapEndpoint.thy ===== *)
theory MapEndpoint
  imports Messages CTypes
begin

text \<open>
  The overloads of \<^verbatim>\<open>UpsfMapping::map\<close> (\<^verbatim>\<open>upsf/upsf_c_mapping.cpp\<close>) for the transport
  endpoints: \<^verbatim>\<open>Vtep\<close>, \<^verbatim>\<open>L2vpn\<close>, \<^verbatim>\<open>PortVlan\<close> and \<^verbatim>\<open>Endpoint\<close>, in both directions.
  An overload is named by the type it maps from. Each takes the target object, as the
  code does, and returns the boolean result with the new target.

  For each type there are closed forms \<open>c_X\<close> (message to structure) and \<open>p_X\<close>
  (structure to message), the predicates \<open>ok_X\<close> (the structure can be read), \<open>clean_X\<close>
  (the structure is in the form the mapping produces) and \<open>fits_X\<close> (the message loses
  nothing), and the lemmas that relate them.
\<close>

section \<open>Vtep\<close>

definition map_Vtep :: "Vtep \<Rightarrow> upsf_vtep_t \<Rightarrow> (bool \<times> upsf_vtep_t) ub" where
  "map_Vtep from to = do {
     let to = zero_upsf_vtep_t;
     s \<leftarrow> put_string (c_vt_ip_address to) (vt_ip_address from);
     let to = to\<lparr>c_vt_ip_address := s\<rparr>;
     let to = to\<lparr>c_vt_udp_port := vt_udp_port from\<rparr>;
     let to = to\<lparr>c_vt_vni := vt_vni from\<rparr>;
     Some (True, to)
   }"

definition map_upsf_vtep_t :: "upsf_vtep_t \<Rightarrow> Vtep \<Rightarrow> (bool \<times> Vtep) ub" where
  "map_upsf_vtep_t from to = do {
     s \<leftarrow> std_string (c_vt_ip_address from);
     let to = to\<lparr>vt_ip_address := s\<rparr>;
     let to = to\<lparr>vt_udp_port := c_vt_udp_port from\<rparr>;
     let to = to\<lparr>vt_vni := c_vt_vni from\<rparr>;
     Some (True, to)
   }"

definition c_Vtep :: "Vtep \<Rightarrow> upsf_vtep_t" where [c_defs]:
  "c_Vtep m = \<lparr>c_vt_ip_address = c_string (vt_ip_address m), c_vt_udp_port = vt_udp_port m,
               c_vt_vni = vt_vni m\<rparr>"

definition p_Vtep :: "upsf_vtep_t \<Rightarrow> Vtep" where [p_defs]:
  "p_Vtep x = \<lparr>vt_ip_address = p_string (c_vt_ip_address x), vt_udp_port = c_vt_udp_port x,
               vt_vni = c_vt_vni x\<rparr>"

definition ok_Vtep :: "upsf_vtep_t \<Rightarrow> bool" where [ok_defs]:
  "ok_Vtep x \<longleftrightarrow> ok_string (c_vt_ip_address x)"

definition clean_Vtep :: "upsf_vtep_t \<Rightarrow> bool" where [clean_defs]:
  "clean_Vtep x \<longleftrightarrow> clean_string (c_vt_ip_address x)"

definition fits_Vtep :: "Vtep \<Rightarrow> bool" where [fits_defs]:
  "fits_Vtep m \<longleftrightarrow> fits_string (vt_ip_address m)"

lemma map_Vtep_eq [simp]: "map_Vtep from to = Some (True, c_Vtep from)"
  by (simp add: map_Vtep_def zero_upsf_vtep_t_def c_Vtep_def)

lemma map_upsf_vtep_t_eq [simp]: "ok_Vtep from \<Longrightarrow> map_upsf_vtep_t from to = Some (True, p_Vtep from)"
  by (simp add: map_upsf_vtep_t_def ok_Vtep_def p_Vtep_def)

lemma clean_c_Vtep [simp]: "clean_Vtep (c_Vtep m)"
  by (simp add: clean_Vtep_def c_Vtep_def)

lemma clean_Vtep_ok: "clean_Vtep x \<Longrightarrow> ok_Vtep x"
  by (simp add: clean_Vtep_def ok_Vtep_def clean_string_ok)

lemma p_c_Vtep [simp]: "fits_Vtep m \<Longrightarrow> p_Vtep (c_Vtep m) = m"
  by (simp add: p_Vtep_def c_Vtep_def fits_Vtep_def c_cut_fits)

lemma c_p_Vtep [simp]: "clean_Vtep x \<Longrightarrow> c_Vtep (p_Vtep x) = x"
  by (simp add: p_Vtep_def c_Vtep_def clean_Vtep_def clean_string_eq)

section \<open>L2vpn\<close>

definition map_L2vpn :: "L2vpn \<Rightarrow> upsf_l2vpn_t \<Rightarrow> (bool \<times> upsf_l2vpn_t) ub" where
  "map_L2vpn from to = do {
     let to = zero_upsf_l2vpn_t;
     let to = to\<lparr>c_l2_vpn_id := l2_vpn_id from\<rparr>;
     Some (True, to)
   }"

definition map_upsf_l2vpn_t :: "upsf_l2vpn_t \<Rightarrow> L2vpn \<Rightarrow> (bool \<times> L2vpn) ub" where
  "map_upsf_l2vpn_t from to = do {
     let to = to\<lparr>l2_vpn_id := c_l2_vpn_id from\<rparr>;
     Some (True, to)
   }"

definition c_L2vpn :: "L2vpn \<Rightarrow> upsf_l2vpn_t" where [c_defs]:
  "c_L2vpn m = \<lparr>c_l2_vpn_id = l2_vpn_id m\<rparr>"

definition p_L2vpn :: "upsf_l2vpn_t \<Rightarrow> L2vpn" where [p_defs]:
  "p_L2vpn x = \<lparr>l2_vpn_id = c_l2_vpn_id x\<rparr>"

lemma map_L2vpn_eq [simp]: "map_L2vpn from to = Some (True, c_L2vpn from)"
  by (simp add: map_L2vpn_def zero_upsf_l2vpn_t_def c_L2vpn_def)

lemma map_upsf_l2vpn_t_eq [simp]: "map_upsf_l2vpn_t from to = Some (True, p_L2vpn from)"
  by (simp add: map_upsf_l2vpn_t_def p_L2vpn_def)

lemma p_c_L2vpn [simp]: "p_L2vpn (c_L2vpn m) = m"
  by (simp add: p_L2vpn_def c_L2vpn_def)

lemma c_p_L2vpn [simp]: "c_L2vpn (p_L2vpn x) = x"
  by (simp add: p_L2vpn_def c_L2vpn_def)

section \<open>PortVlan\<close>

definition map_PortVlan :: "PortVlan \<Rightarrow> upsf_port_vlan_t \<Rightarrow> (bool \<times> upsf_port_vlan_t) ub" where
  "map_PortVlan from to = do {
     let to = zero_upsf_port_vlan_t;
     s \<leftarrow> put_string (c_pv_logical_port to) (pv_logical_port from);
     let to = to\<lparr>c_pv_logical_port := s\<rparr>;
     let to = to\<lparr>c_pv_svlan := pv_svlan from\<rparr>;
     let to = to\<lparr>c_pv_cvlan := pv_cvlan from\<rparr>;
     Some (True, to)
   }"

definition map_upsf_port_vlan_t :: "upsf_port_vlan_t \<Rightarrow> PortVlan \<Rightarrow> (bool \<times> PortVlan) ub" where
  "map_upsf_port_vlan_t from to = do {
     s \<leftarrow> std_string (c_pv_logical_port from);
     let to = to\<lparr>pv_logical_port := s\<rparr>;
     let to = to\<lparr>pv_svlan := c_pv_svlan from\<rparr>;
     let to = to\<lparr>pv_cvlan := c_pv_cvlan from\<rparr>;
     Some (True, to)
   }"

definition c_PortVlan :: "PortVlan \<Rightarrow> upsf_port_vlan_t" where [c_defs]:
  "c_PortVlan m = \<lparr>c_pv_logical_port = c_string (pv_logical_port m), c_pv_svlan = pv_svlan m,
                   c_pv_cvlan = pv_cvlan m\<rparr>"

definition p_PortVlan :: "upsf_port_vlan_t \<Rightarrow> PortVlan" where [p_defs]:
  "p_PortVlan x = \<lparr>pv_logical_port = p_string (c_pv_logical_port x), pv_svlan = c_pv_svlan x,
                   pv_cvlan = c_pv_cvlan x\<rparr>"

definition ok_PortVlan :: "upsf_port_vlan_t \<Rightarrow> bool" where [ok_defs]:
  "ok_PortVlan x \<longleftrightarrow> ok_string (c_pv_logical_port x)"

definition clean_PortVlan :: "upsf_port_vlan_t \<Rightarrow> bool" where [clean_defs]:
  "clean_PortVlan x \<longleftrightarrow> clean_string (c_pv_logical_port x)"

definition fits_PortVlan :: "PortVlan \<Rightarrow> bool" where [fits_defs]:
  "fits_PortVlan m \<longleftrightarrow> fits_string (pv_logical_port m)"

lemma map_PortVlan_eq [simp]: "map_PortVlan from to = Some (True, c_PortVlan from)"
  by (simp add: map_PortVlan_def zero_upsf_port_vlan_t_def c_PortVlan_def)

lemma map_upsf_port_vlan_t_eq [simp]:
  "ok_PortVlan from \<Longrightarrow> map_upsf_port_vlan_t from to = Some (True, p_PortVlan from)"
  by (simp add: map_upsf_port_vlan_t_def ok_PortVlan_def p_PortVlan_def)

lemma clean_c_PortVlan [simp]: "clean_PortVlan (c_PortVlan m)"
  by (simp add: clean_PortVlan_def c_PortVlan_def)

lemma clean_PortVlan_ok: "clean_PortVlan x \<Longrightarrow> ok_PortVlan x"
  by (simp add: clean_PortVlan_def ok_PortVlan_def clean_string_ok)

lemma p_c_PortVlan [simp]: "fits_PortVlan m \<Longrightarrow> p_PortVlan (c_PortVlan m) = m"
  by (simp add: p_PortVlan_def c_PortVlan_def fits_PortVlan_def c_cut_fits)

lemma c_p_PortVlan [simp]: "clean_PortVlan x \<Longrightarrow> c_PortVlan (p_PortVlan x) = x"
  by (simp add: p_PortVlan_def c_PortVlan_def clean_PortVlan_def clean_string_eq)

section \<open>Endpoint\<close>

definition map_Endpoint :: "Endpoint \<Rightarrow> upsf_network_connection_spec_endpoint_t \<Rightarrow> (bool \<times> upsf_network_connection_spec_endpoint_t) ub" where
  "map_Endpoint from to = do {
     let to = zero_upsf_network_connection_spec_endpoint_t;
     s \<leftarrow> put_string (c_ep_endpoint_name to) (ep_endpoint_name from);
     let to = to\<lparr>c_ep_endpoint_name := s\<rparr>;
     case ep_transport from of
       TE_vtep v \<Rightarrow> do {
         u \<leftarrow> ep_spec_vtep (c_ep_spec to);
         (_, u) \<leftarrow> map_Vtep v u;
         let to = to\<lparr>c_ep_spec := EPU_vtep u\<rparr>;
         Some (True, to\<lparr>c_ep_type := UPSF_EP_TYPE_VTEP\<rparr>)
       }
     | TE_l2vpn v \<Rightarrow> do {
         u \<leftarrow> ep_spec_l2vpn (c_ep_spec to);
         (_, u) \<leftarrow> map_L2vpn v u;
         let to = to\<lparr>c_ep_spec := EPU_l2vpn u\<rparr>;
         Some (True, to\<lparr>c_ep_type := UPSF_EP_TYPE_L2VPN\<rparr>)
       }
     | TE_port_vlan v \<Rightarrow> do {
         u \<leftarrow> ep_spec_port_vlan (c_ep_spec to);
         (_, u) \<leftarrow> map_PortVlan v u;
         let to = to\<lparr>c_ep_spec := EPU_port_vlan u\<rparr>;
         Some (True, to\<lparr>c_ep_type := UPSF_EP_TYPE_PORT_VLAN\<rparr>)
       }
     | TE_not_set \<Rightarrow> Some (False, to)
   }"

definition map_upsf_network_connection_spec_endpoint_t :: "upsf_network_connection_spec_endpoint_t \<Rightarrow> Endpoint \<Rightarrow> (bool \<times> Endpoint) ub" where
  "map_upsf_network_connection_spec_endpoint_t from to = do {
     s \<leftarrow> std_string (c_ep_endpoint_name from);
     let to = to\<lparr>ep_endpoint_name := s\<rparr>;
     if c_ep_type from = UPSF_EP_TYPE_VTEP then do {
       u \<leftarrow> ep_spec_vtep (c_ep_spec from);
       (_, v) \<leftarrow> map_upsf_vtep_t u (mutable_vtep (ep_transport to));
       Some (True, to\<lparr>ep_transport := TE_vtep v\<rparr>)
     } else if c_ep_type from = UPSF_EP_TYPE_L2VPN then do {
       u \<leftarrow> ep_spec_l2vpn (c_ep_spec from);
       (_, v) \<leftarrow> map_upsf_l2vpn_t u (mutable_l2vpn (ep_transport to));
       Some (True, to\<lparr>ep_transport := TE_l2vpn v\<rparr>)
     } else if c_ep_type from = UPSF_EP_TYPE_PORT_VLAN then do {
       u \<leftarrow> ep_spec_port_vlan (c_ep_spec from);
       (_, v) \<leftarrow> map_upsf_port_vlan_t u (mutable_port_vlan (ep_transport to));
       Some (True, to\<lparr>ep_transport := TE_port_vlan v\<rparr>)
     } else Some (False, to)
   }"

definition c_Endpoint :: "Endpoint \<Rightarrow> upsf_network_connection_spec_endpoint_t" where [c_defs]:
  "c_Endpoint m =
     \<lparr>c_ep_endpoint_name = c_string (ep_endpoint_name m),
      c_ep_type = (case ep_transport m of
          TE_not_set \<Rightarrow> UPSF_EP_TYPE_UNSPECIFIED
        | TE_vtep _ \<Rightarrow> UPSF_EP_TYPE_VTEP
        | TE_l2vpn _ \<Rightarrow> UPSF_EP_TYPE_L2VPN
        | TE_port_vlan _ \<Rightarrow> UPSF_EP_TYPE_PORT_VLAN),
      c_ep_spec = (case ep_transport m of
          TE_not_set \<Rightarrow> EPU_zero
        | TE_vtep v \<Rightarrow> EPU_vtep (c_Vtep v)
        | TE_l2vpn v \<Rightarrow> EPU_l2vpn (c_L2vpn v)
        | TE_port_vlan v \<Rightarrow> EPU_port_vlan (c_PortVlan v))\<rparr>"

text \<open>An endpoint whose tag and union member agree, with readable strings.\<close>

definition ok_Endpoint :: "upsf_network_connection_spec_endpoint_t \<Rightarrow> bool" where [ok_defs]:
  "ok_Endpoint x \<longleftrightarrow> ok_string (c_ep_endpoint_name x) \<and>
     (c_ep_type x = UPSF_EP_TYPE_VTEP \<longrightarrow>
        (case ep_spec_vtep (c_ep_spec x) of None \<Rightarrow> False | Some v \<Rightarrow> ok_Vtep v)) \<and>
     (c_ep_type x = UPSF_EP_TYPE_L2VPN \<longrightarrow> ep_spec_l2vpn (c_ep_spec x) \<noteq> None) \<and>
     (c_ep_type x = UPSF_EP_TYPE_PORT_VLAN \<longrightarrow>
        (case ep_spec_port_vlan (c_ep_spec x) of None \<Rightarrow> False | Some v \<Rightarrow> ok_PortVlan v))"

definition p_transport :: "upsf_network_connection_spec_endpoint_t \<Rightarrow> transport_endpoint \<Rightarrow> transport_endpoint" where
  "p_transport x t =
     (if c_ep_type x = UPSF_EP_TYPE_VTEP then TE_vtep (p_Vtep (the (ep_spec_vtep (c_ep_spec x))))
      else if c_ep_type x = UPSF_EP_TYPE_L2VPN then TE_l2vpn (p_L2vpn (the (ep_spec_l2vpn (c_ep_spec x))))
      else if c_ep_type x = UPSF_EP_TYPE_PORT_VLAN
        then TE_port_vlan (p_PortVlan (the (ep_spec_port_vlan (c_ep_spec x))))
      else t)"

definition p_Endpoint :: "upsf_network_connection_spec_endpoint_t \<Rightarrow> Endpoint \<Rightarrow> Endpoint" where [p_defs]:
  "p_Endpoint x m = \<lparr>ep_endpoint_name = p_string (c_ep_endpoint_name x),
                     ep_transport = p_transport x (ep_transport m)\<rparr>"

definition clean_Endpoint :: "upsf_network_connection_spec_endpoint_t \<Rightarrow> bool" where [clean_defs]:
  "clean_Endpoint x \<longleftrightarrow> clean_string (c_ep_endpoint_name x) \<and>
     (case c_ep_spec x of
        EPU_zero \<Rightarrow> c_ep_type x = UPSF_EP_TYPE_UNSPECIFIED
      | EPU_vtep v \<Rightarrow> c_ep_type x = UPSF_EP_TYPE_VTEP \<and> clean_Vtep v
      | EPU_l2vpn v \<Rightarrow> c_ep_type x = UPSF_EP_TYPE_L2VPN
      | EPU_port_vlan v \<Rightarrow> c_ep_type x = UPSF_EP_TYPE_PORT_VLAN \<and> clean_PortVlan v)"

definition fits_Endpoint :: "Endpoint \<Rightarrow> bool" where [fits_defs]:
  "fits_Endpoint m \<longleftrightarrow> fits_string (ep_endpoint_name m) \<and>
     (case ep_transport m of
        TE_vtep v \<Rightarrow> fits_Vtep v | TE_port_vlan v \<Rightarrow> fits_PortVlan v | _ \<Rightarrow> True)"

definition known_ep_type :: "upsf_network_connection_spec_endpoint_t \<Rightarrow> bool" where
  "known_ep_type x \<longleftrightarrow>
     c_ep_type x \<in> {UPSF_EP_TYPE_VTEP, UPSF_EP_TYPE_L2VPN, UPSF_EP_TYPE_PORT_VLAN}"

lemma map_Endpoint_eq [simp]:
  "map_Endpoint from to = Some (ep_transport from \<noteq> TE_not_set, c_Endpoint from)"
  by (cases "ep_transport from")
    (simp_all add: map_Endpoint_def zero_upsf_network_connection_spec_endpoint_t_def c_Endpoint_def union_reads ep_types)

lemma map_upsf_network_connection_spec_endpoint_t_eq [simp]:
  "ok_Endpoint from \<Longrightarrow> map_upsf_network_connection_spec_endpoint_t from to = Some (known_ep_type from, p_Endpoint from to)"
  by (auto simp: map_upsf_network_connection_spec_endpoint_t_def ok_Endpoint_def p_Endpoint_def p_transport_def
      known_ep_type_def split: option.splits)

lemma clean_c_Endpoint [simp]: "clean_Endpoint (c_Endpoint m)"
  by (simp add: clean_Endpoint_def c_Endpoint_def split: transport_endpoint.split)

lemma clean_Endpoint_ok: "clean_Endpoint x \<Longrightarrow> ok_Endpoint x"
  by (auto simp: clean_Endpoint_def ok_Endpoint_def union_reads ep_types clean_string_ok
      clean_Vtep_ok clean_PortVlan_ok split: ep_spec_u.splits)

lemma p_c_Endpoint [simp]: "fits_Endpoint m \<Longrightarrow> p_Endpoint (c_Endpoint m) dflt_Endpoint = m"
  by (cases m) (auto simp: p_Endpoint_def c_Endpoint_def fits_Endpoint_def p_transport_def
      c_cut_fits union_reads ep_types dflt_Endpoint_def split: transport_endpoint.splits)

lemma c_p_Endpoint [simp]: "clean_Endpoint x \<Longrightarrow> c_Endpoint (p_Endpoint x dflt_Endpoint) = x"
  by (cases x) (auto simp: p_Endpoint_def c_Endpoint_def clean_Endpoint_def p_transport_def
      clean_string_eq union_reads ep_types dflt_Endpoint_def split: ep_spec_u.splits)

subsection \<open>Endpoint arrays\<close>

definition put_Endpoint :: "upsf_network_connection_spec_endpoint_t \<Rightarrow> Endpoint \<Rightarrow> upsf_network_connection_spec_endpoint_t ub" where
  "put_Endpoint e m = do { (_, e') \<leftarrow> map_Endpoint m e; Some e' }"

text \<open>\<^verbatim>\<open>UpsfMapping::map(from.x[i], *to.add_x())\<close>: the added element starts as the default.\<close>

definition new_Endpoint :: "upsf_network_connection_spec_endpoint_t \<Rightarrow> Endpoint ub" where
  "new_Endpoint e = do { (_, m) \<leftarrow> map_upsf_network_connection_spec_endpoint_t e dflt_Endpoint; Some m }"

abbreviation c_Endpoints :: "Endpoint list \<Rightarrow> upsf_network_connection_spec_endpoint_t list" where
  "c_Endpoints \<equiv> c_array zero_upsf_network_connection_spec_endpoint_t c_Endpoint"

abbreviation p_Endpoints :: "upsf_network_connection_spec_endpoint_t list \<Rightarrow> size_t \<Rightarrow> Endpoint list" where
  "p_Endpoints \<equiv> p_array (\<lambda>e. p_Endpoint e dflt_Endpoint)"

abbreviation ok_Endpoints :: "upsf_network_connection_spec_endpoint_t list \<Rightarrow> size_t \<Rightarrow> bool" where
  "ok_Endpoints \<equiv> ok_array ok_Endpoint"

abbreviation clean_Endpoints :: "upsf_network_connection_spec_endpoint_t list \<Rightarrow> size_t \<Rightarrow> bool" where
  "clean_Endpoints \<equiv> clean_array zero_upsf_network_connection_spec_endpoint_t clean_Endpoint"

abbreviation fits_Endpoints :: "Endpoint list \<Rightarrow> bool" where
  "fits_Endpoints \<equiv> fits_list fits_Endpoint"

lemma copy_Endpoints [simp]:
  "copy_n put_Endpoint xs (unat (c_size xs)) zero_endpoints = Some (c_Endpoints xs)"
  by (simp add: zero_endpoints_def copy_n_c_array put_Endpoint_def)

lemma add_Endpoints [simp]:
  "ok_Endpoints a n \<Longrightarrow> add_n new_Endpoint a (unat n) xs = Some (xs @ p_Endpoints a n)"
  by (erule add_n_p_array) (simp add: new_Endpoint_def)

lemma ok_c_Endpoints [simp]: "ok_Endpoints (c_Endpoints xs) (c_size xs)"
  by (simp add: ok_c_array clean_Endpoint_ok)

lemma clean_c_Endpoints [simp]: "clean_Endpoints (c_Endpoints xs) (c_size xs)"
  by (simp add: clean_c_array)

lemma clean_Endpoints_ok: "clean_Endpoints a n \<Longrightarrow> ok_Endpoints a n"
  by (auto intro: ok_array_mono clean_array_ok clean_Endpoint_ok)

lemma p_c_Endpoints [simp]: "fits_Endpoints xs \<Longrightarrow> p_Endpoints (c_Endpoints xs) (c_size xs) = xs"
  by (erule p_array_c_array_fits) simp

lemma c_p_Endpoints [simp]: "clean_Endpoints a n \<Longrightarrow> c_Endpoints (p_Endpoints a n) = a"
  by (erule c_array_p_array) simp

lemma c_size_p_Endpoints [simp]: "clean_Endpoints a n \<Longrightarrow> c_size (p_Endpoints a n) = n"
  by (rule c_size_p_array) (rule clean_array_ok)

section \<open>Properties\<close>

text \<open>
  C31. Mapping an endpoint is defined whatever the target held, succeeds exactly when the
  message has a transport, and gives a structure whose tag is known exactly then and always
  selects the member of the union that was written, so that it can be sent again.
\<close>

theorem endpoint_tag_agrees:
  "\<exists>e. map_Endpoint m x = Some (ep_transport m \<noteq> TE_not_set, e) \<and> clean_Endpoint e \<and>
     known_ep_type e = (ep_transport m \<noteq> TE_not_set) \<and>
     (\<exists>m'. map_upsf_network_connection_spec_endpoint_t e y = Some (ep_transport m \<noteq> TE_not_set, m'))"
proof -
  have "known_ep_type (c_Endpoint m) = (ep_transport m \<noteq> TE_not_set)"
    by (simp add: known_ep_type_def c_Endpoint_def ep_types split: transport_endpoint.split)
  then show ?thesis by (simp add: clean_Endpoint_ok)
qed

end
