(* ===== verification/Codec.thy ===== *)
theory Codec
  imports MapEndpoint
begin

text \<open>
  What the item mappings of \<^verbatim>\<open>UpsfMapping\<close> promise their users (the C wrapper and the
  subscriber), as locales: \<open>item_mapping\<close> for every item type, \<open>lossless_mapping\<close> for the
  types whose messages survive the way to a structure and back, \<open>exact_mapping\<close> for those
  whose structures survive the way to a message and back too. The theories of the six item
  types interpret them. Also here: the metadata and maintenance sub-messages, whose
  assignments every item mapping contains.
\<close>

section \<open>The mapping interface\<close>

locale item_mapping =
  fixes to_c :: "'m \<Rightarrow> 'c \<Rightarrow> (bool \<times> 'c) ub"
    and from_c :: "'c \<Rightarrow> 'm \<Rightarrow> (bool \<times> 'm) ub"
    and c_of :: "'m \<Rightarrow> 'c"
    and p_of :: "'c \<Rightarrow> 'm \<Rightarrow> 'm"
    and dflt :: 'm
    and ok :: "'c \<Rightarrow> bool"
    and clean :: "'c \<Rightarrow> bool"
  assumes to_c_eq: "to_c m x = Some (True, c_of m)"
    and from_c_eq: "ok x \<Longrightarrow> from_c x m = Some (True, p_of x m)"
    and clean_c: "clean (c_of m)"
    and clean_ok: "clean x \<Longrightarrow> ok x"
begin

text \<open>Filling a structure never leaves its bounds, and what it held before is gone.\<close>

lemma to_c_defined: "\<exists>c. to_c m x = Some (True, c) \<and> clean c"
  by (simp add: to_c_eq clean_c)

lemma to_c_forgets: "to_c m x = to_c m y"
  by (simp add: to_c_eq)

lemma to_c_SomeD: "to_c m x = Some (b, c) \<Longrightarrow> b \<and> c = c_of m"
  by (auto simp: to_c_eq)

lemma ok_c: "ok (c_of m)"
  by (rule clean_ok) (rule clean_c)

text \<open>A structure that was received can be sent.\<close>

lemma received_sendable: "to_c m x = Some (b, c) \<Longrightarrow> from_c c y = Some (True, p_of c y)"
  by (auto simp: to_c_eq from_c_eq ok_c)

text \<open>Sending into a fresh message is sending its closed form.\<close>

lemma from_c_SomeD: "ok x \<Longrightarrow> from_c x m = Some (b, y) \<Longrightarrow> b \<and> y = p_of x m"
  by (auto simp: from_c_eq)

end

locale lossless_mapping = item_mapping +
  fixes fits :: "'a \<Rightarrow> bool"
  assumes p_c: "fits m \<Longrightarrow> p_of (c_of m) dflt = m"
begin

text \<open>A message within the limits survives the structure.\<close>

lemma message_roundtrip:
  "fits m \<Longrightarrow> do { (_, c) \<leftarrow> to_c m x; from_c c dflt } = Some (True, m)"
  by (simp add: to_c_eq from_c_eq ok_c p_c)

end

locale exact_mapping = lossless_mapping +
  assumes c_p: "clean x \<Longrightarrow> c_of (p_of x dflt) = x"
begin

text \<open>A canonical structure survives the message.\<close>

lemma structure_roundtrip:
  "clean x \<Longrightarrow> do { (_, m) \<leftarrow> from_c x dflt; to_c m y } = Some (True, x)"
  by (simp add: to_c_eq from_c_eq clean_ok c_p)

text \<open>Receiving, sending and receiving again changes nothing more.\<close>

lemma received_stable:
  "do { (_, c) \<leftarrow> to_c m x; (_, m') \<leftarrow> from_c c dflt; to_c m' y } = to_c m x"
  by (simp add: to_c_eq from_c_eq ok_c clean_c c_p)

end

section \<open>Metadata and maintenance\<close>

definition c_MetaData :: "MetaData \<Rightarrow> upsf_metadata_t" where
  "c_MetaData m = \<lparr>c_md_description = c_string (md_description m),
                   c_md_derived_state = md_derived_state m\<rparr>"

definition p_MetaData :: "upsf_metadata_t \<Rightarrow> MetaData \<Rightarrow> MetaData" where
  "p_MetaData x m = m\<lparr>md_description := p_string (c_md_description x),
                      md_derived_state := c_md_derived_state x\<rparr>"

definition ok_MetaData :: "upsf_metadata_t \<Rightarrow> bool" where
  "ok_MetaData x \<longleftrightarrow> ok_string (c_md_description x)"

definition clean_MetaData :: "upsf_metadata_t \<Rightarrow> bool" where
  "clean_MetaData x \<longleftrightarrow> clean_string (c_md_description x)"

text \<open>The structures have no room for the timestamps.\<close>

definition fits_MetaData :: "MetaData \<Rightarrow> bool" where
  "fits_MetaData m \<longleftrightarrow> fits_string (md_description m) \<and> md_created m = None \<and> md_last_updated m = None"

lemma clean_c_MetaData [simp]: "clean_MetaData (c_MetaData m)"
  by (simp add: clean_MetaData_def c_MetaData_def)

lemma clean_MetaData_ok: "clean_MetaData x \<Longrightarrow> ok_MetaData x"
  by (simp add: clean_MetaData_def ok_MetaData_def clean_string_ok)

lemma p_c_MetaData [simp]: "fits_MetaData m \<Longrightarrow> p_MetaData (c_MetaData m) dflt_MetaData = m"
  by (cases m) (simp add: p_MetaData_def c_MetaData_def fits_MetaData_def dflt_MetaData_def c_cut_fits)

lemma c_p_MetaData [simp]: "clean_MetaData x \<Longrightarrow> c_MetaData (p_MetaData x m) = x"
  by (cases x) (simp add: p_MetaData_def c_MetaData_def clean_MetaData_def clean_string_eq)

definition c_Maintenance :: "Maintenance \<Rightarrow> upsf_maintenance_t" where
  "c_Maintenance m = \<lparr>c_mt_maintenance_req = mt_maintenance_req m\<rparr>"

definition p_Maintenance :: "upsf_maintenance_t \<Rightarrow> Maintenance" where
  "p_Maintenance x = \<lparr>mt_maintenance_req = c_mt_maintenance_req x\<rparr>"

lemma p_c_Maintenance [simp]: "p_Maintenance (c_Maintenance m) = m"
  by (simp add: p_Maintenance_def c_Maintenance_def)

lemma c_p_Maintenance [simp]: "c_Maintenance (p_Maintenance x) = x"
  by (simp add: p_Maintenance_def c_Maintenance_def)

end
