(* ===== verification/MapServiceGateway.thy ===== *)
theory MapServiceGateway
  imports Codec
begin

text \<open>
  \<^verbatim>\<open>UpsfMapping::map\<close> for \<^verbatim>\<open>ServiceGateway\<close>, \<^verbatim>\<open>ServiceGatewayUserPlane\<close> (with its
  \<^verbatim>\<open>Spec\<close> and \<^verbatim>\<open>Status\<close>) and \<^verbatim>\<open>TrafficSteeringFunction\<close> (with its \<^verbatim>\<open>Spec\<close>), both
  directions, and the interpretations of the mapping interface for the three item types.
\<close>

section \<open>ServiceGateway\<close>

definition map_ServiceGateway ::
    "ServiceGateway \<Rightarrow> upsf_service_gateway_t \<Rightarrow> (bool \<times> upsf_service_gateway_t) ub" where
  "map_ServiceGateway from to = do {
     let to = zero_upsf_service_gateway_t;
     s \<leftarrow> put_string (c_sg_name to) (sg_name from);
     let to = to\<lparr>c_sg_name := s\<rparr>;
     s \<leftarrow> put_string (c_md_description (c_sg_metadata to))
            (md_description (sub_msg dflt_MetaData (sg_metadata from)));
     let to = to\<lparr>c_sg_metadata := (c_sg_metadata to)\<lparr>c_md_description := s\<rparr>\<rparr>;
     let to = to\<lparr>c_sg_metadata := (c_sg_metadata to)
                \<lparr>c_md_derived_state := md_derived_state (sub_msg dflt_MetaData (sg_metadata from))\<rparr>\<rparr>;
     Some (True, to)
   }"

definition map_upsf_service_gateway_t ::
    "upsf_service_gateway_t \<Rightarrow> ServiceGateway \<Rightarrow> (bool \<times> ServiceGateway) ub" where
  "map_upsf_service_gateway_t from to = do {
     s \<leftarrow> std_string (c_sg_name from);
     let to = to\<lparr>sg_name := s\<rparr>;
     s \<leftarrow> std_string (c_md_description (c_sg_metadata from));
     let to = to\<lparr>sg_metadata := Some ((sub_msg dflt_MetaData (sg_metadata to))\<lparr>md_description := s\<rparr>)\<rparr>;
     let to = to\<lparr>sg_metadata := Some ((sub_msg dflt_MetaData (sg_metadata to))
                \<lparr>md_derived_state := c_md_derived_state (c_sg_metadata from)\<rparr>)\<rparr>;
     Some (True, to)
   }"

definition c_ServiceGateway :: "ServiceGateway \<Rightarrow> upsf_service_gateway_t" where [c_defs]:
  "c_ServiceGateway m = \<lparr>c_sg_name = c_string (sg_name m),
     c_sg_metadata = c_MetaData (sub_msg dflt_MetaData (sg_metadata m))\<rparr>"

definition p_ServiceGateway :: "upsf_service_gateway_t \<Rightarrow> ServiceGateway \<Rightarrow> ServiceGateway" where [p_defs]:
  "p_ServiceGateway x m = \<lparr>sg_name = p_string (c_sg_name x),
     sg_metadata = Some (p_MetaData (c_sg_metadata x) (sub_msg dflt_MetaData (sg_metadata m)))\<rparr>"

definition ok_ServiceGateway :: "upsf_service_gateway_t \<Rightarrow> bool" where [ok_defs]:
  "ok_ServiceGateway x \<longleftrightarrow> ok_string (c_sg_name x) \<and> ok_MetaData (c_sg_metadata x)"

definition clean_ServiceGateway :: "upsf_service_gateway_t \<Rightarrow> bool" where [clean_defs]:
  "clean_ServiceGateway x \<longleftrightarrow> clean_string (c_sg_name x) \<and> clean_MetaData (c_sg_metadata x)"

definition fits_ServiceGateway :: "ServiceGateway \<Rightarrow> bool" where [fits_defs]:
  "fits_ServiceGateway m \<longleftrightarrow> fits_string (sg_name m) \<and> has_fitting fits_MetaData (sg_metadata m)"

lemma map_ServiceGateway_eq [simp]: "map_ServiceGateway from to = Some (True, c_ServiceGateway from)"
  by (simp add: map_ServiceGateway_def zero_upsf_service_gateway_t_def zero_upsf_metadata_t_def
      c_ServiceGateway_def c_MetaData_def)

lemma map_upsf_service_gateway_t_eq [simp]:
  "ok_ServiceGateway from \<Longrightarrow> map_upsf_service_gateway_t from to = Some (True, p_ServiceGateway from to)"
  by (simp add: map_upsf_service_gateway_t_def ok_ServiceGateway_def ok_MetaData_def
      p_ServiceGateway_def p_MetaData_def)

interpretation sg: exact_mapping map_ServiceGateway map_upsf_service_gateway_t c_ServiceGateway
  p_ServiceGateway dflt_ServiceGateway ok_ServiceGateway clean_ServiceGateway fits_ServiceGateway
proof unfold_locales
  show "clean_ServiceGateway (c_ServiceGateway m)" for m
    by (simp add: clean_ServiceGateway_def c_ServiceGateway_def)
  show "ok_ServiceGateway x" if "clean_ServiceGateway x" for x
    using that by (simp add: clean_ServiceGateway_def ok_ServiceGateway_def clean_string_ok clean_MetaData_ok)
  show "p_ServiceGateway (c_ServiceGateway m) dflt_ServiceGateway = m" if "fits_ServiceGateway m" for m
    using that by (cases m) (auto simp: fits_ServiceGateway_def p_ServiceGateway_def
        c_ServiceGateway_def dflt_ServiceGateway_def c_cut_fits)
  show "c_ServiceGateway (p_ServiceGateway x dflt_ServiceGateway) = x" if "clean_ServiceGateway x" for x
    using that by (cases x) (simp add: clean_ServiceGateway_def p_ServiceGateway_def
        c_ServiceGateway_def clean_string_eq)
qed simp_all

section \<open>ServiceGatewayUserPlane: spec\<close>

definition map_ServiceGatewayUserPlaneSpec ::
    "ServiceGatewayUserPlaneSpec \<Rightarrow> upsf_service_gateway_user_plane_spec_t
      \<Rightarrow> (bool \<times> upsf_service_gateway_user_plane_spec_t) ub" where
  "map_ServiceGatewayUserPlaneSpec from to = do {
     let to = zero_upsf_service_gateway_user_plane_spec_t;
     let to = to\<lparr>c_ups_max_session_count := ups_max_session_count from\<rparr>;
     let to = to\<lparr>c_ups_max_shards := ups_max_shards from\<rparr>;
     let to = to\<lparr>c_ups_supported_service_group_size :=
                  bounded_size (ups_supported_service_group from) UPSF_MAX_ELEMS\<rparr>;
     a \<leftarrow> copy_n put_string (ups_supported_service_group from)
            (unat (c_ups_supported_service_group_size to)) (c_ups_supported_service_group to);
     let to = to\<lparr>c_ups_supported_service_group := a\<rparr>;
     (_, e) \<leftarrow> map_Endpoint (sub_msg dflt_Endpoint (ups_default_endpoint from)) (c_ups_default_endpoint to);
     let to = to\<lparr>c_ups_default_endpoint := e\<rparr>;
     Some (True, to)
   }"

definition map_upsf_service_gateway_user_plane_spec_t ::
    "upsf_service_gateway_user_plane_spec_t \<Rightarrow> ServiceGatewayUserPlaneSpec
      \<Rightarrow> (bool \<times> ServiceGatewayUserPlaneSpec) ub" where
  "map_upsf_service_gateway_user_plane_spec_t from to = do {
     let to = to\<lparr>ups_max_session_count := c_ups_max_session_count from\<rparr>;
     let to = to\<lparr>ups_max_shards := c_ups_max_shards from\<rparr>;
     g \<leftarrow> add_n std_string (c_ups_supported_service_group from)
            (unat (c_ups_supported_service_group_size from)) (ups_supported_service_group to);
     let to = to\<lparr>ups_supported_service_group := g\<rparr>;
     (_, e) \<leftarrow> map_upsf_network_connection_spec_endpoint_t (c_ups_default_endpoint from)
                 (sub_msg dflt_Endpoint (ups_default_endpoint to));
     let to = to\<lparr>ups_default_endpoint := Some e\<rparr>;
     Some (True, to)
   }"

definition c_ServiceGatewayUserPlaneSpec ::
    "ServiceGatewayUserPlaneSpec \<Rightarrow> upsf_service_gateway_user_plane_spec_t" where [c_defs]:
  "c_ServiceGatewayUserPlaneSpec m = \<lparr>c_ups_max_session_count = ups_max_session_count m,
     c_ups_max_shards = ups_max_shards m,
     c_ups_supported_service_group = c_strings (ups_supported_service_group m),
     c_ups_supported_service_group_size = c_size (ups_supported_service_group m),
     c_ups_default_endpoint = c_Endpoint (sub_msg dflt_Endpoint (ups_default_endpoint m))\<rparr>"

definition p_ServiceGatewayUserPlaneSpec ::
    "upsf_service_gateway_user_plane_spec_t \<Rightarrow> ServiceGatewayUserPlaneSpec
      \<Rightarrow> ServiceGatewayUserPlaneSpec" where [p_defs]:
  "p_ServiceGatewayUserPlaneSpec x m = \<lparr>ups_max_session_count = c_ups_max_session_count x,
     ups_max_shards = c_ups_max_shards x,
     ups_supported_service_group = ups_supported_service_group m @
       p_strings (c_ups_supported_service_group x) (c_ups_supported_service_group_size x),
     ups_default_endpoint = Some (p_Endpoint (c_ups_default_endpoint x)
       (sub_msg dflt_Endpoint (ups_default_endpoint m)))\<rparr>"

definition ok_ServiceGatewayUserPlaneSpec :: "upsf_service_gateway_user_plane_spec_t \<Rightarrow> bool"
  where [ok_defs]:
  "ok_ServiceGatewayUserPlaneSpec x \<longleftrightarrow>
     ok_strings (c_ups_supported_service_group x) (c_ups_supported_service_group_size x) \<and>
     ok_Endpoint (c_ups_default_endpoint x)"

definition clean_ServiceGatewayUserPlaneSpec :: "upsf_service_gateway_user_plane_spec_t \<Rightarrow> bool"
  where [clean_defs]:
  "clean_ServiceGatewayUserPlaneSpec x \<longleftrightarrow>
     clean_strings (c_ups_supported_service_group x) (c_ups_supported_service_group_size x) \<and>
     clean_Endpoint (c_ups_default_endpoint x)"

definition fits_ServiceGatewayUserPlaneSpec :: "ServiceGatewayUserPlaneSpec \<Rightarrow> bool" where [fits_defs]:
  "fits_ServiceGatewayUserPlaneSpec m \<longleftrightarrow> fits_strings (ups_supported_service_group m) \<and>
     has_fitting fits_Endpoint (ups_default_endpoint m)"

lemma map_ServiceGatewayUserPlaneSpec_eq [simp]:
  "map_ServiceGatewayUserPlaneSpec from to = Some (True, c_ServiceGatewayUserPlaneSpec from)"
  by (simp add: map_ServiceGatewayUserPlaneSpec_def zero_upsf_service_gateway_user_plane_spec_t_def
      c_ServiceGatewayUserPlaneSpec_def)

lemma map_upsf_service_gateway_user_plane_spec_t_eq [simp]:
  "ok_ServiceGatewayUserPlaneSpec from \<Longrightarrow>
   map_upsf_service_gateway_user_plane_spec_t from to = Some (True, p_ServiceGatewayUserPlaneSpec from to)"
  by (simp add: map_upsf_service_gateway_user_plane_spec_t_def ok_ServiceGatewayUserPlaneSpec_def
      p_ServiceGatewayUserPlaneSpec_def)

lemma clean_c_ServiceGatewayUserPlaneSpec [simp]:
  "clean_ServiceGatewayUserPlaneSpec (c_ServiceGatewayUserPlaneSpec m)"
  by (simp add: clean_ServiceGatewayUserPlaneSpec_def c_ServiceGatewayUserPlaneSpec_def)

lemma clean_ServiceGatewayUserPlaneSpec_ok:
  "clean_ServiceGatewayUserPlaneSpec x \<Longrightarrow> ok_ServiceGatewayUserPlaneSpec x"
  by (simp add: clean_ServiceGatewayUserPlaneSpec_def ok_ServiceGatewayUserPlaneSpec_def
      clean_strings_ok clean_Endpoint_ok)

lemma p_c_ServiceGatewayUserPlaneSpec [simp]:
  "fits_ServiceGatewayUserPlaneSpec m \<Longrightarrow>
   p_ServiceGatewayUserPlaneSpec (c_ServiceGatewayUserPlaneSpec m) dflt_ServiceGatewayUserPlaneSpec = m"
  by (cases m) (auto simp: p_ServiceGatewayUserPlaneSpec_def c_ServiceGatewayUserPlaneSpec_def
      fits_ServiceGatewayUserPlaneSpec_def dflt_ServiceGatewayUserPlaneSpec_def)

lemma c_p_ServiceGatewayUserPlaneSpec [simp]:
  "clean_ServiceGatewayUserPlaneSpec x \<Longrightarrow>
   c_ServiceGatewayUserPlaneSpec (p_ServiceGatewayUserPlaneSpec x dflt_ServiceGatewayUserPlaneSpec) = x"
  by (cases x) (simp add: p_ServiceGatewayUserPlaneSpec_def c_ServiceGatewayUserPlaneSpec_def
      clean_ServiceGatewayUserPlaneSpec_def dflt_ServiceGatewayUserPlaneSpec_def)

section \<open>ServiceGatewayUserPlane: status\<close>

definition map_ServiceGatewayUserPlaneStatus ::
    "ServiceGatewayUserPlaneStatus \<Rightarrow> upsf_service_gateway_user_plane_status_t
      \<Rightarrow> (bool \<times> upsf_service_gateway_user_plane_status_t) ub" where
  "map_ServiceGatewayUserPlaneStatus from to = do {
     let to = zero_upsf_service_gateway_user_plane_status_t;
     let to = to\<lparr>c_upt_allocated_session_count := upt_allocated_session_count from\<rparr>;
     let to = to\<lparr>c_upt_allocated_shards := upt_allocated_shards from\<rparr>;
     Some (True, to)
   }"

definition map_upsf_service_gateway_user_plane_status_t ::
    "upsf_service_gateway_user_plane_status_t \<Rightarrow> ServiceGatewayUserPlaneStatus
      \<Rightarrow> (bool \<times> ServiceGatewayUserPlaneStatus) ub" where
  "map_upsf_service_gateway_user_plane_status_t from to = do {
     let to = to\<lparr>upt_allocated_session_count := c_upt_allocated_session_count from\<rparr>;
     let to = to\<lparr>upt_allocated_shards := c_upt_allocated_shards from\<rparr>;
     Some (True, to)
   }"

definition c_ServiceGatewayUserPlaneStatus ::
    "ServiceGatewayUserPlaneStatus \<Rightarrow> upsf_service_gateway_user_plane_status_t" where [c_defs]:
  "c_ServiceGatewayUserPlaneStatus m =
     \<lparr>c_upt_allocated_session_count = upt_allocated_session_count m,
      c_upt_allocated_shards = upt_allocated_shards m\<rparr>"

definition p_ServiceGatewayUserPlaneStatus ::
    "upsf_service_gateway_user_plane_status_t \<Rightarrow> ServiceGatewayUserPlaneStatus" where [p_defs]:
  "p_ServiceGatewayUserPlaneStatus x =
     \<lparr>upt_allocated_session_count = c_upt_allocated_session_count x,
      upt_allocated_shards = c_upt_allocated_shards x\<rparr>"

lemma map_ServiceGatewayUserPlaneStatus_eq [simp]:
  "map_ServiceGatewayUserPlaneStatus from to = Some (True, c_ServiceGatewayUserPlaneStatus from)"
  by (simp add: map_ServiceGatewayUserPlaneStatus_def c_ServiceGatewayUserPlaneStatus_def
      zero_upsf_service_gateway_user_plane_status_t_def)

lemma map_upsf_service_gateway_user_plane_status_t_eq [simp]:
  "map_upsf_service_gateway_user_plane_status_t from to = Some (True, p_ServiceGatewayUserPlaneStatus from)"
  by (simp add: map_upsf_service_gateway_user_plane_status_t_def p_ServiceGatewayUserPlaneStatus_def)

lemma p_c_ServiceGatewayUserPlaneStatus [simp]:
  "p_ServiceGatewayUserPlaneStatus (c_ServiceGatewayUserPlaneStatus m) = m"
  by (simp add: p_ServiceGatewayUserPlaneStatus_def c_ServiceGatewayUserPlaneStatus_def)

lemma c_p_ServiceGatewayUserPlaneStatus [simp]:
  "c_ServiceGatewayUserPlaneStatus (p_ServiceGatewayUserPlaneStatus x) = x"
  by (simp add: p_ServiceGatewayUserPlaneStatus_def c_ServiceGatewayUserPlaneStatus_def)

section \<open>ServiceGatewayUserPlane\<close>

definition map_ServiceGatewayUserPlane ::
    "ServiceGatewayUserPlane \<Rightarrow> upsf_service_gateway_user_plane_t
      \<Rightarrow> (bool \<times> upsf_service_gateway_user_plane_t) ub" where
  "map_ServiceGatewayUserPlane from to = do {
     let to = zero_upsf_service_gateway_user_plane_t;
     s \<leftarrow> put_string (c_up_name to) (up_name from);
     let to = to\<lparr>c_up_name := s\<rparr>;
     s \<leftarrow> put_string (c_md_description (c_up_metadata to))
            (md_description (sub_msg dflt_MetaData (up_metadata from)));
     let to = to\<lparr>c_up_metadata := (c_up_metadata to)\<lparr>c_md_description := s\<rparr>\<rparr>;
     s \<leftarrow> put_string (c_up_service_gateway_name to) (up_service_gateway_name from);
     let to = to\<lparr>c_up_service_gateway_name := s\<rparr>;
     let to = to\<lparr>c_up_metadata := (c_up_metadata to)
                \<lparr>c_md_derived_state := md_derived_state (sub_msg dflt_MetaData (up_metadata from))\<rparr>\<rparr>;
     let to = to\<lparr>c_up_maintenance := (c_up_maintenance to)
                \<lparr>c_mt_maintenance_req :=
                   mt_maintenance_req (sub_msg dflt_Maintenance (up_maintenance from))\<rparr>\<rparr>;
     (_, sp) \<leftarrow> map_ServiceGatewayUserPlaneSpec
                  (sub_msg dflt_ServiceGatewayUserPlaneSpec (up_spec from)) (c_up_spec to);
     let to = to\<lparr>c_up_spec := sp\<rparr>;
     (_, st) \<leftarrow> map_ServiceGatewayUserPlaneStatus
                  (sub_msg dflt_ServiceGatewayUserPlaneStatus (up_status from)) (c_up_status to);
     let to = to\<lparr>c_up_status := st\<rparr>;
     Some (True, to)
   }"

definition map_upsf_service_gateway_user_plane_t ::
    "upsf_service_gateway_user_plane_t \<Rightarrow> ServiceGatewayUserPlane
      \<Rightarrow> (bool \<times> ServiceGatewayUserPlane) ub" where
  "map_upsf_service_gateway_user_plane_t from to = do {
     s \<leftarrow> std_string (c_up_name from);
     let to = to\<lparr>up_name := s\<rparr>;
     s \<leftarrow> std_string (c_md_description (c_up_metadata from));
     let to = to\<lparr>up_metadata := Some ((sub_msg dflt_MetaData (up_metadata to))\<lparr>md_description := s\<rparr>)\<rparr>;
     let to = to\<lparr>up_metadata := Some ((sub_msg dflt_MetaData (up_metadata to))
                \<lparr>md_derived_state := c_md_derived_state (c_up_metadata from)\<rparr>)\<rparr>;
     s \<leftarrow> std_string (c_up_service_gateway_name from);
     let to = to\<lparr>up_service_gateway_name := s\<rparr>;
     let to = to\<lparr>up_maintenance := Some ((sub_msg dflt_Maintenance (up_maintenance to))
                \<lparr>mt_maintenance_req := c_mt_maintenance_req (c_up_maintenance from)\<rparr>)\<rparr>;
     (_, sp) \<leftarrow> map_upsf_service_gateway_user_plane_spec_t (c_up_spec from)
                  (sub_msg dflt_ServiceGatewayUserPlaneSpec (up_spec to));
     let to = to\<lparr>up_spec := Some sp\<rparr>;
     (_, st) \<leftarrow> map_upsf_service_gateway_user_plane_status_t (c_up_status from)
                  (sub_msg dflt_ServiceGatewayUserPlaneStatus (up_status to));
     let to = to\<lparr>up_status := Some st\<rparr>;
     Some (True, to)
   }"

definition c_ServiceGatewayUserPlane ::
    "ServiceGatewayUserPlane \<Rightarrow> upsf_service_gateway_user_plane_t" where [c_defs]:
  "c_ServiceGatewayUserPlane m = \<lparr>c_up_name = c_string (up_name m),
     c_up_metadata = c_MetaData (sub_msg dflt_MetaData (up_metadata m)),
     c_up_service_gateway_name = c_string (up_service_gateway_name m),
     c_up_maintenance = c_Maintenance (sub_msg dflt_Maintenance (up_maintenance m)),
     c_up_spec = c_ServiceGatewayUserPlaneSpec (sub_msg dflt_ServiceGatewayUserPlaneSpec (up_spec m)),
     c_up_status = c_ServiceGatewayUserPlaneStatus
       (sub_msg dflt_ServiceGatewayUserPlaneStatus (up_status m))\<rparr>"

definition p_ServiceGatewayUserPlane ::
    "upsf_service_gateway_user_plane_t \<Rightarrow> ServiceGatewayUserPlane \<Rightarrow> ServiceGatewayUserPlane"
  where [p_defs]:
  "p_ServiceGatewayUserPlane x m = \<lparr>up_name = p_string (c_up_name x),
     up_service_gateway_name = p_string (c_up_service_gateway_name x),
     up_metadata = Some (p_MetaData (c_up_metadata x) (sub_msg dflt_MetaData (up_metadata m))),
     up_maintenance = Some (p_Maintenance (c_up_maintenance x)),
     up_spec = Some (p_ServiceGatewayUserPlaneSpec (c_up_spec x)
       (sub_msg dflt_ServiceGatewayUserPlaneSpec (up_spec m))),
     up_status = Some (p_ServiceGatewayUserPlaneStatus (c_up_status x))\<rparr>"

definition ok_ServiceGatewayUserPlane :: "upsf_service_gateway_user_plane_t \<Rightarrow> bool" where [ok_defs]:
  "ok_ServiceGatewayUserPlane x \<longleftrightarrow> ok_string (c_up_name x) \<and> ok_MetaData (c_up_metadata x) \<and>
     ok_string (c_up_service_gateway_name x) \<and> ok_ServiceGatewayUserPlaneSpec (c_up_spec x)"

definition clean_ServiceGatewayUserPlane :: "upsf_service_gateway_user_plane_t \<Rightarrow> bool"
  where [clean_defs]:
  "clean_ServiceGatewayUserPlane x \<longleftrightarrow> clean_string (c_up_name x) \<and> clean_MetaData (c_up_metadata x) \<and>
     clean_string (c_up_service_gateway_name x) \<and> clean_ServiceGatewayUserPlaneSpec (c_up_spec x)"

definition fits_ServiceGatewayUserPlane :: "ServiceGatewayUserPlane \<Rightarrow> bool" where [fits_defs]:
  "fits_ServiceGatewayUserPlane m \<longleftrightarrow> fits_string (up_name m) \<and>
     fits_string (up_service_gateway_name m) \<and> has_fitting fits_MetaData (up_metadata m) \<and>
     up_maintenance m \<noteq> None \<and> has_fitting fits_ServiceGatewayUserPlaneSpec (up_spec m) \<and>
     up_status m \<noteq> None"

lemma map_ServiceGatewayUserPlane_eq [simp]:
  "map_ServiceGatewayUserPlane from to = Some (True, c_ServiceGatewayUserPlane from)"
  by (simp add: map_ServiceGatewayUserPlane_def zero_upsf_service_gateway_user_plane_t_def
      zero_upsf_metadata_t_def zero_upsf_maintenance_t_def
      c_ServiceGatewayUserPlane_def c_MetaData_def c_Maintenance_def)

lemma map_upsf_service_gateway_user_plane_t_eq [simp]:
  "ok_ServiceGatewayUserPlane from \<Longrightarrow>
   map_upsf_service_gateway_user_plane_t from to = Some (True, p_ServiceGatewayUserPlane from to)"
  by (simp add: map_upsf_service_gateway_user_plane_t_def ok_ServiceGatewayUserPlane_def
      ok_MetaData_def p_ServiceGatewayUserPlane_def p_MetaData_def p_Maintenance_def)

interpretation up: exact_mapping map_ServiceGatewayUserPlane map_upsf_service_gateway_user_plane_t
  c_ServiceGatewayUserPlane p_ServiceGatewayUserPlane dflt_ServiceGatewayUserPlane
  ok_ServiceGatewayUserPlane clean_ServiceGatewayUserPlane fits_ServiceGatewayUserPlane
proof unfold_locales
  show "clean_ServiceGatewayUserPlane (c_ServiceGatewayUserPlane m)" for m
    by (simp add: clean_ServiceGatewayUserPlane_def c_ServiceGatewayUserPlane_def)
  show "ok_ServiceGatewayUserPlane x" if "clean_ServiceGatewayUserPlane x" for x
    using that by (simp add: clean_ServiceGatewayUserPlane_def ok_ServiceGatewayUserPlane_def
        clean_string_ok clean_MetaData_ok clean_ServiceGatewayUserPlaneSpec_ok)
  show "p_ServiceGatewayUserPlane (c_ServiceGatewayUserPlane m) dflt_ServiceGatewayUserPlane = m"
    if "fits_ServiceGatewayUserPlane m" for m
    using that by (cases m) (auto simp: fits_ServiceGatewayUserPlane_def p_ServiceGatewayUserPlane_def
        c_ServiceGatewayUserPlane_def dflt_ServiceGatewayUserPlane_def c_cut_fits)
  show "c_ServiceGatewayUserPlane (p_ServiceGatewayUserPlane x dflt_ServiceGatewayUserPlane) = x"
    if "clean_ServiceGatewayUserPlane x" for x
    using that by (cases x) (simp add: clean_ServiceGatewayUserPlane_def p_ServiceGatewayUserPlane_def
        c_ServiceGatewayUserPlane_def dflt_ServiceGatewayUserPlane_def clean_string_eq)
qed simp_all

section \<open>TrafficSteeringFunction\<close>

definition map_TrafficSteeringFunctionSpec ::
    "TrafficSteeringFunctionSpec \<Rightarrow> upsf_traffic_steering_function_spec_t
      \<Rightarrow> (bool \<times> upsf_traffic_steering_function_spec_t) ub" where
  "map_TrafficSteeringFunctionSpec from to = do {
     let to = zero_upsf_traffic_steering_function_spec_t;
     (_, e) \<leftarrow> map_Endpoint (sub_msg dflt_Endpoint (tss_default_endpoint from)) (c_tss_default_endpoint to);
     let to = to\<lparr>c_tss_default_endpoint := e\<rparr>;
     Some (True, to)
   }"

definition map_upsf_traffic_steering_function_spec_t ::
    "upsf_traffic_steering_function_spec_t \<Rightarrow> TrafficSteeringFunctionSpec
      \<Rightarrow> (bool \<times> TrafficSteeringFunctionSpec) ub" where
  "map_upsf_traffic_steering_function_spec_t from to = do {
     (_, e) \<leftarrow> map_upsf_network_connection_spec_endpoint_t (c_tss_default_endpoint from)
                 (sub_msg dflt_Endpoint (tss_default_endpoint to));
     let to = to\<lparr>tss_default_endpoint := Some e\<rparr>;
     Some (True, to)
   }"

definition map_TrafficSteeringFunction ::
    "TrafficSteeringFunction \<Rightarrow> upsf_traffic_steering_function_t
      \<Rightarrow> (bool \<times> upsf_traffic_steering_function_t) ub" where
  "map_TrafficSteeringFunction from to = do {
     let to = zero_upsf_traffic_steering_function_t;
     s \<leftarrow> put_string (c_tsf_name to) (tsf_name from);
     let to = to\<lparr>c_tsf_name := s\<rparr>;
     s \<leftarrow> put_string (c_md_description (c_tsf_metadata to))
            (md_description (sub_msg dflt_MetaData (tsf_metadata from)));
     let to = to\<lparr>c_tsf_metadata := (c_tsf_metadata to)\<lparr>c_md_description := s\<rparr>\<rparr>;
     let to = to\<lparr>c_tsf_metadata := (c_tsf_metadata to)
                \<lparr>c_md_derived_state := md_derived_state (sub_msg dflt_MetaData (tsf_metadata from))\<rparr>\<rparr>;
     (_, sp) \<leftarrow> map_TrafficSteeringFunctionSpec
                  (sub_msg dflt_TrafficSteeringFunctionSpec (tsf_spec from)) (c_tsf_spec to);
     let to = to\<lparr>c_tsf_spec := sp\<rparr>;
     Some (True, to)
   }"

definition map_upsf_traffic_steering_function_t ::
    "upsf_traffic_steering_function_t \<Rightarrow> TrafficSteeringFunction
      \<Rightarrow> (bool \<times> TrafficSteeringFunction) ub" where
  "map_upsf_traffic_steering_function_t from to = do {
     s \<leftarrow> std_string (c_tsf_name from);
     let to = to\<lparr>tsf_name := s\<rparr>;
     s \<leftarrow> std_string (c_md_description (c_tsf_metadata from));
     let to = to\<lparr>tsf_metadata := Some ((sub_msg dflt_MetaData (tsf_metadata to))\<lparr>md_description := s\<rparr>)\<rparr>;
     let to = to\<lparr>tsf_metadata := Some ((sub_msg dflt_MetaData (tsf_metadata to))
                \<lparr>md_derived_state := c_md_derived_state (c_tsf_metadata from)\<rparr>)\<rparr>;
     (_, sp) \<leftarrow> map_upsf_traffic_steering_function_spec_t (c_tsf_spec from)
                  (sub_msg dflt_TrafficSteeringFunctionSpec (tsf_spec to));
     let to = to\<lparr>tsf_spec := Some sp\<rparr>;
     Some (True, to)
   }"

definition c_TrafficSteeringFunctionSpec ::
    "TrafficSteeringFunctionSpec \<Rightarrow> upsf_traffic_steering_function_spec_t" where [c_defs]:
  "c_TrafficSteeringFunctionSpec m =
     \<lparr>c_tss_default_endpoint = c_Endpoint (sub_msg dflt_Endpoint (tss_default_endpoint m))\<rparr>"

definition p_TrafficSteeringFunctionSpec ::
    "upsf_traffic_steering_function_spec_t \<Rightarrow> TrafficSteeringFunctionSpec
      \<Rightarrow> TrafficSteeringFunctionSpec" where [p_defs]:
  "p_TrafficSteeringFunctionSpec x m = \<lparr>tss_default_endpoint =
     Some (p_Endpoint (c_tss_default_endpoint x) (sub_msg dflt_Endpoint (tss_default_endpoint m)))\<rparr>"

definition c_TrafficSteeringFunction ::
    "TrafficSteeringFunction \<Rightarrow> upsf_traffic_steering_function_t" where [c_defs]:
  "c_TrafficSteeringFunction m = \<lparr>c_tsf_name = c_string (tsf_name m),
     c_tsf_metadata = c_MetaData (sub_msg dflt_MetaData (tsf_metadata m)),
     c_tsf_spec = c_TrafficSteeringFunctionSpec (sub_msg dflt_TrafficSteeringFunctionSpec (tsf_spec m))\<rparr>"

definition p_TrafficSteeringFunction ::
    "upsf_traffic_steering_function_t \<Rightarrow> TrafficSteeringFunction \<Rightarrow> TrafficSteeringFunction"
  where [p_defs]:
  "p_TrafficSteeringFunction x m = \<lparr>tsf_name = p_string (c_tsf_name x),
     tsf_metadata = Some (p_MetaData (c_tsf_metadata x) (sub_msg dflt_MetaData (tsf_metadata m))),
     tsf_spec = Some (p_TrafficSteeringFunctionSpec (c_tsf_spec x)
       (sub_msg dflt_TrafficSteeringFunctionSpec (tsf_spec m)))\<rparr>"

definition ok_TrafficSteeringFunction :: "upsf_traffic_steering_function_t \<Rightarrow> bool" where [ok_defs]:
  "ok_TrafficSteeringFunction x \<longleftrightarrow> ok_string (c_tsf_name x) \<and> ok_MetaData (c_tsf_metadata x) \<and>
     ok_Endpoint (c_tss_default_endpoint (c_tsf_spec x))"

definition clean_TrafficSteeringFunction :: "upsf_traffic_steering_function_t \<Rightarrow> bool"
  where [clean_defs]:
  "clean_TrafficSteeringFunction x \<longleftrightarrow> clean_string (c_tsf_name x) \<and>
     clean_MetaData (c_tsf_metadata x) \<and> clean_Endpoint (c_tss_default_endpoint (c_tsf_spec x))"

definition fits_TrafficSteeringFunctionSpec :: "TrafficSteeringFunctionSpec \<Rightarrow> bool" where [fits_defs]:
  "fits_TrafficSteeringFunctionSpec m \<longleftrightarrow> has_fitting fits_Endpoint (tss_default_endpoint m)"

definition fits_TrafficSteeringFunction :: "TrafficSteeringFunction \<Rightarrow> bool" where [fits_defs]:
  "fits_TrafficSteeringFunction m \<longleftrightarrow> fits_string (tsf_name m) \<and>
     has_fitting fits_MetaData (tsf_metadata m) \<and>
     has_fitting fits_TrafficSteeringFunctionSpec (tsf_spec m)"

lemma map_TrafficSteeringFunctionSpec_eq [simp]:
  "map_TrafficSteeringFunctionSpec from to = Some (True, c_TrafficSteeringFunctionSpec from)"
  by (simp add: map_TrafficSteeringFunctionSpec_def c_TrafficSteeringFunctionSpec_def
      zero_upsf_traffic_steering_function_spec_t_def)

lemma map_upsf_traffic_steering_function_spec_t_eq [simp]:
  "ok_Endpoint (c_tss_default_endpoint from) \<Longrightarrow>
   map_upsf_traffic_steering_function_spec_t from to = Some (True, p_TrafficSteeringFunctionSpec from to)"
  by (simp add: map_upsf_traffic_steering_function_spec_t_def p_TrafficSteeringFunctionSpec_def)

lemma map_TrafficSteeringFunction_eq [simp]:
  "map_TrafficSteeringFunction from to = Some (True, c_TrafficSteeringFunction from)"
  by (simp add: map_TrafficSteeringFunction_def zero_upsf_traffic_steering_function_t_def
      zero_upsf_metadata_t_def c_TrafficSteeringFunction_def c_MetaData_def)

lemma map_upsf_traffic_steering_function_t_eq [simp]:
  "ok_TrafficSteeringFunction from \<Longrightarrow>
   map_upsf_traffic_steering_function_t from to = Some (True, p_TrafficSteeringFunction from to)"
  by (simp add: map_upsf_traffic_steering_function_t_def ok_TrafficSteeringFunction_def
      ok_MetaData_def p_TrafficSteeringFunction_def p_MetaData_def)

interpretation tsf: exact_mapping map_TrafficSteeringFunction map_upsf_traffic_steering_function_t
  c_TrafficSteeringFunction p_TrafficSteeringFunction dflt_TrafficSteeringFunction
  ok_TrafficSteeringFunction clean_TrafficSteeringFunction fits_TrafficSteeringFunction
proof unfold_locales
  show "clean_TrafficSteeringFunction (c_TrafficSteeringFunction m)" for m
    by (simp add: clean_TrafficSteeringFunction_def c_TrafficSteeringFunction_def
        c_TrafficSteeringFunctionSpec_def)
  show "ok_TrafficSteeringFunction x" if "clean_TrafficSteeringFunction x" for x
    using that by (simp add: clean_TrafficSteeringFunction_def ok_TrafficSteeringFunction_def
        clean_string_ok clean_MetaData_ok clean_Endpoint_ok)
  show "p_TrafficSteeringFunction (c_TrafficSteeringFunction m) dflt_TrafficSteeringFunction = m"
    if "fits_TrafficSteeringFunction m" for m
    using that by (cases m; cases "sub_msg dflt_TrafficSteeringFunctionSpec (tsf_spec m)")
      (auto simp: fits_TrafficSteeringFunction_def fits_TrafficSteeringFunctionSpec_def
        p_TrafficSteeringFunction_def c_TrafficSteeringFunction_def
        p_TrafficSteeringFunctionSpec_def c_TrafficSteeringFunctionSpec_def dflt_TrafficSteeringFunction_def dflt_TrafficSteeringFunctionSpec_def c_cut_fits)
  show "c_TrafficSteeringFunction (p_TrafficSteeringFunction x dflt_TrafficSteeringFunction) = x"
    if "clean_TrafficSteeringFunction x" for x
    using that by (cases x; cases "c_tsf_spec x")
      (simp add: clean_TrafficSteeringFunction_def p_TrafficSteeringFunction_def
        c_TrafficSteeringFunction_def p_TrafficSteeringFunctionSpec_def c_TrafficSteeringFunctionSpec_def
        dflt_TrafficSteeringFunction_def dflt_TrafficSteeringFunctionSpec_def clean_string_eq)
qed simp_all

section \<open>Properties\<close>

definition example_user_plane :: ServiceGatewayUserPlane where
  "example_user_plane = \<lparr>up_name = ''up-1'', up_service_gateway_name = ''sg-1'',
     up_metadata = Some \<lparr>md_description = ''first'', md_created = None, md_last_updated = None,
       md_derived_state = 2\<rparr>,
     up_maintenance = Some \<lparr>mt_maintenance_req = 1\<rparr>,
     up_spec = Some \<lparr>ups_max_session_count = 1000, ups_max_shards = 4,
       ups_supported_service_group = [''gold'', ''silver''],
       ups_default_endpoint = Some \<lparr>ep_endpoint_name = ''ep'',
         ep_transport = TE_vtep \<lparr>vt_ip_address = ''10.0.0.1'', vt_udp_port = 4789, vt_vni = 7\<rparr>\<rparr>\<rparr>,
     up_status = Some \<lparr>upt_allocated_session_count = 3, upt_allocated_shards = 1\<rparr>\<rparr>"

lemma example_user_plane_fits: "fits_ServiceGatewayUserPlane example_user_plane"
  by (simp add: example_user_plane_def fits_ServiceGatewayUserPlane_def
      fits_ServiceGatewayUserPlaneSpec_def fits_Endpoint_def fits_Vtep_def fits_MetaData_def
      fits_list_def fits_string_def UPSF_MAX_STRING_SIZE_def UPSF_MAX_ELEMS_def)

text \<open>
  C2. A user plane message within the limits of the structures (strings below 64 bytes
  without NUL, at most 16 service groups, every sub-message present, no timestamps) comes back
  unchanged from the way to the structure and back.
\<close>

theorem user_plane_message_roundtrip:
  assumes "fits_ServiceGatewayUserPlane m"
  shows "do { (_, c) \<leftarrow> map_ServiceGatewayUserPlane m x;
              map_upsf_service_gateway_user_plane_t c dflt_ServiceGatewayUserPlane } = Some (True, m)"
  using up.message_roundtrip[OF assms] .

lemma user_plane_message_roundtrip_witness:
  "do { (_, c) \<leftarrow> map_ServiceGatewayUserPlane example_user_plane zero_upsf_service_gateway_user_plane_t;
        map_upsf_service_gateway_user_plane_t c dflt_ServiceGatewayUserPlane }
   = Some (True, example_user_plane)"
  by (rule user_plane_message_roundtrip) (rule example_user_plane_fits)

text \<open>
  C32. Sending a user plane specification whose count of service groups exceeds the 16 of the
  array reads out of bounds: the count is not checked.
\<close>

theorem user_plane_count_unchecked:
  assumes "length (c_ups_supported_service_group x) = UPSF_MAX_ELEMS"
    and "UPSF_MAX_ELEMS < unat (c_ups_supported_service_group_size x)"
  shows "map_upsf_service_gateway_user_plane_spec_t x m = None"
proof -
  have "add_n std_string (c_ups_supported_service_group x)
      (unat (c_ups_supported_service_group_size x)) gs = None" for gs
    by (rule add_n_undefined[of UPSF_MAX_ELEMS]) (use assms in simp_all)
  then show ?thesis by (simp add: map_upsf_service_gateway_user_plane_spec_t_def)
qed

lemma user_plane_count_unchecked_witness:
  "map_upsf_service_gateway_user_plane_spec_t
     (zero_upsf_service_gateway_user_plane_spec_t\<lparr>c_ups_supported_service_group_size := 17\<rparr>)
     dflt_ServiceGatewayUserPlaneSpec = None"
  by (rule user_plane_count_unchecked)
    (simp_all add: zero_upsf_service_gateway_user_plane_spec_t_def zero_strings_def UPSF_MAX_ELEMS_def)

end
