(* ===== verification/KeyValues.thy ===== *)
theory KeyValues
  imports Codec "HOL-Library.List_Lexorder" "HOL-Library.Char_ord"
begin

text \<open>
  Protobuf map fields and the arrays of \<^verbatim>\<open>upsf_key_value_t\<close> they are mapped to. The
  iteration order of a protobuf map is not specified, so every function that iterates over
  one takes the order as a parameter \<open>ord\<close>; \<open>valid_order\<close> is what the protobuf
  documentation promises: each entry is visited exactly once.
\<close>

definition valid_order :: "(('k, 'v) fmap \<Rightarrow> ('k \<times> 'v) list) \<Rightarrow> bool" where
  "valid_order ord \<longleftrightarrow> (\<forall>m. distinct (map fst (ord m)) \<and> map_of (ord m) = fmlookup m)"

lemma valid_orderD:
  "valid_order ord \<Longrightarrow> distinct (map fst (ord m))"
  "valid_order ord \<Longrightarrow> map_of (ord m) = fmlookup m"
  by (simp_all add: valid_order_def)

lemma valid_order_set:
  assumes "valid_order ord"
  shows "(k, v) \<in> set (ord m) \<longleftrightarrow> fmlookup m k = Some v"
  using valid_orderD[OF assms, of m] by (metis map_of_SomeD map_of_is_SomeI)

lemma map_of_rev_distinct: "distinct (map fst xs) \<Longrightarrow> map_of (rev xs) = map_of xs"
  by (simp add: map_of_inject_set rev_map[symmetric])

lemma fold_fmupd_lookup:
  "fmlookup (fold (\<lambda>(k, v). fmupd k v) xs m) = fmlookup m ++ map_of (rev xs)"
  by (induction xs arbitrary: m) (auto simp: map_add_def fun_eq_iff split: option.splits)

text \<open>Inserting the entries of a map, in any iteration order, builds the map again.\<close>

lemma fold_fmupd_order: "valid_order ord \<Longrightarrow> fold (\<lambda>(k, v). fmupd k v) (ord m) fmempty = m"
  by (rule fmap_ext) (simp add: fold_fmupd_lookup map_of_rev_distinct valid_orderD map_add_def
      split: option.split)

lemma length_order:
  assumes "valid_order ord"
  shows "length (ord m) = fcard (fmdom m)"
proof -
  have "set (map fst (ord m)) = fset (fmdom m)"
    using valid_orderD(2)[OF assms, of m] by (simp add: fmdom.rep_eq flip: dom_map_of_conv_image_fst)
  with valid_orderD(1)[OF assms, of m] show ?thesis
    by (metis distinct_card fcard.rep_eq length_map)
qed

text \<open>There is such an order: the one by key.\<close>

lemma sorted_list_of_fmap_valid: "valid_order sorted_list_of_fmap"
  by (simp add: valid_order_def)
    (simp add: sorted_list_of_fmap_def comp_def sorted_list_of_fset.rep_eq)

lemma fmmap_fmupd [simp]: "fmmap f (fmupd k v m) = fmupd k (f v) (fmmap f m)"
  by (rule fmap_ext) simp

section \<open>Entries\<close>

definition fits_map :: "('v \<Rightarrow> bool) \<Rightarrow> (string, 'v) fmap \<Rightarrow> bool" where
  "fits_map p m \<longleftrightarrow> fcard (fmdom m) \<le> UPSF_MAX_ELEMS \<and> fmpred (\<lambda>k v. fits_string k \<and> p v) m"

definition ok_key_value :: "upsf_key_value_t \<Rightarrow> bool" where
  "ok_key_value e \<longleftrightarrow> ok_string (kv_key e) \<and> ok_string (kv_value e)"

definition clean_key_value :: "upsf_key_value_t \<Rightarrow> bool" where
  "clean_key_value e \<longleftrightarrow> clean_string (kv_key e) \<and> clean_string (kv_value e)"

lemma clean_key_value_ok: "clean_key_value e \<Longrightarrow> ok_key_value e"
  by (simp add: clean_key_value_def ok_key_value_def clean_string_ok)

lemma fold_map_cong:
  "(\<And>x s. x \<in> set xs \<Longrightarrow> f (h x) s = g x s) \<Longrightarrow> fold f (map h xs) s = fold g xs s"
  by (induction xs arbitrary: s) auto

text \<open>
  Writing the entries of a map that fits into an array and inserting them into an empty map
  again: \<open>h\<close> writes an entry, \<open>key\<close> and \<open>val\<close> read one, \<open>w\<close> is what happens to the values.
\<close>

lemma entries_roundtrip:
  fixes ord :: "(string, 'v) fmap \<Rightarrow> (string \<times> 'v) list"
  assumes ord: "valid_order ord" and fits: "fits_map p m"
    and key: "\<And>k v. key (h (k, v)) = c_cut k"
    and val: "\<And>k v. p v \<Longrightarrow> val (h (k, v)) = w v"
  shows "fold (\<lambda>e. fmupd (key e) (val e))
      (take (unat (c_size (ord m))) (c_array z h (ord m))) fmempty = fmmap w m"
proof -
  have len: "length (ord m) \<le> UPSF_MAX_ELEMS"
    using fits by (simp add: length_order[OF ord] fits_map_def)
  have entry: "fits_string k \<and> p v" if "(k, v) \<in> set (ord m)" for k v
    using that fits by (auto simp: valid_order_set[OF ord] fits_map_def dest: fmpredD)
  have "fold (\<lambda>e. fmupd (key e) (val e)) (map h (ord m)) fmempty
      = fold (\<lambda>(k, v). fmupd k (w v)) (ord m) fmempty"
    by (rule fold_map_cong) (auto simp: key val c_cut_fits dest: entry)
  also have "\<dots> = fold (\<lambda>(k, v). fmupd k v) (map (\<lambda>(k, v). (k, w v)) (ord m)) fmempty"
    by (rule sym, rule fold_map_cong) auto
  also have "\<dots> = fmmap w m"
  proof (rule fmap_ext)
    fix k
    have dist: "distinct (map fst (map (\<lambda>(k, v). (k, w v)) (ord m)))"
      using valid_orderD(1)[OF ord, of m] by (simp add: comp_def case_prod_beta)
    have "map_of (map (\<lambda>(k, v). (k, w v)) (ord m)) k = map_option w (fmlookup m k)"
      by (simp add: map_of_map valid_orderD(2)[OF ord])
    then show "fmlookup (fold (\<lambda>(k, v). fmupd k v) (map (\<lambda>(k, v). (k, w v)) (ord m)) fmempty) k
        = fmlookup (fmmap w m) k"
      unfolding fold_fmupd_lookup map_of_rev_distinct[OF dist]
      by (simp add: map_add_def split: option.split)
  qed
  finally show ?thesis using len by (simp add: take_c_array)
qed

end
