(* ===== verification/MapNetworkConnection.thy ===== *)
theory MapNetworkConnection
  imports KeyValues
begin

text \<open>
  \<^verbatim>\<open>UpsfMapping::map\<close> for \<^verbatim>\<open>NetworkConnection\<close> with its \<^verbatim>\<open>Spec\<close> (a tagged union in
  the structure, a \<^verbatim>\<open>oneof\<close> in the message) and its \<^verbatim>\<open>Status\<close>, both directions, and the
  interpretation of the mapping interface. The parameter \<open>ord\<close> is the iteration order of
  the map \<^verbatim>\<open>nc_active\<close>.
\<close>

section \<open>Spec, structure to message\<close>

text \<open>
  \<^verbatim>\<open>UpsfMapping::map(e, *to.mutable_X()->add_Y())\<close> for the three repeated endpoint fields
  that the loops fill; \<^verbatim>\<open>mutable_X\<close> selects the alternative of the \<^verbatim>\<open>oneof\<close>.
\<close>

definition add_ss_ptp_sgup :: "Endpoint \<Rightarrow> NetworkConnectionSpec \<Rightarrow> NetworkConnectionSpec" where
  "add_ss_ptp_sgup m to = (let v = mutable_ss_ptp (ncs_nc_spec to) in
     to\<lparr>ncs_nc_spec := NC_ss_ptp (v\<lparr>ssp_sgup_endpoint := ssp_sgup_endpoint v @ [m]\<rparr>)\<rparr>)"

definition add_ss_mptpc_sgup :: "Endpoint \<Rightarrow> NetworkConnectionSpec \<Rightarrow> NetworkConnectionSpec" where
  "add_ss_mptpc_sgup m to = (let v = mutable_ss_mptpc (ncs_nc_spec to) in
     to\<lparr>ncs_nc_spec := NC_ss_mptpc (v\<lparr>ssm_sgup_endpoint := ssm_sgup_endpoint v @ [m]\<rparr>)\<rparr>)"

definition add_ss_mptpc_tsf :: "Endpoint \<Rightarrow> NetworkConnectionSpec \<Rightarrow> NetworkConnectionSpec" where
  "add_ss_mptpc_tsf m to = (let v = mutable_ss_mptpc (ncs_nc_spec to) in
     to\<lparr>ncs_nc_spec := NC_ss_mptpc (v\<lparr>ssm_tsf_endpoint := ssm_tsf_endpoint v @ [m]\<rparr>)\<rparr>)"

definition add_ms_mptp_tsf :: "Endpoint \<Rightarrow> NetworkConnectionSpec \<Rightarrow> NetworkConnectionSpec" where
  "add_ms_mptp_tsf m to = (let v = mutable_ms_mptp (ncs_nc_spec to) in
     to\<lparr>ncs_nc_spec := NC_ms_mptp (v\<lparr>msm_tsf_endpoint := msm_tsf_endpoint v @ [m]\<rparr>)\<rparr>)"

definition add_each ::
    "(Endpoint \<Rightarrow> NetworkConnectionSpec \<Rightarrow> NetworkConnectionSpec) \<Rightarrow> upsf_network_connection_spec_endpoint_t list \<Rightarrow> size_t
      \<Rightarrow> NetworkConnectionSpec \<Rightarrow> NetworkConnectionSpec ub" where
  "add_each add a n to =
     fold_n (\<lambda>e to. do { m \<leftarrow> new_Endpoint e; Some (add m to) }) a (unat n) to"

definition map_upsf_network_connection_spec_t ::
    "upsf_network_connection_spec_t \<Rightarrow> NetworkConnectionSpec
      \<Rightarrow> (bool \<times> NetworkConnectionSpec) ub" where
  "map_upsf_network_connection_spec_t from to = do {
     let to = to\<lparr>ncs_maximum_supported_quality := c_ncs_maximum_supported_quality from\<rparr>;
     let u = c_ncs_nc_spec from;
     if c_ncs_nc_spec_type from = UPSF_NC_SPEC_TYPE_SS_PTP then do {
       n \<leftarrow> nc_spec_ss_sgup_endpoint_size u;
       a \<leftarrow> nc_spec_ss_sgup_endpoint u;
       to \<leftarrow> add_each add_ss_ptp_sgup a n to;
       f \<leftarrow> nc_spec_ss_ptp u;
       let v = mutable_ss_ptp (ncs_nc_spec to);
       (_, e) \<leftarrow> map_upsf_network_connection_spec_endpoint_t (c_ssp_tsf_endpoint f) (sub_msg dflt_Endpoint (ssp_tsf_endpoint v));
       Some (True, to\<lparr>ncs_nc_spec := NC_ss_ptp (v\<lparr>ssp_tsf_endpoint := Some e\<rparr>)\<rparr>)
     } else if c_ncs_nc_spec_type from = UPSF_NC_SPEC_TYPE_SS_MPTP then do {
       f \<leftarrow> nc_spec_ss_mptp u;
       a \<leftarrow> nc_spec_ss_sgup_endpoint u;
       to \<leftarrow> add_each add_ss_mptpc_sgup a (c_ssm_sgup_endpoint_size f) to;
       to \<leftarrow> add_each add_ss_mptpc_tsf (c_ssm_tsf_endpoint f) (c_ssm_tsf_endpoint_size f) to;
       Some (True, to)
     } else if c_ncs_nc_spec_type from = UPSF_NC_SPEC_TYPE_MS_PTP then do {
       f \<leftarrow> nc_spec_ms_ptp u;
       let v = mutable_ms_ptp (ncs_nc_spec to);
       (_, e) \<leftarrow> map_upsf_network_connection_spec_endpoint_t (c_msp_sgup_endpoint f) (sub_msg dflt_Endpoint (msp_sgup_endpoint v));
       let to = to\<lparr>ncs_nc_spec := NC_ms_ptp (v\<lparr>msp_sgup_endpoint := Some e\<rparr>)\<rparr>;
       let v = mutable_ms_ptp (ncs_nc_spec to);
       (_, e) \<leftarrow> map_upsf_network_connection_spec_endpoint_t (c_msp_tsf_endpoint f) (sub_msg dflt_Endpoint (msp_tsf_endpoint v));
       Some (True, to\<lparr>ncs_nc_spec := NC_ms_ptp (v\<lparr>msp_tsf_endpoint := Some e\<rparr>)\<rparr>)
     } else if c_ncs_nc_spec_type from = UPSF_NC_SPEC_TYPE_MS_MPTP then do {
       f \<leftarrow> nc_spec_ms_mptp u;
       let v = mutable_ms_mptp (ncs_nc_spec to);
       (_, e) \<leftarrow> map_upsf_network_connection_spec_endpoint_t (c_msm_sgup_endpoint f) (sub_msg dflt_Endpoint (msm_sgup_endpoint v));
       let to = to\<lparr>ncs_nc_spec := NC_ms_mptp (v\<lparr>msm_sgup_endpoint := Some e\<rparr>)\<rparr>;
       to \<leftarrow> add_each add_ms_mptp_tsf (c_msm_tsf_endpoint f) (c_msm_tsf_endpoint_size f) to;
       Some (True, to)
     } else Some (False, to)
   }"

section \<open>Spec, message to structure\<close>

definition map_NetworkConnectionSpec ::
    "NetworkConnectionSpec \<Rightarrow> upsf_network_connection_spec_t
      \<Rightarrow> (bool \<times> upsf_network_connection_spec_t) ub" where
  "map_NetworkConnectionSpec from to = do {
     let to = zero_upsf_network_connection_spec_t;
     let to = to\<lparr>c_ncs_maximum_supported_quality := ncs_maximum_supported_quality from\<rparr>;
     case ncs_nc_spec from of
       NC_ss_ptp f \<Rightarrow> do {
         let to = to\<lparr>c_ncs_nc_spec_type := UPSF_NC_SPEC_TYPE_SS_PTP\<rparr>;
         v \<leftarrow> nc_spec_ss_ptp (c_ncs_nc_spec to);
         let v = v\<lparr>c_ssp_sgup_endpoint_size := bounded_size (ssp_sgup_endpoint f) UPSF_MAX_ELEMS\<rparr>;
         a \<leftarrow> copy_n put_Endpoint (ssp_sgup_endpoint f) (unat (c_ssp_sgup_endpoint_size v))
                (c_ssp_sgup_endpoint v);
         let v = v\<lparr>c_ssp_sgup_endpoint := a\<rparr>;
         (_, e) \<leftarrow> map_Endpoint (sub_msg dflt_Endpoint (ssp_tsf_endpoint f)) (c_ssp_tsf_endpoint v);
         let v = v\<lparr>c_ssp_tsf_endpoint := e\<rparr>;
         Some (True, to\<lparr>c_ncs_nc_spec := NCU_ss_ptp v\<rparr>)
       }
     | NC_ss_mptpc f \<Rightarrow> do {
         let to = to\<lparr>c_ncs_nc_spec_type := UPSF_NC_SPEC_TYPE_SS_MPTP\<rparr>;
         v \<leftarrow> nc_spec_ss_mptp (c_ncs_nc_spec to);
         let v = v\<lparr>c_ssm_sgup_endpoint_size := bounded_size (ssm_sgup_endpoint f) UPSF_MAX_ELEMS\<rparr>;
         a \<leftarrow> copy_n put_Endpoint (ssm_sgup_endpoint f) (unat (c_ssm_sgup_endpoint_size v))
                (c_ssm_sgup_endpoint v);
         let v = v\<lparr>c_ssm_sgup_endpoint := a\<rparr>;
         let v = v\<lparr>c_ssm_tsf_endpoint_size := bounded_size (ssm_tsf_endpoint f) UPSF_MAX_ELEMS\<rparr>;
         a \<leftarrow> copy_n put_Endpoint (ssm_tsf_endpoint f) (unat (c_ssm_tsf_endpoint_size v))
                (c_ssm_tsf_endpoint v);
         let v = v\<lparr>c_ssm_tsf_endpoint := a\<rparr>;
         Some (True, to\<lparr>c_ncs_nc_spec := NCU_ss_mptp v\<rparr>)
       }
     | NC_ms_ptp f \<Rightarrow> do {
         let to = to\<lparr>c_ncs_nc_spec_type := UPSF_NC_SPEC_TYPE_MS_PTP\<rparr>;
         v \<leftarrow> nc_spec_ms_ptp (c_ncs_nc_spec to);
         (_, e) \<leftarrow> map_Endpoint (sub_msg dflt_Endpoint (msp_sgup_endpoint f)) (c_msp_sgup_endpoint v);
         let v = v\<lparr>c_msp_sgup_endpoint := e\<rparr>;
         (_, e) \<leftarrow> map_Endpoint (sub_msg dflt_Endpoint (msp_tsf_endpoint f)) (c_msp_tsf_endpoint v);
         let v = v\<lparr>c_msp_tsf_endpoint := e\<rparr>;
         Some (True, to\<lparr>c_ncs_nc_spec := NCU_ms_ptp v\<rparr>)
       }
     | NC_ms_mptp f \<Rightarrow> do {
         let to = to\<lparr>c_ncs_nc_spec_type := UPSF_NC_SPEC_TYPE_MS_MPTP\<rparr>;
         v \<leftarrow> nc_spec_ms_mptp (c_ncs_nc_spec to);
         (_, e) \<leftarrow> map_Endpoint (sub_msg dflt_Endpoint (msm_sgup_endpoint f)) (c_msm_sgup_endpoint v);
         let v = v\<lparr>c_msm_sgup_endpoint := e\<rparr>;
         let v = v\<lparr>c_msm_tsf_endpoint_size := bounded_size (msm_tsf_endpoint f) UPSF_MAX_ELEMS\<rparr>;
         a \<leftarrow> copy_n put_Endpoint (msm_tsf_endpoint f) (unat (c_msm_tsf_endpoint_size v))
                (c_msm_tsf_endpoint v);
         let v = v\<lparr>c_msm_tsf_endpoint := a\<rparr>;
         Some (True, to\<lparr>c_ncs_nc_spec := NCU_ms_mptp v\<rparr>)
       }
     | NC_not_set \<Rightarrow> Some (True, to)
   }"

section \<open>Spec, closed forms\<close>

definition c_nc_spec_u :: "nc_spec_oneof \<Rightarrow> nc_spec_u" where
  "c_nc_spec_u n = (case n of
       NC_not_set \<Rightarrow> NCU_zero
     | NC_ss_ptp f \<Rightarrow> NCU_ss_ptp \<lparr>c_ssp_sgup_endpoint = c_Endpoints (ssp_sgup_endpoint f),
         c_ssp_sgup_endpoint_size = c_size (ssp_sgup_endpoint f),
         c_ssp_tsf_endpoint = c_Endpoint (sub_msg dflt_Endpoint (ssp_tsf_endpoint f))\<rparr>
     | NC_ss_mptpc f \<Rightarrow> NCU_ss_mptp \<lparr>c_ssm_sgup_endpoint = c_Endpoints (ssm_sgup_endpoint f),
         c_ssm_sgup_endpoint_size = c_size (ssm_sgup_endpoint f),
         c_ssm_tsf_endpoint = c_Endpoints (ssm_tsf_endpoint f),
         c_ssm_tsf_endpoint_size = c_size (ssm_tsf_endpoint f)\<rparr>
     | NC_ms_ptp f \<Rightarrow> NCU_ms_ptp
         \<lparr>c_msp_sgup_endpoint = c_Endpoint (sub_msg dflt_Endpoint (msp_sgup_endpoint f)),
          c_msp_tsf_endpoint = c_Endpoint (sub_msg dflt_Endpoint (msp_tsf_endpoint f))\<rparr>
     | NC_ms_mptp f \<Rightarrow> NCU_ms_mptp
         \<lparr>c_msm_sgup_endpoint = c_Endpoint (sub_msg dflt_Endpoint (msm_sgup_endpoint f)),
          c_msm_tsf_endpoint = c_Endpoints (msm_tsf_endpoint f),
          c_msm_tsf_endpoint_size = c_size (msm_tsf_endpoint f)\<rparr>)"

definition c_nc_spec_type :: "nc_spec_oneof \<Rightarrow> int32" where
  "c_nc_spec_type n = (case n of
       NC_not_set \<Rightarrow> UPSF_NC_SPEC_TYPE_SS_PTP
     | NC_ss_ptp _ \<Rightarrow> UPSF_NC_SPEC_TYPE_SS_PTP
     | NC_ss_mptpc _ \<Rightarrow> UPSF_NC_SPEC_TYPE_SS_MPTP
     | NC_ms_ptp _ \<Rightarrow> UPSF_NC_SPEC_TYPE_MS_PTP
     | NC_ms_mptp _ \<Rightarrow> UPSF_NC_SPEC_TYPE_MS_MPTP)"

definition c_NetworkConnectionSpec :: "NetworkConnectionSpec \<Rightarrow> upsf_network_connection_spec_t"
  where [c_defs]:
  "c_NetworkConnectionSpec m =
     \<lparr>c_ncs_maximum_supported_quality = ncs_maximum_supported_quality m,
      c_ncs_nc_spec_type = c_nc_spec_type (ncs_nc_spec m),
      c_ncs_nc_spec = c_nc_spec_u (ncs_nc_spec m)\<rparr>"

lemma map_NetworkConnectionSpec_eq [simp]:
  "map_NetworkConnectionSpec from to = Some (True, c_NetworkConnectionSpec from)"
  by (cases "ncs_nc_spec from")
    (simp_all add: map_NetworkConnectionSpec_def c_NetworkConnectionSpec_def c_nc_spec_u_def
      c_nc_spec_type_def nc_spec_types union_reads zero_upsf_network_connection_spec_t_def
      zero_upsf_network_connection_spec_ss_ptp_spec_t_def zero_upsf_network_connection_spec_ss_mptp_spec_t_def zero_upsf_network_connection_spec_ms_ptp_spec_t_def
      zero_upsf_network_connection_spec_ms_mptp_spec_t_def)

text \<open>The effect of the loops on the \<^verbatim>\<open>oneof\<close>: none without an endpoint.\<close>

definition p_ss_ptp :: "upsf_network_connection_spec_ss_ptp_spec_t \<Rightarrow> SsPtpSpec \<Rightarrow> SsPtpSpec" where
  "p_ss_ptp f v = \<lparr>
     ssp_sgup_endpoint = ssp_sgup_endpoint v @
       p_Endpoints (c_ssp_sgup_endpoint f) (c_ssp_sgup_endpoint_size f),
     ssp_tsf_endpoint = Some (p_Endpoint (c_ssp_tsf_endpoint f)
       (sub_msg dflt_Endpoint (ssp_tsf_endpoint v)))\<rparr>"

definition p_ss_mptpc :: "upsf_network_connection_spec_ss_mptp_spec_t \<Rightarrow> SsMptpSpec \<Rightarrow> SsMptpSpec" where
  "p_ss_mptpc f v = \<lparr>
     ssm_sgup_endpoint = ssm_sgup_endpoint v @
       p_Endpoints (c_ssm_sgup_endpoint f) (c_ssm_sgup_endpoint_size f),
     ssm_tsf_endpoint = ssm_tsf_endpoint v @
       p_Endpoints (c_ssm_tsf_endpoint f) (c_ssm_tsf_endpoint_size f)\<rparr>"

definition p_ms_ptp :: "upsf_network_connection_spec_ms_ptp_spec_t \<Rightarrow> MsPtpSpec \<Rightarrow> MsPtpSpec" where
  "p_ms_ptp f v = \<lparr>
     msp_sgup_endpoint = Some (p_Endpoint (c_msp_sgup_endpoint f)
       (sub_msg dflt_Endpoint (msp_sgup_endpoint v))),
     msp_tsf_endpoint = Some (p_Endpoint (c_msp_tsf_endpoint f)
       (sub_msg dflt_Endpoint (msp_tsf_endpoint v)))\<rparr>"

definition p_ms_mptp :: "upsf_network_connection_spec_ms_mptp_spec_t \<Rightarrow> MsMptpSpec \<Rightarrow> MsMptpSpec" where
  "p_ms_mptp f v = \<lparr>
     msm_sgup_endpoint = Some (p_Endpoint (c_msm_sgup_endpoint f)
       (sub_msg dflt_Endpoint (msm_sgup_endpoint v))),
     msm_tsf_endpoint = msm_tsf_endpoint v @
       p_Endpoints (c_msm_tsf_endpoint f) (c_msm_tsf_endpoint_size f)\<rparr>"

definition p_nc_spec :: "upsf_network_connection_spec_t \<Rightarrow> nc_spec_oneof \<Rightarrow> nc_spec_oneof" where
  "p_nc_spec x n = (let u = c_ncs_nc_spec x in
     if c_ncs_nc_spec_type x = UPSF_NC_SPEC_TYPE_SS_PTP then
       NC_ss_ptp (p_ss_ptp (the (nc_spec_ss_ptp u)) (mutable_ss_ptp n))
     else if c_ncs_nc_spec_type x = UPSF_NC_SPEC_TYPE_SS_MPTP then
       (let f = the (nc_spec_ss_mptp u) in
        if c_ssm_sgup_endpoint_size f = 0 \<and> c_ssm_tsf_endpoint_size f = 0 then n
        else NC_ss_mptpc (p_ss_mptpc f (mutable_ss_mptpc n)))
     else if c_ncs_nc_spec_type x = UPSF_NC_SPEC_TYPE_MS_PTP then
       NC_ms_ptp (p_ms_ptp (the (nc_spec_ms_ptp u)) (mutable_ms_ptp n))
     else if c_ncs_nc_spec_type x = UPSF_NC_SPEC_TYPE_MS_MPTP then
       NC_ms_mptp (p_ms_mptp (the (nc_spec_ms_mptp u)) (mutable_ms_mptp n))
     else n)"

definition p_NetworkConnectionSpec ::
    "upsf_network_connection_spec_t \<Rightarrow> NetworkConnectionSpec \<Rightarrow> NetworkConnectionSpec" where [p_defs]:
  "p_NetworkConnectionSpec x m =
     \<lparr>ncs_maximum_supported_quality = c_ncs_maximum_supported_quality x,
      ncs_nc_spec = p_nc_spec x (ncs_nc_spec m)\<rparr>"

text \<open>A specification whose tag and union member agree, with readable endpoints.\<close>

definition ok_NetworkConnectionSpec :: "upsf_network_connection_spec_t \<Rightarrow> bool" where [ok_defs]:
  "ok_NetworkConnectionSpec x \<longleftrightarrow> (let u = c_ncs_nc_spec x in
     (c_ncs_nc_spec_type x = UPSF_NC_SPEC_TYPE_SS_PTP \<longrightarrow>
        (case nc_spec_ss_ptp u of None \<Rightarrow> False
         | Some f \<Rightarrow> ok_Endpoints (c_ssp_sgup_endpoint f) (c_ssp_sgup_endpoint_size f) \<and>
             ok_Endpoint (c_ssp_tsf_endpoint f))) \<and>
     (c_ncs_nc_spec_type x = UPSF_NC_SPEC_TYPE_SS_MPTP \<longrightarrow>
        (case nc_spec_ss_mptp u of None \<Rightarrow> False
         | Some f \<Rightarrow> ok_Endpoints (c_ssm_sgup_endpoint f) (c_ssm_sgup_endpoint_size f) \<and>
             ok_Endpoints (c_ssm_tsf_endpoint f) (c_ssm_tsf_endpoint_size f))) \<and>
     (c_ncs_nc_spec_type x = UPSF_NC_SPEC_TYPE_MS_PTP \<longrightarrow>
        (case nc_spec_ms_ptp u of None \<Rightarrow> False
         | Some f \<Rightarrow> ok_Endpoint (c_msp_sgup_endpoint f) \<and> ok_Endpoint (c_msp_tsf_endpoint f))) \<and>
     (c_ncs_nc_spec_type x = UPSF_NC_SPEC_TYPE_MS_MPTP \<longrightarrow>
        (case nc_spec_ms_mptp u of None \<Rightarrow> False
         | Some f \<Rightarrow> ok_Endpoint (c_msm_sgup_endpoint f) \<and>
             ok_Endpoints (c_msm_tsf_endpoint f) (c_msm_tsf_endpoint_size f))))"

definition known_nc_spec_type :: "upsf_network_connection_spec_t \<Rightarrow> bool" where
  "known_nc_spec_type x \<longleftrightarrow> c_ncs_nc_spec_type x \<in>
     {UPSF_NC_SPEC_TYPE_SS_PTP, UPSF_NC_SPEC_TYPE_SS_MPTP, UPSF_NC_SPEC_TYPE_MS_PTP,
      UPSF_NC_SPEC_TYPE_MS_MPTP}"

lemmas add_defs = add_ss_ptp_sgup_def add_ss_mptpc_sgup_def add_ss_mptpc_tsf_def add_ms_mptp_tsf_def

lemmas mutable_defs = mutable_ss_ptp_def mutable_ss_mptpc_def mutable_ms_ptp_def mutable_ms_mptp_def

lemma add_each_eq:
  assumes "ok_Endpoints a n"
  shows "add_each add a n to = Some (fold add (p_Endpoints a n) to)"
proof -
  have "add_each add a n to = Some (fold (\<lambda>e. add (p_Endpoint e dflt_Endpoint)) (take (unat n) a) to)"
    unfolding add_each_def by (rule fold_n_fold[OF assms]) (simp add: new_Endpoint_def)
  then show ?thesis by (simp add: p_array_def fold_map comp_def)
qed

lemma fold_add_ss_ptp_sgup:
  "fold add_ss_ptp_sgup xs to = (if xs = [] then to else
     (let v = mutable_ss_ptp (ncs_nc_spec to) in
      to\<lparr>ncs_nc_spec := NC_ss_ptp (v\<lparr>ssp_sgup_endpoint := ssp_sgup_endpoint v @ xs\<rparr>)\<rparr>))"
  by (induction xs rule: rev_induct) (auto simp: add_defs mutable_defs Let_def)

lemma fold_add_ss_mptpc_sgup:
  "fold add_ss_mptpc_sgup xs to = (if xs = [] then to else
     (let v = mutable_ss_mptpc (ncs_nc_spec to) in
      to\<lparr>ncs_nc_spec := NC_ss_mptpc (v\<lparr>ssm_sgup_endpoint := ssm_sgup_endpoint v @ xs\<rparr>)\<rparr>))"
  by (induction xs rule: rev_induct) (auto simp: add_defs mutable_defs Let_def)

lemma fold_add_ss_mptpc_tsf:
  "fold add_ss_mptpc_tsf xs to = (if xs = [] then to else
     (let v = mutable_ss_mptpc (ncs_nc_spec to) in
      to\<lparr>ncs_nc_spec := NC_ss_mptpc (v\<lparr>ssm_tsf_endpoint := ssm_tsf_endpoint v @ xs\<rparr>)\<rparr>))"
  by (induction xs rule: rev_induct) (auto simp: add_defs mutable_defs Let_def)

lemma fold_add_ms_mptp_tsf:
  "fold add_ms_mptp_tsf xs to = (if xs = [] then to else
     (let v = mutable_ms_mptp (ncs_nc_spec to) in
      to\<lparr>ncs_nc_spec := NC_ms_mptp (v\<lparr>msm_tsf_endpoint := msm_tsf_endpoint v @ xs\<rparr>)\<rparr>))"
  by (induction xs rule: rev_induct) (auto simp: add_defs mutable_defs Let_def)

lemma p_array_empty: "ok_array p a n \<Longrightarrow> (p_array g a n = []) = (n = 0)"
  by (metis length_p_array length_0_conv unat_eq_zero)

lemma p_array_none [simp]: "p_array g a 0 = []"
  by (simp add: p_array_def)

lemma nc_spec_ss_sgup_of_ptp:
  "nc_spec_ss_ptp u = Some f \<Longrightarrow> nc_spec_ss_sgup_endpoint u = Some (c_ssp_sgup_endpoint f)"
  "nc_spec_ss_ptp u = Some f \<Longrightarrow> nc_spec_ss_sgup_endpoint_size u = Some (c_ssp_sgup_endpoint_size f)"
  by (auto simp: union_reads zero_upsf_network_connection_spec_ss_ptp_spec_t_def split: nc_spec_u.splits)

text \<open>The common initial sequence: the read through the inactive member is the same array.\<close>

lemma nc_spec_ss_sgup_of_mptp:
  "nc_spec_ss_mptp u = Some f \<Longrightarrow> nc_spec_ss_sgup_endpoint u = Some (c_ssm_sgup_endpoint f)"
  by (auto simp: union_reads zero_upsf_network_connection_spec_ss_mptp_spec_t_def split: nc_spec_u.splits)

lemma mutable_simps [simp]:
  "mutable_ss_ptp (NC_ss_ptp v) = v" "mutable_ss_mptpc (NC_ss_mptpc w) = w"
  "mutable_ms_ptp (NC_ms_ptp x) = x" "mutable_ms_mptp (NC_ms_mptp y) = y"
  by (simp_all add: mutable_defs)

lemma map_upsf_network_connection_spec_t_eq [simp]:
  assumes "ok_NetworkConnectionSpec from"
  shows "map_upsf_network_connection_spec_t from to
    = Some (known_nc_spec_type from, p_NetworkConnectionSpec from to)"
proof -
  let ?t = "c_ncs_nc_spec_type from" and ?u = "c_ncs_nc_spec from"
  consider (ss_ptp) f where "?t = UPSF_NC_SPEC_TYPE_SS_PTP" "nc_spec_ss_ptp ?u = Some f"
      "ok_Endpoints (c_ssp_sgup_endpoint f) (c_ssp_sgup_endpoint_size f)"
      "ok_Endpoint (c_ssp_tsf_endpoint f)"
    | (ss_mptp) f where "?t = UPSF_NC_SPEC_TYPE_SS_MPTP" "nc_spec_ss_mptp ?u = Some f"
      "ok_Endpoints (c_ssm_sgup_endpoint f) (c_ssm_sgup_endpoint_size f)"
      "ok_Endpoints (c_ssm_tsf_endpoint f) (c_ssm_tsf_endpoint_size f)"
    | (ms_ptp) f where "?t = UPSF_NC_SPEC_TYPE_MS_PTP" "nc_spec_ms_ptp ?u = Some f"
      "ok_Endpoint (c_msp_sgup_endpoint f)" "ok_Endpoint (c_msp_tsf_endpoint f)"
    | (ms_mptp) f where "?t = UPSF_NC_SPEC_TYPE_MS_MPTP" "nc_spec_ms_mptp ?u = Some f"
      "ok_Endpoint (c_msm_sgup_endpoint f)"
      "ok_Endpoints (c_msm_tsf_endpoint f) (c_msm_tsf_endpoint_size f)"
    | (unknown) "\<not> known_nc_spec_type from"
    using assms by (auto simp: ok_NetworkConnectionSpec_def known_nc_spec_type_def Let_def
        split: option.splits)
  then show ?thesis
  proof cases
    case ss_ptp
    then show ?thesis
      by (simp add: map_upsf_network_connection_spec_t_def p_NetworkConnectionSpec_def p_nc_spec_def
          known_nc_spec_type_def nc_spec_ss_sgup_of_ptp add_each_eq fold_add_ss_ptp_sgup p_ss_ptp_def
          Let_def)
  next
    case ss_mptp
    then show ?thesis
      by (cases to; cases "mutable_ss_mptpc (ncs_nc_spec to)")
        (simp add: map_upsf_network_connection_spec_t_def p_NetworkConnectionSpec_def p_nc_spec_def
          known_nc_spec_type_def nc_spec_ss_sgup_of_mptp add_each_eq fold_add_ss_mptpc_sgup
          fold_add_ss_mptpc_tsf p_ss_mptpc_def p_array_empty nc_spec_types Let_def)
  next
    case ms_ptp
    then show ?thesis
      by (simp add: map_upsf_network_connection_spec_t_def p_NetworkConnectionSpec_def p_nc_spec_def
          known_nc_spec_type_def p_ms_ptp_def nc_spec_types Let_def)
  next
    case ms_mptp
    then show ?thesis
      by (simp add: map_upsf_network_connection_spec_t_def p_NetworkConnectionSpec_def p_nc_spec_def
          known_nc_spec_type_def add_each_eq fold_add_ms_mptp_tsf p_ms_mptp_def nc_spec_types Let_def)
  next
    case unknown
    then show ?thesis
      by (simp add: map_upsf_network_connection_spec_t_def p_NetworkConnectionSpec_def p_nc_spec_def
          known_nc_spec_type_def)
  qed
qed

text \<open>
  Canonical: tag and union member agree, and what is beyond the sizes is zero. The all-zero
  union carries the tag 0, which is that of \<open>ss_ptp\<close>.
\<close>

definition clean_NetworkConnectionSpec :: "upsf_network_connection_spec_t \<Rightarrow> bool" where [clean_defs]:
  "clean_NetworkConnectionSpec x \<longleftrightarrow> (case c_ncs_nc_spec x of
       NCU_zero \<Rightarrow> c_ncs_nc_spec_type x = UPSF_NC_SPEC_TYPE_SS_PTP
     | NCU_ss_ptp f \<Rightarrow> c_ncs_nc_spec_type x = UPSF_NC_SPEC_TYPE_SS_PTP \<and>
         clean_Endpoints (c_ssp_sgup_endpoint f) (c_ssp_sgup_endpoint_size f) \<and>
         clean_Endpoint (c_ssp_tsf_endpoint f)
     | NCU_ss_mptp f \<Rightarrow> c_ncs_nc_spec_type x = UPSF_NC_SPEC_TYPE_SS_MPTP \<and>
         clean_Endpoints (c_ssm_sgup_endpoint f) (c_ssm_sgup_endpoint_size f) \<and>
         clean_Endpoints (c_ssm_tsf_endpoint f) (c_ssm_tsf_endpoint_size f)
     | NCU_ms_ptp f \<Rightarrow> c_ncs_nc_spec_type x = UPSF_NC_SPEC_TYPE_MS_PTP \<and>
         clean_Endpoint (c_msp_sgup_endpoint f) \<and> clean_Endpoint (c_msp_tsf_endpoint f)
     | NCU_ms_mptp f \<Rightarrow> c_ncs_nc_spec_type x = UPSF_NC_SPEC_TYPE_MS_MPTP \<and>
         clean_Endpoint (c_msm_sgup_endpoint f) \<and>
         clean_Endpoints (c_msm_tsf_endpoint f) (c_msm_tsf_endpoint_size f))"

text \<open>
  What survives the structure: an alternative is set, its single endpoints are present, and
  a point-to-multipoint connection has at least one endpoint.
\<close>

definition fits_nc_spec :: "nc_spec_oneof \<Rightarrow> bool" where
  "fits_nc_spec n = (case n of
       NC_not_set \<Rightarrow> False
     | NC_ss_ptp f \<Rightarrow> fits_Endpoints (ssp_sgup_endpoint f) \<and> has_fitting fits_Endpoint (ssp_tsf_endpoint f)
     | NC_ss_mptpc f \<Rightarrow> fits_Endpoints (ssm_sgup_endpoint f) \<and> fits_Endpoints (ssm_tsf_endpoint f) \<and>
         (ssm_sgup_endpoint f \<noteq> [] \<or> ssm_tsf_endpoint f \<noteq> [])
     | NC_ms_ptp f \<Rightarrow> has_fitting fits_Endpoint (msp_sgup_endpoint f) \<and>
         has_fitting fits_Endpoint (msp_tsf_endpoint f)
     | NC_ms_mptp f \<Rightarrow> has_fitting fits_Endpoint (msm_sgup_endpoint f) \<and>
         fits_Endpoints (msm_tsf_endpoint f))"

definition fits_NetworkConnectionSpec :: "NetworkConnectionSpec \<Rightarrow> bool" where [fits_defs]:
  "fits_NetworkConnectionSpec m \<longleftrightarrow> fits_nc_spec (ncs_nc_spec m)"

lemma clean_c_NetworkConnectionSpec [simp]: "clean_NetworkConnectionSpec (c_NetworkConnectionSpec m)"
  by (cases "ncs_nc_spec m") (simp_all add: clean_NetworkConnectionSpec_def
      c_NetworkConnectionSpec_def c_nc_spec_u_def c_nc_spec_type_def)

lemma ok_zero_Endpoint [simp]: "ok_Endpoint zero_upsf_network_connection_spec_endpoint_t"
  by (simp add: ok_Endpoint_def zero_upsf_network_connection_spec_endpoint_t_def ok_string_def zero_string_def
      UPSF_MAX_STRING_SIZE_def ep_types)

lemma ok_zero_Endpoints [simp]: "ok_Endpoints zero_endpoints 0"
  by (simp add: ok_array_def zero_endpoints_def)

lemma clean_NetworkConnectionSpec_ok: "clean_NetworkConnectionSpec x \<Longrightarrow> ok_NetworkConnectionSpec x"
  by (auto simp: clean_NetworkConnectionSpec_def ok_NetworkConnectionSpec_def Let_def union_reads
      nc_spec_types zero_upsf_network_connection_spec_ss_ptp_spec_t_def clean_Endpoints_ok clean_Endpoint_ok
      split: nc_spec_u.splits)

lemma c_size_empty: "(c_size xs = 0) = (xs = [])"
proof
  assume "c_size xs = 0"
  then have "unat (c_size xs) = 0" by simp
  then show "xs = []" by (simp add: unat_c_size UPSF_MAX_ELEMS_def min_def split: if_splits)
qed (simp add: c_size_def)

lemma p_c_NetworkConnectionSpec [simp]:
  assumes "fits_NetworkConnectionSpec m"
  shows "p_NetworkConnectionSpec (c_NetworkConnectionSpec m) dflt_NetworkConnectionSpec = m"
proof -
  have "p_nc_spec (c_NetworkConnectionSpec m) NC_not_set = ncs_nc_spec m"
    using assms
    by (cases "ncs_nc_spec m")
      (auto simp: fits_NetworkConnectionSpec_def fits_nc_spec_def c_NetworkConnectionSpec_def
        c_nc_spec_u_def c_nc_spec_type_def p_nc_spec_def nc_spec_types union_reads Let_def
        p_ss_ptp_def p_ss_mptpc_def p_ms_ptp_def p_ms_mptp_def mutable_defs dflt_SsPtpSpec_def
        dflt_SsMptpSpec_def dflt_MsPtpSpec_def dflt_MsMptpSpec_def c_size_empty)
  then show ?thesis
    by (cases m) (simp add: p_NetworkConnectionSpec_def dflt_NetworkConnectionSpec_def
        c_NetworkConnectionSpec_def)
qed

text \<open>The two specifications that do not survive become others.\<close>

lemma p_c_nc_spec_not_set:
  "p_nc_spec (c_NetworkConnectionSpec \<lparr>ncs_maximum_supported_quality = q, ncs_nc_spec = NC_not_set\<rparr>) NC_not_set
    = NC_ss_ptp \<lparr>ssp_sgup_endpoint = [], ssp_tsf_endpoint = Some dflt_Endpoint\<rparr>"
  by (simp add: c_NetworkConnectionSpec_def c_nc_spec_u_def c_nc_spec_type_def p_nc_spec_def
      nc_spec_types union_reads p_ss_ptp_def mutable_defs dflt_SsPtpSpec_def
      zero_upsf_network_connection_spec_ss_ptp_spec_t_def Let_def p_Endpoint_def zero_upsf_network_connection_spec_endpoint_t_def p_transport_def
      ep_types dflt_Endpoint_def p_string_def zero_string_def c_str_def UPSF_MAX_STRING_SIZE_def)

lemma p_c_nc_spec_empty_mptp:
  "p_nc_spec (c_NetworkConnectionSpec \<lparr>ncs_maximum_supported_quality = q,
      ncs_nc_spec = NC_ss_mptpc dflt_SsMptpSpec\<rparr>) NC_not_set = NC_not_set"
  by (simp add: c_NetworkConnectionSpec_def c_nc_spec_u_def c_nc_spec_type_def p_nc_spec_def
      nc_spec_types union_reads dflt_SsMptpSpec_def c_size_empty Let_def)

section \<open>Status\<close>

text \<open>The loop writes the key and, as the value, \<^verbatim>\<open>"1"\<close> or \<^verbatim>\<open>"0"\<close>.\<close>

definition put_nc_active :: "upsf_key_value_t \<Rightarrow> string \<times> bool \<Rightarrow> upsf_key_value_t ub" where
  "put_nc_active e it = do {
     s \<leftarrow> put_string (kv_key e) (fst it);
     let e = e\<lparr>kv_key := s\<rparr>;
     s \<leftarrow> (if snd it then put_string (kv_value e) ''1'' else put_string (kv_value e) ''0'');
     Some (e\<lparr>kv_value := s\<rparr>)
   }"

definition map_NetworkConnectionStatus ::
    "((string, bool) fmap \<Rightarrow> (string \<times> bool) list) \<Rightarrow> NetworkConnectionStatus
      \<Rightarrow> upsf_network_connection_status_t \<Rightarrow> (bool \<times> upsf_network_connection_status_t) ub" where
  "map_NetworkConnectionStatus ord from to = do {
     let to = zero_upsf_network_connection_status_t;
     (i, a) \<leftarrow> copy_range put_nc_active UPSF_MAX_ELEMS (ord (nct_nc_active from)) 0 (c_nct_nc_active to);
     let to = to\<lparr>c_nct_nc_active := a\<rparr>;
     let to = to\<lparr>c_nct_nc_active_size := of_nat i\<rparr>;
     Some (True, to)
   }"

text \<open>
  \<^verbatim>\<open>(*to.mutable_nc_active())[e.key.str] = e.value.str;\<close> The map holds booleans, so the
  array \<^verbatim>\<open>e.value.str\<close> decays to a pointer, which is not null: the value is \<^verbatim>\<open>true\<close>
  whatever the string says.
\<close>

definition insert_nc_active :: "upsf_key_value_t \<Rightarrow> (string, bool) fmap \<Rightarrow> (string, bool) fmap ub" where
  "insert_nc_active e m = do {
     k \<leftarrow> std_string (kv_key e);
     Some (fmupd k True m)
   }"

definition map_upsf_network_connection_status_t ::
    "upsf_network_connection_status_t \<Rightarrow> NetworkConnectionStatus
      \<Rightarrow> (bool \<times> NetworkConnectionStatus) ub" where
  "map_upsf_network_connection_status_t from to = do {
     m \<leftarrow> fold_n insert_nc_active (c_nct_nc_active from) (unat (c_nct_nc_active_size from))
            (nct_nc_active to);
     let to = to\<lparr>nct_nc_active := m\<rparr>;
     let to = to\<lparr>nct_allocated_shards := c_nct_allocated_shards from\<rparr>;
     Some (True, to)
   }"

definition c_nc_active :: "string \<times> bool \<Rightarrow> upsf_key_value_t" where
  "c_nc_active it = \<lparr>kv_key = c_string (fst it),
     kv_value = c_string (if snd it then ''1'' else ''0'')\<rparr>"

abbreviation c_nc_actives :: "(string \<times> bool) list \<Rightarrow> upsf_key_value_t list" where
  "c_nc_actives \<equiv> c_array zero_upsf_key_value_t c_nc_active"

definition p_nc_active ::
    "upsf_key_value_t list \<Rightarrow> size_t \<Rightarrow> (string, bool) fmap \<Rightarrow> (string, bool) fmap" where
  "p_nc_active a n m = fold (\<lambda>e. fmupd (p_string (kv_key e)) True) (take (unat n) a) m"

definition c_NetworkConnectionStatus ::
    "((string, bool) fmap \<Rightarrow> (string \<times> bool) list) \<Rightarrow> NetworkConnectionStatus
      \<Rightarrow> upsf_network_connection_status_t" where [c_defs]:
  "c_NetworkConnectionStatus ord m = \<lparr>c_nct_nc_active = c_nc_actives (ord (nct_nc_active m)),
     c_nct_nc_active_size = c_size (ord (nct_nc_active m)), c_nct_allocated_shards = 0\<rparr>"

definition p_NetworkConnectionStatus ::
    "upsf_network_connection_status_t \<Rightarrow> NetworkConnectionStatus \<Rightarrow> NetworkConnectionStatus"
  where [p_defs]:
  "p_NetworkConnectionStatus x m =
     \<lparr>nct_nc_active = p_nc_active (c_nct_nc_active x) (c_nct_nc_active_size x) (nct_nc_active m),
      nct_allocated_shards = c_nct_allocated_shards x\<rparr>"

abbreviation ok_key :: "upsf_key_value_t \<Rightarrow> bool" where
  "ok_key e \<equiv> ok_string (kv_key e)"

definition ok_NetworkConnectionStatus :: "upsf_network_connection_status_t \<Rightarrow> bool" where [ok_defs]:
  "ok_NetworkConnectionStatus x \<longleftrightarrow> ok_array ok_key (c_nct_nc_active x) (c_nct_nc_active_size x)"

definition clean_NetworkConnectionStatus :: "upsf_network_connection_status_t \<Rightarrow> bool"
  where [clean_defs]:
  "clean_NetworkConnectionStatus x \<longleftrightarrow>
     clean_array zero_upsf_key_value_t clean_key_value (c_nct_nc_active x) (c_nct_nc_active_size x)"

definition fits_NetworkConnectionStatus :: "NetworkConnectionStatus \<Rightarrow> bool" where [fits_defs]:
  "fits_NetworkConnectionStatus m \<longleftrightarrow> fits_map (\<lambda>_. True) (nct_nc_active m)"

lemma put_nc_active_zero [simp]: "put_nc_active zero_upsf_key_value_t it = Some (c_nc_active it)"
  by (simp add: put_nc_active_def zero_upsf_key_value_t_def c_nc_active_def)

lemma map_NetworkConnectionStatus_eq [simp]:
  "map_NetworkConnectionStatus ord from to = Some (True, c_NetworkConnectionStatus ord from)"
  by (simp add: map_NetworkConnectionStatus_def zero_upsf_network_connection_status_t_def
      zero_key_values_def copy_range_c_array c_NetworkConnectionStatus_def)

lemma map_upsf_network_connection_status_t_eq [simp]:
  assumes "ok_NetworkConnectionStatus from"
  shows "map_upsf_network_connection_status_t from to = Some (True, p_NetworkConnectionStatus from to)"
proof -
  have "fold_n insert_nc_active (c_nct_nc_active from) (unat (c_nct_nc_active_size from)) m
      = Some (p_nc_active (c_nct_nc_active from) (c_nct_nc_active_size from) m)" for m
    unfolding p_nc_active_def
    by (rule fold_n_fold[OF assms[unfolded ok_NetworkConnectionStatus_def]])
      (simp add: insert_nc_active_def)
  then show ?thesis
    by (simp add: map_upsf_network_connection_status_t_def p_NetworkConnectionStatus_def)
qed

lemma clean_c_NetworkConnectionStatus [simp]:
  "clean_NetworkConnectionStatus (c_NetworkConnectionStatus ord m)"
  by (simp add: clean_NetworkConnectionStatus_def c_NetworkConnectionStatus_def)
    (rule clean_c_array, simp add: clean_key_value_def c_nc_active_def)

lemma clean_NetworkConnectionStatus_ok:
  "clean_NetworkConnectionStatus x \<Longrightarrow> ok_NetworkConnectionStatus x"
  unfolding clean_NetworkConnectionStatus_def ok_NetworkConnectionStatus_def
  by (erule ok_array_mono[OF clean_array_ok]) (simp add: clean_key_value_def clean_string_ok)

text \<open>What the status keeps: the keys. Every flag comes back set, and the shard count zero.\<close>

definition lossy_NetworkConnectionStatus :: "NetworkConnectionStatus \<Rightarrow> NetworkConnectionStatus" where
  "lossy_NetworkConnectionStatus m = m\<lparr>nct_nc_active := fmmap (\<lambda>_. True) (nct_nc_active m),
                                       nct_allocated_shards := 0\<rparr>"

lemma p_c_NetworkConnectionStatus [simp]:
  assumes "valid_order ord" and "fits_NetworkConnectionStatus m"
  shows "p_NetworkConnectionStatus (c_NetworkConnectionStatus ord m) dflt_NetworkConnectionStatus
    = lossy_NetworkConnectionStatus m"
proof -
  have "p_nc_active (c_nc_actives (ord (nct_nc_active m))) (c_size (ord (nct_nc_active m))) fmempty
      = fmmap (\<lambda>_. True) (nct_nc_active m)"
    unfolding p_nc_active_def
    by (rule entries_roundtrip[OF assms(1) assms(2)[unfolded fits_NetworkConnectionStatus_def],
          where key = "\<lambda>e. p_string (kv_key e)" and val = "\<lambda>_. True"])
      (simp_all add: c_nc_active_def)
  then show ?thesis
    by (simp add: p_NetworkConnectionStatus_def c_NetworkConnectionStatus_def
        lossy_NetworkConnectionStatus_def dflt_NetworkConnectionStatus_def)
qed

section \<open>NetworkConnection\<close>

definition map_NetworkConnection ::
    "((string, bool) fmap \<Rightarrow> (string \<times> bool) list) \<Rightarrow> NetworkConnection
      \<Rightarrow> upsf_network_connection_t \<Rightarrow> (bool \<times> upsf_network_connection_t) ub" where
  "map_NetworkConnection ord from to = do {
     let to = zero_upsf_network_connection_t;
     s \<leftarrow> put_string (c_nc_name to) (nc_name from);
     let to = to\<lparr>c_nc_name := s\<rparr>;
     s \<leftarrow> put_string (c_md_description (c_nc_metadata to))
            (md_description (sub_msg dflt_MetaData (nc_metadata from)));
     let to = to\<lparr>c_nc_metadata := (c_nc_metadata to)\<lparr>c_md_description := s\<rparr>\<rparr>;
     let to = to\<lparr>c_nc_metadata := (c_nc_metadata to)
                \<lparr>c_md_derived_state := md_derived_state (sub_msg dflt_MetaData (nc_metadata from))\<rparr>\<rparr>;
     let to = to\<lparr>c_nc_maintenance := (c_nc_maintenance to)
                \<lparr>c_mt_maintenance_req :=
                   mt_maintenance_req (sub_msg dflt_Maintenance (nc_maintenance from))\<rparr>\<rparr>;
     (_, sp) \<leftarrow> map_NetworkConnectionSpec (sub_msg dflt_NetworkConnectionSpec (nc_spec from)) (c_nc_spec to);
     let to = to\<lparr>c_nc_spec := sp\<rparr>;
     (_, st) \<leftarrow> map_NetworkConnectionStatus ord (sub_msg dflt_NetworkConnectionStatus (nc_status from))
                  (c_nc_status to);
     let to = to\<lparr>c_nc_status := st\<rparr>;
     Some (True, to)
   }"

definition map_upsf_network_connection_t ::
    "upsf_network_connection_t \<Rightarrow> NetworkConnection \<Rightarrow> (bool \<times> NetworkConnection) ub" where
  "map_upsf_network_connection_t from to = do {
     s \<leftarrow> std_string (c_nc_name from);
     let to = to\<lparr>nc_name := s\<rparr>;
     s \<leftarrow> std_string (c_md_description (c_nc_metadata from));
     let to = to\<lparr>nc_metadata := Some ((sub_msg dflt_MetaData (nc_metadata to))\<lparr>md_description := s\<rparr>)\<rparr>;
     let to = to\<lparr>nc_metadata := Some ((sub_msg dflt_MetaData (nc_metadata to))
                \<lparr>md_derived_state := c_md_derived_state (c_nc_metadata from)\<rparr>)\<rparr>;
     let to = to\<lparr>nc_maintenance := Some ((sub_msg dflt_Maintenance (nc_maintenance to))
                \<lparr>mt_maintenance_req := c_mt_maintenance_req (c_nc_maintenance from)\<rparr>)\<rparr>;
     (_, sp) \<leftarrow> map_upsf_network_connection_spec_t (c_nc_spec from)
                  (sub_msg dflt_NetworkConnectionSpec (nc_spec to));
     let to = to\<lparr>nc_spec := Some sp\<rparr>;
     (_, st) \<leftarrow> map_upsf_network_connection_status_t (c_nc_status from)
                  (sub_msg dflt_NetworkConnectionStatus (nc_status to));
     let to = to\<lparr>nc_status := Some st\<rparr>;
     Some (True, to)
   }"

definition c_NetworkConnection ::
    "((string, bool) fmap \<Rightarrow> (string \<times> bool) list) \<Rightarrow> NetworkConnection
      \<Rightarrow> upsf_network_connection_t" where [c_defs]:
  "c_NetworkConnection ord m = \<lparr>c_nc_name = c_string (nc_name m),
     c_nc_metadata = c_MetaData (sub_msg dflt_MetaData (nc_metadata m)),
     c_nc_maintenance = c_Maintenance (sub_msg dflt_Maintenance (nc_maintenance m)),
     c_nc_spec = c_NetworkConnectionSpec (sub_msg dflt_NetworkConnectionSpec (nc_spec m)),
     c_nc_status = c_NetworkConnectionStatus ord (sub_msg dflt_NetworkConnectionStatus (nc_status m))\<rparr>"

definition p_NetworkConnection ::
    "upsf_network_connection_t \<Rightarrow> NetworkConnection \<Rightarrow> NetworkConnection" where [p_defs]:
  "p_NetworkConnection x m = \<lparr>nc_name = p_string (c_nc_name x),
     nc_metadata = Some (p_MetaData (c_nc_metadata x) (sub_msg dflt_MetaData (nc_metadata m))),
     nc_maintenance = Some (p_Maintenance (c_nc_maintenance x)),
     nc_spec = Some (p_NetworkConnectionSpec (c_nc_spec x)
       (sub_msg dflt_NetworkConnectionSpec (nc_spec m))),
     nc_status = Some (p_NetworkConnectionStatus (c_nc_status x)
       (sub_msg dflt_NetworkConnectionStatus (nc_status m)))\<rparr>"

definition ok_NetworkConnection :: "upsf_network_connection_t \<Rightarrow> bool" where [ok_defs]:
  "ok_NetworkConnection x \<longleftrightarrow> ok_string (c_nc_name x) \<and> ok_MetaData (c_nc_metadata x) \<and>
     ok_NetworkConnectionSpec (c_nc_spec x) \<and> ok_NetworkConnectionStatus (c_nc_status x)"

definition clean_NetworkConnection :: "upsf_network_connection_t \<Rightarrow> bool" where [clean_defs]:
  "clean_NetworkConnection x \<longleftrightarrow> clean_string (c_nc_name x) \<and> clean_MetaData (c_nc_metadata x) \<and>
     clean_NetworkConnectionSpec (c_nc_spec x) \<and> clean_NetworkConnectionStatus (c_nc_status x)"

definition fits_NetworkConnection :: "NetworkConnection \<Rightarrow> bool" where [fits_defs]:
  "fits_NetworkConnection m \<longleftrightarrow> fits_string (nc_name m) \<and> has_fitting fits_MetaData (nc_metadata m) \<and>
     nc_maintenance m \<noteq> None \<and> has_fitting fits_NetworkConnectionSpec (nc_spec m) \<and>
     has_fitting fits_NetworkConnectionStatus (nc_status m)"

definition lossy_NetworkConnection :: "NetworkConnection \<Rightarrow> NetworkConnection" where
  "lossy_NetworkConnection m = m\<lparr>nc_status := map_option lossy_NetworkConnectionStatus (nc_status m)\<rparr>"

lemma map_NetworkConnection_eq [simp]:
  "map_NetworkConnection ord from to = Some (True, c_NetworkConnection ord from)"
  by (simp add: map_NetworkConnection_def zero_upsf_network_connection_t_def zero_upsf_metadata_t_def
      zero_upsf_maintenance_t_def c_NetworkConnection_def c_MetaData_def c_Maintenance_def)

lemma map_upsf_network_connection_t_eq [simp]:
  "ok_NetworkConnection from \<Longrightarrow>
   map_upsf_network_connection_t from to = Some (True, p_NetworkConnection from to)"
  by (simp add: map_upsf_network_connection_t_def ok_NetworkConnection_def ok_MetaData_def
      p_NetworkConnection_def p_MetaData_def p_Maintenance_def)

lemma clean_c_NetworkConnection: "clean_NetworkConnection (c_NetworkConnection ord m)"
  by (simp add: clean_NetworkConnection_def c_NetworkConnection_def)

lemma clean_NetworkConnection_ok: "clean_NetworkConnection x \<Longrightarrow> ok_NetworkConnection x"
  by (simp add: clean_NetworkConnection_def ok_NetworkConnection_def clean_string_ok clean_MetaData_ok
      clean_NetworkConnectionSpec_ok clean_NetworkConnectionStatus_ok)

lemma p_c_NetworkConnection:
  "valid_order ord \<Longrightarrow> fits_NetworkConnection m \<Longrightarrow>
   p_NetworkConnection (c_NetworkConnection ord m) dflt_NetworkConnection = lossy_NetworkConnection m"
  by (cases m) (auto simp: p_NetworkConnection_def c_NetworkConnection_def fits_NetworkConnection_def
      dflt_NetworkConnection_def lossy_NetworkConnection_def c_cut_fits)

interpretation nc: item_mapping "map_NetworkConnection ord" map_upsf_network_connection_t
  "c_NetworkConnection ord" p_NetworkConnection dflt_NetworkConnection
  ok_NetworkConnection clean_NetworkConnection for ord
  by unfold_locales (simp_all add: clean_c_NetworkConnection clean_NetworkConnection_ok)

text \<open>Lossless, in key order, exactly on what the loss does not touch.\<close>

interpretation nc_sorted: lossless_mapping "map_NetworkConnection sorted_list_of_fmap"
  map_upsf_network_connection_t "c_NetworkConnection sorted_list_of_fmap" p_NetworkConnection
  dflt_NetworkConnection ok_NetworkConnection clean_NetworkConnection
  "\<lambda>m. fits_NetworkConnection m \<and> lossy_NetworkConnection m = m"
  by unfold_locales (simp add: p_c_NetworkConnection sorted_list_of_fmap_valid)

section \<open>Properties\<close>

definition example_connection :: NetworkConnection where
  "example_connection = \<lparr>nc_name = ''nc-1'', nc_metadata = Some dflt_MetaData,
     nc_maintenance = Some \<lparr>mt_maintenance_req = 0\<rparr>,
     nc_spec = Some \<lparr>ncs_maximum_supported_quality = 5,
       ncs_nc_spec = NC_ss_mptpc \<lparr>ssm_sgup_endpoint = [dflt_Endpoint],
         ssm_tsf_endpoint = [\<lparr>ep_endpoint_name = ''tsf'', ep_transport = TE_l2vpn \<lparr>l2_vpn_id = 9\<rparr>\<rparr>]\<rparr>\<rparr>,
     nc_status = Some \<lparr>nct_nc_active = fmupd ''tsf-1'' False fmempty, nct_allocated_shards = 3\<rparr>\<rparr>"

lemma example_connection_fits: "fits_NetworkConnection example_connection"
  by (auto simp: example_connection_def fits_NetworkConnection_def fits_NetworkConnectionSpec_def
      fits_nc_spec_def fits_NetworkConnectionStatus_def fits_Endpoint_def dflt_Endpoint_def
      fits_MetaData_def dflt_MetaData_def fits_list_def fits_string_def fits_map_def
      UPSF_MAX_STRING_SIZE_def UPSF_MAX_ELEMS_def fcard_finsert_if fcard_fempty fmpred_iff split: if_splits)

text \<open>
  C4. A network connection message within the limits comes back from the way to the
  structure and back with all of its fields but two: every flag of \<open>nc_active\<close> is set, and the
  number of allocated shards is zero.
\<close>

theorem network_connection_loss:
  assumes "valid_order ord" and "fits_NetworkConnection m"
  shows "do { (_, c) \<leftarrow> map_NetworkConnection ord m x;
              map_upsf_network_connection_t c dflt_NetworkConnection }
    = Some (True, m\<lparr>nc_status := map_option
        (\<lambda>st. st\<lparr>nct_nc_active := fmmap (\<lambda>_. True) (nct_nc_active st), nct_allocated_shards := 0\<rparr>)
        (nc_status m)\<rparr>)"
  using p_c_NetworkConnection[OF assms]
  by (simp add: clean_NetworkConnection_ok clean_c_NetworkConnection lossy_NetworkConnection_def
      lossy_NetworkConnectionStatus_def[abs_def])

lemma network_connection_loss_witness:
  "do { (_, c) \<leftarrow> map_NetworkConnection sorted_list_of_fmap example_connection zero_upsf_network_connection_t;
        map_upsf_network_connection_t c dflt_NetworkConnection }
   = Some (True, example_connection\<lparr>nc_status :=
       Some \<lparr>nct_nc_active = fmupd ''tsf-1'' True fmempty, nct_allocated_shards = 0\<rparr>\<rparr>)"
  using network_connection_loss[OF sorted_list_of_fmap_valid example_connection_fits]
  by (simp add: example_connection_def)

text \<open>
  C33. Two specifications change their kind on the way to the structure and back, and both
  mappings report success: one without an alternative becomes a single-site point-to-point
  connection, and a point-to-multipoint one without endpoints loses its alternative.
\<close>

theorem nc_spec_kind_changes:
  "do { (_, c) \<leftarrow> map_NetworkConnectionSpec \<lparr>ncs_maximum_supported_quality = q, ncs_nc_spec = NC_not_set\<rparr> x;
        map_upsf_network_connection_spec_t c dflt_NetworkConnectionSpec }
    = Some (True, \<lparr>ncs_maximum_supported_quality = q,
        ncs_nc_spec = NC_ss_ptp \<lparr>ssp_sgup_endpoint = [], ssp_tsf_endpoint = Some dflt_Endpoint\<rparr>\<rparr>) \<and>
   do { (_, c) \<leftarrow> map_NetworkConnectionSpec
          \<lparr>ncs_maximum_supported_quality = q, ncs_nc_spec = NC_ss_mptpc dflt_SsMptpSpec\<rparr> x;
        map_upsf_network_connection_spec_t c dflt_NetworkConnectionSpec }
    = Some (True, \<lparr>ncs_maximum_supported_quality = q, ncs_nc_spec = NC_not_set\<rparr>)"
proof -
  have known: "known_nc_spec_type (c_NetworkConnectionSpec m)" for m
    by (cases "ncs_nc_spec m")
      (simp_all add: known_nc_spec_type_def c_NetworkConnectionSpec_def c_nc_spec_type_def)
  have ok: "ok_NetworkConnectionSpec (c_NetworkConnectionSpec m)" for m
    by (rule clean_NetworkConnectionSpec_ok) (rule clean_c_NetworkConnectionSpec)
  have q: "c_ncs_maximum_supported_quality (c_NetworkConnectionSpec m) = ncs_maximum_supported_quality m" for m
    by (simp add: c_NetworkConnectionSpec_def)
  show ?thesis
    by (simp add: ok known q p_NetworkConnectionSpec_def p_c_nc_spec_not_set p_c_nc_spec_empty_mptp
        dflt_NetworkConnectionSpec_def)
qed

text \<open>
  The flags of \<open>nc_active\<close> are not sent: every key of the array arrives with the value
  true, whatever the string beside it says, even one that is not terminated.
\<close>

theorem nc_active_values_ignored:
  assumes "ok_NetworkConnectionStatus x"
  shows "\<exists>m. map_upsf_network_connection_status_t x dflt_NetworkConnectionStatus = Some (True, m) \<and>
    fmpred (\<lambda>_ flag. flag) (nct_nc_active m) \<and>
    fmdom (nct_nc_active m) = fset_of_list (map (p_string \<circ> kv_key)
      (take (unat (c_nct_nc_active_size x)) (c_nct_nc_active x)))"
proof -
  have "fmpred (\<lambda>_ flag. flag) (fold (\<lambda>e. fmupd (p_string (kv_key e)) True) es m)"
    if "fmpred (\<lambda>_ flag. flag) m" for es :: "upsf_key_value_t list" and m
    using that by (induction es arbitrary: m) (simp_all add: fmpred_upd)
  moreover have "fmdom (fold (\<lambda>e. fmupd (p_string (kv_key e)) True) es m)
      = fmdom m |\<union>| fset_of_list (map (p_string \<circ> kv_key) es)" for es :: "upsf_key_value_t list" and m :: "(string, bool) fmap"
    by (induction es arbitrary: m) auto
  ultimately show ?thesis
    using assms by (simp add: p_NetworkConnectionStatus_def p_nc_active_def dflt_NetworkConnectionStatus_def)
qed

lemma nc_active_values_ignored_witness:
  "\<exists>m. map_upsf_network_connection_status_t
      (zero_upsf_network_connection_status_t\<lparr>c_nct_nc_active_size := 1\<rparr>) dflt_NetworkConnectionStatus
    = Some (True, m) \<and> fmpred (\<lambda>_ flag. flag) (nct_nc_active m)"
proof -
  have "ok_NetworkConnectionStatus (zero_upsf_network_connection_status_t\<lparr>c_nct_nc_active_size := 1\<rparr>)"
    by (simp add: ok_NetworkConnectionStatus_def zero_upsf_network_connection_status_t_def
        zero_key_values_def ok_array_def UPSF_MAX_ELEMS_def zero_upsf_key_value_t_def ok_string_def
        zero_string_def UPSF_MAX_STRING_SIZE_def)
  from nc_active_values_ignored[OF this] show ?thesis by blast
qed

end
