(* ===== verification/MapShard.thy ===== *)
theory MapShard
  imports KeyValues
begin

text \<open>
  \<^verbatim>\<open>UpsfMapping::map\<close> for \<^verbatim>\<open>Shard\<close> with its \<^verbatim>\<open>Spec\<close>, \<^verbatim>\<open>Spec::DesiredState\<close>,
  \<^verbatim>\<open>Status\<close>, \<^verbatim>\<open>Status::CurrentState\<close> and \<^verbatim>\<open>Mbb\<close>, both directions, and the
  interpretation of the mapping interface. The parameter \<open>ord\<close> is the iteration order of
  the map \<^verbatim>\<open>tsf_network_connection\<close>.
\<close>

section \<open>Spec::DesiredState\<close>

definition map_ShardSpecDesiredState ::
    "ShardSpecDesiredState \<Rightarrow> upsf_shard_spec_desired_state_t
      \<Rightarrow> (bool \<times> upsf_shard_spec_desired_state_t) ub" where
  "map_ShardSpecDesiredState from to = do {
     let to = zero_upsf_shard_spec_desired_state_t;
     s \<leftarrow> put_string (c_shd_service_gateway_user_plane to) (shd_service_gateway_user_plane from);
     let to = to\<lparr>c_shd_service_gateway_user_plane := s\<rparr>;
     let to = to\<lparr>c_shd_network_connection_size :=
                  bounded_size (shd_network_connection from) UPSF_MAX_ELEMS\<rparr>;
     a \<leftarrow> copy_n put_string (shd_network_connection from)
            (unat (c_shd_network_connection_size to)) (c_shd_network_connection to);
     let to = to\<lparr>c_shd_network_connection := a\<rparr>;
     Some (True, to)
   }"

definition map_upsf_shard_spec_desired_state_t ::
    "upsf_shard_spec_desired_state_t \<Rightarrow> ShardSpecDesiredState
      \<Rightarrow> (bool \<times> ShardSpecDesiredState) ub" where
  "map_upsf_shard_spec_desired_state_t from to = do {
     s \<leftarrow> std_string (c_shd_service_gateway_user_plane from);
     let to = to\<lparr>shd_service_gateway_user_plane := s\<rparr>;
     g \<leftarrow> add_n std_string (c_shd_network_connection from)
            (unat (c_shd_network_connection_size from)) (shd_network_connection to);
     let to = to\<lparr>shd_network_connection := g\<rparr>;
     Some (True, to)
   }"

definition c_ShardSpecDesiredState :: "ShardSpecDesiredState \<Rightarrow> upsf_shard_spec_desired_state_t"
  where [c_defs]:
  "c_ShardSpecDesiredState m =
     \<lparr>c_shd_service_gateway_user_plane = c_string (shd_service_gateway_user_plane m),
      c_shd_network_connection = c_strings (shd_network_connection m),
      c_shd_network_connection_size = c_size (shd_network_connection m)\<rparr>"

definition p_ShardSpecDesiredState ::
    "upsf_shard_spec_desired_state_t \<Rightarrow> ShardSpecDesiredState \<Rightarrow> ShardSpecDesiredState" where [p_defs]:
  "p_ShardSpecDesiredState x m =
     \<lparr>shd_service_gateway_user_plane = p_string (c_shd_service_gateway_user_plane x),
      shd_network_connection = shd_network_connection m @
        p_strings (c_shd_network_connection x) (c_shd_network_connection_size x)\<rparr>"

definition ok_ShardSpecDesiredState :: "upsf_shard_spec_desired_state_t \<Rightarrow> bool" where [ok_defs]:
  "ok_ShardSpecDesiredState x \<longleftrightarrow> ok_string (c_shd_service_gateway_user_plane x) \<and>
     ok_strings (c_shd_network_connection x) (c_shd_network_connection_size x)"

definition clean_ShardSpecDesiredState :: "upsf_shard_spec_desired_state_t \<Rightarrow> bool" where [clean_defs]:
  "clean_ShardSpecDesiredState x \<longleftrightarrow> clean_string (c_shd_service_gateway_user_plane x) \<and>
     clean_strings (c_shd_network_connection x) (c_shd_network_connection_size x)"

definition fits_ShardSpecDesiredState :: "ShardSpecDesiredState \<Rightarrow> bool" where [fits_defs]:
  "fits_ShardSpecDesiredState m \<longleftrightarrow> fits_string (shd_service_gateway_user_plane m) \<and>
     fits_strings (shd_network_connection m)"

lemma map_ShardSpecDesiredState_eq [simp]:
  "map_ShardSpecDesiredState from to = Some (True, c_ShardSpecDesiredState from)"
  by (simp add: map_ShardSpecDesiredState_def zero_upsf_shard_spec_desired_state_t_def
      c_ShardSpecDesiredState_def)

lemma map_upsf_shard_spec_desired_state_t_eq [simp]:
  "ok_ShardSpecDesiredState from \<Longrightarrow>
   map_upsf_shard_spec_desired_state_t from to = Some (True, p_ShardSpecDesiredState from to)"
  by (simp add: map_upsf_shard_spec_desired_state_t_def ok_ShardSpecDesiredState_def
      p_ShardSpecDesiredState_def)

lemma clean_c_ShardSpecDesiredState [simp]: "clean_ShardSpecDesiredState (c_ShardSpecDesiredState m)"
  by (simp add: clean_ShardSpecDesiredState_def c_ShardSpecDesiredState_def)

lemma clean_ShardSpecDesiredState_ok: "clean_ShardSpecDesiredState x \<Longrightarrow> ok_ShardSpecDesiredState x"
  by (simp add: clean_ShardSpecDesiredState_def ok_ShardSpecDesiredState_def clean_string_ok
      clean_strings_ok)

lemma p_c_ShardSpecDesiredState [simp]:
  "fits_ShardSpecDesiredState m \<Longrightarrow>
   p_ShardSpecDesiredState (c_ShardSpecDesiredState m) dflt_ShardSpecDesiredState = m"
  by (cases m) (auto simp: p_ShardSpecDesiredState_def c_ShardSpecDesiredState_def
      fits_ShardSpecDesiredState_def dflt_ShardSpecDesiredState_def c_cut_fits)

section \<open>Spec\<close>

definition map_ShardSpec :: "ShardSpec \<Rightarrow> upsf_shard_spec_t \<Rightarrow> (bool \<times> upsf_shard_spec_t) ub" where
  "map_ShardSpec from to = do {
     let to = zero_upsf_shard_spec_t;
     let to = to\<lparr>c_shs_max_session_count := shs_max_session_count from\<rparr>;
     s \<leftarrow> put_string (c_shs_virtual_mac to) (shs_virtual_mac from);
     let to = to\<lparr>c_shs_virtual_mac := s\<rparr>;
     (_, d) \<leftarrow> map_ShardSpecDesiredState (sub_msg dflt_ShardSpecDesiredState (shs_desired_state from))
                 (c_shs_desired_state to);
     let to = to\<lparr>c_shs_desired_state := d\<rparr>;
     let to = to\<lparr>c_shs_prefix_size := bounded_size (shs_prefix from) UPSF_MAX_ELEMS\<rparr>;
     a \<leftarrow> copy_n put_string (shs_prefix from) (unat (c_shs_prefix_size to)) (c_shs_prefix to);
     let to = to\<lparr>c_shs_prefix := a\<rparr>;
     Some (True, to)
   }"

definition map_upsf_shard_spec_t :: "upsf_shard_spec_t \<Rightarrow> ShardSpec \<Rightarrow> (bool \<times> ShardSpec) ub" where
  "map_upsf_shard_spec_t from to = do {
     let to = to\<lparr>shs_max_session_count := c_shs_max_session_count from\<rparr>;
     s \<leftarrow> std_string (c_shs_virtual_mac from);
     let to = to\<lparr>shs_virtual_mac := s\<rparr>;
     (_, d) \<leftarrow> map_upsf_shard_spec_desired_state_t (c_shs_desired_state from)
                 (sub_msg dflt_ShardSpecDesiredState (shs_desired_state to));
     let to = to\<lparr>shs_desired_state := Some d\<rparr>;
     g \<leftarrow> add_n std_string (c_shs_prefix from) (unat (c_shs_prefix_size from)) (shs_prefix to);
     let to = to\<lparr>shs_prefix := g\<rparr>;
     Some (True, to)
   }"

definition c_ShardSpec :: "ShardSpec \<Rightarrow> upsf_shard_spec_t" where [c_defs]:
  "c_ShardSpec m = \<lparr>c_shs_max_session_count = shs_max_session_count m,
     c_shs_virtual_mac = c_string (shs_virtual_mac m),
     c_shs_desired_state = c_ShardSpecDesiredState (sub_msg dflt_ShardSpecDesiredState (shs_desired_state m)),
     c_shs_prefix = c_strings (shs_prefix m), c_shs_prefix_size = c_size (shs_prefix m)\<rparr>"

definition p_ShardSpec :: "upsf_shard_spec_t \<Rightarrow> ShardSpec \<Rightarrow> ShardSpec" where [p_defs]:
  "p_ShardSpec x m = \<lparr>shs_max_session_count = c_shs_max_session_count x,
     shs_virtual_mac = p_string (c_shs_virtual_mac x),
     shs_desired_state = Some (p_ShardSpecDesiredState (c_shs_desired_state x)
       (sub_msg dflt_ShardSpecDesiredState (shs_desired_state m))),
     shs_prefix = shs_prefix m @ p_strings (c_shs_prefix x) (c_shs_prefix_size x)\<rparr>"

definition ok_ShardSpec :: "upsf_shard_spec_t \<Rightarrow> bool" where [ok_defs]:
  "ok_ShardSpec x \<longleftrightarrow> ok_string (c_shs_virtual_mac x) \<and>
     ok_ShardSpecDesiredState (c_shs_desired_state x) \<and>
     ok_strings (c_shs_prefix x) (c_shs_prefix_size x)"

definition clean_ShardSpec :: "upsf_shard_spec_t \<Rightarrow> bool" where [clean_defs]:
  "clean_ShardSpec x \<longleftrightarrow> clean_string (c_shs_virtual_mac x) \<and>
     clean_ShardSpecDesiredState (c_shs_desired_state x) \<and>
     clean_strings (c_shs_prefix x) (c_shs_prefix_size x)"

definition fits_ShardSpec :: "ShardSpec \<Rightarrow> bool" where [fits_defs]:
  "fits_ShardSpec m \<longleftrightarrow> fits_string (shs_virtual_mac m) \<and>
     has_fitting fits_ShardSpecDesiredState (shs_desired_state m) \<and> fits_strings (shs_prefix m)"

lemma map_ShardSpec_eq [simp]: "map_ShardSpec from to = Some (True, c_ShardSpec from)"
  by (simp add: map_ShardSpec_def zero_upsf_shard_spec_t_def c_ShardSpec_def)

lemma map_upsf_shard_spec_t_eq [simp]:
  "ok_ShardSpec from \<Longrightarrow> map_upsf_shard_spec_t from to = Some (True, p_ShardSpec from to)"
  by (simp add: map_upsf_shard_spec_t_def ok_ShardSpec_def p_ShardSpec_def)

lemma clean_c_ShardSpec [simp]: "clean_ShardSpec (c_ShardSpec m)"
  by (simp add: clean_ShardSpec_def c_ShardSpec_def)

lemma clean_ShardSpec_ok: "clean_ShardSpec x \<Longrightarrow> ok_ShardSpec x"
  by (simp add: clean_ShardSpec_def ok_ShardSpec_def clean_string_ok clean_strings_ok
      clean_ShardSpecDesiredState_ok)

lemma p_c_ShardSpec [simp]: "fits_ShardSpec m \<Longrightarrow> p_ShardSpec (c_ShardSpec m) dflt_ShardSpec = m"
  by (cases m) (auto simp: p_ShardSpec_def c_ShardSpec_def fits_ShardSpec_def dflt_ShardSpec_def c_cut_fits)

section \<open>Status::CurrentState\<close>

definition put_key_value :: "upsf_key_value_t \<Rightarrow> string \<times> string \<Rightarrow> upsf_key_value_t ub" where
  "put_key_value e it = do {
     s \<leftarrow> put_string (kv_key e) (fst it);
     let e = e\<lparr>kv_key := s\<rparr>;
     s \<leftarrow> put_string (kv_value e) (snd it);
     Some (e\<lparr>kv_value := s\<rparr>)
   }"

definition map_ShardStatusCurrentState ::
    "((string, string) fmap \<Rightarrow> (string \<times> string) list) \<Rightarrow> ShardStatusCurrentState
      \<Rightarrow> upsf_shard_status_current_state_t \<Rightarrow> (bool \<times> upsf_shard_status_current_state_t) ub" where
  "map_ShardStatusCurrentState ord from to = do {
     let to = zero_upsf_shard_status_current_state_t;
     s \<leftarrow> put_string (c_shc_service_gateway_user_plane to) (shc_service_gateway_user_plane from);
     let to = to\<lparr>c_shc_service_gateway_user_plane := s\<rparr>;
     (i, a) \<leftarrow> copy_range put_key_value UPSF_MAX_ELEMS (ord (shc_tsf_network_connection from)) 0
                 (c_shc_tsf_network_connection to);
     let to = to\<lparr>c_shc_tsf_network_connection := a\<rparr>;
     let to = to\<lparr>c_shc_tsf_network_connection_size := of_nat i\<rparr>;
     Some (True, to)
   }"

text \<open>\<^verbatim>\<open>(*to.mutable_tsf_network_connection())[e.key.str] = e.value.str;\<close>\<close>

definition insert_key_value ::
    "upsf_key_value_t \<Rightarrow> (string, string) fmap \<Rightarrow> (string, string) fmap ub" where
  "insert_key_value e m = do {
     k \<leftarrow> std_string (kv_key e);
     v \<leftarrow> std_string (kv_value e);
     Some (fmupd k v m)
   }"

definition map_upsf_shard_status_current_state_t ::
    "upsf_shard_status_current_state_t \<Rightarrow> ShardStatusCurrentState
      \<Rightarrow> (bool \<times> ShardStatusCurrentState) ub" where
  "map_upsf_shard_status_current_state_t from to = do {
     s \<leftarrow> std_string (c_shc_service_gateway_user_plane from);
     let to = to\<lparr>shc_service_gateway_user_plane := s\<rparr>;
     m \<leftarrow> fold_n insert_key_value (c_shc_tsf_network_connection from)
            (unat (c_shc_tsf_network_connection_size from)) (shc_tsf_network_connection to);
     let to = to\<lparr>shc_tsf_network_connection := m\<rparr>;
     Some (True, to)
   }"

definition c_key_value :: "string \<times> string \<Rightarrow> upsf_key_value_t" where
  "c_key_value it = \<lparr>kv_key = c_string (fst it), kv_value = c_string (snd it)\<rparr>"

abbreviation c_key_values :: "(string \<times> string) list \<Rightarrow> upsf_key_value_t list" where
  "c_key_values \<equiv> c_array zero_upsf_key_value_t c_key_value"

definition p_key_values ::
    "upsf_key_value_t list \<Rightarrow> size_t \<Rightarrow> (string, string) fmap \<Rightarrow> (string, string) fmap" where
  "p_key_values a n m =
     fold (\<lambda>e. fmupd (p_string (kv_key e)) (p_string (kv_value e))) (take (unat n) a) m"

definition c_ShardStatusCurrentState ::
    "((string, string) fmap \<Rightarrow> (string \<times> string) list) \<Rightarrow> ShardStatusCurrentState
      \<Rightarrow> upsf_shard_status_current_state_t" where [c_defs]:
  "c_ShardStatusCurrentState ord m =
     \<lparr>c_shc_service_gateway_user_plane = c_string (shc_service_gateway_user_plane m),
      c_shc_tsf_network_connection = c_key_values (ord (shc_tsf_network_connection m)),
      c_shc_tsf_network_connection_size = c_size (ord (shc_tsf_network_connection m))\<rparr>"

definition p_ShardStatusCurrentState ::
    "upsf_shard_status_current_state_t \<Rightarrow> ShardStatusCurrentState \<Rightarrow> ShardStatusCurrentState"
  where [p_defs]:
  "p_ShardStatusCurrentState x m =
     \<lparr>shc_service_gateway_user_plane = p_string (c_shc_service_gateway_user_plane x),
      shc_tsf_network_connection = p_key_values (c_shc_tsf_network_connection x)
        (c_shc_tsf_network_connection_size x) (shc_tsf_network_connection m)\<rparr>"

definition ok_ShardStatusCurrentState :: "upsf_shard_status_current_state_t \<Rightarrow> bool" where [ok_defs]:
  "ok_ShardStatusCurrentState x \<longleftrightarrow> ok_string (c_shc_service_gateway_user_plane x) \<and>
     ok_array ok_key_value (c_shc_tsf_network_connection x) (c_shc_tsf_network_connection_size x)"

definition clean_ShardStatusCurrentState :: "upsf_shard_status_current_state_t \<Rightarrow> bool"
  where [clean_defs]:
  "clean_ShardStatusCurrentState x \<longleftrightarrow> clean_string (c_shc_service_gateway_user_plane x) \<and>
     clean_array zero_upsf_key_value_t clean_key_value (c_shc_tsf_network_connection x)
       (c_shc_tsf_network_connection_size x)"

definition fits_ShardStatusCurrentState :: "ShardStatusCurrentState \<Rightarrow> bool" where [fits_defs]:
  "fits_ShardStatusCurrentState m \<longleftrightarrow> fits_string (shc_service_gateway_user_plane m) \<and>
     fits_map fits_string (shc_tsf_network_connection m)"

lemma put_key_value_zero [simp]: "put_key_value zero_upsf_key_value_t it = Some (c_key_value it)"
  by (simp add: put_key_value_def zero_upsf_key_value_t_def c_key_value_def)

lemma copy_range_key_values [simp]:
  "copy_range put_key_value UPSF_MAX_ELEMS xs 0 zero_key_values = Some (unat (c_size xs), c_key_values xs)"
  by (simp add: zero_key_values_def copy_range_c_array)

lemma insert_key_values [simp]:
  "ok_array ok_key_value a n \<Longrightarrow> fold_n insert_key_value a (unat n) m = Some (p_key_values a n m)"
  by (simp add: p_key_values_def, erule fold_n_fold) (simp add: insert_key_value_def ok_key_value_def)

lemma clean_c_key_value [simp]: "clean_key_value (c_key_value it)"
  by (simp add: clean_key_value_def c_key_value_def)

lemma p_c_key_values [simp]:
  assumes "valid_order ord" and "fits_map fits_string m"
  shows "p_key_values (c_key_values (ord m)) (c_size (ord m)) fmempty = m"
proof -
  have "p_key_values (c_key_values (ord m)) (c_size (ord m)) fmempty = fmmap (\<lambda>v. v) m"
    unfolding p_key_values_def
    by (rule entries_roundtrip[OF assms]) (simp_all add: c_key_value_def c_cut_fits)
  then show ?thesis by (simp add: fmap.map_ident)
qed

lemma map_ShardStatusCurrentState_eq [simp]:
  "map_ShardStatusCurrentState ord from to = Some (True, c_ShardStatusCurrentState ord from)"
  by (simp add: map_ShardStatusCurrentState_def zero_upsf_shard_status_current_state_t_def
      c_ShardStatusCurrentState_def)

lemma map_upsf_shard_status_current_state_t_eq [simp]:
  "ok_ShardStatusCurrentState from \<Longrightarrow>
   map_upsf_shard_status_current_state_t from to = Some (True, p_ShardStatusCurrentState from to)"
  by (simp add: map_upsf_shard_status_current_state_t_def ok_ShardStatusCurrentState_def
      p_ShardStatusCurrentState_def)

lemma clean_c_ShardStatusCurrentState [simp]:
  "clean_ShardStatusCurrentState (c_ShardStatusCurrentState ord m)"
  by (simp add: clean_ShardStatusCurrentState_def c_ShardStatusCurrentState_def clean_c_array)

lemma clean_ShardStatusCurrentState_ok:
  "clean_ShardStatusCurrentState x \<Longrightarrow> ok_ShardStatusCurrentState x"
  by (auto simp: clean_ShardStatusCurrentState_def ok_ShardStatusCurrentState_def clean_string_ok
      intro: ok_array_mono clean_array_ok clean_key_value_ok)

lemma p_c_ShardStatusCurrentState [simp]:
  "valid_order ord \<Longrightarrow> fits_ShardStatusCurrentState m \<Longrightarrow>
   p_ShardStatusCurrentState (c_ShardStatusCurrentState ord m) dflt_ShardStatusCurrentState = m"
  by (cases m) (simp add: p_ShardStatusCurrentState_def c_ShardStatusCurrentState_def
      fits_ShardStatusCurrentState_def dflt_ShardStatusCurrentState_def c_cut_fits)

section \<open>Status\<close>

definition map_ShardStatus ::
    "((string, string) fmap \<Rightarrow> (string \<times> string) list) \<Rightarrow> ShardStatus
      \<Rightarrow> upsf_shard_status_t \<Rightarrow> (bool \<times> upsf_shard_status_t) ub" where
  "map_ShardStatus ord from to = do {
     let to = zero_upsf_shard_status_t;
     let to = to\<lparr>c_sht_allocated_session_count := sht_allocated_session_count from\<rparr>;
     let to = to\<lparr>c_sht_maximum_allocated_quality := sht_maximum_allocated_quality from\<rparr>;
     let to = to\<lparr>c_sht_service_groups_supported_size :=
                  bounded_size (sht_service_groups_supported from) UPSF_MAX_ELEMS\<rparr>;
     a \<leftarrow> copy_n put_string (sht_service_groups_supported from)
            (unat (c_sht_service_groups_supported_size to)) (c_sht_service_groups_supported to);
     let to = to\<lparr>c_sht_service_groups_supported := a\<rparr>;
     (_, c) \<leftarrow> map_ShardStatusCurrentState ord
                 (sub_msg dflt_ShardStatusCurrentState (sht_current_state from)) (c_sht_current_state to);
     let to = to\<lparr>c_sht_current_state := c\<rparr>;
     Some (True, to)
   }"

definition map_upsf_shard_status_t ::
    "upsf_shard_status_t \<Rightarrow> ShardStatus \<Rightarrow> (bool \<times> ShardStatus) ub" where
  "map_upsf_shard_status_t from to = do {
     let to = to\<lparr>sht_allocated_session_count := c_sht_allocated_session_count from\<rparr>;
     let to = to\<lparr>sht_maximum_allocated_quality := c_sht_maximum_allocated_quality from\<rparr>;
     g \<leftarrow> add_n std_string (c_sht_service_groups_supported from)
            (unat (c_sht_service_groups_supported_size from)) (sht_service_groups_supported to);
     let to = to\<lparr>sht_service_groups_supported := g\<rparr>;
     (_, c) \<leftarrow> map_upsf_shard_status_current_state_t (c_sht_current_state from)
                 (sub_msg dflt_ShardStatusCurrentState (sht_current_state to));
     let to = to\<lparr>sht_current_state := Some c\<rparr>;
     Some (True, to)
   }"

definition c_ShardStatus ::
    "((string, string) fmap \<Rightarrow> (string \<times> string) list) \<Rightarrow> ShardStatus \<Rightarrow> upsf_shard_status_t"
  where [c_defs]:
  "c_ShardStatus ord m = \<lparr>c_sht_allocated_session_count = sht_allocated_session_count m,
     c_sht_maximum_allocated_quality = sht_maximum_allocated_quality m,
     c_sht_service_groups_supported = c_strings (sht_service_groups_supported m),
     c_sht_service_groups_supported_size = c_size (sht_service_groups_supported m),
     c_sht_current_state = c_ShardStatusCurrentState ord
       (sub_msg dflt_ShardStatusCurrentState (sht_current_state m))\<rparr>"

definition p_ShardStatus :: "upsf_shard_status_t \<Rightarrow> ShardStatus \<Rightarrow> ShardStatus" where [p_defs]:
  "p_ShardStatus x m = \<lparr>sht_allocated_session_count = c_sht_allocated_session_count x,
     sht_maximum_allocated_quality = c_sht_maximum_allocated_quality x,
     sht_service_groups_supported = sht_service_groups_supported m @
       p_strings (c_sht_service_groups_supported x) (c_sht_service_groups_supported_size x),
     sht_current_state = Some (p_ShardStatusCurrentState (c_sht_current_state x)
       (sub_msg dflt_ShardStatusCurrentState (sht_current_state m)))\<rparr>"

definition ok_ShardStatus :: "upsf_shard_status_t \<Rightarrow> bool" where [ok_defs]:
  "ok_ShardStatus x \<longleftrightarrow>
     ok_strings (c_sht_service_groups_supported x) (c_sht_service_groups_supported_size x) \<and>
     ok_ShardStatusCurrentState (c_sht_current_state x)"

definition clean_ShardStatus :: "upsf_shard_status_t \<Rightarrow> bool" where [clean_defs]:
  "clean_ShardStatus x \<longleftrightarrow>
     clean_strings (c_sht_service_groups_supported x) (c_sht_service_groups_supported_size x) \<and>
     clean_ShardStatusCurrentState (c_sht_current_state x)"

definition fits_ShardStatus :: "ShardStatus \<Rightarrow> bool" where [fits_defs]:
  "fits_ShardStatus m \<longleftrightarrow> fits_strings (sht_service_groups_supported m) \<and>
     has_fitting fits_ShardStatusCurrentState (sht_current_state m)"

lemma map_ShardStatus_eq [simp]: "map_ShardStatus ord from to = Some (True, c_ShardStatus ord from)"
  by (simp add: map_ShardStatus_def zero_upsf_shard_status_t_def c_ShardStatus_def)

lemma map_upsf_shard_status_t_eq [simp]:
  "ok_ShardStatus from \<Longrightarrow> map_upsf_shard_status_t from to = Some (True, p_ShardStatus from to)"
  by (simp add: map_upsf_shard_status_t_def ok_ShardStatus_def p_ShardStatus_def)

lemma clean_c_ShardStatus [simp]: "clean_ShardStatus (c_ShardStatus ord m)"
  by (simp add: clean_ShardStatus_def c_ShardStatus_def)

lemma clean_ShardStatus_ok: "clean_ShardStatus x \<Longrightarrow> ok_ShardStatus x"
  by (simp add: clean_ShardStatus_def ok_ShardStatus_def clean_strings_ok clean_ShardStatusCurrentState_ok)

lemma p_c_ShardStatus [simp]:
  "valid_order ord \<Longrightarrow> fits_ShardStatus m \<Longrightarrow> p_ShardStatus (c_ShardStatus ord m) dflt_ShardStatus = m"
  by (cases m) (auto simp: p_ShardStatus_def c_ShardStatus_def fits_ShardStatus_def dflt_ShardStatus_def)

section \<open>Mbb\<close>

definition map_ShardMbb :: "ShardMbb \<Rightarrow> upsf_shard_mbb_t \<Rightarrow> (bool \<times> upsf_shard_mbb_t) ub" where
  "map_ShardMbb from to = do {
     let to = zero_upsf_shard_mbb_t;
     let to = to\<lparr>c_shm_mbb_state := shm_mbb_state from\<rparr>;
     Some (True, to)
   }"

definition map_upsf_shard_mbb_t :: "upsf_shard_mbb_t \<Rightarrow> ShardMbb \<Rightarrow> (bool \<times> ShardMbb) ub" where
  "map_upsf_shard_mbb_t from to = do {
     let to = to\<lparr>shm_mbb_state := c_shm_mbb_state from\<rparr>;
     Some (True, to)
   }"

definition c_ShardMbb :: "ShardMbb \<Rightarrow> upsf_shard_mbb_t" where [c_defs]:
  "c_ShardMbb m = \<lparr>c_shm_mbb_state = shm_mbb_state m\<rparr>"

definition p_ShardMbb :: "upsf_shard_mbb_t \<Rightarrow> ShardMbb" where [p_defs]:
  "p_ShardMbb x = \<lparr>shm_mbb_state = c_shm_mbb_state x\<rparr>"

lemma map_ShardMbb_eq [simp]: "map_ShardMbb from to = Some (True, c_ShardMbb from)"
  by (simp add: map_ShardMbb_def zero_upsf_shard_mbb_t_def c_ShardMbb_def)

lemma map_upsf_shard_mbb_t_eq [simp]: "map_upsf_shard_mbb_t from to = Some (True, p_ShardMbb from)"
  by (simp add: map_upsf_shard_mbb_t_def p_ShardMbb_def)

lemma p_c_ShardMbb [simp]: "p_ShardMbb (c_ShardMbb m) = m"
  by (simp add: p_ShardMbb_def c_ShardMbb_def)

section \<open>Shard\<close>

definition map_Shard ::
    "((string, string) fmap \<Rightarrow> (string \<times> string) list) \<Rightarrow> Shard \<Rightarrow> upsf_shard_t
      \<Rightarrow> (bool \<times> upsf_shard_t) ub" where
  "map_Shard ord from to = do {
     let to = zero_upsf_shard_t;
     s \<leftarrow> put_string (c_sh_name to) (sh_name from);
     let to = to\<lparr>c_sh_name := s\<rparr>;
     s \<leftarrow> put_string (c_md_description (c_sh_metadata to))
            (md_description (sub_msg dflt_MetaData (sh_metadata from)));
     let to = to\<lparr>c_sh_metadata := (c_sh_metadata to)\<lparr>c_md_description := s\<rparr>\<rparr>;
     let to = to\<lparr>c_sh_metadata := (c_sh_metadata to)
                \<lparr>c_md_derived_state := md_derived_state (sub_msg dflt_MetaData (sh_metadata from))\<rparr>\<rparr>;
     (_, sp) \<leftarrow> map_ShardSpec (sub_msg dflt_ShardSpec (sh_spec from)) (c_sh_spec to);
     let to = to\<lparr>c_sh_spec := sp\<rparr>;
     (_, st) \<leftarrow> map_ShardStatus ord (sub_msg dflt_ShardStatus (sh_status from)) (c_sh_status to);
     let to = to\<lparr>c_sh_status := st\<rparr>;
     (_, mb) \<leftarrow> map_ShardMbb (sub_msg dflt_ShardMbb (sh_mbb from)) (c_sh_mbb to);
     let to = to\<lparr>c_sh_mbb := mb\<rparr>;
     Some (True, to)
   }"

definition map_upsf_shard_t :: "upsf_shard_t \<Rightarrow> Shard \<Rightarrow> (bool \<times> Shard) ub" where
  "map_upsf_shard_t from to = do {
     s \<leftarrow> std_string (c_sh_name from);
     let to = to\<lparr>sh_name := s\<rparr>;
     s \<leftarrow> std_string (c_md_description (c_sh_metadata from));
     let to = to\<lparr>sh_metadata := Some ((sub_msg dflt_MetaData (sh_metadata to))\<lparr>md_description := s\<rparr>)\<rparr>;
     let to = to\<lparr>sh_metadata := Some ((sub_msg dflt_MetaData (sh_metadata to))
                \<lparr>md_derived_state := c_md_derived_state (c_sh_metadata from)\<rparr>)\<rparr>;
     (_, sp) \<leftarrow> map_upsf_shard_spec_t (c_sh_spec from) (sub_msg dflt_ShardSpec (sh_spec to));
     let to = to\<lparr>sh_spec := Some sp\<rparr>;
     (_, st) \<leftarrow> map_upsf_shard_status_t (c_sh_status from) (sub_msg dflt_ShardStatus (sh_status to));
     let to = to\<lparr>sh_status := Some st\<rparr>;
     (_, mb) \<leftarrow> map_upsf_shard_mbb_t (c_sh_mbb from) (sub_msg dflt_ShardMbb (sh_mbb to));
     let to = to\<lparr>sh_mbb := Some mb\<rparr>;
     Some (True, to)
   }"

definition c_Shard ::
    "((string, string) fmap \<Rightarrow> (string \<times> string) list) \<Rightarrow> Shard \<Rightarrow> upsf_shard_t" where [c_defs]:
  "c_Shard ord m = \<lparr>c_sh_name = c_string (sh_name m),
     c_sh_metadata = c_MetaData (sub_msg dflt_MetaData (sh_metadata m)),
     c_sh_spec = c_ShardSpec (sub_msg dflt_ShardSpec (sh_spec m)),
     c_sh_status = c_ShardStatus ord (sub_msg dflt_ShardStatus (sh_status m)),
     c_sh_mbb = c_ShardMbb (sub_msg dflt_ShardMbb (sh_mbb m))\<rparr>"

definition p_Shard :: "upsf_shard_t \<Rightarrow> Shard \<Rightarrow> Shard" where [p_defs]:
  "p_Shard x m = \<lparr>sh_name = p_string (c_sh_name x),
     sh_metadata = Some (p_MetaData (c_sh_metadata x) (sub_msg dflt_MetaData (sh_metadata m))),
     sh_spec = Some (p_ShardSpec (c_sh_spec x) (sub_msg dflt_ShardSpec (sh_spec m))),
     sh_status = Some (p_ShardStatus (c_sh_status x) (sub_msg dflt_ShardStatus (sh_status m))),
     sh_mbb = Some (p_ShardMbb (c_sh_mbb x))\<rparr>"

definition ok_Shard :: "upsf_shard_t \<Rightarrow> bool" where [ok_defs]:
  "ok_Shard x \<longleftrightarrow> ok_string (c_sh_name x) \<and> ok_MetaData (c_sh_metadata x) \<and>
     ok_ShardSpec (c_sh_spec x) \<and> ok_ShardStatus (c_sh_status x)"

definition clean_Shard :: "upsf_shard_t \<Rightarrow> bool" where [clean_defs]:
  "clean_Shard x \<longleftrightarrow> clean_string (c_sh_name x) \<and> clean_MetaData (c_sh_metadata x) \<and>
     clean_ShardSpec (c_sh_spec x) \<and> clean_ShardStatus (c_sh_status x)"

definition fits_Shard :: "Shard \<Rightarrow> bool" where [fits_defs]:
  "fits_Shard m \<longleftrightarrow> fits_string (sh_name m) \<and> has_fitting fits_MetaData (sh_metadata m) \<and>
     has_fitting fits_ShardSpec (sh_spec m) \<and> has_fitting fits_ShardStatus (sh_status m) \<and>
     sh_mbb m \<noteq> None"

lemma map_Shard_eq [simp]: "map_Shard ord from to = Some (True, c_Shard ord from)"
  by (simp add: map_Shard_def zero_upsf_shard_t_def zero_upsf_metadata_t_def c_Shard_def c_MetaData_def)

lemma map_upsf_shard_t_eq [simp]:
  "ok_Shard from \<Longrightarrow> map_upsf_shard_t from to = Some (True, p_Shard from to)"
  by (simp add: map_upsf_shard_t_def ok_Shard_def ok_MetaData_def p_Shard_def p_MetaData_def)

lemma clean_c_Shard: "clean_Shard (c_Shard ord m)"
  by (simp add: clean_Shard_def c_Shard_def)

lemma clean_Shard_ok: "clean_Shard x \<Longrightarrow> ok_Shard x"
  by (simp add: clean_Shard_def ok_Shard_def clean_string_ok clean_MetaData_ok clean_ShardSpec_ok
      clean_ShardStatus_ok)

lemma p_c_Shard: "valid_order ord \<Longrightarrow> fits_Shard m \<Longrightarrow> p_Shard (c_Shard ord m) dflt_Shard = m"
  by (cases m) (auto simp: p_Shard_def c_Shard_def fits_Shard_def dflt_Shard_def c_cut_fits)

interpretation sh: item_mapping "map_Shard ord" map_upsf_shard_t "c_Shard ord" p_Shard dflt_Shard
  ok_Shard clean_Shard for ord
  by unfold_locales (simp_all add: clean_c_Shard clean_Shard_ok)

text \<open>In key order the mapping of shards loses no message within the limits.\<close>

interpretation sh_sorted: lossless_mapping "map_Shard sorted_list_of_fmap" map_upsf_shard_t
  "c_Shard sorted_list_of_fmap" p_Shard dflt_Shard ok_Shard clean_Shard fits_Shard
  by unfold_locales (simp add: p_c_Shard sorted_list_of_fmap_valid)

section \<open>Properties\<close>

definition example_shard :: Shard where
  "example_shard = \<lparr>sh_name = ''shard-1'',
     sh_metadata = Some dflt_MetaData,
     sh_spec = Some \<lparr>shs_max_session_count = 100, shs_virtual_mac = ''00:00:5e:00:01:01'',
       shs_desired_state = Some \<lparr>shd_service_gateway_user_plane = ''up-1'',
         shd_network_connection = [''nc-1'', ''nc-2'']\<rparr>,
       shs_prefix = [''10.0.0.0/24'']\<rparr>,
     sh_status = Some \<lparr>sht_allocated_session_count = 7, sht_maximum_allocated_quality = 1,
       sht_service_groups_supported = [''gold''],
       sht_current_state = Some \<lparr>shc_service_gateway_user_plane = ''up-1'',
         shc_tsf_network_connection = fmupd ''tsf-1'' ''nc-1'' (fmupd ''tsf-2'' ''nc-2'' fmempty)\<rparr>\<rparr>,
     sh_mbb = Some \<lparr>shm_mbb_state = 5\<rparr>\<rparr>"

lemma example_shard_fits: "fits_Shard example_shard"
  by (auto simp: example_shard_def fits_Shard_def fits_ShardSpec_def fits_ShardSpecDesiredState_def
      fits_ShardStatus_def fits_ShardStatusCurrentState_def fits_MetaData_def dflt_MetaData_def
      fits_list_def fits_string_def fits_map_def UPSF_MAX_STRING_SIZE_def UPSF_MAX_ELEMS_def
      fcard_finsert_if fcard_fempty fmpred_iff split: if_splits)

text \<open>
  C3. A shard message within the limits comes back unchanged from the way to the structure
  and back, whatever the order in which the protobuf map of its current state is iterated.
\<close>

theorem shard_message_roundtrip:
  assumes "valid_order ord" and "fits_Shard m"
  shows "do { (_, c) \<leftarrow> map_Shard ord m x; map_upsf_shard_t c dflt_Shard } = Some (True, m)"
  using p_c_Shard[OF assms] by (simp add: clean_Shard_ok clean_c_Shard)

lemma shard_message_roundtrip_witness:
  "do { (_, c) \<leftarrow> map_Shard sorted_list_of_fmap example_shard zero_upsf_shard_t;
        map_upsf_shard_t c dflt_Shard } = Some (True, example_shard)"
  by (rule shard_message_roundtrip[OF sorted_list_of_fmap_valid example_shard_fits])

end
