(* ===== verification/MapSessionContext.thy ===== *)
theory MapSessionContext
  imports Codec
begin

text \<open>
  \<^verbatim>\<open>UpsfMapping::map\<close> for \<^verbatim>\<open>SessionContext\<close> with its \<^verbatim>\<open>Spec\<close>, \<^verbatim>\<open>Spec::DesiredState\<close>,
  \<^verbatim>\<open>SessionFilter\<close>, \<^verbatim>\<open>Status\<close> and \<^verbatim>\<open>Status::CurrentState\<close>, both directions, and the
  interpretation of the mapping interface.
\<close>

section \<open>SessionFilter\<close>

definition map_SessionFilter ::
    "SessionFilter \<Rightarrow> upsf_session_filter_t \<Rightarrow> (bool \<times> upsf_session_filter_t) ub" where
  "map_SessionFilter from to = do {
     let to = zero_upsf_session_filter_t;
     s \<leftarrow> put_string (c_sf_source_mac_address to) (sf_source_mac_address from);
     let to = to\<lparr>c_sf_source_mac_address := s\<rparr>;
     let to = to\<lparr>c_sf_svlan := sf_svlan from\<rparr>;
     let to = to\<lparr>c_sf_cvlan := sf_cvlan from\<rparr>;
     Some (True, to)
   }"

definition map_upsf_session_filter_t ::
    "upsf_session_filter_t \<Rightarrow> SessionFilter \<Rightarrow> (bool \<times> SessionFilter) ub" where
  "map_upsf_session_filter_t from to = do {
     s \<leftarrow> std_string (c_sf_source_mac_address from);
     let to = to\<lparr>sf_source_mac_address := s\<rparr>;
     let to = to\<lparr>sf_svlan := c_sf_svlan from\<rparr>;
     let to = to\<lparr>sf_cvlan := c_sf_cvlan from\<rparr>;
     Some (True, to)
   }"

definition c_SessionFilter :: "SessionFilter \<Rightarrow> upsf_session_filter_t" where [c_defs]:
  "c_SessionFilter m = \<lparr>c_sf_source_mac_address = c_string (sf_source_mac_address m),
     c_sf_svlan = sf_svlan m, c_sf_cvlan = sf_cvlan m\<rparr>"

definition p_SessionFilter :: "upsf_session_filter_t \<Rightarrow> SessionFilter" where [p_defs]:
  "p_SessionFilter x = \<lparr>sf_source_mac_address = p_string (c_sf_source_mac_address x),
     sf_svlan = c_sf_svlan x, sf_cvlan = c_sf_cvlan x\<rparr>"

definition fits_SessionFilter :: "SessionFilter \<Rightarrow> bool" where [fits_defs]:
  "fits_SessionFilter m \<longleftrightarrow> fits_string (sf_source_mac_address m)"

lemma map_SessionFilter_eq [simp]: "map_SessionFilter from to = Some (True, c_SessionFilter from)"
  by (simp add: map_SessionFilter_def zero_upsf_session_filter_t_def c_SessionFilter_def)

lemma map_upsf_session_filter_t_eq [simp]:
  "ok_string (c_sf_source_mac_address from) \<Longrightarrow>
   map_upsf_session_filter_t from to = Some (True, p_SessionFilter from)"
  by (simp add: map_upsf_session_filter_t_def p_SessionFilter_def)

lemma p_c_SessionFilter [simp]: "fits_SessionFilter m \<Longrightarrow> p_SessionFilter (c_SessionFilter m) = m"
  by (simp add: p_SessionFilter_def c_SessionFilter_def fits_SessionFilter_def c_cut_fits)

lemma c_p_SessionFilter [simp]:
  "clean_string (c_sf_source_mac_address x) \<Longrightarrow> c_SessionFilter (p_SessionFilter x) = x"
  by (simp add: p_SessionFilter_def c_SessionFilter_def clean_string_eq)

section \<open>Spec::DesiredState\<close>

definition map_SessionContextSpecDesiredState ::
    "SessionContextSpecDesiredState \<Rightarrow> upsf_session_context_spec_desired_state_t
      \<Rightarrow> (bool \<times> upsf_session_context_spec_desired_state_t) ub" where
  "map_SessionContextSpecDesiredState from to = do {
     let to = zero_upsf_session_context_spec_desired_state_t;
     s \<leftarrow> put_string (c_scd_shard to) (scd_shard from);
     let to = to\<lparr>c_scd_shard := s\<rparr>;
     Some (True, to)
   }"

definition map_upsf_session_context_spec_desired_state_t ::
    "upsf_session_context_spec_desired_state_t \<Rightarrow> SessionContextSpecDesiredState
      \<Rightarrow> (bool \<times> SessionContextSpecDesiredState) ub" where
  "map_upsf_session_context_spec_desired_state_t from to = do {
     s \<leftarrow> std_string (c_scd_shard from);
     let to = to\<lparr>scd_shard := s\<rparr>;
     Some (True, to)
   }"

definition c_SessionContextSpecDesiredState ::
    "SessionContextSpecDesiredState \<Rightarrow> upsf_session_context_spec_desired_state_t" where [c_defs]:
  "c_SessionContextSpecDesiredState m = \<lparr>c_scd_shard = c_string (scd_shard m)\<rparr>"

definition p_SessionContextSpecDesiredState ::
    "upsf_session_context_spec_desired_state_t \<Rightarrow> SessionContextSpecDesiredState" where [p_defs]:
  "p_SessionContextSpecDesiredState x = \<lparr>scd_shard = p_string (c_scd_shard x)\<rparr>"

definition fits_SessionContextSpecDesiredState :: "SessionContextSpecDesiredState \<Rightarrow> bool"
  where [fits_defs]:
  "fits_SessionContextSpecDesiredState m \<longleftrightarrow> fits_string (scd_shard m)"

lemma map_SessionContextSpecDesiredState_eq [simp]:
  "map_SessionContextSpecDesiredState from to = Some (True, c_SessionContextSpecDesiredState from)"
  by (simp add: map_SessionContextSpecDesiredState_def c_SessionContextSpecDesiredState_def
      zero_upsf_session_context_spec_desired_state_t_def)

lemma map_upsf_session_context_spec_desired_state_t_eq [simp]:
  "ok_string (c_scd_shard from) \<Longrightarrow>
   map_upsf_session_context_spec_desired_state_t from to
     = Some (True, p_SessionContextSpecDesiredState from)"
  by (simp add: map_upsf_session_context_spec_desired_state_t_def p_SessionContextSpecDesiredState_def)

lemma p_c_SessionContextSpecDesiredState [simp]:
  "fits_SessionContextSpecDesiredState m \<Longrightarrow>
   p_SessionContextSpecDesiredState (c_SessionContextSpecDesiredState m) = m"
  by (simp add: p_SessionContextSpecDesiredState_def c_SessionContextSpecDesiredState_def
      fits_SessionContextSpecDesiredState_def c_cut_fits)

lemma c_p_SessionContextSpecDesiredState [simp]:
  "clean_string (c_scd_shard x) \<Longrightarrow>
   c_SessionContextSpecDesiredState (p_SessionContextSpecDesiredState x) = x"
  by (simp add: p_SessionContextSpecDesiredState_def c_SessionContextSpecDesiredState_def clean_string_eq)

section \<open>Spec\<close>

definition map_SessionContextSpec ::
    "SessionContextSpec \<Rightarrow> upsf_session_context_spec_t \<Rightarrow> (bool \<times> upsf_session_context_spec_t) ub"
  where
  "map_SessionContextSpec from to = do {
     let to = zero_upsf_session_context_spec_t;
     s \<leftarrow> put_string (c_scs_traffic_steering_function to) (scs_traffic_steering_function from);
     let to = to\<lparr>c_scs_traffic_steering_function := s\<rparr>;
     (i, a) \<leftarrow> copy_range put_string UPSF_MAX_ELEMS (scs_required_service_group from) 0
                 (c_scs_required_service_group to);
     let to = to\<lparr>c_scs_required_service_group := a\<rparr>;
     let to = to\<lparr>c_scs_required_service_group_size := of_nat i\<rparr>;
     let to = to\<lparr>c_scs_required_quality := scs_required_quality from\<rparr>;
     s \<leftarrow> put_string (c_scs_circuit_id to) (scs_circuit_id from);
     let to = to\<lparr>c_scs_circuit_id := s\<rparr>;
     s \<leftarrow> put_string (c_scs_remote_id to) (scs_remote_id from);
     let to = to\<lparr>c_scs_remote_id := s\<rparr>;
     (_, f) \<leftarrow> map_SessionFilter (sub_msg dflt_SessionFilter (scs_session_filter from))
                 (c_scs_session_filter to);
     let to = to\<lparr>c_scs_session_filter := f\<rparr>;
     (_, d) \<leftarrow> map_SessionContextSpecDesiredState
                 (sub_msg dflt_SessionContextSpecDesiredState (scs_desired_state from))
                 (c_scs_desired_state to);
     let to = to\<lparr>c_scs_desired_state := d\<rparr>;
     s \<leftarrow> put_string (c_scs_network_connection to) (scs_network_connection from);
     let to = to\<lparr>c_scs_network_connection := s\<rparr>;
     Some (True, to)
   }"

definition map_upsf_session_context_spec_t ::
    "upsf_session_context_spec_t \<Rightarrow> SessionContextSpec \<Rightarrow> (bool \<times> SessionContextSpec) ub" where
  "map_upsf_session_context_spec_t from to = do {
     s \<leftarrow> std_string (c_scs_traffic_steering_function from);
     let to = to\<lparr>scs_traffic_steering_function := s\<rparr>;
     g \<leftarrow> add_n std_string (c_scs_required_service_group from)
            (unat (c_scs_required_service_group_size from)) (scs_required_service_group to);
     let to = to\<lparr>scs_required_service_group := g\<rparr>;
     let to = to\<lparr>scs_required_quality := c_scs_required_quality from\<rparr>;
     s \<leftarrow> std_string (c_scs_circuit_id from);
     let to = to\<lparr>scs_circuit_id := s\<rparr>;
     s \<leftarrow> std_string (c_scs_remote_id from);
     let to = to\<lparr>scs_remote_id := s\<rparr>;
     (_, f) \<leftarrow> map_upsf_session_filter_t (c_scs_session_filter from)
                 (sub_msg dflt_SessionFilter (scs_session_filter to));
     let to = to\<lparr>scs_session_filter := Some f\<rparr>;
     (_, d) \<leftarrow> map_upsf_session_context_spec_desired_state_t (c_scs_desired_state from)
                 (sub_msg dflt_SessionContextSpecDesiredState (scs_desired_state to));
     let to = to\<lparr>scs_desired_state := Some d\<rparr>;
     s \<leftarrow> std_string (c_scs_network_connection from);
     let to = to\<lparr>scs_network_connection := s\<rparr>;
     Some (True, to)
   }"

definition c_SessionContextSpec :: "SessionContextSpec \<Rightarrow> upsf_session_context_spec_t" where [c_defs]:
  "c_SessionContextSpec m =
     \<lparr>c_scs_traffic_steering_function = c_string (scs_traffic_steering_function m),
      c_scs_required_service_group = c_strings (scs_required_service_group m),
      c_scs_required_service_group_size = c_size (scs_required_service_group m),
      c_scs_required_quality = scs_required_quality m,
      c_scs_circuit_id = c_string (scs_circuit_id m),
      c_scs_remote_id = c_string (scs_remote_id m),
      c_scs_session_filter = c_SessionFilter (sub_msg dflt_SessionFilter (scs_session_filter m)),
      c_scs_desired_state = c_SessionContextSpecDesiredState
        (sub_msg dflt_SessionContextSpecDesiredState (scs_desired_state m)),
      c_scs_network_connection = c_string (scs_network_connection m)\<rparr>"

definition p_SessionContextSpec ::
    "upsf_session_context_spec_t \<Rightarrow> SessionContextSpec \<Rightarrow> SessionContextSpec" where [p_defs]:
  "p_SessionContextSpec x m =
     \<lparr>scs_traffic_steering_function = p_string (c_scs_traffic_steering_function x),
      scs_required_service_group = scs_required_service_group m @
        p_strings (c_scs_required_service_group x) (c_scs_required_service_group_size x),
      scs_required_quality = c_scs_required_quality x,
      scs_circuit_id = p_string (c_scs_circuit_id x),
      scs_remote_id = p_string (c_scs_remote_id x),
      scs_session_filter = Some (p_SessionFilter (c_scs_session_filter x)),
      scs_desired_state = Some (p_SessionContextSpecDesiredState (c_scs_desired_state x)),
      scs_network_connection = p_string (c_scs_network_connection x)\<rparr>"

definition ok_SessionContextSpec :: "upsf_session_context_spec_t \<Rightarrow> bool" where [ok_defs]:
  "ok_SessionContextSpec x \<longleftrightarrow> ok_string (c_scs_traffic_steering_function x) \<and>
     ok_strings (c_scs_required_service_group x) (c_scs_required_service_group_size x) \<and>
     ok_string (c_scs_circuit_id x) \<and> ok_string (c_scs_remote_id x) \<and>
     ok_string (c_sf_source_mac_address (c_scs_session_filter x)) \<and>
     ok_string (c_scd_shard (c_scs_desired_state x)) \<and>
     ok_string (c_scs_network_connection x)"

definition clean_SessionContextSpec :: "upsf_session_context_spec_t \<Rightarrow> bool" where [clean_defs]:
  "clean_SessionContextSpec x \<longleftrightarrow> clean_string (c_scs_traffic_steering_function x) \<and>
     clean_strings (c_scs_required_service_group x) (c_scs_required_service_group_size x) \<and>
     clean_string (c_scs_circuit_id x) \<and> clean_string (c_scs_remote_id x) \<and>
     clean_string (c_sf_source_mac_address (c_scs_session_filter x)) \<and>
     clean_string (c_scd_shard (c_scs_desired_state x)) \<and>
     clean_string (c_scs_network_connection x)"

definition fits_SessionContextSpec :: "SessionContextSpec \<Rightarrow> bool" where [fits_defs]:
  "fits_SessionContextSpec m \<longleftrightarrow> fits_string (scs_traffic_steering_function m) \<and>
     fits_strings (scs_required_service_group m) \<and>
     fits_string (scs_circuit_id m) \<and> fits_string (scs_remote_id m) \<and>
     has_fitting fits_SessionFilter (scs_session_filter m) \<and>
     has_fitting fits_SessionContextSpecDesiredState (scs_desired_state m) \<and>
     fits_string (scs_network_connection m)"

lemma map_SessionContextSpec_eq [simp]:
  "map_SessionContextSpec from to = Some (True, c_SessionContextSpec from)"
  by (simp add: map_SessionContextSpec_def zero_upsf_session_context_spec_t_def c_SessionContextSpec_def)

lemma map_upsf_session_context_spec_t_eq [simp]:
  "ok_SessionContextSpec from \<Longrightarrow>
   map_upsf_session_context_spec_t from to = Some (True, p_SessionContextSpec from to)"
  by (simp add: map_upsf_session_context_spec_t_def ok_SessionContextSpec_def p_SessionContextSpec_def)

lemma clean_c_SessionContextSpec [simp]: "clean_SessionContextSpec (c_SessionContextSpec m)"
  by (simp add: clean_SessionContextSpec_def c_SessionContextSpec_def c_SessionFilter_def
      c_SessionContextSpecDesiredState_def)

lemma clean_SessionContextSpec_ok: "clean_SessionContextSpec x \<Longrightarrow> ok_SessionContextSpec x"
  by (simp add: clean_SessionContextSpec_def ok_SessionContextSpec_def clean_string_ok clean_strings_ok)

lemma p_c_SessionContextSpec [simp]:
  "fits_SessionContextSpec m \<Longrightarrow>
   p_SessionContextSpec (c_SessionContextSpec m) dflt_SessionContextSpec = m"
  by (cases m) (auto simp: p_SessionContextSpec_def c_SessionContextSpec_def
      fits_SessionContextSpec_def dflt_SessionContextSpec_def c_cut_fits)

lemma c_p_SessionContextSpec [simp]:
  "clean_SessionContextSpec x \<Longrightarrow>
   c_SessionContextSpec (p_SessionContextSpec x dflt_SessionContextSpec) = x"
  by (cases x) (simp add: p_SessionContextSpec_def c_SessionContextSpec_def
      clean_SessionContextSpec_def dflt_SessionContextSpec_def clean_string_eq)

section \<open>Status\<close>

definition map_SessionContextStatusCurrentState ::
    "SessionContextStatusCurrentState \<Rightarrow> upsf_session_context_status_current_state_t
      \<Rightarrow> (bool \<times> upsf_session_context_status_current_state_t) ub" where
  "map_SessionContextStatusCurrentState from to = do {
     let to = zero_upsf_session_context_status_current_state_t;
     s \<leftarrow> put_string (c_scc_user_plane_shard to) (scc_user_plane_shard from);
     let to = to\<lparr>c_scc_user_plane_shard := s\<rparr>;
     s \<leftarrow> put_string (c_scc_tsf_shard to) (scc_tsf_shard from);
     let to = to\<lparr>c_scc_tsf_shard := s\<rparr>;
     Some (True, to)
   }"

definition map_upsf_session_context_status_current_state_t ::
    "upsf_session_context_status_current_state_t \<Rightarrow> SessionContextStatusCurrentState
      \<Rightarrow> (bool \<times> SessionContextStatusCurrentState) ub" where
  "map_upsf_session_context_status_current_state_t from to = do {
     s \<leftarrow> std_string (c_scc_user_plane_shard from);
     let to = to\<lparr>scc_user_plane_shard := s\<rparr>;
     s \<leftarrow> std_string (c_scc_tsf_shard from);
     let to = to\<lparr>scc_tsf_shard := s\<rparr>;
     Some (True, to)
   }"

definition map_SessionContextStatus ::
    "SessionContextStatus \<Rightarrow> upsf_session_context_status_t
      \<Rightarrow> (bool \<times> upsf_session_context_status_t) ub" where
  "map_SessionContextStatus from to = do {
     let to = zero_upsf_session_context_status_t;
     (_, c) \<leftarrow> map_SessionContextStatusCurrentState
                 (sub_msg dflt_SessionContextStatusCurrentState (sct_current_state from))
                 (c_sct_current_state to);
     let to = to\<lparr>c_sct_current_state := c\<rparr>;
     Some (True, to)
   }"

definition map_upsf_session_context_status_t ::
    "upsf_session_context_status_t \<Rightarrow> SessionContextStatus \<Rightarrow> (bool \<times> SessionContextStatus) ub" where
  "map_upsf_session_context_status_t from to = do {
     (_, c) \<leftarrow> map_upsf_session_context_status_current_state_t (c_sct_current_state from)
                 (sub_msg dflt_SessionContextStatusCurrentState (sct_current_state to));
     let to = to\<lparr>sct_current_state := Some c\<rparr>;
     Some (True, to)
   }"

definition c_SessionContextStatusCurrentState ::
    "SessionContextStatusCurrentState \<Rightarrow> upsf_session_context_status_current_state_t" where [c_defs]:
  "c_SessionContextStatusCurrentState m = \<lparr>c_scc_user_plane_shard = c_string (scc_user_plane_shard m),
     c_scc_tsf_shard = c_string (scc_tsf_shard m)\<rparr>"

definition p_SessionContextStatusCurrentState ::
    "upsf_session_context_status_current_state_t \<Rightarrow> SessionContextStatusCurrentState" where [p_defs]:
  "p_SessionContextStatusCurrentState x = \<lparr>scc_user_plane_shard = p_string (c_scc_user_plane_shard x),
     scc_tsf_shard = p_string (c_scc_tsf_shard x)\<rparr>"

definition c_SessionContextStatus :: "SessionContextStatus \<Rightarrow> upsf_session_context_status_t"
  where [c_defs]:
  "c_SessionContextStatus m = \<lparr>c_sct_current_state = c_SessionContextStatusCurrentState
     (sub_msg dflt_SessionContextStatusCurrentState (sct_current_state m))\<rparr>"

definition p_SessionContextStatus :: "upsf_session_context_status_t \<Rightarrow> SessionContextStatus"
  where [p_defs]:
  "p_SessionContextStatus x =
     \<lparr>sct_current_state = Some (p_SessionContextStatusCurrentState (c_sct_current_state x))\<rparr>"

definition ok_SessionContextStatus :: "upsf_session_context_status_t \<Rightarrow> bool" where [ok_defs]:
  "ok_SessionContextStatus x \<longleftrightarrow> ok_string (c_scc_user_plane_shard (c_sct_current_state x)) \<and>
     ok_string (c_scc_tsf_shard (c_sct_current_state x))"

definition clean_SessionContextStatus :: "upsf_session_context_status_t \<Rightarrow> bool" where [clean_defs]:
  "clean_SessionContextStatus x \<longleftrightarrow> clean_string (c_scc_user_plane_shard (c_sct_current_state x)) \<and>
     clean_string (c_scc_tsf_shard (c_sct_current_state x))"

definition fits_SessionContextStatusCurrentState :: "SessionContextStatusCurrentState \<Rightarrow> bool"
  where [fits_defs]:
  "fits_SessionContextStatusCurrentState m \<longleftrightarrow>
     fits_string (scc_user_plane_shard m) \<and> fits_string (scc_tsf_shard m)"

definition fits_SessionContextStatus :: "SessionContextStatus \<Rightarrow> bool" where [fits_defs]:
  "fits_SessionContextStatus m \<longleftrightarrow>
     has_fitting fits_SessionContextStatusCurrentState (sct_current_state m)"

lemma map_SessionContextStatus_eq [simp]:
  "map_SessionContextStatus from to = Some (True, c_SessionContextStatus from)"
  by (simp add: map_SessionContextStatus_def map_SessionContextStatusCurrentState_def
      zero_upsf_session_context_status_t_def zero_upsf_session_context_status_current_state_t_def
      c_SessionContextStatus_def c_SessionContextStatusCurrentState_def)

lemma map_upsf_session_context_status_t_eq [simp]:
  "ok_SessionContextStatus from \<Longrightarrow>
   map_upsf_session_context_status_t from to = Some (True, p_SessionContextStatus from)"
  by (simp add: map_upsf_session_context_status_t_def p_SessionContextStatus_def
      map_upsf_session_context_status_current_state_t_def ok_SessionContextStatus_def
      p_SessionContextStatusCurrentState_def)

lemma clean_c_SessionContextStatus [simp]: "clean_SessionContextStatus (c_SessionContextStatus m)"
  by (simp add: clean_SessionContextStatus_def c_SessionContextStatus_def
      c_SessionContextStatusCurrentState_def)

lemma clean_SessionContextStatus_ok: "clean_SessionContextStatus x \<Longrightarrow> ok_SessionContextStatus x"
  by (simp add: clean_SessionContextStatus_def ok_SessionContextStatus_def clean_string_ok)

lemma p_c_SessionContextStatus [simp]:
  "fits_SessionContextStatus m \<Longrightarrow> p_SessionContextStatus (c_SessionContextStatus m) = m"
  by (cases m) (auto simp: p_SessionContextStatus_def c_SessionContextStatus_def
      p_SessionContextStatusCurrentState_def c_SessionContextStatusCurrentState_def
      fits_SessionContextStatus_def fits_SessionContextStatusCurrentState_def c_cut_fits)

lemma c_p_SessionContextStatus [simp]:
  "clean_SessionContextStatus x \<Longrightarrow> c_SessionContextStatus (p_SessionContextStatus x) = x"
  by (simp add: p_SessionContextStatus_def c_SessionContextStatus_def
      p_SessionContextStatusCurrentState_def c_SessionContextStatusCurrentState_def
      clean_SessionContextStatus_def clean_string_eq)

section \<open>SessionContext\<close>

definition map_SessionContext ::
    "SessionContext \<Rightarrow> upsf_session_context_t \<Rightarrow> (bool \<times> upsf_session_context_t) ub" where
  "map_SessionContext from to = do {
     let to = zero_upsf_session_context_t;
     s \<leftarrow> put_string (c_sc_name to) (sc_name from);
     let to = to\<lparr>c_sc_name := s\<rparr>;
     s \<leftarrow> put_string (c_md_description (c_sc_metadata to))
            (md_description (sub_msg dflt_MetaData (sc_metadata from)));
     let to = to\<lparr>c_sc_metadata := (c_sc_metadata to)\<lparr>c_md_description := s\<rparr>\<rparr>;
     let to = to\<lparr>c_sc_metadata := (c_sc_metadata to)
                \<lparr>c_md_derived_state := md_derived_state (sub_msg dflt_MetaData (sc_metadata from))\<rparr>\<rparr>;
     (_, sp) \<leftarrow> map_SessionContextSpec (sub_msg dflt_SessionContextSpec (sc_spec from)) (c_sc_spec to);
     let to = to\<lparr>c_sc_spec := sp\<rparr>;
     (_, st) \<leftarrow> map_SessionContextStatus (sub_msg dflt_SessionContextStatus (sc_status from))
                  (c_sc_status to);
     let to = to\<lparr>c_sc_status := st\<rparr>;
     Some (True, to)
   }"

definition map_upsf_session_context_t ::
    "upsf_session_context_t \<Rightarrow> SessionContext \<Rightarrow> (bool \<times> SessionContext) ub" where
  "map_upsf_session_context_t from to = do {
     s \<leftarrow> std_string (c_sc_name from);
     let to = to\<lparr>sc_name := s\<rparr>;
     s \<leftarrow> std_string (c_md_description (c_sc_metadata from));
     let to = to\<lparr>sc_metadata := Some ((sub_msg dflt_MetaData (sc_metadata to))\<lparr>md_description := s\<rparr>)\<rparr>;
     let to = to\<lparr>sc_metadata := Some ((sub_msg dflt_MetaData (sc_metadata to))
                \<lparr>md_derived_state := c_md_derived_state (c_sc_metadata from)\<rparr>)\<rparr>;
     (_, sp) \<leftarrow> map_upsf_session_context_spec_t (c_sc_spec from)
                  (sub_msg dflt_SessionContextSpec (sc_spec to));
     let to = to\<lparr>sc_spec := Some sp\<rparr>;
     (_, st) \<leftarrow> map_upsf_session_context_status_t (c_sc_status from)
                  (sub_msg dflt_SessionContextStatus (sc_status to));
     let to = to\<lparr>sc_status := Some st\<rparr>;
     Some (True, to)
   }"

definition c_SessionContext :: "SessionContext \<Rightarrow> upsf_session_context_t" where [c_defs]:
  "c_SessionContext m = \<lparr>c_sc_name = c_string (sc_name m),
     c_sc_metadata = c_MetaData (sub_msg dflt_MetaData (sc_metadata m)),
     c_sc_spec = c_SessionContextSpec (sub_msg dflt_SessionContextSpec (sc_spec m)),
     c_sc_status = c_SessionContextStatus (sub_msg dflt_SessionContextStatus (sc_status m))\<rparr>"

definition p_SessionContext :: "upsf_session_context_t \<Rightarrow> SessionContext \<Rightarrow> SessionContext" where [p_defs]:
  "p_SessionContext x m = \<lparr>sc_name = p_string (c_sc_name x),
     sc_metadata = Some (p_MetaData (c_sc_metadata x) (sub_msg dflt_MetaData (sc_metadata m))),
     sc_spec = Some (p_SessionContextSpec (c_sc_spec x) (sub_msg dflt_SessionContextSpec (sc_spec m))),
     sc_status = Some (p_SessionContextStatus (c_sc_status x))\<rparr>"

definition ok_SessionContext :: "upsf_session_context_t \<Rightarrow> bool" where [ok_defs]:
  "ok_SessionContext x \<longleftrightarrow> ok_string (c_sc_name x) \<and> ok_MetaData (c_sc_metadata x) \<and>
     ok_SessionContextSpec (c_sc_spec x) \<and> ok_SessionContextStatus (c_sc_status x)"

definition clean_SessionContext :: "upsf_session_context_t \<Rightarrow> bool" where [clean_defs]:
  "clean_SessionContext x \<longleftrightarrow> clean_string (c_sc_name x) \<and> clean_MetaData (c_sc_metadata x) \<and>
     clean_SessionContextSpec (c_sc_spec x) \<and> clean_SessionContextStatus (c_sc_status x)"

definition fits_SessionContext :: "SessionContext \<Rightarrow> bool" where [fits_defs]:
  "fits_SessionContext m \<longleftrightarrow> fits_string (sc_name m) \<and> has_fitting fits_MetaData (sc_metadata m) \<and>
     has_fitting fits_SessionContextSpec (sc_spec m) \<and>
     has_fitting fits_SessionContextStatus (sc_status m)"

lemma map_SessionContext_eq [simp]: "map_SessionContext from to = Some (True, c_SessionContext from)"
  by (simp add: map_SessionContext_def zero_upsf_session_context_t_def zero_upsf_metadata_t_def
      c_SessionContext_def c_MetaData_def)

lemma map_upsf_session_context_t_eq [simp]:
  "ok_SessionContext from \<Longrightarrow> map_upsf_session_context_t from to = Some (True, p_SessionContext from to)"
  by (simp add: map_upsf_session_context_t_def ok_SessionContext_def ok_MetaData_def
      p_SessionContext_def p_MetaData_def)

interpretation sc: exact_mapping map_SessionContext map_upsf_session_context_t c_SessionContext
  p_SessionContext dflt_SessionContext ok_SessionContext clean_SessionContext fits_SessionContext
proof unfold_locales
  show "clean_SessionContext (c_SessionContext m)" for m
    by (simp add: clean_SessionContext_def c_SessionContext_def)
  show "ok_SessionContext x" if "clean_SessionContext x" for x
    using that by (simp add: clean_SessionContext_def ok_SessionContext_def clean_string_ok
        clean_MetaData_ok clean_SessionContextSpec_ok clean_SessionContextStatus_ok)
  show "p_SessionContext (c_SessionContext m) dflt_SessionContext = m" if "fits_SessionContext m" for m
    using that by (cases m) (auto simp: fits_SessionContext_def p_SessionContext_def
        c_SessionContext_def dflt_SessionContext_def c_cut_fits)
  show "c_SessionContext (p_SessionContext x dflt_SessionContext) = x" if "clean_SessionContext x" for x
    using that by (cases x) (simp add: clean_SessionContext_def p_SessionContext_def
        c_SessionContext_def dflt_SessionContext_def clean_string_eq)
qed simp_all

section \<open>Properties\<close>

definition example_session :: SessionContext where
  "example_session = \<lparr>sc_name = ''session-1'', sc_metadata = None,
     sc_spec = Some (dflt_SessionContextSpec\<lparr>scs_traffic_steering_function := ''tsf-1'',
       scs_required_service_group := replicate 20 ''gold''\<rparr>),
     sc_status = None\<rparr>"

text \<open>
  C5. A session context structure in canonical form (terminated and zero-padded strings with
  their lengths, zero beyond the counts) comes back unchanged from the way to a fresh message and
  back, whatever structure it is written to.
\<close>

theorem session_context_structure_roundtrip:
  assumes "clean_SessionContext x"
  shows "do { (_, m) \<leftarrow> map_upsf_session_context_t x dflt_SessionContext; map_SessionContext m y }
    = Some (True, x)"
  using sc.structure_roundtrip[OF assms] .

lemma session_context_structure_roundtrip_witness:
  "do { (_, m) \<leftarrow> map_upsf_session_context_t (c_SessionContext example_session) dflt_SessionContext;
        map_SessionContext m zero_upsf_session_context_t } = Some (True, c_SessionContext example_session)"
  by (rule session_context_structure_roundtrip) (rule sc.clean_c)

text \<open>
  A session context with more required service groups than the structure holds keeps the
  first 16, each cut to 63 bytes, with their number.
\<close>

theorem session_context_groups_kept:
  assumes "sc_spec m = Some sp"
  shows "\<exists>x. map_SessionContext m y = Some (True, x) \<and>
    unat (c_scs_required_service_group_size (c_sc_spec x))
      = min (length (scs_required_service_group sp)) UPSF_MAX_ELEMS \<and>
    p_strings (c_scs_required_service_group (c_sc_spec x))
        (c_scs_required_service_group_size (c_sc_spec x))
      = map c_cut (take UPSF_MAX_ELEMS (scs_required_service_group sp))"
  using assms by (simp add: sc.to_c_eq c_SessionContext_def c_SessionContextSpec_def unat_c_size
      p_array_c_array comp_def)

lemma session_context_groups_kept_witness:
  "\<exists>x. map_SessionContext example_session zero_upsf_session_context_t = Some (True, x) \<and>
    unat (c_scs_required_service_group_size (c_sc_spec x)) = 16"
  using session_context_groups_kept[of example_session
      "dflt_SessionContextSpec\<lparr>scs_traffic_steering_function := ''tsf-1'',
       scs_required_service_group := replicate 20 ''gold''\<rparr>" zero_upsf_session_context_t]
  by (auto simp: example_session_def UPSF_MAX_ELEMS_def)

end
