(* ===== verification/Wrapper.thy ===== *)
theory Wrapper
  imports Client MapServiceGateway MapNetworkConnection MapShard MapSessionContext
begin

text \<open>
  The C interface of \<^verbatim>\<open>upsf/upsf_c_wrapper.cpp\<close>: the name tables, the slot of each
  thread, and for each of the six item types create, update, get, delete and list, with the
  lookup of session contexts. The texts of the six variants of an operation differ in the item
  type only, so each operation is one generic function, with an instance per type.

  A pointer argument is an option: \<open>None\<close> for the null pointer, \<open>Some x\<close> for a pointer
  to the object \<open>x\<close>. An operation that returns its argument or the null pointer gives a
  boolean (the argument is returned) and what the pointer points to afterwards.
  The pair of address and state behind it: \<open>net addr\<close> is the stub that the channel to
  \<open>addr\<close> gives, \<open>peers\<close> the state of everything behind the stubs.
\<close>

section \<open>Names\<close>

definition upsf_derived_state_names :: "string list" where
  "upsf_derived_state_names =
     [''unknown'', ''inactive'', ''active'', ''updating'', ''deleting'', ''deleted'', ''void'']"

definition upsf_item_type_names :: "string list" where
  "upsf_item_type_names =
     [''service-gateway'', ''service-gateway-user-plane'', ''traffic-steering-funtion'',
      ''network-connection'', ''shard'', ''session-context'', ''void'']"

definition upsf_maintenance_req_names :: "string list" where
  "upsf_maintenance_req_names = [''none'', ''drain'', ''drain-and-delete'', ''void'']"

definition upsf_mbb_state_names :: "string list" where
  "upsf_mbb_state_names =
     [''non-mbb-move-required'', ''userplane-mbb-initiatiation-required'',
      ''upstream-switchover-required'', ''downstream-switchover-required'',
      ''upstream-finalization-required'', ''complete'', ''void'']"

text \<open>Indexing a table with a signed integer: below zero is outside the array.\<close>

definition name_at :: "string list \<Rightarrow> int32 \<Rightarrow> string ub" where
  "name_at names i = (if sint i < 0 then None else arr_get names (nat (sint i)))"

definition upsf_derived_state_to_name :: "int32 \<Rightarrow> string ub" where
  "upsf_derived_state_to_name derived_state =
     (let derived_state = (if sint derived_state < sint UPSF_DERIVED_STATE_MAX
                           then derived_state else UPSF_DERIVED_STATE_MAX)
      in name_at upsf_derived_state_names derived_state)"

definition upsf_item_type_to_name :: "int32 \<Rightarrow> string ub" where
  "upsf_item_type_to_name item_type =
     (let item_type = (if sint item_type < sint UPSF_ITEM_TYPE_MAX
                       then item_type else UPSF_ITEM_TYPE_MAX)
      in name_at upsf_item_type_names item_type)"

definition upsf_maintenance_req_to_name :: "int32 \<Rightarrow> string ub" where
  "upsf_maintenance_req_to_name maintenance_req =
     (let maintenance_req = (if sint maintenance_req < sint UPSF_MAINTENANCE_REQ_MAX
                             then maintenance_req else UPSF_MAINTENANCE_REQ_MAX)
      in name_at upsf_maintenance_req_names maintenance_req)"

definition upsf_mbb_state_to_name :: "int32 \<Rightarrow> string ub" where
  "upsf_mbb_state_to_name mbb_state =
     (let mbb_state = (if sint mbb_state < sint UPSF_MBB_STATE_MAX
                       then mbb_state else UPSF_MBB_STATE_MAX)
      in name_at upsf_mbb_state_names mbb_state)"

lemmas to_name_defs = upsf_derived_state_to_name_def upsf_item_type_to_name_def
  upsf_maintenance_req_to_name_def upsf_mbb_state_to_name_def

lemmas name_tables = upsf_derived_state_names_def upsf_item_type_names_def
  upsf_maintenance_req_names_def upsf_mbb_state_names_def

lemmas name_limits = UPSF_DERIVED_STATE_MAX_def UPSF_ITEM_TYPE_MAX_def
  UPSF_MAINTENANCE_REQ_MAX_def UPSF_MBB_STATE_MAX_def

text \<open>The bounded index reads a table whose last entry is at the bound.\<close>

lemma name_at_bounded:
  assumes "sint mx \<ge> 0" and "length names = nat (sint mx) + 1"
  shows "name_at names (if sint v < sint mx then v else mx)
    = (if sint v < 0 then None else if sint v < sint mx then Some (names ! nat (sint v))
       else Some (last names))"
proof -
  from assms(2) have "names \<noteq> []" by auto
  with assms(2) have "last names = names ! nat (sint mx)" by (simp add: last_conv_nth)
  with assms show ?thesis by (auto simp: name_at_def arr_get_def)
qed

section \<open>Slots\<close>

type_synonym pthread_t = "64 word"

record UpsfSlot =
  upsf_addr :: string

record 's world =
  upsf_slots :: "pthread_t \<rightharpoonup> UpsfSlot"
  peers :: 's

text \<open>Decimal output of an \<^verbatim>\<open>int\<close>.\<close>

fun decimal :: "nat \<Rightarrow> string" where
  "decimal n = (if n < 10 then [char_of (48 + n)] else decimal (n div 10) @ [char_of (48 + n mod 10)])"

declare decimal.simps [simp del]

definition show_int :: "int32 \<Rightarrow> string" where
  "show_int i = (if sint i < 0 then CHR ''-'' # decimal (nat (- sint i)) else decimal (nat (sint i)))"

text \<open>
  Open, close and exists for the calling thread \<open>tid\<close>. A thread that has a slot keeps it,
  with the address it was opened with.
\<close>

definition upsf_open :: "pthread_t \<Rightarrow> string \<Rightarrow> int32 \<Rightarrow> 's world \<Rightarrow> int32 \<times> 's world" where
  "upsf_open tid upsf_host upsf_port w =
     (if upsf_slots w tid = None then
        (let upsfaddr = upsf_host @ '':'' @ show_int upsf_port
         in (0, w\<lparr>upsf_slots := (upsf_slots w)(tid \<mapsto> \<lparr>upsf_addr = upsfaddr\<rparr>)\<rparr>))
      else (0, w))"

definition upsf_close :: "pthread_t \<Rightarrow> 's world \<Rightarrow> int32 \<times> 's world" where
  "upsf_close tid w =
     (if upsf_slots w tid = None then (- 1, w)
      else (0, w\<lparr>upsf_slots := (upsf_slots w)(tid := None)\<rparr>))"

definition upsf_exists :: "pthread_t \<Rightarrow> 's world \<Rightarrow> int32" where
  "upsf_exists tid w = (if upsf_slots w tid = None then 0 else 1)"

section \<open>The operations on an item\<close>

text \<open>\<^verbatim>\<open>upsf_create_X\<close>: null check, slot, mapping, call, mapping of the reply.\<close>

definition create_item ::
    "('c \<Rightarrow> 'm \<Rightarrow> (bool \<times> 'm) ub) \<Rightarrow> ('m \<Rightarrow> 'c \<Rightarrow> (bool \<times> 'c) ub) \<Rightarrow> 'm
      \<Rightarrow> ('s upsf_stub \<Rightarrow> 'm \<Rightarrow> 'm \<Rightarrow> 's \<Rightarrow> bool \<times> 'm \<times> 's)
      \<Rightarrow> (string \<Rightarrow> 's upsf_stub) \<Rightarrow> pthread_t \<Rightarrow> 'c option \<Rightarrow> 's world
      \<Rightarrow> (bool \<times> 'c option \<times> 's world) ub" where
  "create_item from_c to_c dflt createV1 net tid ptr w =
     (case ptr of
        None \<Rightarrow> Some (False, ptr, w)
      | Some x \<Rightarrow> (case upsf_slots w tid of
          None \<Rightarrow> Some (False, ptr, w)
        | Some slot \<Rightarrow> do {
            (_, request) \<leftarrow> from_c x dflt;
            let (ok, reply, s) = createV1 (net (upsf_addr slot)) request dflt (peers w);
            let w = w\<lparr>peers := s\<rparr>;
            if \<not> ok then Some (False, ptr, w)
            else do {
              (_, x) \<leftarrow> to_c reply x;
              Some (True, Some x, w)
            }
          }))"

text \<open>\<^verbatim>\<open>upsf_update_X\<close>, with the default update options.\<close>

definition update_item ::
    "('c \<Rightarrow> 'm \<Rightarrow> (bool \<times> 'm) ub) \<Rightarrow> ('m \<Rightarrow> 'c \<Rightarrow> (bool \<times> 'c) ub) \<Rightarrow> 'm
      \<Rightarrow> ('s upsf_stub \<Rightarrow> 'm \<Rightarrow> 'm \<Rightarrow> UpdateOptions \<Rightarrow> 's \<Rightarrow> bool \<times> 'm \<times> 's)
      \<Rightarrow> (string \<Rightarrow> 's upsf_stub) \<Rightarrow> pthread_t \<Rightarrow> 'c option \<Rightarrow> 's world
      \<Rightarrow> (bool \<times> 'c option \<times> 's world) ub" where
  "update_item from_c to_c dflt updateV1 net tid ptr w =
     (case ptr of
        None \<Rightarrow> Some (False, ptr, w)
      | Some x \<Rightarrow> (case upsf_slots w tid of
          None \<Rightarrow> Some (False, ptr, w)
        | Some slot \<Rightarrow> do {
            (_, request) \<leftarrow> from_c x dflt;
            let (ok, reply, s) =
              updateV1 (net (upsf_addr slot)) request dflt dflt_UpdateOptions (peers w);
            let w = w\<lparr>peers := s\<rparr>;
            if \<not> ok then Some (False, ptr, w)
            else do {
              (_, x) \<leftarrow> to_c reply x;
              Some (True, Some x, w)
            }
          }))"

text \<open>\<^verbatim>\<open>upsf_get_X\<close>: by the name in the structure; a reply without a name is "not found".\<close>

definition get_item ::
    "('c \<Rightarrow> upsf_string_t) \<Rightarrow> ('m \<Rightarrow> string) \<Rightarrow> ('m \<Rightarrow> 'c \<Rightarrow> (bool \<times> 'c) ub) \<Rightarrow> 'm
      \<Rightarrow> ('s upsf_stub \<Rightarrow> string \<Rightarrow> 'm \<Rightarrow> 's \<Rightarrow> bool \<times> 'm \<times> 's)
      \<Rightarrow> (string \<Rightarrow> 's upsf_stub) \<Rightarrow> pthread_t \<Rightarrow> 'c option \<Rightarrow> 's world
      \<Rightarrow> (bool \<times> 'c option \<times> 's world) ub" where
  "get_item c_name name_of to_c dflt readV1 net tid ptr w =
     (case ptr of
        None \<Rightarrow> Some (False, ptr, w)
      | Some x \<Rightarrow> (case upsf_slots w tid of
          None \<Rightarrow> Some (False, ptr, w)
        | Some slot \<Rightarrow> do {
            name \<leftarrow> std_string (c_name x);
            let (ok, reply, s) = readV1 (net (upsf_addr slot)) name dflt (peers w);
            let w = w\<lparr>peers := s\<rparr>;
            if \<not> ok then Some (False, ptr, w)
            else if name_of reply = [] then Some (False, ptr, w)
            else do {
              (_, x) \<leftarrow> to_c reply x;
              Some (True, Some x, w)
            }
          }))"

text \<open>\<^verbatim>\<open>upsf_delete_X\<close>: by the name; 0 or -1.\<close>

definition delete_item ::
    "('c \<Rightarrow> upsf_string_t) \<Rightarrow> (string \<Rightarrow> 's upsf_stub) \<Rightarrow> pthread_t \<Rightarrow> 'c option \<Rightarrow> 's world
      \<Rightarrow> (int32 \<times> 's world) ub" where
  "delete_item c_name net tid ptr w =
     (case ptr of
        None \<Rightarrow> Some (- 1, w)
      | Some x \<Rightarrow> (case upsf_slots w tid of
          None \<Rightarrow> Some (- 1, w)
        | Some slot \<Rightarrow> do {
            req \<leftarrow> std_string (c_name x);
            let (ok, reply, s) = DeleteV1 (net (upsf_addr slot)) req [] (peers w);
            let w = w\<lparr>peers := s\<rparr>;
            if \<not> ok then Some (- 1, w) else Some (0, w)
          }))"

text \<open>
  \<^verbatim>\<open>memset(elems, 0, sizeof(T) * n)\<close> on an array of structures, whose zero is \<open>z\<close>.
\<close>

definition memset_elems :: "'c \<Rightarrow> nat \<Rightarrow> 'c list \<Rightarrow> 'c list ub" where
  "memset_elems z n a = (if n \<le> length a then Some (replicate n z @ drop n a) else None)"

text \<open>
  \<^verbatim>\<open>upsf_list_Xs\<close>: the array is cleared and filled as far as it goes; the result is the
  number of items there are, converted to \<^verbatim>\<open>int\<close>, as is the bound of the loop.
\<close>

definition list_items ::
    "('m \<Rightarrow> 'c \<Rightarrow> (bool \<times> 'c) ub) \<Rightarrow> 'c \<Rightarrow> ('s upsf_stub \<Rightarrow> 'm list \<Rightarrow> 's \<Rightarrow> bool \<times> 'm list \<times> 's)
      \<Rightarrow> (string \<Rightarrow> 's upsf_stub) \<Rightarrow> pthread_t \<Rightarrow> 'c list option \<Rightarrow> size_t \<Rightarrow> 's world
      \<Rightarrow> (int32 \<times> 'c list option \<times> 's world) ub" where
  "list_items to_c zero readV1 net tid ptr n_elems w =
     (case ptr of
        None \<Rightarrow> Some (- 1, ptr, w)
      | Some elems \<Rightarrow> (case upsf_slots w tid of
          None \<Rightarrow> Some (- 1, ptr, w)
        | Some slot \<Rightarrow> do {
            let (ok, items, s) = readV1 (net (upsf_addr slot)) [] (peers w);
            let w = w\<lparr>peers := s\<rparr>;
            if \<not> ok then Some (- 1, ptr, w)
            else do {
              elems \<leftarrow> memset_elems zero (unat n_elems) elems;
              let max_elems = (of_nat (min (length items) (unat n_elems)) :: int32);
              elems \<leftarrow> copy_n (\<lambda>e m. do { (_, e) \<leftarrow> to_c m e; Some e }) items
                         (nat (sint max_elems)) elems;
              Some (of_nat (length items), Some elems, w)
            }
          }))"

text \<open>\<^verbatim>\<open>upsf_lookup\<close>: by the specification in the structure.\<close>

definition upsf_lookup ::
    "(string \<Rightarrow> 's upsf_stub) \<Rightarrow> pthread_t \<Rightarrow> upsf_session_context_t option \<Rightarrow> 's world
      \<Rightarrow> (bool \<times> upsf_session_context_t option \<times> 's world) ub" where
  "upsf_lookup net tid ptr w =
     (case ptr of
        None \<Rightarrow> Some (False, ptr, w)
      | Some x \<Rightarrow> (case upsf_slots w tid of
          None \<Rightarrow> Some (False, ptr, w)
        | Some slot \<Rightarrow> do {
            (_, request) \<leftarrow> map_upsf_session_context_spec_t (c_sc_spec x) dflt_SessionContextSpec;
            let (ok, reply, s) =
              LookupV1 (net (upsf_addr slot)) request dflt_SessionContext (peers w);
            let w = w\<lparr>peers := s\<rparr>;
            if \<not> ok then Some (False, ptr, w)
            else if sc_name reply = [] then Some (False, ptr, w)
            else do {
              (_, x) \<leftarrow> map_SessionContext reply x;
              Some (True, Some x, w)
            }
          }))"

section \<open>The functions of the interface\<close>

subsection \<open>ServiceGateway\<close>

definition upsf_create_service_gateway ::
    "(string \<Rightarrow> 's upsf_stub) \<Rightarrow> pthread_t \<Rightarrow> upsf_service_gateway_t option
      \<Rightarrow> 's world \<Rightarrow> (bool \<times> upsf_service_gateway_t option \<times> 's world) ub" where
  "upsf_create_service_gateway =
     create_item map_upsf_service_gateway_t map_ServiceGateway dflt_ServiceGateway CreateV1_ServiceGateway"

definition upsf_update_service_gateway ::
    "(string \<Rightarrow> 's upsf_stub) \<Rightarrow> pthread_t \<Rightarrow> upsf_service_gateway_t option
      \<Rightarrow> 's world \<Rightarrow> (bool \<times> upsf_service_gateway_t option \<times> 's world) ub" where
  "upsf_update_service_gateway =
     update_item map_upsf_service_gateway_t map_ServiceGateway dflt_ServiceGateway UpdateV1_ServiceGateway"

definition upsf_get_service_gateway ::
    "(string \<Rightarrow> 's upsf_stub) \<Rightarrow> pthread_t \<Rightarrow> upsf_service_gateway_t option
      \<Rightarrow> 's world \<Rightarrow> (bool \<times> upsf_service_gateway_t option \<times> 's world) ub" where
  "upsf_get_service_gateway =
     get_item c_sg_name sg_name map_ServiceGateway dflt_ServiceGateway ReadV1_ServiceGateway"

definition upsf_delete_service_gateway ::
    "(string \<Rightarrow> 's upsf_stub) \<Rightarrow> pthread_t \<Rightarrow> upsf_service_gateway_t option
      \<Rightarrow> 's world \<Rightarrow> (int32 \<times> 's world) ub" where
  "upsf_delete_service_gateway = delete_item c_sg_name"

definition upsf_list_service_gateways ::
    "(string \<Rightarrow> 's upsf_stub) \<Rightarrow> pthread_t \<Rightarrow> upsf_service_gateway_t list option \<Rightarrow> size_t
      \<Rightarrow> 's world \<Rightarrow> (int32 \<times> upsf_service_gateway_t list option \<times> 's world) ub" where
  "upsf_list_service_gateways = list_items map_ServiceGateway zero_upsf_service_gateway_t ReadV1_ServiceGateways"

subsection \<open>ServiceGatewayUserPlane\<close>

definition upsf_create_service_gateway_user_plane ::
    "(string \<Rightarrow> 's upsf_stub) \<Rightarrow> pthread_t \<Rightarrow> upsf_service_gateway_user_plane_t option
      \<Rightarrow> 's world \<Rightarrow> (bool \<times> upsf_service_gateway_user_plane_t option \<times> 's world) ub" where
  "upsf_create_service_gateway_user_plane =
     create_item map_upsf_service_gateway_user_plane_t map_ServiceGatewayUserPlane dflt_ServiceGatewayUserPlane CreateV1_ServiceGatewayUserPlane"

definition upsf_update_service_gateway_user_plane ::
    "(string \<Rightarrow> 's upsf_stub) \<Rightarrow> pthread_t \<Rightarrow> upsf_service_gateway_user_plane_t option
      \<Rightarrow> 's world \<Rightarrow> (bool \<times> upsf_service_gateway_user_plane_t option \<times> 's world) ub" where
  "upsf_update_service_gateway_user_plane =
     update_item map_upsf_service_gateway_user_plane_t map_ServiceGatewayUserPlane dflt_ServiceGatewayUserPlane UpdateV1_ServiceGatewayUserPlane"

definition upsf_get_service_gateway_user_plane ::
    "(string \<Rightarrow> 's upsf_stub) \<Rightarrow> pthread_t \<Rightarrow> upsf_service_gateway_user_plane_t option
      \<Rightarrow> 's world \<Rightarrow> (bool \<times> upsf_service_gateway_user_plane_t option \<times> 's world) ub" where
  "upsf_get_service_gateway_user_plane =
     get_item c_up_name up_name map_ServiceGatewayUserPlane dflt_ServiceGatewayUserPlane ReadV1_ServiceGatewayUserPlane"

definition upsf_delete_service_gateway_user_plane ::
    "(string \<Rightarrow> 's upsf_stub) \<Rightarrow> pthread_t \<Rightarrow> upsf_service_gateway_user_plane_t option
      \<Rightarrow> 's world \<Rightarrow> (int32 \<times> 's world) ub" where
  "upsf_delete_service_gateway_user_plane = delete_item c_up_name"

definition upsf_list_service_gateway_user_planes ::
    "(string \<Rightarrow> 's upsf_stub) \<Rightarrow> pthread_t \<Rightarrow> upsf_service_gateway_user_plane_t list option \<Rightarrow> size_t
      \<Rightarrow> 's world \<Rightarrow> (int32 \<times> upsf_service_gateway_user_plane_t list option \<times> 's world) ub" where
  "upsf_list_service_gateway_user_planes = list_items map_ServiceGatewayUserPlane zero_upsf_service_gateway_user_plane_t ReadV1_ServiceGatewayUserPlanes"

subsection \<open>TrafficSteeringFunction\<close>

definition upsf_create_traffic_steering_function ::
    "(string \<Rightarrow> 's upsf_stub) \<Rightarrow> pthread_t \<Rightarrow> upsf_traffic_steering_function_t option
      \<Rightarrow> 's world \<Rightarrow> (bool \<times> upsf_traffic_steering_function_t option \<times> 's world) ub" where
  "upsf_create_traffic_steering_function =
     create_item map_upsf_traffic_steering_function_t map_TrafficSteeringFunction dflt_TrafficSteeringFunction CreateV1_TrafficSteeringFunction"

definition upsf_update_traffic_steering_function ::
    "(string \<Rightarrow> 's upsf_stub) \<Rightarrow> pthread_t \<Rightarrow> upsf_traffic_steering_function_t option
      \<Rightarrow> 's world \<Rightarrow> (bool \<times> upsf_traffic_steering_function_t option \<times> 's world) ub" where
  "upsf_update_traffic_steering_function =
     update_item map_upsf_traffic_steering_function_t map_TrafficSteeringFunction dflt_TrafficSteeringFunction UpdateV1_TrafficSteeringFunction"

definition upsf_get_traffic_steering_function ::
    "(string \<Rightarrow> 's upsf_stub) \<Rightarrow> pthread_t \<Rightarrow> upsf_traffic_steering_function_t option
      \<Rightarrow> 's world \<Rightarrow> (bool \<times> upsf_traffic_steering_function_t option \<times> 's world) ub" where
  "upsf_get_traffic_steering_function =
     get_item c_tsf_name tsf_name map_TrafficSteeringFunction dflt_TrafficSteeringFunction ReadV1_TrafficSteeringFunction"

definition upsf_delete_traffic_steering_function ::
    "(string \<Rightarrow> 's upsf_stub) \<Rightarrow> pthread_t \<Rightarrow> upsf_traffic_steering_function_t option
      \<Rightarrow> 's world \<Rightarrow> (int32 \<times> 's world) ub" where
  "upsf_delete_traffic_steering_function = delete_item c_tsf_name"

definition upsf_list_traffic_steering_functions ::
    "(string \<Rightarrow> 's upsf_stub) \<Rightarrow> pthread_t \<Rightarrow> upsf_traffic_steering_function_t list option \<Rightarrow> size_t
      \<Rightarrow> 's world \<Rightarrow> (int32 \<times> upsf_traffic_steering_function_t list option \<times> 's world) ub" where
  "upsf_list_traffic_steering_functions = list_items map_TrafficSteeringFunction zero_upsf_traffic_steering_function_t ReadV1_TrafficSteeringFunctions"

subsection \<open>NetworkConnection\<close>

definition upsf_create_network_connection ::
    "((string, bool) fmap \<Rightarrow> (string \<times> bool) list) \<Rightarrow> (string \<Rightarrow> 's upsf_stub) \<Rightarrow> pthread_t \<Rightarrow> upsf_network_connection_t option
      \<Rightarrow> 's world \<Rightarrow> (bool \<times> upsf_network_connection_t option \<times> 's world) ub" where
  "upsf_create_network_connection ord =
     create_item map_upsf_network_connection_t (map_NetworkConnection ord) dflt_NetworkConnection CreateV1_NetworkConnection"

definition upsf_update_network_connection ::
    "((string, bool) fmap \<Rightarrow> (string \<times> bool) list) \<Rightarrow> (string \<Rightarrow> 's upsf_stub) \<Rightarrow> pthread_t \<Rightarrow> upsf_network_connection_t option
      \<Rightarrow> 's world \<Rightarrow> (bool \<times> upsf_network_connection_t option \<times> 's world) ub" where
  "upsf_update_network_connection ord =
     update_item map_upsf_network_connection_t (map_NetworkConnection ord) dflt_NetworkConnection UpdateV1_NetworkConnection"

definition upsf_get_network_connection ::
    "((string, bool) fmap \<Rightarrow> (string \<times> bool) list) \<Rightarrow> (string \<Rightarrow> 's upsf_stub) \<Rightarrow> pthread_t \<Rightarrow> upsf_network_connection_t option
      \<Rightarrow> 's world \<Rightarrow> (bool \<times> upsf_network_connection_t option \<times> 's world) ub" where
  "upsf_get_network_connection ord =
     get_item c_nc_name nc_name (map_NetworkConnection ord) dflt_NetworkConnection ReadV1_NetworkConnection"

definition upsf_delete_network_connection ::
    "(string \<Rightarrow> 's upsf_stub) \<Rightarrow> pthread_t \<Rightarrow> upsf_network_connection_t option
      \<Rightarrow> 's world \<Rightarrow> (int32 \<times> 's world) ub" where
  "upsf_delete_network_connection = delete_item c_nc_name"

definition upsf_list_network_connections ::
    "((string, bool) fmap \<Rightarrow> (string \<times> bool) list) \<Rightarrow> (string \<Rightarrow> 's upsf_stub) \<Rightarrow> pthread_t \<Rightarrow> upsf_network_connection_t list option \<Rightarrow> size_t
      \<Rightarrow> 's world \<Rightarrow> (int32 \<times> upsf_network_connection_t list option \<times> 's world) ub" where
  "upsf_list_network_connections ord = list_items (map_NetworkConnection ord) zero_upsf_network_connection_t ReadV1_NetworkConnections"

subsection \<open>Shard\<close>

definition upsf_create_shard ::
    "((string, string) fmap \<Rightarrow> (string \<times> string) list) \<Rightarrow> (string \<Rightarrow> 's upsf_stub) \<Rightarrow> pthread_t \<Rightarrow> upsf_shard_t option
      \<Rightarrow> 's world \<Rightarrow> (bool \<times> upsf_shard_t option \<times> 's world) ub" where
  "upsf_create_shard ord =
     create_item map_upsf_shard_t (map_Shard ord) dflt_Shard CreateV1_Shard"

definition upsf_update_shard ::
    "((string, string) fmap \<Rightarrow> (string \<times> string) list) \<Rightarrow> (string \<Rightarrow> 's upsf_stub) \<Rightarrow> pthread_t \<Rightarrow> upsf_shard_t option
      \<Rightarrow> 's world \<Rightarrow> (bool \<times> upsf_shard_t option \<times> 's world) ub" where
  "upsf_update_shard ord =
     update_item map_upsf_shard_t (map_Shard ord) dflt_Shard UpdateV1_Shard"

definition upsf_get_shard ::
    "((string, string) fmap \<Rightarrow> (string \<times> string) list) \<Rightarrow> (string \<Rightarrow> 's upsf_stub) \<Rightarrow> pthread_t \<Rightarrow> upsf_shard_t option
      \<Rightarrow> 's world \<Rightarrow> (bool \<times> upsf_shard_t option \<times> 's world) ub" where
  "upsf_get_shard ord =
     get_item c_sh_name sh_name (map_Shard ord) dflt_Shard ReadV1_Shard"

definition upsf_delete_shard ::
    "(string \<Rightarrow> 's upsf_stub) \<Rightarrow> pthread_t \<Rightarrow> upsf_shard_t option
      \<Rightarrow> 's world \<Rightarrow> (int32 \<times> 's world) ub" where
  "upsf_delete_shard = delete_item c_sh_name"

definition upsf_list_shards ::
    "((string, string) fmap \<Rightarrow> (string \<times> string) list) \<Rightarrow> (string \<Rightarrow> 's upsf_stub) \<Rightarrow> pthread_t \<Rightarrow> upsf_shard_t list option \<Rightarrow> size_t
      \<Rightarrow> 's world \<Rightarrow> (int32 \<times> upsf_shard_t list option \<times> 's world) ub" where
  "upsf_list_shards ord = list_items (map_Shard ord) zero_upsf_shard_t ReadV1_Shards"

subsection \<open>SessionContext\<close>

definition upsf_create_session_context ::
    "(string \<Rightarrow> 's upsf_stub) \<Rightarrow> pthread_t \<Rightarrow> upsf_session_context_t option
      \<Rightarrow> 's world \<Rightarrow> (bool \<times> upsf_session_context_t option \<times> 's world) ub" where
  "upsf_create_session_context =
     create_item map_upsf_session_context_t map_SessionContext dflt_SessionContext CreateV1_SessionContext"

definition upsf_update_session_context ::
    "(string \<Rightarrow> 's upsf_stub) \<Rightarrow> pthread_t \<Rightarrow> upsf_session_context_t option
      \<Rightarrow> 's world \<Rightarrow> (bool \<times> upsf_session_context_t option \<times> 's world) ub" where
  "upsf_update_session_context =
     update_item map_upsf_session_context_t map_SessionContext dflt_SessionContext UpdateV1_SessionContext"

definition upsf_get_session_context ::
    "(string \<Rightarrow> 's upsf_stub) \<Rightarrow> pthread_t \<Rightarrow> upsf_session_context_t option
      \<Rightarrow> 's world \<Rightarrow> (bool \<times> upsf_session_context_t option \<times> 's world) ub" where
  "upsf_get_session_context =
     get_item c_sc_name sc_name map_SessionContext dflt_SessionContext ReadV1_SessionContext"

definition upsf_delete_session_context ::
    "(string \<Rightarrow> 's upsf_stub) \<Rightarrow> pthread_t \<Rightarrow> upsf_session_context_t option
      \<Rightarrow> 's world \<Rightarrow> (int32 \<times> 's world) ub" where
  "upsf_delete_session_context = delete_item c_sc_name"

definition upsf_list_session_contexts ::
    "(string \<Rightarrow> 's upsf_stub) \<Rightarrow> pthread_t \<Rightarrow> upsf_session_context_t list option \<Rightarrow> size_t
      \<Rightarrow> 's world \<Rightarrow> (int32 \<times> upsf_session_context_t list option \<times> 's world) ub" where
  "upsf_list_session_contexts = list_items map_SessionContext zero_upsf_session_context_t ReadV1_SessionContexts"

lemmas api_defs = upsf_create_service_gateway_def upsf_create_service_gateway_user_plane_def
  upsf_create_shard_def upsf_create_session_context_def upsf_create_network_connection_def
  upsf_create_traffic_steering_function_def upsf_update_service_gateway_def
  upsf_update_service_gateway_user_plane_def upsf_update_shard_def upsf_update_session_context_def
  upsf_update_network_connection_def upsf_update_traffic_steering_function_def
  upsf_get_service_gateway_def upsf_get_service_gateway_user_plane_def upsf_get_shard_def
  upsf_get_session_context_def upsf_get_network_connection_def
  upsf_get_traffic_steering_function_def upsf_delete_service_gateway_def
  upsf_delete_service_gateway_user_plane_def upsf_delete_shard_def upsf_delete_session_context_def
  upsf_delete_network_connection_def upsf_delete_traffic_steering_function_def
  upsf_list_service_gateways_def upsf_list_service_gateway_user_planes_def upsf_list_shards_def
  upsf_list_session_contexts_def upsf_list_network_connections_def
  upsf_list_traffic_steering_functions_def

section \<open>Properties\<close>

text \<open>
  C29. The four functions from a number to a name give the entry of their table for a number in
  range, the last entry for any number above, and read before the table for a negative one.
\<close>

theorem names_of_numbers:
  "upsf_derived_state_to_name v = (if sint v < 0 then None else if sint v < 6
      then Some (upsf_derived_state_names ! nat (sint v)) else Some ''void'') \<and>
   upsf_item_type_to_name v = (if sint v < 0 then None else if sint v < 6
      then Some (upsf_item_type_names ! nat (sint v)) else Some ''void'') \<and>
   upsf_maintenance_req_to_name v = (if sint v < 0 then None else if sint v < 3
      then Some (upsf_maintenance_req_names ! nat (sint v)) else Some ''void'') \<and>
   upsf_mbb_state_to_name v = (if sint v < 0 then None else if sint v < 6
      then Some (upsf_mbb_state_names ! nat (sint v)) else Some ''void'')"
proof -
  have bounds: "sint (6 :: int32) = 6" "sint (3 :: int32) = 3" by simp_all
  have "length upsf_derived_state_names = nat (sint (6 :: int32)) + 1"
    "length upsf_item_type_names = nat (sint (6 :: int32)) + 1"
    "length upsf_maintenance_req_names = nat (sint (3 :: int32)) + 1"
    "length upsf_mbb_state_names = nat (sint (6 :: int32)) + 1"
    by (simp_all add: name_tables)
  note at = this[THEN name_at_bounded[rotated], of v]
  have "last upsf_derived_state_names = ''void''" "last upsf_item_type_names = ''void''"
    "last upsf_maintenance_req_names = ''void''" "last upsf_mbb_state_names = ''void''"
    by (simp_all add: name_tables)
  then show ?thesis
    by (simp only: to_name_defs name_limits Let_def at[unfolded bounds, simplified] bounds simp_thms)
qed

end
