(* ===== verification/Servers.thy ===== *)
theory Servers
  imports Client
begin

text \<open>
  The server behind a stub, as far as theorems assume something of it: \<open>serves\<close> is a server that
  keeps items by type and name and answers an update with some item of the same type and name;
  \<open>keeps merge\<close> one that moreover lists what it holds, and whose answer to an update is a function
  \<open>merge\<close> of the options, the item held and the item sent. What \<open>merge\<close> does is left open, as the
  service description only names the strategies for lists (union, replace, subtract).
  Both are satisfied by the servers at the end, which are executable, one of them merging by
  these strategies. The locale \<open>item_type\<close> adds the type of an item to the laws of its
  alternative.
\<close>

section \<open>Servers\<close>

text \<open>
  What a server does that keeps items by type and name, as the service description has it:
  creations and updates are stored and answered, deletion by name, reads by type and name.
  \<open>held\<close> is the abstraction from the state behind the stub to the items kept. Nothing is said
  of how an update merges.
\<close>

definition item_key :: "Item \<Rightarrow> (ItemType \<times> string) option" where
  "item_key i = (case i of
       Item_not_set \<Rightarrow> None
     | Item_shard m \<Rightarrow> Some (IT_shard, sh_name m)
     | Item_session_context m \<Rightarrow> Some (IT_session_context, sc_name m)
     | Item_network_connection m \<Rightarrow> Some (IT_network_connection, nc_name m)
     | Item_service_gateway_user_plane m \<Rightarrow> Some (IT_service_gateway_user_plane, up_name m)
     | Item_traffic_steering_function m \<Rightarrow> Some (IT_traffic_steering_function, tsf_name m)
     | Item_service_gateway m \<Rightarrow> Some (IT_service_gateway, sg_name m))"

type_synonym store = "ItemType \<times> string \<rightharpoonup> Item"

abbreviation name_request :: "ItemType \<Rightarrow> string \<Rightarrow> ReadReq" where
  "name_request ty n \<equiv>
     \<lparr>rr_itemtype = [ty], rr_itemstate = [], rr_parent = [], rr_name = [n], rr_watch = False\<rparr>"

definition serves :: "'s upsf_stub \<Rightarrow> ('s \<Rightarrow> store) \<Rightarrow> bool" where
  "serves stub held \<longleftrightarrow>
     (\<forall>i k r s. item_key i = Some k \<longrightarrow>
        (\<exists>s'. stub_CreateV1 stub i r s = (True, i, s') \<and> held s' = (held s)(k \<mapsto> i))) \<and>
     (\<forall>i k opts r s. item_key i = Some k \<longrightarrow>
        (\<exists>i' s'. stub_UpdateV1 stub \<lparr>ur_item = Some i, ur_update_options = Some opts\<rparr> r s = (True, i', s') \<and>
           item_key i' = Some k \<and> held s' = (held s)(k \<mapsto> i'))) \<and>
     (\<forall>n r s. \<exists>r' s'. stub_DeleteV1 stub n r s = (True, r', s') \<and>
        held s' = (\<lambda>(ty, m). if m = n then None else held s (ty, m))) \<and>
     (\<forall>ty n s. \<exists>s'. stub_ReadV1 stub (name_request ty n) s
        = ((case held s (ty, n) of None \<Rightarrow> [] | Some i \<Rightarrow> [i]), True, s') \<and> held s' = held s)"

lemma serves_create:
  "serves stub held \<Longrightarrow> item_key i = Some k \<Longrightarrow>
   \<exists>s'. stub_CreateV1 stub i r s = (True, i, s') \<and> held s' = (held s)(k \<mapsto> i)"
  unfolding serves_def by blast

lemma serves_update:
  "serves stub held \<Longrightarrow> item_key i = Some k \<Longrightarrow>
   \<exists>i' s'. stub_UpdateV1 stub \<lparr>ur_item = Some i, ur_update_options = Some opts\<rparr> r s = (True, i', s') \<and>
     item_key i' = Some k \<and> held s' = (held s)(k \<mapsto> i')"
  unfolding serves_def by blast

lemma serves_delete:
  "serves stub held \<Longrightarrow>
   \<exists>r' s'. stub_DeleteV1 stub n r s = (True, r', s') \<and>
     held s' = (\<lambda>(ty, m). if m = n then None else held s (ty, m))"
  unfolding serves_def by blast

lemma serves_read:
  "serves stub held \<Longrightarrow>
   \<exists>s'. stub_ReadV1 stub (name_request ty n) s
     = ((case held s (ty, n) of None \<Rightarrow> [] | Some i \<Rightarrow> [i]), True, s') \<and> held s' = held s"
  unfolding serves_def by blast

text \<open>What deleting a name leaves.\<close>

definition without :: "string set \<Rightarrow> store \<Rightarrow> store" where
  "without ns h = (\<lambda>(ty, n). if n \<in> ns then None else h (ty, n))"

lemma without_without [simp]: "without ns (without ms h) = without (ns \<union> ms) h"
  by (auto simp: without_def fun_eq_iff)

lemma without_put [simp]: "n \<in> ns \<Longrightarrow> without ns (h((ty, n) \<mapsto> i)) = without ns h"
  by (auto simp: without_def fun_eq_iff)

lemma without_empty [simp]: "without ns Map.empty = Map.empty"
  by (auto simp: without_def)

section \<open>Servers that merge and list\<close>

text \<open>
  \<open>keeps merge\<close>: every item is held under its own key; an update stores and answers what \<open>merge\<close>
  makes of the options, the item held before, if any, and the item sent, which has the key of the
  latter by \<open>serves\<close>; and the list of a type has each item held of that type once, in whatever
  order.
\<close>

type_synonym merge = "UpdateOptions \<Rightarrow> Item option \<Rightarrow> Item \<Rightarrow> Item"

abbreviation list_request :: "ItemType \<Rightarrow> ReadReq" where
  "list_request ty \<equiv>
     \<lparr>rr_itemtype = [ty], rr_itemstate = [], rr_parent = [], rr_name = [], rr_watch = False\<rparr>"

definition keeps :: "merge \<Rightarrow> 's upsf_stub \<Rightarrow> ('s \<Rightarrow> store) \<Rightarrow> bool" where
  "keeps merge stub held \<longleftrightarrow> serves stub held \<and>
     (\<forall>s k i. held s k = Some i \<longrightarrow> item_key i = Some k) \<and>
     (\<forall>i k opts r s. item_key i = Some k \<longrightarrow>
        (\<exists>s'. stub_UpdateV1 stub \<lparr>ur_item = Some i, ur_update_options = Some opts\<rparr> r s
             = (True, merge opts (held s k) i, s') \<and>
           held s' = (held s)(k \<mapsto> merge opts (held s k) i))) \<and>
     (\<forall>ty s. \<exists>is s'. stub_ReadV1 stub (list_request ty) s = (is, True, s') \<and> held s' = held s \<and>
        distinct is \<and> set is = {i. \<exists>n. held s (ty, n) = Some i})"

lemma keeps_serves: "keeps merge stub held \<Longrightarrow> serves stub held"
  unfolding keeps_def by blast

lemma keeps_key: "keeps merge stub held \<Longrightarrow> held s k = Some i \<Longrightarrow> item_key i = Some k"
  unfolding keeps_def by blast

lemma keeps_update:
  "keeps merge stub held \<Longrightarrow> item_key i = Some k \<Longrightarrow>
   \<exists>s'. stub_UpdateV1 stub \<lparr>ur_item = Some i, ur_update_options = Some opts\<rparr> r s
       = (True, merge opts (held s k) i, s') \<and>
     held s' = (held s)(k \<mapsto> merge opts (held s k) i)"
  unfolding keeps_def by blast

lemma keeps_merge_key:
  assumes "keeps merge stub held" and "item_key i = Some k"
  shows "item_key (merge opts (held s k) i) = Some k"
proof -
  from keeps_update[OF assms, of opts Item_not_set s] obtain s' where
    "held s' = (held s)(k \<mapsto> merge opts (held s k) i)" by blast
  then have "held s' k = Some (merge opts (held s k) i)" by simp
  then show ?thesis by (rule keeps_key[OF assms(1)])
qed

lemma keeps_list:
  "keeps merge stub held \<Longrightarrow>
   \<exists>is s'. stub_ReadV1 stub (list_request ty) s = (is, True, s') \<and> held s' = held s \<and>
     distinct is \<and> set is = {i. \<exists>n. held s (ty, n) = Some i}"
  unfolding keeps_def by blast

section \<open>The types of items\<close>

locale item_type = item_kind mk sel dflt name_of
  for mk :: "'m \<Rightarrow> Item" and sel dflt name_of +
  fixes ty :: ItemType
  assumes key_mk: "item_key (mk m) = Some (ty, name_of m)"
    and mk_key: "item_key i = Some (ty, n) \<Longrightarrow> \<exists>m. i = mk m"
begin

text \<open>The typed calls at such servers.\<close>

lemma create_as_kept:
  assumes "serves stub held"
  shows "\<exists>s'. create_as mk sel dflt stub q r s = (True, q, s') \<and>
    held s' = (held s)((ty, name_of q) \<mapsto> mk q)"
proof -
  from serves_create[OF assms key_mk[of q], of Item_not_set s] obtain s' where
    "stub_CreateV1 stub (mk q) Item_not_set s = (True, mk q, s')"
    and "held s' = (held s)((ty, name_of q) \<mapsto> mk q)" by blast
  then show ?thesis by (intro exI[of _ s'] conjI create_as_reply)
qed

lemma update_as_kept:
  assumes "keeps merge stub held"
  shows "\<exists>m s'. update_as mk sel dflt stub q r opts s = (True, m, s') \<and> name_of m = name_of q \<and>
    mk m = merge opts (held s (ty, name_of q)) (mk q) \<and> held s' = (held s)((ty, name_of q) \<mapsto> mk m)"
proof -
  let ?i = "merge opts (held s (ty, name_of q)) (mk q)"
  from keeps_merge_key[OF assms key_mk[of q]] have key: "item_key ?i = Some (ty, name_of q)" .
  with mk_key obtain m where m: "?i = mk m" by blast
  with key have n: "name_of m = name_of q" by (simp add: key_mk)
  from keeps_update[OF assms key_mk[of q], of opts Item_not_set s] obtain s' where
    "stub_UpdateV1 stub \<lparr>ur_item = Some (mk q), ur_update_options = Some opts\<rparr> Item_not_set s
      = (True, mk m, s')"
    and "held s' = (held s)((ty, name_of q) \<mapsto> mk m)" by (auto simp: m)
  with m n show ?thesis by (intro exI[of _ m] exI[of _ s'] conjI update_as_reply) simp_all
qed

lemma read_as_kept:
  assumes "keeps merge stub held"
  shows "\<exists>b m s'. read_as ty sel dflt name_of stub n x s = (b, m, s') \<and> held s' = held s \<and>
    (case held s (ty, n) of Some i \<Rightarrow> b \<and> i = mk m \<and> name_of m = n | None \<Rightarrow> b = (n = []) \<and> m = x)"
proof -
  from serves_read[OF keeps_serves[OF assms], of ty n s] obtain s' where
    call: "stub_ReadV1 stub (name_request ty n) s
      = ((case held s (ty, n) of None \<Rightarrow> [] | Some i \<Rightarrow> [i]), True, s')" and same: "held s' = held s"
    by blast
  show ?thesis
  proof (cases "held s (ty, n)")
    case (Some i)
    from keeps_key[OF assms Some] mk_key obtain m where m: "i = mk m" by blast
    with keeps_key[OF assms Some] have "name_of m = n" by (simp add: key_mk)
    with call same Some m show ?thesis by (auto simp: read_as_def dflt_ReadReq_def)
  qed (use call same in \<open>auto simp: read_as_def dflt_ReadReq_def\<close>)
qed

lemma read_list_as_kept:
  assumes "keeps merge stub held"
  shows "\<exists>ms s'. read_list_as ty sel stub [] s = (True, ms, s') \<and> held s' = held s \<and> distinct ms \<and>
    mk ` set ms = {i. \<exists>n. held s (ty, n) = Some i}"
proof -
  from keeps_list[OF assms, of ty s] obtain "is" s' where
    call: "stub_ReadV1 stub (list_request ty) s = (is, True, s')" and same: "held s' = held s"
    and d: "distinct is" and set: "set is = {i. \<exists>n. held s (ty, n) = Some i}" by blast
  have "\<exists>m. i = mk m" if "i \<in> set is" for i
    using that set keeps_key[OF assms] mk_key by blast
  then have all: "\<exists>ms. is = map mk ms" by (simp add: ex_map_conv)
  then obtain ms where ms: "is = map mk ms" by blast
  then have "List.map_filter sel is = ms" by (simp add: List.map_filter_def comp_def)
  with read_list_as_result[OF call] same d set ms show ?thesis
    by (auto simp: distinct_map)
qed

text \<open>Deleting by name, as the overload on strings does.\<close>

lemma DeleteV1_string_kept:
  assumes "serves stub held"
  shows "\<exists>r' s'. DeleteV1_string stub n r s = (True, r', s') \<and>
    held s' = (\<lambda>(t, m). if m = n then None else held s (t, m))"
  using serves_delete[OF assms, of n "[]" s] by (auto simp: DeleteV1_string_def)

end

interpretation sg_type: item_type Item_service_gateway item_service_gateway dflt_ServiceGateway
  sg_name IT_service_gateway
  by unfold_locales (auto simp: item_key_def split: Item.splits)

interpretation up_type: item_type Item_service_gateway_user_plane item_service_gateway_user_plane
  dflt_ServiceGatewayUserPlane up_name IT_service_gateway_user_plane
  by unfold_locales (auto simp: item_key_def split: Item.splits)

interpretation tsf_type: item_type Item_traffic_steering_function item_traffic_steering_function
  dflt_TrafficSteeringFunction tsf_name IT_traffic_steering_function
  by unfold_locales (auto simp: item_key_def split: Item.splits)

interpretation nc_type: item_type Item_network_connection item_network_connection
  dflt_NetworkConnection nc_name IT_network_connection
  by unfold_locales (auto simp: item_key_def split: Item.splits)

interpretation sh_type: item_type Item_shard item_shard dflt_Shard sh_name IT_shard
  by unfold_locales (auto simp: item_key_def split: Item.splits)

interpretation sc_type: item_type Item_session_context item_session_context dflt_SessionContext
  sc_name IT_session_context
  by unfold_locales (auto simp: item_key_def split: Item.splits)

section \<open>Servers for the examples\<close>

text \<open>A server that is just a store, for the examples.\<close>

definition plain_store :: "store upsf_stub" where
  "plain_store = \<lparr>
     stub_CreateV1 = (\<lambda>i r s. case item_key i of None \<Rightarrow> (False, r, s) | Some k \<Rightarrow> (True, i, s(k \<mapsto> i))),
     stub_UpdateV1 = (\<lambda>q r s. case ur_item q of None \<Rightarrow> (False, r, s) | Some i \<Rightarrow>
       (case item_key i of None \<Rightarrow> (False, r, s) | Some k \<Rightarrow> (True, i, s(k \<mapsto> i)))),
     stub_DeleteV1 = (\<lambda>n r s. (True, n, \<lambda>(ty, m). if m = n then None else s (ty, m))),
     stub_LookupV1 = (\<lambda>q r s. (False, r, s)),
     stub_ReadV1 = (\<lambda>q s. (case (rr_itemtype q, rr_name q) of
         ([ty], [n]) \<Rightarrow> (case s (ty, n) of None \<Rightarrow> [] | Some i \<Rightarrow> [i]) | _ \<Rightarrow> [], True, s))\<rparr>"

lemma plain_store_serves: "serves plain_store (\<lambda>s. s)"
  by (auto simp: serves_def plain_store_def split: option.splits)

text \<open>
  Merging by the strategies of the service description: each list of an item sent is merged with
  that of the item held, where both have it; everything else is taken from the item sent.
\<close>

definition merge_list :: "ListMergeStrategy \<Rightarrow> 'a list \<Rightarrow> 'a list \<Rightarrow> 'a list" where
  "merge_list l old new = (case l of
       LMS_union \<Rightarrow> old @ filter (\<lambda>x. x \<notin> set old) new
     | LMS_replace \<Rightarrow> new
     | LMS_subtract \<Rightarrow> filter (\<lambda>x. x \<notin> set new) old)"

definition merge_part :: "('a \<Rightarrow> 'a \<Rightarrow> 'a) \<Rightarrow> 'a option \<Rightarrow> 'a option \<Rightarrow> 'a option" where
  "merge_part f old new = (case (old, new) of (Some a, Some b) \<Rightarrow> Some (f a b) | _ \<Rightarrow> new)"

definition merge_user_plane ::
    "ListMergeStrategy \<Rightarrow> ServiceGatewayUserPlane \<Rightarrow> ServiceGatewayUserPlane \<Rightarrow> ServiceGatewayUserPlane" where
  "merge_user_plane l a b = b\<lparr>up_spec := merge_part (\<lambda>s t. t\<lparr>ups_supported_service_group :=
     merge_list l (ups_supported_service_group s) (ups_supported_service_group t)\<rparr>) (up_spec a) (up_spec b)\<rparr>"

definition merge_session_context ::
    "ListMergeStrategy \<Rightarrow> SessionContext \<Rightarrow> SessionContext \<Rightarrow> SessionContext" where
  "merge_session_context l a b = b\<lparr>sc_spec := merge_part (\<lambda>s t. t\<lparr>scs_required_service_group :=
     merge_list l (scs_required_service_group s) (scs_required_service_group t)\<rparr>) (sc_spec a) (sc_spec b)\<rparr>"

definition merge_shard :: "ListMergeStrategy \<Rightarrow> Shard \<Rightarrow> Shard \<Rightarrow> Shard" where
  "merge_shard l a b = b\<lparr>
     sh_spec := merge_part (\<lambda>s t. t\<lparr>
       shs_desired_state := merge_part (\<lambda>d e. e\<lparr>shd_network_connection :=
         merge_list l (shd_network_connection d) (shd_network_connection e)\<rparr>)
         (shs_desired_state s) (shs_desired_state t),
       shs_prefix := merge_list l (shs_prefix s) (shs_prefix t)\<rparr>) (sh_spec a) (sh_spec b),
     sh_status := merge_part (\<lambda>s t. t\<lparr>sht_service_groups_supported :=
       merge_list l (sht_service_groups_supported s) (sht_service_groups_supported t)\<rparr>)
       (sh_status a) (sh_status b)\<rparr>"

definition merge_nc_spec :: "ListMergeStrategy \<Rightarrow> nc_spec_oneof \<Rightarrow> nc_spec_oneof \<Rightarrow> nc_spec_oneof" where
  "merge_nc_spec l s t = (case (s, t) of
       (NC_ss_ptp a, NC_ss_ptp b) \<Rightarrow> NC_ss_ptp (b\<lparr>ssp_sgup_endpoint :=
         merge_list l (ssp_sgup_endpoint a) (ssp_sgup_endpoint b)\<rparr>)
     | (NC_ss_mptpc a, NC_ss_mptpc b) \<Rightarrow> NC_ss_mptpc (b\<lparr>
         ssm_sgup_endpoint := merge_list l (ssm_sgup_endpoint a) (ssm_sgup_endpoint b),
         ssm_tsf_endpoint := merge_list l (ssm_tsf_endpoint a) (ssm_tsf_endpoint b)\<rparr>)
     | (NC_ms_mptp a, NC_ms_mptp b) \<Rightarrow> NC_ms_mptp (b\<lparr>msm_tsf_endpoint :=
         merge_list l (msm_tsf_endpoint a) (msm_tsf_endpoint b)\<rparr>)
     | _ \<Rightarrow> t)"

definition merge_network_connection ::
    "ListMergeStrategy \<Rightarrow> NetworkConnection \<Rightarrow> NetworkConnection \<Rightarrow> NetworkConnection" where
  "merge_network_connection l a b = b\<lparr>nc_spec := merge_part (\<lambda>s t. t\<lparr>ncs_nc_spec :=
     merge_nc_spec l (ncs_nc_spec s) (ncs_nc_spec t)\<rparr>) (nc_spec a) (nc_spec b)\<rparr>"

definition merge_item :: merge where
  "merge_item opts old i = (let l = uo_list_merge_strategy opts in case i of
       Item_shard b \<Rightarrow> Item_shard
         (case Option.bind old item_shard of None \<Rightarrow> b | Some a \<Rightarrow> merge_shard l a b)
     | Item_session_context b \<Rightarrow> Item_session_context
         (case Option.bind old item_session_context of None \<Rightarrow> b | Some a \<Rightarrow> merge_session_context l a b)
     | Item_network_connection b \<Rightarrow> Item_network_connection
         (case Option.bind old item_network_connection of None \<Rightarrow> b
          | Some a \<Rightarrow> merge_network_connection l a b)
     | Item_service_gateway_user_plane b \<Rightarrow> Item_service_gateway_user_plane
         (case Option.bind old item_service_gateway_user_plane of None \<Rightarrow> b
          | Some a \<Rightarrow> merge_user_plane l a b)
     | _ \<Rightarrow> i)"

lemmas merge_defs = merge_shard_def merge_session_context_def merge_network_connection_def
  merge_user_plane_def

text \<open>A merge that keeps the key, as that of any server that \<open>serves\<close> must.\<close>

definition keyed :: "merge \<Rightarrow> bool" where
  "keyed merge \<longleftrightarrow> (\<forall>opts old i. item_key (merge opts old i) = item_key i)"

lemma merge_item_keyed: "keyed merge_item"
  unfolding keyed_def
proof (intro allI)
  show "item_key (merge_item opts old i) = item_key i" for opts old i
    by (cases i) (simp_all add: merge_item_def merge_defs item_key_def split: option.split)
qed

text \<open>A server that keeps a list of items, one per key, and so can list them.\<close>

definition held_in :: "Item list \<Rightarrow> store" where
  "held_in s k = find (\<lambda>i. item_key i = Some k) s"

definition put_item :: "Item \<Rightarrow> Item list \<Rightarrow> Item list" where
  "put_item i s = filter (\<lambda>j. item_key j \<noteq> item_key i) s @ [i]"

definition item_server :: "merge \<Rightarrow> Item list upsf_stub" where
  "item_server merge = \<lparr>
     stub_CreateV1 = (\<lambda>i r s. if item_key i = None then (False, r, s) else (True, i, put_item i s)),
     stub_UpdateV1 = (\<lambda>q r s. case ur_item q of None \<Rightarrow> (False, r, s) | Some i \<Rightarrow>
       (case item_key i of None \<Rightarrow> (False, r, s) | Some k \<Rightarrow>
         let i = merge (case ur_update_options q of None \<Rightarrow> dflt_UpdateOptions | Some opts \<Rightarrow> opts)
             (held_in s k) i
         in (True, i, put_item i s))),
     stub_DeleteV1 = (\<lambda>n r s. (True, n, filter (\<lambda>i. map_option snd (item_key i) \<noteq> Some n) s)),
     stub_LookupV1 = (\<lambda>q r s. (False, r, s)),
     stub_ReadV1 = (\<lambda>q s. (case (rr_itemtype q, rr_name q) of
         ([ty], [n]) \<Rightarrow> (case held_in s (ty, n) of None \<Rightarrow> [] | Some i \<Rightarrow> [i])
       | ([ty], []) \<Rightarrow> map (\<lambda>k. the (held_in s k))
           (filter (\<lambda>k. fst k = ty) (remdups (List.map_filter item_key s)))
       | _ \<Rightarrow> [], True, s))\<rparr>"

lemma find_append: "find P (xs @ ys) = (case find P xs of None \<Rightarrow> find P ys | Some x \<Rightarrow> Some x)"
  by (induction xs) auto

lemma find_filter_same: "(\<And>x. P x \<Longrightarrow> Q x) \<Longrightarrow> find P (filter Q xs) = find P xs"
  by (induction xs) auto

lemma find_filter_none: "(\<And>x. P x \<Longrightarrow> \<not> Q x) \<Longrightarrow> find P (filter Q xs) = None"
  by (auto simp: find_None_iff)

lemma held_in_key: "held_in s k = Some i \<Longrightarrow> item_key i = Some k \<and> i \<in> set s"
  by (auto simp: held_in_def find_Some_iff)

lemma held_in_None: "held_in s k = None \<longleftrightarrow> (\<forall>i\<in>set s. item_key i \<noteq> Some k)"
  by (auto simp: held_in_def find_None_iff)

lemma held_in_put: "item_key i = Some k \<Longrightarrow> held_in (put_item i s) = (held_in s)(k \<mapsto> i)"
proof
  fix k' assume k: "item_key i = Some k"
  show "held_in (put_item i s) k' = ((held_in s)(k \<mapsto> i)) k'"
  proof (cases "k' = k")
    case True
    then show ?thesis using k
      by (simp add: held_in_def put_item_def find_append find_filter_none)
  next
    case False
    then have "find (\<lambda>i. item_key i = Some k') (filter (\<lambda>j. item_key j \<noteq> Some k) s)
        = find (\<lambda>i. item_key i = Some k') s"
      by (intro find_filter_same) auto
    with False k show ?thesis by (simp add: held_in_def put_item_def find_append split: option.split)
  qed
qed

lemma held_in_delete:
  "held_in (filter (\<lambda>i. map_option snd (item_key i) \<noteq> Some n) s)
     = (\<lambda>(t, m). if m = n then None else held_in s (t, m))"
proof
  fix k show "held_in (filter (\<lambda>i. map_option snd (item_key i) \<noteq> Some n) s) k
      = (case k of (t, m) \<Rightarrow> if m = n then None else held_in s (t, m))"
    by (cases k) (auto simp: held_in_def intro!: find_filter_none find_filter_same)
qed

lemma item_server_keeps:
  assumes "keyed merge"
  shows "keeps merge (item_server merge) held_in"
proof -
  note keyed = assms[unfolded keyed_def, rule_format]
  have "serves (item_server merge) held_in"
    unfolding serves_def
  proof (intro conjI allI impI)
    show "\<exists>r' s'. stub_DeleteV1 (item_server merge) n r s = (True, r', s') \<and>
        held_in s' = (\<lambda>(ty, m). if m = n then None else held_in s (ty, m))" for n r s
      by (simp add: item_server_def held_in_delete del: map_option_eq_Some)
  qed (auto simp: item_server_def held_in_put keyed Let_def split: option.split)
  moreover have "\<exists>is s'. stub_ReadV1 (item_server merge) (list_request ty) s = (is, True, s') \<and>
      held_in s' = held_in s \<and> distinct is \<and> set is = {i. \<exists>n. held_in s (ty, n) = Some i}" for ty s
  proof -
    let ?ks = "filter (\<lambda>k. fst k = ty) (remdups (List.map_filter item_key s))"
    have ks: "k \<in> set ?ks \<longleftrightarrow> fst k = ty \<and> held_in s k \<noteq> None" for k
      by (auto simp: held_in_None List.map_filter_def) force
    have inj: "inj_on (\<lambda>k. the (held_in s k)) (set ?ks)"
      by (rule inj_onI) (metis ks held_in_key option.collapse option.inject)
    have "set (map (\<lambda>k. the (held_in s k)) ?ks) = {i. \<exists>n. held_in s (ty, n) = Some i}"
      (is "?A = ?B")
    proof
      show "?A \<subseteq> ?B"
      proof
        fix i assume "i \<in> ?A"
        then obtain k where "k \<in> set ?ks" and i: "i = the (held_in s k)" by auto
        then have "fst k = ty" "held_in s k \<noteq> None" using ks[of k] by blast+
        with i have "held_in s (ty, snd k) = Some i" by (cases k) auto
        then show "i \<in> ?B" by blast
      qed
      show "?B \<subseteq> ?A"
      proof
        fix i assume "i \<in> ?B"
        then obtain n where "held_in s (ty, n) = Some i" by blast
        with ks[of "(ty, n)"] show "i \<in> ?A" by (force intro!: image_eqI[of _ _ "(ty, n)"])
      qed
    qed
    moreover have "distinct (map (\<lambda>k. the (held_in s k)) ?ks)"
      using inj by (simp add: distinct_map)
    ultimately show ?thesis by (simp add: item_server_def)
  qed
  ultimately show ?thesis
    by (auto simp: keeps_def dest: held_in_key) (auto simp: item_server_def held_in_put keyed Let_def)
qed

end
