(* ===== verification/WrapperApi.thy ===== *)
theory WrapperApi
  imports Wrapper Servers
begin

text \<open>
  What the C interface promises of every item type, proved once from the laws of the mapping
  (\<open>item_mapping\<close>) and of the item alternatives (\<open>item_kind\<close>), and interpreted for the six
  types: which calls return the null pointer, that a failed call leaves the caller's
  structure alone, what a successful one writes, and that nothing is read or written out of
  bounds as long as the structure passed in can be read.
\<close>

section \<open>Slots\<close>

lemma slots_simps [simp]:
  "upsf_slots (snd (upsf_close tid w)) = (upsf_slots w)(tid := None)"
  "peers (snd (upsf_close tid w)) = peers w"
  "peers (snd (upsf_open tid h p w)) = peers w"
  "fst (upsf_open tid h p w) = 0"
  by (auto simp: upsf_close_def upsf_open_def Let_def)

lemma upsf_open_slots:
  "upsf_slots (snd (upsf_open tid h p w)) = (case upsf_slots w tid of
     None \<Rightarrow> (upsf_slots w)(tid \<mapsto> \<lparr>upsf_addr = h @ '':'' @ show_int p\<rparr>) | Some _ \<Rightarrow> upsf_slots w)"
  by (simp add: upsf_open_def Let_def split: option.split)

text \<open>The operations on items leave the slots alone, whatever the server does.\<close>

lemma item_slots:
  "create_item from_c to_c d cr net tid ptr w = Some (b, p, w') \<Longrightarrow> upsf_slots w' = upsf_slots w"
  "update_item from_c to_c d up net tid ptr w = Some (b, p, w') \<Longrightarrow> upsf_slots w' = upsf_slots w"
  "get_item c_name name_of to_c d rd net tid ptr w = Some (b, p, w') \<Longrightarrow> upsf_slots w' = upsf_slots w"
  "delete_item c_name net tid ptr w = Some (r, w') \<Longrightarrow> upsf_slots w' = upsf_slots w"
  "list_items to_c z rl net tid a n w = Some (r, a', w') \<Longrightarrow> upsf_slots w' = upsf_slots w"
  by (auto simp: create_item_def update_item_def get_item_def delete_item_def list_items_def
      bind_eq_Some_conv Let_def split_beta split: option.splits if_splits)

section \<open>Filling an array\<close>

lemma copy_n_overwrite:
  assumes "n \<le> length xs" and "n \<le> length a" and "\<And>e x. put e x = Some (f x)"
  shows "copy_n put xs n a = Some (map f (take n xs) @ drop n a)"
proof -
  let ?inv = "\<lambda>k b. b = map f (take k xs) @ drop k a"
  let ?body = "\<lambda>i a. do { x \<leftarrow> arr_get xs i; e \<leftarrow> arr_get a i; e' \<leftarrow> put e x; arr_set a i e' }"
  have "\<exists>t. for_up 0 n ?body a = Some t \<and> ?inv n t"
  proof (rule for_up_invariant)
    fix k b assume k: "k < n" and b: "?inv k b"
    with assms(1,2) have "k < length xs" "k < length b" "length (map f (take k xs)) = k" by auto
    moreover have "b[k := f (xs ! k)] = map f (take (Suc k) xs) @ drop (Suc k) a"
      using b k assms(1,2)
      by (simp add: list_update_append take_Suc_conv_app_nth flip: Cons_nth_drop_Suc)
    ultimately show "\<exists>b'. ?body k b = Some b' \<and> ?inv (Suc k) b'" by (simp add: assms(3))
  qed simp_all
  then show ?thesis by (simp add: copy_n_def)
qed

section \<open>The contract\<close>

locale item_api =
  item_mapping to_c from_c c_of p_of dflt ok clean + item_type mk sel dflt name_of ty
  for to_c :: "'m \<Rightarrow> 'c \<Rightarrow> (bool \<times> 'c) ub" and from_c c_of p_of dflt ok clean mk sel name_of ty +
  fixes c_name :: "'c \<Rightarrow> upsf_string_t"
  assumes c_name_c: "c_name (c_of m) = c_string (name_of m)"
    and ok_name: "ok x \<Longrightarrow> ok_string (c_name x)"
    and name_p: "name_of (p_of x m) = p_string (c_name x)"
begin

text \<open>Without a structure or a slot every operation fails and changes nothing.\<close>

lemma no_structure:
  "create_item from_c to_c dflt cr net tid None w = Some (False, None, w)"
  "update_item from_c to_c dflt up net tid None w = Some (False, None, w)"
  "get_item c_name name_of to_c dflt rd net tid None w = Some (False, None, w)"
  "delete_item c_name net tid None w = Some (- 1, w)"
  "list_items to_c z rl net tid None n w = Some (- 1, None, w)"
  by (simp_all add: create_item_def update_item_def get_item_def delete_item_def list_items_def)

lemma no_slot:
  assumes "upsf_slots w tid = None"
  shows "create_item from_c to_c dflt cr net tid ptr w = Some (False, ptr, w)"
    and "update_item from_c to_c dflt up net tid ptr w = Some (False, ptr, w)"
    and "get_item c_name name_of to_c dflt rd net tid ptr w = Some (False, ptr, w)"
    and "delete_item c_name net tid ptr w = Some (- 1, w)"
    and "list_items to_c z rl net tid a n w = Some (- 1, a, w)"
  using assms by (simp_all add: create_item_def update_item_def get_item_def delete_item_def
      list_items_def split: option.split)

text \<open>
  With a readable structure and a slot, an operation is its remote call on the closed forms;
  the structure is written only when the call succeeds.
\<close>

lemma create_item_eq:
  assumes "upsf_slots w tid = Some slot" and "ok x"
  shows "create_item from_c to_c dflt cr net tid (Some x) w =
    (case cr (net (upsf_addr slot)) (p_of x dflt) dflt (peers w) of (b, r, s) \<Rightarrow>
       Some (b, Some (if b then c_of r else x), w\<lparr>peers := s\<rparr>))"
  using assms by (simp add: create_item_def from_c_eq to_c_eq split: prod.split)

lemma update_item_eq:
  assumes "upsf_slots w tid = Some slot" and "ok x"
  shows "update_item from_c to_c dflt up net tid (Some x) w =
    (case up (net (upsf_addr slot)) (p_of x dflt) dflt dflt_UpdateOptions (peers w) of (b, r, s) \<Rightarrow>
       Some (b, Some (if b then c_of r else x), w\<lparr>peers := s\<rparr>))"
  using assms by (simp add: update_item_def from_c_eq to_c_eq split: prod.split)

lemma get_item_eq:
  assumes "upsf_slots w tid = Some slot" and "ok x"
  shows "get_item c_name name_of to_c dflt rd net tid (Some x) w =
    (case rd (net (upsf_addr slot)) (p_string (c_name x)) dflt (peers w) of (b, r, s) \<Rightarrow>
       Some (b \<and> name_of r \<noteq> [], Some (if b \<and> name_of r \<noteq> [] then c_of r else x), w\<lparr>peers := s\<rparr>))"
  using assms by (simp add: get_item_def ok_name to_c_eq Let_def split: prod.split)

lemma delete_item_eq:
  assumes "upsf_slots w tid = Some slot" and "ok x"
  shows "delete_item c_name net tid (Some x) w =
    (case stub_DeleteV1 (net (upsf_addr slot)) (p_string (c_name x)) [] (peers w) of (b, r, s) \<Rightarrow>
       Some (if b then 0 else - 1, w\<lparr>peers := s\<rparr>))"
  using assms by (simp add: delete_item_def DeleteV1_def ok_name split: prod.split)

text \<open>Memory safety, and all or nothing: the structure holds a reply or what it held.\<close>

lemma create_item_safe:
  assumes "\<And>x. ptr = Some x \<Longrightarrow> ok x"
  shows "\<exists>b q w'. create_item from_c to_c dflt cr net tid ptr w = Some (b, q, w') \<and>
    upsf_slots w' = upsf_slots w \<and> (if b then \<exists>c. q = Some c \<and> clean c else q = ptr)"
proof (cases ptr)
  case (Some x)
  then show ?thesis
    by (cases "upsf_slots w tid")
      (auto simp: no_slot create_item_eq assms clean_c split: prod.split)
qed (auto simp: no_structure intro: exI[of _ False])

lemma update_item_safe:
  assumes "\<And>x. ptr = Some x \<Longrightarrow> ok x"
  shows "\<exists>b q w'. update_item from_c to_c dflt up net tid ptr w = Some (b, q, w') \<and>
    upsf_slots w' = upsf_slots w \<and> (if b then \<exists>c. q = Some c \<and> clean c else q = ptr)"
proof (cases ptr)
  case (Some x)
  then show ?thesis
    by (cases "upsf_slots w tid")
      (auto simp: no_slot update_item_eq assms clean_c split: prod.split)
qed (auto simp: no_structure intro: exI[of _ False])

lemma get_item_safe:
  assumes "\<And>x. ptr = Some x \<Longrightarrow> ok x"
  shows "\<exists>b q w'. get_item c_name name_of to_c dflt rd net tid ptr w = Some (b, q, w') \<and>
    upsf_slots w' = upsf_slots w \<and> (if b then \<exists>c. q = Some c \<and> clean c else q = ptr)"
proof (cases ptr)
  case (Some x)
  then show ?thesis
    by (cases "upsf_slots w tid")
      (auto simp: no_slot get_item_eq assms clean_c split: prod.split)
qed (auto simp: no_structure intro: exI[of _ False])

text \<open>A structure that is returned by get carries the name that was asked for.\<close>

lemma get_item_name:
  assumes "get_item c_name name_of to_c dflt (read_as ty sel dflt name_of) net tid (Some x) w
      = Some (True, Some y, w')" and "ok x"
  shows "p_string (c_name y) = c_cut (p_string (c_name x)) \<and> p_string (c_name x) \<noteq> [] \<and> clean y"
proof -
  from assms(1) obtain slot where slot: "upsf_slots w tid = Some slot"
    by (cases "upsf_slots w tid") (simp_all add: no_slot)
  obtain b r s where rd: "read_as ty sel dflt name_of (net (upsf_addr slot)) (p_string (c_name x)) dflt
      (peers w) = (b, r, s)" by (metis prod_cases3)
  with assms slot have b: "b" "name_of r \<noteq> []" "y = c_of r"
    by (auto simp: get_item_eq split: if_splits)
  with read_as_success[of ty "net (upsf_addr slot)" "p_string (c_name x)" dflt "peers w" r s] rd
  have "name_of r = p_string (c_name x)" by (auto split: if_splits)
  with b show ?thesis by (simp add: c_name_c clean_c)
qed

text \<open>
  The list operation fills the array as far as it goes, clears the rest of what the caller
  named, leaves what is behind, and returns how many items there are.
\<close>

lemma sint_of_nat_int32: "n < 2 ^ 31 \<Longrightarrow> sint (of_nat n :: int32) = int n"
  by (simp add: signed_of_nat signed_take_bit_int_eq_self)

lemma list_items_eq:
  assumes "upsf_slots w tid = Some slot" and "unat n \<le> length a" and "unat n < 2 ^ 31"
    and "rl (net (upsf_addr slot)) [] (peers w) = (b, ms, s)"
  shows "list_items to_c z rl net tid (Some a) n w =
    (if b then Some (of_nat (length ms),
       Some (map c_of (take (unat n) ms) @ replicate (unat n - length ms) z @ drop (unat n) a),
       w\<lparr>peers := s\<rparr>)
     else Some (- 1, Some a, w\<lparr>peers := s\<rparr>))"
proof (cases b)
  case True
  let ?k = "min (length ms) (unat n)"
  have k: "nat (sint (of_nat ?k :: int32)) = ?k"
    using assms(3) by (subst sint_of_nat_int32) auto
  have "copy_n (\<lambda>e m. do { (_, e) \<leftarrow> to_c m e; Some e }) ms ?k (replicate (unat n) z @ drop (unat n) a)
      = Some (map c_of (take ?k ms) @ drop ?k (replicate (unat n) z @ drop (unat n) a))"
    by (rule copy_n_overwrite) (simp_all add: to_c_eq)
  moreover have "map c_of (take ?k ms) @ drop ?k (replicate (unat n) z @ drop (unat n) a)
      = map c_of (take (unat n) ms) @ replicate (unat n - length ms) z @ drop (unat n) a"
    by (simp add: min_def)
  ultimately show ?thesis
    using assms True k by (simp add: list_items_def memset_elems_def Let_def)
qed (use assms in \<open>simp add: list_items_def\<close>)

text \<open>With a size beyond the array the operation writes out of bounds.\<close>

lemma list_items_overflow:
  assumes "upsf_slots w tid = Some slot" and "length a < unat n"
    and "rl (net (upsf_addr slot)) [] (peers w) = (True, ms, s)"
  shows "list_items to_c z rl net tid (Some a) n w = None"
  using assms by (simp add: list_items_def memset_elems_def)

text \<open>
  Against a server that keeps items, the operations are those of a map from names to items:
  create and update store, get finds, delete removes, under the name in the structure.
\<close>

lemma create_item_refines:
  assumes "serves (net (upsf_addr slot)) held" and "upsf_slots w tid = Some slot" and "ok x"
  shows "\<exists>w'. create_item from_c to_c dflt (create_as mk sel dflt) net tid (Some x) w
      = Some (True, Some (c_of (p_of x dflt)), w') \<and> upsf_slots w' = upsf_slots w \<and>
    held (peers w') = (held (peers w))((ty, p_string (c_name x)) \<mapsto> mk (p_of x dflt))"
proof -
  from serves_create[OF assms(1) key_mk[of "p_of x dflt"], of Item_not_set "peers w"]
  obtain s' where "stub_CreateV1 (net (upsf_addr slot)) (mk (p_of x dflt)) Item_not_set (peers w)
      = (True, mk (p_of x dflt), s')"
    and held: "held s' = (held (peers w))((ty, p_string (c_name x)) \<mapsto> mk (p_of x dflt))"
    by (auto simp: name_p)
  then have "create_as mk sel dflt (net (upsf_addr slot)) (p_of x dflt) dflt (peers w)
      = (True, p_of x dflt, s')" by (intro create_as_reply)
  with held show ?thesis by (simp add: create_item_eq[OF assms(2,3)])
qed

lemma update_item_refines:
  assumes "serves (net (upsf_addr slot)) held" and "upsf_slots w tid = Some slot" and "ok x"
  shows "\<exists>w' m. update_item from_c to_c dflt (update_as mk sel dflt) net tid (Some x) w
      = Some (True, Some (c_of m), w') \<and> upsf_slots w' = upsf_slots w \<and>
    name_of m = p_string (c_name x) \<and>
    held (peers w') = (held (peers w))((ty, p_string (c_name x)) \<mapsto> mk m)"
proof -
  from serves_update[OF assms(1) key_mk[of "p_of x dflt"], of dflt_UpdateOptions Item_not_set "peers w"]
  obtain i s' where call: "stub_UpdateV1 (net (upsf_addr slot))
      \<lparr>ur_item = Some (mk (p_of x dflt)), ur_update_options = Some dflt_UpdateOptions\<rparr> Item_not_set
      (peers w) = (True, i, s')"
    and key: "item_key i = Some (ty, p_string (c_name x))"
    and held: "held s' = (held (peers w))((ty, p_string (c_name x)) \<mapsto> i)"
    by (auto simp: name_p)
  from mk_key[OF key] obtain m where m: "i = mk m" by blast
  with key have "name_of m = p_string (c_name x)" by (simp add: key_mk)
  moreover have "update_as mk sel dflt (net (upsf_addr slot)) (p_of x dflt) dflt dflt_UpdateOptions
      (peers w) = (True, m, s')"
    using call m by (intro update_as_reply) simp
  ultimately show ?thesis using held m
    by (intro exI[of _ "w\<lparr>peers := s'\<rparr>"] exI[of _ m]) (simp add: update_item_eq[OF assms(2,3)])
qed

lemma get_item_refines:
  assumes "serves (net (upsf_addr slot)) held" and "upsf_slots w tid = Some slot" and "ok x"
    and "p_string (c_name x) \<noteq> []"
    and keyed: "\<And>i. held (peers w) (ty, p_string (c_name x)) = Some i \<Longrightarrow>
      item_key i = Some (ty, p_string (c_name x))"
  shows "\<exists>w'. get_item c_name name_of to_c dflt (read_as ty sel dflt name_of) net tid (Some x) w
      = (case held (peers w) (ty, p_string (c_name x)) of
           None \<Rightarrow> Some (False, Some x, w')
         | Some i \<Rightarrow> Some (True, Some (c_of (the (sel i))), w')) \<and>
    upsf_slots w' = upsf_slots w \<and> held (peers w') = held (peers w)"
proof -
  let ?n = "p_string (c_name x)"
  from serves_read[OF assms(1), of ty ?n "peers w"] obtain s'
    where call: "stub_ReadV1 (net (upsf_addr slot)) (name_request ty ?n) (peers w)
        = ((case held (peers w) (ty, ?n) of None \<Rightarrow> [] | Some i \<Rightarrow> [i]), True, s')"
      and same: "held s' = held (peers w)" by auto
  show ?thesis
  proof (cases "held (peers w) (ty, ?n)")
    case None
    with call assms(4) have "read_as ty sel dflt name_of (net (upsf_addr slot)) ?n dflt (peers w)
        = (False, dflt, s')" by (simp add: read_as_def dflt_ReadReq_def)
    with None same show ?thesis by (simp add: get_item_eq[OF assms(2,3)])
  next
    case (Some i)
    from keyed[OF Some] mk_key obtain m where m: "i = mk m" by blast
    with keyed[OF Some] have n: "name_of m = ?n" by (simp add: key_mk)
    with call Some m have "read_as ty sel dflt name_of (net (upsf_addr slot)) ?n dflt (peers w)
        = (True, m, s')" by (simp add: read_as_def dflt_ReadReq_def)
    with Some same m n assms(4) show ?thesis by (simp add: get_item_eq[OF assms(2,3)])
  qed
qed

lemma delete_item_refines:
  assumes "serves (net (upsf_addr slot)) held" and "upsf_slots w tid = Some slot" and "ok x"
  shows "\<exists>w'. delete_item c_name net tid (Some x) w = Some (0, w') \<and>
    upsf_slots w' = upsf_slots w \<and>
    held (peers w') = (\<lambda>(t, m). if m = p_string (c_name x) then None else held (peers w) (t, m))"
proof -
  from serves_delete[OF assms(1), of "p_string (c_name x)" "[]" "peers w"] obtain r' s'
    where "stub_DeleteV1 (net (upsf_addr slot)) (p_string (c_name x)) [] (peers w) = (True, r', s')"
      and "held s' = (\<lambda>(t, m). if m = p_string (c_name x) then None else held (peers w) (t, m))"
    by auto
  then show ?thesis by (simp add: delete_item_eq[OF assms(2,3)])
qed

text \<open>What one thread created, every thread with a slot for the same server gets.\<close>

lemma create_then_get:
  assumes serves: "serves (net (upsf_addr slot)) held"
    and slots: "upsf_slots w tid = Some slot" "upsf_slots w tid' = Some slot'"
      "upsf_addr slot' = upsf_addr slot"
    and ok: "ok x" "ok y" and name: "p_string (c_name y) = p_string (c_name x)" "p_string (c_name x) \<noteq> []"
  shows "\<exists>w' w''.
    create_item from_c to_c dflt (create_as mk sel dflt) net tid (Some x) w
      = Some (True, Some (c_of (p_of x dflt)), w') \<and>
    get_item c_name name_of to_c dflt (read_as ty sel dflt name_of) net tid' (Some y) w'
      = Some (True, Some (c_of (p_of x dflt)), w'')"
proof -
  from create_item_refines[where w = w and net = net, OF serves slots(1) ok(1)] obtain w' where
    create: "create_item from_c to_c dflt (create_as mk sel dflt) net tid (Some x) w
      = Some (True, Some (c_of (p_of x dflt)), w')"
    and w': "upsf_slots w' = upsf_slots w"
      "held (peers w') = (held (peers w))((ty, p_string (c_name x)) \<mapsto> mk (p_of x dflt))" by auto
  have slot': "serves (net (upsf_addr slot')) held" "upsf_slots w' tid' = Some slot'"
    using serves slots w' by simp_all
  have "\<exists>w''. get_item c_name name_of to_c dflt (read_as ty sel dflt name_of) net tid' (Some y) w'
      = Some (True, Some (c_of (p_of x dflt)), w'')"
    using get_item_refines[where w = w' and net = net, OF slot' ok(2)] name w'(2) by (auto simp: key_mk name_p)
  with create show ?thesis by blast
qed

end

section \<open>The six item types\<close>

interpretation sg_api: item_api map_ServiceGateway map_upsf_service_gateway_t
  c_ServiceGateway p_ServiceGateway dflt_ServiceGateway ok_ServiceGateway clean_ServiceGateway
  Item_service_gateway item_service_gateway sg_name IT_service_gateway c_sg_name
  by unfold_locales (auto simp: c_ServiceGateway_def p_ServiceGateway_def ok_ServiceGateway_def
      item_key_def split: Item.splits)

interpretation up_api: item_api map_ServiceGatewayUserPlane map_upsf_service_gateway_user_plane_t
  c_ServiceGatewayUserPlane p_ServiceGatewayUserPlane dflt_ServiceGatewayUserPlane ok_ServiceGatewayUserPlane clean_ServiceGatewayUserPlane
  Item_service_gateway_user_plane item_service_gateway_user_plane up_name IT_service_gateway_user_plane c_up_name
  by unfold_locales (auto simp: c_ServiceGatewayUserPlane_def p_ServiceGatewayUserPlane_def ok_ServiceGatewayUserPlane_def
      item_key_def split: Item.splits)

interpretation tsf_api: item_api map_TrafficSteeringFunction map_upsf_traffic_steering_function_t
  c_TrafficSteeringFunction p_TrafficSteeringFunction dflt_TrafficSteeringFunction ok_TrafficSteeringFunction clean_TrafficSteeringFunction
  Item_traffic_steering_function item_traffic_steering_function tsf_name IT_traffic_steering_function c_tsf_name
  by unfold_locales (auto simp: c_TrafficSteeringFunction_def p_TrafficSteeringFunction_def ok_TrafficSteeringFunction_def
      item_key_def split: Item.splits)

interpretation nc_api: item_api "map_NetworkConnection ord" map_upsf_network_connection_t
  "c_NetworkConnection ord" p_NetworkConnection dflt_NetworkConnection ok_NetworkConnection clean_NetworkConnection
  Item_network_connection item_network_connection nc_name IT_network_connection c_nc_name for ord
  by unfold_locales (auto simp: c_NetworkConnection_def p_NetworkConnection_def ok_NetworkConnection_def
      item_key_def split: Item.splits)

interpretation sh_api: item_api "map_Shard ord" map_upsf_shard_t
  "c_Shard ord" p_Shard dflt_Shard ok_Shard clean_Shard
  Item_shard item_shard sh_name IT_shard c_sh_name for ord
  by unfold_locales (auto simp: c_Shard_def p_Shard_def ok_Shard_def
      item_key_def split: Item.splits)

interpretation sc_api: item_api map_SessionContext map_upsf_session_context_t
  c_SessionContext p_SessionContext dflt_SessionContext ok_SessionContext clean_SessionContext
  Item_session_context item_session_context sc_name IT_session_context c_sc_name
  by unfold_locales (auto simp: c_SessionContext_def p_SessionContext_def ok_SessionContext_def
      item_key_def split: Item.splits)

section \<open>Properties\<close>

definition example_world :: "store world" where
  "example_world = \<lparr>upsf_slots = Map.empty(1 \<mapsto> \<lparr>upsf_addr = ''host:1''\<rparr>, 2 \<mapsto> \<lparr>upsf_addr = ''host:1''\<rparr>),
     peers = Map.empty\<rparr>"

abbreviation example_net :: "string \<Rightarrow> store upsf_stub" where
  "example_net \<equiv> \<lambda>_. plain_store"

lemma example_slots [simp]:
  "upsf_slots example_world 1 = Some \<lparr>upsf_addr = ''host:1''\<rparr>"
  "upsf_slots example_world 2 = Some \<lparr>upsf_addr = ''host:1''\<rparr>"
  by (simp_all add: example_world_def)

lemma ok_example_shard: "ok_Shard (c_Shard ord m)"
  by (rule clean_Shard_ok) (rule clean_c_Shard)

text \<open>
  A canonical user plane with a name that one thread creates at a server that keeps items
  is what any thread with a slot for that server gets for that name: the very same structure.
\<close>

theorem create_then_get_user_plane:
  assumes "serves (net (upsf_addr slot)) held"
    and "upsf_slots w tid = Some slot" "upsf_slots w tid' = Some slot'" "upsf_addr slot' = upsf_addr slot"
    and "clean_ServiceGatewayUserPlane x" "ok_ServiceGatewayUserPlane y"
    and "p_string (c_up_name y) = p_string (c_up_name x)" "p_string (c_up_name x) \<noteq> []"
  shows "\<exists>w' w''. upsf_create_service_gateway_user_plane net tid (Some x) w = Some (True, Some x, w') \<and>
    upsf_get_service_gateway_user_plane net tid' (Some y) w' = Some (True, Some x, w'')"
  using up_api.create_then_get[where net = net, OF assms(1-4) up.clean_ok[OF assms(5)] assms(6-8)]
    up.c_p[OF assms(5)]
  by (simp add: upsf_create_service_gateway_user_plane_def upsf_get_service_gateway_user_plane_def
      CreateV1_ServiceGatewayUserPlane_def ReadV1_ServiceGatewayUserPlane_def)

lemma create_then_get_user_plane_witness:
  "\<exists>w' w''. upsf_create_service_gateway_user_plane example_net 1
      (Some (c_ServiceGatewayUserPlane example_user_plane)) example_world
      = Some (True, Some (c_ServiceGatewayUserPlane example_user_plane), w') \<and>
    upsf_get_service_gateway_user_plane example_net 2
      (Some (c_ServiceGatewayUserPlane (dflt_ServiceGatewayUserPlane\<lparr>up_name := ''up-1''\<rparr>))) w'
      = Some (True, Some (c_ServiceGatewayUserPlane example_user_plane), w'')"
  by (rule create_then_get_user_plane[where net = example_net, OF plain_store_serves])
    (simp_all add: up.clean_c up.ok_c, simp_all add: c_ServiceGatewayUserPlane_def
      example_user_plane_def c_cut_def UPSF_MAX_STRING_SIZE_def)

text \<open>
  C11. Creating a shard at a server that keeps items returns the caller's structure in
  canonical form, and stores the message it stands for under its name; every other item the
  server holds, and the slots, stay as they are.
\<close>

theorem create_shard_refines:
  assumes "serves (net (upsf_addr slot)) held" and "upsf_slots w tid = Some slot" and "ok_Shard x"
  shows "\<exists>w'. upsf_create_shard ord net tid (Some x) w
      = Some (True, Some (c_Shard ord (p_Shard x dflt_Shard)), w') \<and> upsf_slots w' = upsf_slots w \<and>
    held (peers w') = (held (peers w))((IT_shard, p_string (c_sh_name x))
      \<mapsto> Item_shard (p_Shard x dflt_Shard))"
  using sh_api.create_item_refines[where net = net, OF assms]
  by (simp add: upsf_create_shard_def CreateV1_Shard_def)

lemma create_shard_refines_witness:
  "\<exists>w'. upsf_create_shard sorted_list_of_fmap example_net 1
      (Some (c_Shard sorted_list_of_fmap example_shard)) example_world
    = Some (True, Some (c_Shard sorted_list_of_fmap example_shard), w')"
  using create_shard_refines[where net = example_net and ord = sorted_list_of_fmap,
      OF plain_store_serves example_slots(1) ok_example_shard[of sorted_list_of_fmap example_shard]]
    p_c_Shard[OF sorted_list_of_fmap_valid example_shard_fits]
  by auto

text \<open>
  C12. Getting a shard by its name from a server that keeps items gives the structure of the
  shard held under the name, or the null pointer and an unchanged structure when there is none;
  nothing the server holds changes.
\<close>

theorem get_shard_refines:
  assumes "serves (net (upsf_addr slot)) held" and "upsf_slots w tid = Some slot" and "ok_Shard x"
    and "p_string (c_sh_name x) \<noteq> []"
    and "\<And>i. held (peers w) (IT_shard, p_string (c_sh_name x)) = Some i \<Longrightarrow>
      item_key i = Some (IT_shard, p_string (c_sh_name x))"
  shows "\<exists>w'. upsf_get_shard ord net tid (Some x) w
      = (case held (peers w) (IT_shard, p_string (c_sh_name x)) of
           None \<Rightarrow> Some (False, Some x, w')
         | Some i \<Rightarrow> Some (True, Some (c_Shard ord (the (item_shard i))), w')) \<and>
    upsf_slots w' = upsf_slots w \<and> held (peers w') = held (peers w)"
  using sh_api.get_item_refines[where net = net, OF assms]
  by (simp add: upsf_get_shard_def ReadV1_Shard_def)

lemma get_shard_refines_witness:
  "\<exists>w'. upsf_get_shard sorted_list_of_fmap example_net 1
      (Some (c_Shard sorted_list_of_fmap example_shard)) example_world
    = Some (False, Some (c_Shard sorted_list_of_fmap example_shard), w')"
proof -
  have "p_string (c_sh_name (c_Shard sorted_list_of_fmap example_shard)) \<noteq> []"
    by (simp add: c_Shard_def example_shard_def c_cut_def UPSF_MAX_STRING_SIZE_def)
  from get_shard_refines[where net = example_net and ord = sorted_list_of_fmap,
      OF plain_store_serves example_slots(1) ok_example_shard this]
  show ?thesis by (auto simp: example_world_def)
qed

text \<open>
  C13. Updating a shard at a server that keeps items returns and stores the shard that the
  server answers with, under the name in the structure; the other items stay.
\<close>

theorem update_shard_refines:
  assumes "serves (net (upsf_addr slot)) held" and "upsf_slots w tid = Some slot" and "ok_Shard x"
  shows "\<exists>w' m. upsf_update_shard ord net tid (Some x) w = Some (True, Some (c_Shard ord m), w') \<and>
    upsf_slots w' = upsf_slots w \<and> sh_name m = p_string (c_sh_name x) \<and>
    held (peers w') = (held (peers w))((IT_shard, p_string (c_sh_name x)) \<mapsto> Item_shard m)"
  using sh_api.update_item_refines[where net = net, OF assms]
  by (simp add: upsf_update_shard_def UpdateV1_Shard_def)

lemma update_shard_refines_witness:
  "\<exists>w' m. upsf_update_shard sorted_list_of_fmap example_net 1
      (Some (c_Shard sorted_list_of_fmap example_shard)) example_world
    = Some (True, Some (c_Shard sorted_list_of_fmap m), w')"
  using update_shard_refines[where net = example_net and ord = sorted_list_of_fmap,
      OF plain_store_serves example_slots(1) ok_example_shard[of sorted_list_of_fmap example_shard]]
  by blast

text \<open>
  Deleting by the name in a shard structure returns 0 at a server that keeps items, and
  afterwards nothing is held under the name; everything under other names stays.
\<close>

theorem delete_shard_refines:
  assumes "serves (net (upsf_addr slot)) held" and "upsf_slots w tid = Some slot" and "ok_Shard x"
  shows "\<exists>w'. upsf_delete_shard net tid (Some x) w = Some (0, w') \<and> upsf_slots w' = upsf_slots w \<and>
    held (peers w') = (\<lambda>(t, m). if m = p_string (c_sh_name x) then None else held (peers w) (t, m))"
  using sh_api.delete_item_refines[where net = net, OF assms] by (simp add: upsf_delete_shard_def)

lemma delete_shard_refines_witness:
  "\<exists>w'. upsf_delete_shard example_net 1
      (Some (c_Shard sorted_list_of_fmap example_shard)) example_world = Some (0, w')"
  using delete_shard_refines[where net = example_net,
      OF plain_store_serves example_slots(1) ok_example_shard[of sorted_list_of_fmap example_shard]]
  by blast

text \<open>
  C14. Whatever the server does, creating, updating and getting a shard with the null
  pointer or a readable structure stays within the structures, leaves the slots alone, and either
  returns a structure in canonical form or the null pointer with the structure unchanged.
\<close>

theorem shard_calls_all_or_nothing:
  assumes "\<And>x. ptr = Some x \<Longrightarrow> ok_Shard x"
    and "call \<in> {upsf_create_shard ord net tid, upsf_update_shard ord net tid, upsf_get_shard ord net tid}"
  shows "\<exists>b q w'. call ptr w = Some (b, q, w') \<and> upsf_slots w' = upsf_slots w \<and>
    (if b then \<exists>c. q = Some c \<and> clean_Shard c else q = ptr)"
proof -
  let ?safe = "\<lambda>call. \<exists>b q w'. call ptr w = Some (b, q, w') \<and> upsf_slots w' = upsf_slots w \<and>
    (if b then \<exists>c. q = Some c \<and> clean_Shard c else q = ptr)"
  have "?safe (upsf_create_shard ord net tid)"
    unfolding upsf_create_shard_def by (rule sh_api.create_item_safe[OF assms(1)])
  moreover have "?safe (upsf_update_shard ord net tid)"
    unfolding upsf_update_shard_def by (rule sh_api.update_item_safe[OF assms(1)])
  moreover have "?safe (upsf_get_shard ord net tid)"
    unfolding upsf_get_shard_def by (rule sh_api.get_item_safe[OF assms(1)])
  ultimately show ?thesis using assms(2) by blast
qed

lemma shard_calls_all_or_nothing_witness:
  "\<exists>b q w'. upsf_get_shard sorted_list_of_fmap example_net 1
      (Some (c_Shard sorted_list_of_fmap example_shard)) example_world = Some (b, q, w') \<and>
    upsf_slots w' = upsf_slots example_world"
  using shard_calls_all_or_nothing[of "Some (c_Shard sorted_list_of_fmap example_shard)"
      "upsf_get_shard sorted_list_of_fmap example_net 1" sorted_list_of_fmap example_net 1 example_world]
    ok_example_shard by blast

text \<open>
  A network connection that get returns carries the name that was asked for, cut to what
  the structure holds, and the name is not empty, whatever the server answers.
\<close>

theorem get_network_connection_name:
  assumes "upsf_get_network_connection ord net tid (Some x) w = Some (True, Some y, w')"
    and "ok_NetworkConnection x"
  shows "p_string (c_nc_name y) = c_cut (p_string (c_nc_name x)) \<and> p_string (c_nc_name x) \<noteq> [] \<and>
    clean_NetworkConnection y"
  using nc_api.get_item_name[where net = net and ord = ord] assms
  by (simp add: upsf_get_network_connection_def ReadV1_NetworkConnection_def)

definition connection_world :: "store world" where
  "connection_world = example_world\<lparr>peers := [(IT_network_connection, ''nc-1'')
     \<mapsto> Item_network_connection (dflt_NetworkConnection\<lparr>nc_name := ''nc-1''\<rparr>)]\<rparr>"

lemma get_network_connection_name_witness:
  "\<exists>y w'. upsf_get_network_connection sorted_list_of_fmap example_net 1
      (Some (c_NetworkConnection sorted_list_of_fmap (dflt_NetworkConnection\<lparr>nc_name := ''nc-1''\<rparr>)))
      connection_world = Some (True, Some y, w') \<and> p_string (c_nc_name y) = ''nc-1''"
proof -
  let ?m = "dflt_NetworkConnection\<lparr>nc_name := ''nc-1''\<rparr>"
  let ?x = "c_NetworkConnection sorted_list_of_fmap ?m"
  have ok: "ok_NetworkConnection ?x" by (rule nc.ok_c)
  have name: "p_string (c_nc_name ?x) = ''nc-1''"
    by (simp add: c_NetworkConnection_def c_cut_def UPSF_MAX_STRING_SIZE_def)
  have slot: "upsf_slots connection_world 1 = Some \<lparr>upsf_addr = ''host:1''\<rparr>"
    by (simp add: connection_world_def)
  have "\<exists>w'. upsf_get_network_connection sorted_list_of_fmap example_net 1 (Some ?x) connection_world
      = Some (True, Some ?x, w')"
    using nc_api.get_item_refines[where net = example_net and ord = sorted_list_of_fmap,
        OF plain_store_serves slot ok] name
    by (auto simp: connection_world_def item_key_def item_network_connection_def
        upsf_get_network_connection_def ReadV1_NetworkConnection_def)
  then obtain w' where "upsf_get_network_connection sorted_list_of_fmap example_net 1 (Some ?x)
      connection_world = Some (True, Some ?x, w')" by blast
  with get_network_connection_name[OF this ok] name show ?thesis
    by (simp add: c_cut_def UPSF_MAX_STRING_SIZE_def)
qed

text \<open>
  C15. Listing session contexts into an array with room for what the caller says (fewer than
  2^31) fills it with the session contexts the server delivers, in its order and as far as they
  fit, clears the rest of what the caller named, leaves what is behind alone, and returns how
  many there are, which may be more than fit; when the read fails it returns -1 and the array
  is unchanged.
\<close>

theorem list_session_contexts_result:
  assumes "upsf_slots w tid = Some slot" and "unat n \<le> length a" and "unat n < 2 ^ 31"
    and "stub_ReadV1 (net (upsf_addr slot)) \<lparr>rr_itemtype = [IT_session_context], rr_itemstate = [],
      rr_parent = [], rr_name = [], rr_watch = False\<rparr> (peers w) = (items, b, s)"
    and "ms = List.map_filter item_session_context items"
  shows "upsf_list_session_contexts net tid (Some a) n w =
    (if b then Some (of_nat (length ms),
       Some (map c_SessionContext (take (unat n) ms)
         @ replicate (unat n - length ms) zero_upsf_session_context_t @ drop (unat n) a),
       w\<lparr>peers := s\<rparr>)
     else Some (- 1, Some a, w\<lparr>peers := s\<rparr>))"
proof -
  have "ReadV1_SessionContexts (net (upsf_addr slot)) [] (peers w) = (b, ms, s)"
    unfolding ReadV1_SessionContexts_def assms(5) by (rule sc_kind.read_list_as_result[OF assms(4)])
  from sc_api.list_items_eq[where net = net and rl = ReadV1_SessionContexts, OF assms(1-3) this] show ?thesis
    by (simp add: upsf_list_session_contexts_def)
qed

definition three_sessions :: "unit world" where
  "three_sessions = \<lparr>upsf_slots = [1 \<mapsto> \<lparr>upsf_addr = ''host:1''\<rparr>], peers = ()\<rparr>"

lemma list_session_contexts_result_witness:
  "upsf_list_session_contexts
     (\<lambda>_. item_stub [Item_session_context example_session, Item_not_set,
        Item_session_context example_session, Item_session_context dflt_SessionContext] True) 1
     (Some (replicate 3 zero_upsf_session_context_t)) 2 three_sessions
   = Some (3, Some [c_SessionContext example_session, c_SessionContext example_session,
       zero_upsf_session_context_t], three_sessions)"
proof -
  let ?is = "[Item_session_context example_session, Item_not_set,
        Item_session_context example_session, Item_session_context dflt_SessionContext]"
  have "upsf_list_session_contexts (\<lambda>_. item_stub ?is True) 1
      (Some (replicate 3 zero_upsf_session_context_t)) 2 three_sessions =
    (if True then Some (of_nat (length [example_session, example_session, dflt_SessionContext]),
       Some (map c_SessionContext (take (unat (2::size_t)) [example_session, example_session, dflt_SessionContext])
         @ replicate (unat (2::size_t) - length [example_session, example_session, dflt_SessionContext])
             zero_upsf_session_context_t @ drop (unat (2::size_t)) (replicate 3 zero_upsf_session_context_t)),
       three_sessions\<lparr>peers := ()\<rparr>)
     else Some (- 1, Some (replicate 3 zero_upsf_session_context_t), three_sessions\<lparr>peers := ()\<rparr>))"
    by (rule list_session_contexts_result[where slot = "\<lparr>upsf_addr = ''host:1''\<rparr>" and items = ?is])
      (simp_all add: three_sessions_def item_stub_def List.map_filter_def item_session_context_def)
  then show ?thesis by (simp add: three_sessions_def numeral_3_eq_3)
qed

text \<open>
  With a number of elements that exceeds the caller's array, a list of service gateways
  that the server answers writes out of bounds.
\<close>

theorem list_service_gateways_overflow:
  assumes "upsf_slots w tid = Some slot" and "length a < unat n"
    and "stub_ReadV1 (net (upsf_addr slot)) \<lparr>rr_itemtype = [IT_service_gateway], rr_itemstate = [],
      rr_parent = [], rr_name = [], rr_watch = False\<rparr> (peers w) = (items, True, s)"
  shows "upsf_list_service_gateways net tid (Some a) n w = None"
proof -
  have "ReadV1_ServiceGateways (net (upsf_addr slot)) [] (peers w)
      = (True, List.map_filter item_service_gateway items, s)"
    unfolding ReadV1_ServiceGateways_def by (rule sg_kind.read_list_as_result[OF assms(3)])
  from sg_api.list_items_overflow[where net = net and rl = ReadV1_ServiceGateways, OF assms(1,2) this] show ?thesis
    by (simp add: upsf_list_service_gateways_def)
qed

lemma list_service_gateways_overflow_witness:
  "upsf_list_service_gateways (\<lambda>_. item_stub [] True) 1 (Some [zero_upsf_service_gateway_t]) 2
     three_sessions = None"
  by (rule list_service_gateways_overflow[where slot = "\<lparr>upsf_addr = ''host:1''\<rparr>" and items = "[]"])
    (simp_all add: three_sessions_def item_stub_def)

text \<open>
  C27. For a thread without a slot every operation on items of the C interface, of all six types,
  and the lookup fail at once: the null pointer or -1 is returned, no server is reached, and the
  caller's structure and array are left alone, also those that could not be read or written.
\<close>

theorem no_slot_no_call:
  assumes "upsf_slots w tid = None"
  shows "upsf_create_service_gateway net tid sg w = Some (False, sg, w) \<and>
    upsf_update_service_gateway net tid sg w = Some (False, sg, w) \<and>
    upsf_get_service_gateway net tid sg w = Some (False, sg, w) \<and>
    upsf_delete_service_gateway net tid sg w = Some (- 1, w) \<and>
    upsf_list_service_gateways net tid sgs n w = Some (- 1, sgs, w) \<and>
    upsf_create_service_gateway_user_plane net tid up w = Some (False, up, w) \<and>
    upsf_update_service_gateway_user_plane net tid up w = Some (False, up, w) \<and>
    upsf_get_service_gateway_user_plane net tid up w = Some (False, up, w) \<and>
    upsf_delete_service_gateway_user_plane net tid up w = Some (- 1, w) \<and>
    upsf_list_service_gateway_user_planes net tid ups n w = Some (- 1, ups, w) \<and>
    upsf_create_traffic_steering_function net tid tsf w = Some (False, tsf, w) \<and>
    upsf_update_traffic_steering_function net tid tsf w = Some (False, tsf, w) \<and>
    upsf_get_traffic_steering_function net tid tsf w = Some (False, tsf, w) \<and>
    upsf_delete_traffic_steering_function net tid tsf w = Some (- 1, w) \<and>
    upsf_list_traffic_steering_functions net tid tsfs n w = Some (- 1, tsfs, w) \<and>
    upsf_create_network_connection nc_ord net tid nc w = Some (False, nc, w) \<and>
    upsf_update_network_connection nc_ord net tid nc w = Some (False, nc, w) \<and>
    upsf_get_network_connection nc_ord net tid nc w = Some (False, nc, w) \<and>
    upsf_delete_network_connection net tid nc w = Some (- 1, w) \<and>
    upsf_list_network_connections nc_ord net tid ncs n w = Some (- 1, ncs, w) \<and>
    upsf_create_shard sh_ord net tid sh w = Some (False, sh, w) \<and>
    upsf_update_shard sh_ord net tid sh w = Some (False, sh, w) \<and>
    upsf_get_shard sh_ord net tid sh w = Some (False, sh, w) \<and>
    upsf_delete_shard net tid sh w = Some (- 1, w) \<and>
    upsf_list_shards sh_ord net tid shs n w = Some (- 1, shs, w) \<and>
    upsf_create_session_context net tid sc w = Some (False, sc, w) \<and>
    upsf_update_session_context net tid sc w = Some (False, sc, w) \<and>
    upsf_get_session_context net tid sc w = Some (False, sc, w) \<and>
    upsf_delete_session_context net tid sc w = Some (- 1, w) \<and>
    upsf_list_session_contexts net tid scs n w = Some (- 1, scs, w) \<and>
    upsf_lookup net tid sc w = Some (False, sc, w)"
  unfolding api_defs
  by (intro conjI sg_api.no_slot[OF assms] up_api.no_slot[OF assms] tsf_api.no_slot[OF assms]
      nc_api.no_slot[OF assms] sh_api.no_slot[OF assms] sc_api.no_slot[OF assms])
    (simp add: upsf_lookup_def assms split: option.split)

lemma no_slot_no_call_witness:
  "upsf_delete_shard example_net 7 (Some zero_upsf_shard_t) example_world = Some (- 1, example_world) \<and>
   upsf_lookup example_net 7 None example_world = Some (False, None, example_world)"
proof -
  have "upsf_slots example_world 7 = None" by (simp add: example_world_def)
  from no_slot_no_call[OF this] show ?thesis by blast
qed

text \<open>
  C25. After opening, the thread has a slot; opening again, with whatever address, changes
  nothing; closing once succeeds and takes away the slot, and closing again fails; the slots of
  the other threads are not touched by any of it.
\<close>

theorem open_close_cycle:
  "(let w1 = snd (upsf_open tid h p w); w2 = snd (upsf_close tid w1) in
     upsf_exists tid w1 = 1 \<and> upsf_open tid h' p' w1 = (0, w1) \<and>
     fst (upsf_close tid w1) = 0 \<and> upsf_exists tid w2 = 0 \<and> upsf_close tid w2 = (- 1, w2) \<and>
     upsf_slots w2 = (upsf_slots w)(tid := None) \<and> upsf_slots w1 |` (- {tid}) = upsf_slots w |` (- {tid}))"
proof -
  let ?w1 = "snd (upsf_open tid h p w)"
  have slot: "upsf_slots ?w1 tid \<noteq> None"
    by (simp add: upsf_open_slots split: option.split)
  moreover have "(upsf_slots ?w1)(tid := None) = (upsf_slots w)(tid := None)"
    by (simp add: upsf_open_slots split: option.split)
  moreover have "upsf_slots ?w1 |` (- {tid}) = upsf_slots w |` (- {tid})"
    by (auto simp: upsf_open_slots restrict_map_def fun_eq_iff split: option.split)
  ultimately show ?thesis
    by (simp add: Let_def upsf_exists_def upsf_open_def[of tid h' p'] upsf_close_def)
qed

text \<open>
  C28. A lookup with the null pointer or a readable specification stays within the
  structures; it returns a session context with a name, in canonical form, or the null pointer
  with the structure unchanged.
\<close>

theorem lookup_all_or_nothing:
  assumes "\<And>x. ptr = Some x \<Longrightarrow> ok_SessionContextSpec (c_sc_spec x)"
  shows "\<exists>b q w'. upsf_lookup net tid ptr w = Some (b, q, w') \<and> upsf_slots w' = upsf_slots w \<and>
    (if b then \<exists>m. q = Some (c_SessionContext m) \<and> sc_name m \<noteq> [] else q = ptr)"
proof (cases ptr)
  case (Some x)
  then show ?thesis
    using assms by (cases "upsf_slots w tid")
      (auto simp: upsf_lookup_def sc.to_c_eq Let_def split: prod.split)
qed (auto simp: upsf_lookup_def intro: exI[of _ False])

lemma lookup_all_or_nothing_witness:
  "\<exists>b q w'. upsf_lookup example_net 1 (Some (c_SessionContext example_session)) example_world
     = Some (b, q, w') \<and> upsf_slots w' = upsf_slots example_world"
proof -
  have "ok_SessionContextSpec (c_sc_spec x)" if "Some (c_SessionContext example_session) = Some x" for x
    using that sc.ok_c[of example_session] by (auto simp: ok_SessionContext_def)
  from lookup_all_or_nothing[OF this] show ?thesis by blast
qed

end
