(* ===== verification/SharedMap.thy ===== *)
theory SharedMap
  imports WrapperApi
begin

text \<open>
  Many threads at one server. A call of the C interface takes effect in one step, its remote
  call; here calls of any threads follow one another in any order. At a server that keeps
  items and merges updates by some function \<open>merge\<close>, the C interface then implements a shared map
  from types and names to items, in which an update merges by the default options, together with
  the slots of the threads (\<open>spec_step\<close>), whatever the interleaving.
\<close>

section \<open>Calls\<close>

text \<open>The structures of the six types, and the calls whose result the map determines.\<close>

datatype c_item =
    CI_service_gateway upsf_service_gateway_t
  | CI_service_gateway_user_plane upsf_service_gateway_user_plane_t
  | CI_traffic_steering_function upsf_traffic_steering_function_t
  | CI_network_connection upsf_network_connection_t
  | CI_shard upsf_shard_t
  | CI_session_context upsf_session_context_t

datatype api_call =
    Call_open string int32
  | Call_close
  | Call_exists
  | Call_create c_item
  | Call_update c_item
  | Call_get c_item
  | Call_delete c_item

text \<open>A result is a number, or the structure with whether its address was returned.\<close>

datatype api_result = Res_int int32 | Res_item bool c_item

type_synonym nc_iteration = "(string, bool) fmap \<Rightarrow> (string \<times> bool) list"
type_synonym sh_iteration = "(string, string) fmap \<Rightarrow> (string \<times> string) list"

definition returned ::
    "('c \<Rightarrow> c_item) \<Rightarrow> (bool \<times> 'c option \<times> 's world) ub \<Rightarrow> (api_result \<times> 's world) ub" where
  "returned wrap r = do { (ok, ptr, w) \<leftarrow> r; x \<leftarrow> ptr; Some (Res_item ok (wrap x), w) }"

definition returned_int :: "(int32 \<times> 's world) ub \<Rightarrow> (api_result \<times> 's world) ub" where
  "returned_int r = do { (n, w) \<leftarrow> r; Some (Res_int n, w) }"

fun call_create ::
    "nc_iteration \<Rightarrow> sh_iteration \<Rightarrow> (string \<Rightarrow> 's upsf_stub) \<Rightarrow> pthread_t \<Rightarrow> c_item \<Rightarrow> 's world
      \<Rightarrow> (api_result \<times> 's world) ub" where
  "call_create nc_ord sh_ord net tid (CI_service_gateway x) w =
     returned CI_service_gateway (upsf_create_service_gateway net tid (Some x) w)"
| "call_create nc_ord sh_ord net tid (CI_service_gateway_user_plane x) w =
     returned CI_service_gateway_user_plane (upsf_create_service_gateway_user_plane net tid (Some x) w)"
| "call_create nc_ord sh_ord net tid (CI_traffic_steering_function x) w =
     returned CI_traffic_steering_function (upsf_create_traffic_steering_function net tid (Some x) w)"
| "call_create nc_ord sh_ord net tid (CI_network_connection x) w =
     returned CI_network_connection (upsf_create_network_connection nc_ord net tid (Some x) w)"
| "call_create nc_ord sh_ord net tid (CI_shard x) w =
     returned CI_shard (upsf_create_shard sh_ord net tid (Some x) w)"
| "call_create nc_ord sh_ord net tid (CI_session_context x) w =
     returned CI_session_context (upsf_create_session_context net tid (Some x) w)"

fun call_update ::
    "nc_iteration \<Rightarrow> sh_iteration \<Rightarrow> (string \<Rightarrow> 's upsf_stub) \<Rightarrow> pthread_t \<Rightarrow> c_item \<Rightarrow> 's world
      \<Rightarrow> (api_result \<times> 's world) ub" where
  "call_update nc_ord sh_ord net tid (CI_service_gateway x) w =
     returned CI_service_gateway (upsf_update_service_gateway net tid (Some x) w)"
| "call_update nc_ord sh_ord net tid (CI_service_gateway_user_plane x) w =
     returned CI_service_gateway_user_plane (upsf_update_service_gateway_user_plane net tid (Some x) w)"
| "call_update nc_ord sh_ord net tid (CI_traffic_steering_function x) w =
     returned CI_traffic_steering_function (upsf_update_traffic_steering_function net tid (Some x) w)"
| "call_update nc_ord sh_ord net tid (CI_network_connection x) w =
     returned CI_network_connection (upsf_update_network_connection nc_ord net tid (Some x) w)"
| "call_update nc_ord sh_ord net tid (CI_shard x) w =
     returned CI_shard (upsf_update_shard sh_ord net tid (Some x) w)"
| "call_update nc_ord sh_ord net tid (CI_session_context x) w =
     returned CI_session_context (upsf_update_session_context net tid (Some x) w)"

fun call_get ::
    "nc_iteration \<Rightarrow> sh_iteration \<Rightarrow> (string \<Rightarrow> 's upsf_stub) \<Rightarrow> pthread_t \<Rightarrow> c_item \<Rightarrow> 's world
      \<Rightarrow> (api_result \<times> 's world) ub" where
  "call_get nc_ord sh_ord net tid (CI_service_gateway x) w =
     returned CI_service_gateway (upsf_get_service_gateway net tid (Some x) w)"
| "call_get nc_ord sh_ord net tid (CI_service_gateway_user_plane x) w =
     returned CI_service_gateway_user_plane (upsf_get_service_gateway_user_plane net tid (Some x) w)"
| "call_get nc_ord sh_ord net tid (CI_traffic_steering_function x) w =
     returned CI_traffic_steering_function (upsf_get_traffic_steering_function net tid (Some x) w)"
| "call_get nc_ord sh_ord net tid (CI_network_connection x) w =
     returned CI_network_connection (upsf_get_network_connection nc_ord net tid (Some x) w)"
| "call_get nc_ord sh_ord net tid (CI_shard x) w =
     returned CI_shard (upsf_get_shard sh_ord net tid (Some x) w)"
| "call_get nc_ord sh_ord net tid (CI_session_context x) w =
     returned CI_session_context (upsf_get_session_context net tid (Some x) w)"

fun call_delete ::
    "(string \<Rightarrow> 's upsf_stub) \<Rightarrow> pthread_t \<Rightarrow> c_item \<Rightarrow> 's world \<Rightarrow> (api_result \<times> 's world) ub" where
  "call_delete net tid (CI_service_gateway x) w =
     returned_int (upsf_delete_service_gateway net tid (Some x) w)"
| "call_delete net tid (CI_service_gateway_user_plane x) w =
     returned_int (upsf_delete_service_gateway_user_plane net tid (Some x) w)"
| "call_delete net tid (CI_traffic_steering_function x) w =
     returned_int (upsf_delete_traffic_steering_function net tid (Some x) w)"
| "call_delete net tid (CI_network_connection x) w =
     returned_int (upsf_delete_network_connection net tid (Some x) w)"
| "call_delete net tid (CI_shard x) w =
     returned_int (upsf_delete_shard net tid (Some x) w)"
| "call_delete net tid (CI_session_context x) w =
     returned_int (upsf_delete_session_context net tid (Some x) w)"

fun call ::
    "nc_iteration \<Rightarrow> sh_iteration \<Rightarrow> (string \<Rightarrow> 's upsf_stub) \<Rightarrow> pthread_t \<Rightarrow> api_call \<Rightarrow> 's world
      \<Rightarrow> (api_result \<times> 's world) ub" where
  "call nc_ord sh_ord net tid (Call_open host port) w = returned_int (Some (upsf_open tid host port w))"
| "call nc_ord sh_ord net tid Call_close w = returned_int (Some (upsf_close tid w))"
| "call nc_ord sh_ord net tid Call_exists w = Some (Res_int (upsf_exists tid w), w)"
| "call nc_ord sh_ord net tid (Call_create x) w = call_create nc_ord sh_ord net tid x w"
| "call nc_ord sh_ord net tid (Call_update x) w = call_update nc_ord sh_ord net tid x w"
| "call nc_ord sh_ord net tid (Call_get x) w = call_get nc_ord sh_ord net tid x w"
| "call nc_ord sh_ord net tid (Call_delete x) w = call_delete net tid x w"

text \<open>Calls of several threads, one after the other, with their results.\<close>

fun calls ::
    "nc_iteration \<Rightarrow> sh_iteration \<Rightarrow> (string \<Rightarrow> 's upsf_stub) \<Rightarrow> (pthread_t \<times> api_call) list \<Rightarrow> 's world
      \<Rightarrow> (api_result list \<times> 's world) ub" where
  "calls nc_ord sh_ord net [] w = Some ([], w)"
| "calls nc_ord sh_ord net ((tid, c) # cs) w = do {
     (r, w) \<leftarrow> call nc_ord sh_ord net tid c w;
     (rs, w) \<leftarrow> calls nc_ord sh_ord net cs w;
     Some (r # rs, w)
   }"

section \<open>The shared map\<close>

fun ci_ok :: "c_item \<Rightarrow> bool" where
  "ci_ok (CI_service_gateway x) = ok_ServiceGateway x"
| "ci_ok (CI_service_gateway_user_plane x) = ok_ServiceGatewayUserPlane x"
| "ci_ok (CI_traffic_steering_function x) = ok_TrafficSteeringFunction x"
| "ci_ok (CI_network_connection x) = ok_NetworkConnection x"
| "ci_ok (CI_shard x) = ok_Shard x"
| "ci_ok (CI_session_context x) = ok_SessionContext x"

text \<open>The item that a structure stands for, its key, and the structure of an item.\<close>

fun ci_item :: "c_item \<Rightarrow> Item" where
  "ci_item (CI_service_gateway x) = Item_service_gateway (p_ServiceGateway x dflt_ServiceGateway)"
| "ci_item (CI_service_gateway_user_plane x) = Item_service_gateway_user_plane (p_ServiceGatewayUserPlane x dflt_ServiceGatewayUserPlane)"
| "ci_item (CI_traffic_steering_function x) = Item_traffic_steering_function (p_TrafficSteeringFunction x dflt_TrafficSteeringFunction)"
| "ci_item (CI_network_connection x) = Item_network_connection (p_NetworkConnection x dflt_NetworkConnection)"
| "ci_item (CI_shard x) = Item_shard (p_Shard x dflt_Shard)"
| "ci_item (CI_session_context x) = Item_session_context (p_SessionContext x dflt_SessionContext)"

fun ci_key :: "c_item \<Rightarrow> ItemType \<times> string" where
  "ci_key (CI_service_gateway x) = (IT_service_gateway, p_string (c_sg_name x))"
| "ci_key (CI_service_gateway_user_plane x) = (IT_service_gateway_user_plane, p_string (c_up_name x))"
| "ci_key (CI_traffic_steering_function x) = (IT_traffic_steering_function, p_string (c_tsf_name x))"
| "ci_key (CI_network_connection x) = (IT_network_connection, p_string (c_nc_name x))"
| "ci_key (CI_shard x) = (IT_shard, p_string (c_sh_name x))"
| "ci_key (CI_session_context x) = (IT_session_context, p_string (c_sc_name x))"

fun ci_of :: "nc_iteration \<Rightarrow> sh_iteration \<Rightarrow> Item \<Rightarrow> c_item option" where
  "ci_of nc_ord sh_ord Item_not_set = None"
| "ci_of nc_ord sh_ord (Item_service_gateway m) = Some (CI_service_gateway (c_ServiceGateway m))"
| "ci_of nc_ord sh_ord (Item_service_gateway_user_plane m) = Some (CI_service_gateway_user_plane (c_ServiceGatewayUserPlane m))"
| "ci_of nc_ord sh_ord (Item_traffic_steering_function m) = Some (CI_traffic_steering_function (c_TrafficSteeringFunction m))"
| "ci_of nc_ord sh_ord (Item_network_connection m) = Some (CI_network_connection (c_NetworkConnection nc_ord m))"
| "ci_of nc_ord sh_ord (Item_shard m) = Some (CI_shard (c_Shard sh_ord m))"
| "ci_of nc_ord sh_ord (Item_session_context m) = Some (CI_session_context (c_SessionContext m))"

text \<open>
  The specification: the address of each thread's slot and the items at the server. Its results
  do not depend on the thread but for its slot. A creation replaces what the map has under the key;
  an update merges the item with it, by the default options as the C interface has no others. Both
  return the structure of what the map has then.
\<close>

record spec_state =
  sp_addr :: "pthread_t \<rightharpoonup> string"
  sp_store :: store

definition found :: "nc_iteration \<Rightarrow> sh_iteration \<Rightarrow> c_item \<Rightarrow> Item option \<Rightarrow> api_result" where
  "found nc_ord sh_ord x i = (case i of
       None \<Rightarrow> Res_item False x
     | Some i \<Rightarrow> (case ci_of nc_ord sh_ord i of None \<Rightarrow> Res_item False x | Some y \<Rightarrow> Res_item True y))"

definition put_spec ::
    "nc_iteration \<Rightarrow> sh_iteration \<Rightarrow> c_item \<Rightarrow> Item \<Rightarrow> spec_state \<Rightarrow> api_result \<times> spec_state" where
  "put_spec nc_ord sh_ord x i s =
     (found nc_ord sh_ord x (Some i), s\<lparr>sp_store := (sp_store s)(ci_key x \<mapsto> i)\<rparr>)"

fun spec_step ::
    "merge \<Rightarrow> nc_iteration \<Rightarrow> sh_iteration \<Rightarrow> pthread_t \<Rightarrow> api_call \<Rightarrow> spec_state
      \<Rightarrow> api_result \<times> spec_state" where
  "spec_step merge nc_ord sh_ord tid (Call_open host port) s =
     (Res_int 0, if sp_addr s tid = None
                 then s\<lparr>sp_addr := (sp_addr s)(tid \<mapsto> host @ '':'' @ show_int port)\<rparr> else s)"
| "spec_step merge nc_ord sh_ord tid Call_close s =
     (Res_int (if sp_addr s tid = None then - 1 else 0), s\<lparr>sp_addr := (sp_addr s)(tid := None)\<rparr>)"
| "spec_step merge nc_ord sh_ord tid Call_exists s = (Res_int (if sp_addr s tid = None then 0 else 1), s)"
| "spec_step merge nc_ord sh_ord tid (Call_create x) s =
     (if sp_addr s tid = None then (Res_item False x, s) else put_spec nc_ord sh_ord x (ci_item x) s)"
| "spec_step merge nc_ord sh_ord tid (Call_update x) s =
     (if sp_addr s tid = None then (Res_item False x, s)
      else put_spec nc_ord sh_ord x (merge dflt_UpdateOptions (sp_store s (ci_key x)) (ci_item x)) s)"
| "spec_step merge nc_ord sh_ord tid (Call_get x) s =
     (if sp_addr s tid = None \<or> snd (ci_key x) = [] then (Res_item False x, s)
      else (found nc_ord sh_ord x (sp_store s (ci_key x)), s))"
| "spec_step merge nc_ord sh_ord tid (Call_delete x) s =
     (if sp_addr s tid = None then (Res_int (- 1), s)
      else (Res_int 0, s\<lparr>sp_store := without {snd (ci_key x)} (sp_store s)\<rparr>))"

fun spec_run ::
    "merge \<Rightarrow> nc_iteration \<Rightarrow> sh_iteration \<Rightarrow> (pthread_t \<times> api_call) list \<Rightarrow> spec_state
      \<Rightarrow> api_result list \<times> spec_state" where
  "spec_run merge nc_ord sh_ord [] s = ([], s)"
| "spec_run merge nc_ord sh_ord ((tid, c) # cs) s =
     (let (r, s) = spec_step merge nc_ord sh_ord tid c s; (rs, s) = spec_run merge nc_ord sh_ord cs s in (r # rs, s))"

section \<open>The operations of a type\<close>

definition spec_of :: "('s \<Rightarrow> store) \<Rightarrow> 's world \<Rightarrow> spec_state" where
  "spec_of held w = \<lparr>sp_addr = (\<lambda>t. map_option upsf_addr (upsf_slots w t)), sp_store = held (peers w)\<rparr>"

lemma spec_of_simps [simp]:
  "sp_addr (spec_of held w) t = map_option upsf_addr (upsf_slots w t)"
  "sp_store (spec_of held w) = held (peers w)"
  by (simp_all add: spec_of_def)

text \<open>The view of a result: the state is replaced by what it stands for.\<close>

definition viewed ::
    "('s \<Rightarrow> store) \<Rightarrow> ('r \<times> 's world) ub \<Rightarrow> ('r \<times> spec_state) ub" where
  "viewed held r = map_option (map_prod id (spec_of held)) r"

lemma spec_of_put: "upsf_slots w' = upsf_slots w \<Longrightarrow> held (peers w') = h \<Longrightarrow>
    spec_of held w' = (spec_of held w)\<lparr>sp_store := h\<rparr>"
  by (simp add: spec_of_def)

lemma without_single: "(\<lambda>(t, m). if m = n then None else h (t, m)) = without {n} h"
  by (simp add: without_def)

context item_api begin

lemma create_viewed:
  assumes "\<And>a. keeps merge (net a) held" and "ok x"
  shows "viewed held (returned wrap (create_item from_c to_c dflt (create_as mk sel dflt) net tid (Some x) w))
    = Some (if upsf_slots w tid = None then (Res_item False (wrap x), spec_of held w)
        else (Res_item True (wrap (c_of (p_of x dflt))), (spec_of held w)
          \<lparr>sp_store := (held (peers w))((ty, p_string (c_name x)) \<mapsto> mk (p_of x dflt))\<rparr>))"
proof (cases "upsf_slots w tid")
  case (Some slot)
  with create_item_refines[where net = net and w = w, OF keeps_serves[OF assms(1)] Some assms(2)]
  show ?thesis by (auto simp: viewed_def returned_def dest: spec_of_put)
qed (simp add: no_slot viewed_def returned_def)

lemma update_viewed:
  fixes held :: "'s \<Rightarrow> store" and w and merge :: merge
  defines "i \<equiv> \<lambda>x. merge dflt_UpdateOptions (held (peers w) (ty, p_string (c_name x))) (mk (p_of x dflt))"
  assumes "\<And>a. keeps merge (net a) held" and "ok x"
  shows "viewed held (returned wrap (update_item from_c to_c dflt (update_as mk sel dflt) net tid (Some x) w))
    = Some (if upsf_slots w tid = None then (Res_item False (wrap x), spec_of held w)
        else (Res_item True (wrap (c_of (the (sel (i x))))), (spec_of held w)
          \<lparr>sp_store := (held (peers w))((ty, p_string (c_name x)) \<mapsto> i x)\<rparr>))"
proof (cases "upsf_slots w tid")
  case (Some slot)
  from update_as_kept[OF assms(2), of "upsf_addr slot" "p_of x dflt" dflt dflt_UpdateOptions "peers w"]
  obtain m s' where "update_as mk sel dflt (net (upsf_addr slot)) (p_of x dflt) dflt dflt_UpdateOptions (peers w)
      = (True, m, s')" and m: "mk m = i x"
    and "held s' = (held (peers w))((ty, p_string (c_name x)) \<mapsto> i x)"
    by (auto simp: name_p i_def)
  then show ?thesis
    by (simp add: update_item_eq[OF Some assms(3)] viewed_def returned_def Some flip: m)
      (simp add: spec_of_def m)
qed (simp add: no_slot viewed_def returned_def)

lemma get_viewed:
  assumes "\<And>a. keeps merge (net a) held" and "ok x"
  shows "viewed held (returned wrap
      (get_item c_name name_of to_c dflt (read_as ty sel dflt name_of) net tid (Some x) w))
    = Some (if upsf_slots w tid = None \<or> p_string (c_name x) = [] then (Res_item False (wrap x), spec_of held w)
        else (case held (peers w) (ty, p_string (c_name x)) of
            None \<Rightarrow> Res_item False (wrap x)
          | Some i \<Rightarrow> Res_item True (wrap (c_of (the (sel i)))), spec_of held w))"
proof (cases "upsf_slots w tid")
  case (Some slot)
  from read_as_kept[OF assms(1), of "upsf_addr slot" "p_string (c_name x)" dflt "peers w"] obtain b m s' where
    rd: "read_as ty sel dflt name_of (net (upsf_addr slot)) (p_string (c_name x)) dflt (peers w) = (b, m, s')"
    and same: "held s' = held (peers w)"
    and r: "case held (peers w) (ty, p_string (c_name x)) of
        Some i \<Rightarrow> b \<and> i = mk m \<and> name_of m = p_string (c_name x) | None \<Rightarrow> b = (p_string (c_name x) = []) \<and> m = dflt"
    by blast
  have "spec_of held (w\<lparr>peers := s'\<rparr>) = spec_of held w" using same by (simp add: spec_of_def)
  with rd r show ?thesis
    by (cases "held (peers w) (ty, p_string (c_name x))")
      (auto simp: get_item_eq[OF Some assms(2)] viewed_def returned_def Some)
qed (simp add: no_slot viewed_def returned_def)

lemma delete_viewed:
  assumes "\<And>a. keeps merge (net a) held" and "ok x"
  shows "viewed held (returned_int (delete_item c_name net tid (Some x) w))
    = Some (if upsf_slots w tid = None then (Res_int (- 1), spec_of held w)
        else (Res_int 0, (spec_of held w)\<lparr>sp_store := without {p_string (c_name x)} (held (peers w))\<rparr>))"
proof (cases "upsf_slots w tid")
  case (Some slot)
  with delete_item_refines[where net = net and w = w, OF keeps_serves[OF assms(1)] Some assms(2)]
  show ?thesis by (auto simp: viewed_def returned_int_def without_single dest: spec_of_put)
qed (simp add: no_slot viewed_def returned_int_def)

end

section \<open>The refinement\<close>

lemma ci_of_key:
  "item_key i = Some (IT_service_gateway, n) \<Longrightarrow>
     ci_of no so i = Some (CI_service_gateway (c_ServiceGateway (the (item_service_gateway i))))"
  "item_key i = Some (IT_service_gateway_user_plane, n) \<Longrightarrow>
     ci_of no so i = Some (CI_service_gateway_user_plane
       (c_ServiceGatewayUserPlane (the (item_service_gateway_user_plane i))))"
  "item_key i = Some (IT_traffic_steering_function, n) \<Longrightarrow>
     ci_of no so i = Some (CI_traffic_steering_function
       (c_TrafficSteeringFunction (the (item_traffic_steering_function i))))"
  "item_key i = Some (IT_network_connection, n) \<Longrightarrow>
     ci_of no so i = Some (CI_network_connection (c_NetworkConnection no (the (item_network_connection i))))"
  "item_key i = Some (IT_shard, n) \<Longrightarrow> ci_of no so i = Some (CI_shard (c_Shard so (the (item_shard i))))"
  "item_key i = Some (IT_session_context, n) \<Longrightarrow>
     ci_of no so i = Some (CI_session_context (c_SessionContext (the (item_session_context i))))"
  by (cases i; simp add: item_key_def item_selectors)+

lemma ci_item_key: "item_key (ci_item x) = Some (ci_key x)"
  by (cases x) (simp_all add: item_key_def p_ServiceGateway_def p_ServiceGatewayUserPlane_def
      p_TrafficSteeringFunction_def p_NetworkConnection_def p_Shard_def p_SessionContext_def)

lemma item_calls_viewed:
  assumes "\<And>a. keeps merge (net a) held" and "ci_ok x"
  shows "viewed held (call_create no so net tid x w) = Some (spec_step merge no so tid (Call_create x) (spec_of held w))"
    and "viewed held (call_update no so net tid x w) = Some (spec_step merge no so tid (Call_update x) (spec_of held w))"
    and "viewed held (call_get no so net tid x w) = Some (spec_step merge no so tid (Call_get x) (spec_of held w))"
    and "viewed held (call_delete net tid x w) = Some (spec_step merge no so tid (Call_delete x) (spec_of held w))"
proof -
  show "viewed held (call_create no so net tid x w) = Some (spec_step merge no so tid (Call_create x) (spec_of held w))"
    using assms(2)
    by (cases x) (simp_all add: api_defs call_defs put_spec_def found_def
      sg_api.create_viewed[OF assms(1)] up_api.create_viewed[OF assms(1)]
      tsf_api.create_viewed[OF assms(1)] nc_api.create_viewed[OF assms(1)]
      sh_api.create_viewed[OF assms(1)] sc_api.create_viewed[OF assms(1)])
  show "viewed held (call_update no so net tid x w) = Some (spec_step merge no so tid (Call_update x) (spec_of held w))"
    using assms(2) keeps_merge_key[OF assms(1) ci_item_key[of x], of dflt_UpdateOptions "peers w"]
    by (cases x) (simp_all add: api_defs call_defs put_spec_def found_def ci_of_key
      sg_api.update_viewed[OF assms(1)] up_api.update_viewed[OF assms(1)]
      tsf_api.update_viewed[OF assms(1)] nc_api.update_viewed[OF assms(1)]
      sh_api.update_viewed[OF assms(1)] sc_api.update_viewed[OF assms(1)])
  have "item_key i = Some (ci_key x)" if "held (peers w) (ci_key x) = Some i" for i
    using keeps_key[OF assms(1) that] .
  then show "viewed held (call_get no so net tid x w) = Some (spec_step merge no so tid (Call_get x) (spec_of held w))"
    using assms(2)
    by (cases x) (auto simp: api_defs call_defs found_def ci_of_key split: option.split simp:
      sg_api.get_viewed[OF assms(1)] up_api.get_viewed[OF assms(1)] tsf_api.get_viewed[OF
      assms(1)] nc_api.get_viewed[OF assms(1)] sh_api.get_viewed[OF assms(1)]
      sc_api.get_viewed[OF assms(1)])
  show "viewed held (call_delete net tid x w) = Some (spec_step merge no so tid (Call_delete x) (spec_of held w))"
    using assms(2)
    by (cases x) (simp_all add: api_defs
      sg_api.delete_viewed[OF assms(1)] up_api.delete_viewed[OF assms(1)]
      tsf_api.delete_viewed[OF assms(1)] nc_api.delete_viewed[OF assms(1)]
      sh_api.delete_viewed[OF assms(1)] sc_api.delete_viewed[OF assms(1)])
qed

fun call_ok :: "api_call \<Rightarrow> bool" where
  "call_ok (Call_create x) = ci_ok x"
| "call_ok (Call_update x) = ci_ok x"
| "call_ok (Call_get x) = ci_ok x"
| "call_ok (Call_delete x) = ci_ok x"
| "call_ok _ = True"

lemma call_viewed:
  assumes "\<And>a. keeps merge (net a) held" and "call_ok c"
  shows "viewed held (call no so net tid c w) = Some (spec_step merge no so tid c (spec_of held w))"
proof (cases c)
  case (Call_open h p)
  then show ?thesis
    by (auto simp: viewed_def returned_int_def upsf_open_def spec_of_def)
next
  case Call_close
  then show ?thesis
    by (auto simp: viewed_def returned_int_def upsf_close_def spec_of_def)
next
  case Call_exists
  then show ?thesis by (simp add: viewed_def upsf_exists_def)
qed (use item_calls_viewed[where net = net, OF assms(1)] assms(2) in simp_all)

lemma calls_viewed:
  assumes "\<And>a. keeps merge (net a) held" and "\<And>t c. (t, c) \<in> set cs \<Longrightarrow> call_ok c"
  shows "viewed held (calls no so net cs w) = Some (spec_run merge no so cs (spec_of held w))"
  using assms(2)
proof (induction cs arbitrary: w)
  case (Cons tc cs)
  obtain t c where tc: "tc = (t, c)" by (cases tc)
  obtain r w1 where call: "call no so net t c w = Some (r, w1)"
    and step: "spec_step merge no so t c (spec_of held w) = (r, spec_of held w1)"
    using call_viewed[where net = net and held = held and w = w and c = c, OF assms(1)] Cons.prems
    by (force simp: tc viewed_def)
  obtain rs w2 where rest: "calls no so net cs w1 = Some (rs, w2)"
    "spec_run merge no so cs (spec_of held w1) = (rs, spec_of held w2)"
    using Cons.IH[of w1] Cons.prems by (force simp: viewed_def)
  from call step rest show ?case by (simp add: tc viewed_def)
qed (simp add: viewed_def)

section \<open>Whose slot\<close>

text \<open>What a call does to the address of the slot of its own thread.\<close>

fun own_addr :: "api_call \<Rightarrow> string option \<Rightarrow> string option" where
  "own_addr (Call_open host port) a = (case a of None \<Rightarrow> Some (host @ '':'' @ show_int port) | Some b \<Rightarrow> Some b)"
| "own_addr Call_close a = None"
| "own_addr _ a = a"

lemma returned_slots:
  "returned wrap r = Some (q, w') \<Longrightarrow> \<exists>b p. r = Some (b, p, w')"
  "returned_int r' = Some (q, w') \<Longrightarrow> \<exists>n. r' = Some (n, w')"
  by (auto simp: returned_def returned_int_def bind_eq_Some_conv)

lemma item_call_slots:
  "call_create no so net tid x w = Some (r, w') \<Longrightarrow> upsf_slots w' = upsf_slots w"
  "call_update no so net tid x w = Some (r, w') \<Longrightarrow> upsf_slots w' = upsf_slots w"
  "call_get no so net tid x w = Some (r, w') \<Longrightarrow> upsf_slots w' = upsf_slots w"
  "call_delete net tid x w = Some (r, w') \<Longrightarrow> upsf_slots w' = upsf_slots w"
  by (cases x; auto simp: api_defs dest!: returned_slots item_slots)+

lemma call_addr:
  assumes "call no so net tid c w = Some (r, w')"
  shows "map_option upsf_addr (upsf_slots w' t)
    = (if t = tid then own_addr c else id) (map_option upsf_addr (upsf_slots w t))"
  using assms
  by (cases c) (auto simp: returned_int_def upsf_open_def upsf_close_def Let_def
      dest: item_call_slots split: if_splits option.splits)

lemma calls_addr:
  assumes "calls no so net cs w = Some (rs, w')"
  shows "map_option upsf_addr (upsf_slots w' t)
    = fold own_addr (map snd (filter (\<lambda>(t', _). t' = t) cs)) (map_option upsf_addr (upsf_slots w t))"
  using assms
proof (induction cs arbitrary: w rs)
  case (Cons tc cs)
  obtain t' c where tc: "tc = (t', c)" by (cases tc)
  with Cons.prems obtain r w1 rs' where "call no so net t' c w = Some (r, w1)"
    and "calls no so net cs w1 = Some (rs', w')"
    by (auto simp: bind_eq_Some_conv)
  with call_addr[of no so net t' c w r w1 t] Cons.IH[of w1 rs'] show ?case by (auto simp: tc)
qed simp

end
