(* ===== verification/Interleaving.thy ===== *)
theory Interleaving
  imports SharedMap
begin

text \<open>
  Calls that overlap. A call of the C interface first looks up the slot of its thread and later
  makes its remote call with what it found; between the two, other threads may run. Here the two
  are steps of their own, with as many threads under way as there are. As the slots are kept by
  thread and a thread is in one call at a time, every such run has the results of a run in
  which the calls follow one another in the order of their remote calls. That the slot is not
  freed between the steps is a matter of the locks: in \<open>Locks\<close> the table does not change while a call
  holds the lock on it.
\<close>

section \<open>Overlapping calls\<close>

text \<open>
  The calls under way have passed their look-up and hold a slot; \<open>fs_done\<close> has the calls that
  are over, with their results, the latest last.
\<close>

record 's fine_state =
  fs_world :: "'s world"
  fs_pending :: "pthread_t \<Rightarrow> (api_call \<times> UpsfSlot) option"
  fs_done :: "(pthread_t \<times> api_call \<times> api_result) list"

fun uses_slot :: "api_call \<Rightarrow> bool" where
  "uses_slot (Call_open host port) = False"
| "uses_slot Call_close = False"
| "uses_slot Call_exists = False"
| "uses_slot _ = True"

text \<open>
  Opening, closing and asking hold the lock of the table all the time, and a call that finds no
  slot ends at once; another call goes on with the slot that it found, whatever the table holds by
  then.
\<close>

inductive fine_step ::
    "nc_iteration \<Rightarrow> sh_iteration \<Rightarrow> (string \<Rightarrow> 's upsf_stub) \<Rightarrow> 's fine_state \<Rightarrow> 's fine_state \<Rightarrow> bool"
  for nc_ord sh_ord net where
  at_once: "fs_pending s t = None \<Longrightarrow> \<not> uses_slot c \<or> upsf_slots (fs_world s) t = None \<Longrightarrow>
    call nc_ord sh_ord net t c (fs_world s) = Some (r, w) \<Longrightarrow>
    fine_step nc_ord sh_ord net s (s\<lparr>fs_world := w, fs_done := fs_done s @ [(t, c, r)]\<rparr>)"
| look_up: "fs_pending s t = None \<Longrightarrow> uses_slot c \<Longrightarrow> upsf_slots (fs_world s) t = Some slot \<Longrightarrow>
    fine_step nc_ord sh_ord net s (s\<lparr>fs_pending := (fs_pending s)(t \<mapsto> (c, slot))\<rparr>)"
| remote_call: "fs_pending s t = Some (c, slot) \<Longrightarrow>
    call nc_ord sh_ord net t c ((fs_world s)\<lparr>upsf_slots := [t \<mapsto> slot]\<rparr>) = Some (r, w) \<Longrightarrow>
    fine_step nc_ord sh_ord net s (s\<lparr>fs_world := (fs_world s)\<lparr>peers := peers w\<rparr>,
      fs_pending := (fs_pending s)(t := None), fs_done := fs_done s @ [(t, c, r)]\<rparr>)"

definition fine_start :: "'s world \<Rightarrow> 's fine_state" where
  "fine_start w = \<lparr>fs_world = w, fs_pending = (\<lambda>_. None), fs_done = []\<rparr>"

definition done_calls :: "'s fine_state \<Rightarrow> (pthread_t \<times> api_call) list" where
  "done_calls s = map (\<lambda>(t, c, r). (t, c)) (fs_done s)"

definition done_results :: "'s fine_state \<Rightarrow> api_result list" where
  "done_results s = map (\<lambda>(t, c, r). r) (fs_done s)"

section \<open>A call sees its own slot only\<close>

lemma map_option_bind: "map_option f (Option.bind x g) = Option.bind x (\<lambda>y. map_option f (g y))"
  by (cases x) simp_all

lemma item_own_slot:
  assumes "g tid = upsf_slots w tid"
  shows "create_item from_c to_c d cr net tid ptr (w\<lparr>upsf_slots := g\<rparr>)
      = map_option (map_prod id (map_prod id (\<lambda>w. w\<lparr>upsf_slots := g\<rparr>))) (create_item from_c to_c d cr net tid ptr w)"
    and "update_item from_c to_c d up net tid ptr (w\<lparr>upsf_slots := g\<rparr>)
      = map_option (map_prod id (map_prod id (\<lambda>w. w\<lparr>upsf_slots := g\<rparr>))) (update_item from_c to_c d up net tid ptr w)"
    and "get_item c_name name_of to_c d rd net tid ptr (w\<lparr>upsf_slots := g\<rparr>)
      = map_option (map_prod id (map_prod id (\<lambda>w. w\<lparr>upsf_slots := g\<rparr>)))
          (get_item c_name name_of to_c d rd net tid ptr w)"
    and "delete_item c_name net tid ptr (w\<lparr>upsf_slots := g\<rparr>)
      = map_option (map_prod id (\<lambda>w. w\<lparr>upsf_slots := g\<rparr>)) (delete_item c_name net tid ptr w)"
  using assms
  by (auto simp: create_item_def update_item_def get_item_def delete_item_def Let_def split_beta
      map_option_bind split: option.split intro!: Option.bind_cong)

lemma returned_map:
  "returned wrap (map_option (map_prod id (map_prod id f)) r) = map_option (map_prod id f) (returned wrap r)"
  "returned_int (map_option (map_prod id f) r') = map_option (map_prod id f) (returned_int r')"
proof -
  show "returned wrap (map_option (map_prod id (map_prod id f)) r) = map_option (map_prod id f) (returned wrap r)"
  proof (cases r)
    case (Some p)
    then show ?thesis by (cases "fst (snd p)") (simp_all add: returned_def split_beta)
  qed (simp add: returned_def)
  show "returned_int (map_option (map_prod id f) r') = map_option (map_prod id f) (returned_int r')"
    by (cases r') (simp_all add: returned_int_def split_beta)
qed

lemma call_own_slot:
  assumes "uses_slot c" and "g tid = upsf_slots w tid"
  shows "call no so net tid c (w\<lparr>upsf_slots := g\<rparr>)
    = map_option (map_prod id (\<lambda>w. w\<lparr>upsf_slots := g\<rparr>)) (call no so net tid c w)"
proof -
  note eqs = item_own_slot[of g tid w, OF assms(2)] returned_map api_defs
  have "call_create no so net tid x (w\<lparr>upsf_slots := g\<rparr>)
      = map_option (map_prod id (\<lambda>w. w\<lparr>upsf_slots := g\<rparr>)) (call_create no so net tid x w)" for x
    by (cases x) (simp_all add: eqs)
  moreover have "call_update no so net tid x (w\<lparr>upsf_slots := g\<rparr>)
      = map_option (map_prod id (\<lambda>w. w\<lparr>upsf_slots := g\<rparr>)) (call_update no so net tid x w)" for x
    by (cases x) (simp_all add: eqs)
  moreover have "call_get no so net tid x (w\<lparr>upsf_slots := g\<rparr>)
      = map_option (map_prod id (\<lambda>w. w\<lparr>upsf_slots := g\<rparr>)) (call_get no so net tid x w)" for x
    by (cases x) (simp_all add: eqs)
  moreover have "call_delete net tid x (w\<lparr>upsf_slots := g\<rparr>)
      = map_option (map_prod id (\<lambda>w. w\<lparr>upsf_slots := g\<rparr>)) (call_delete net tid x w)" for x
    by (cases x) (simp_all add: eqs)
  ultimately show ?thesis using assms(1) by (cases c) simp_all
qed

lemma call_slots:
  assumes "call no so net tid c w = Some (r, w')"
  shows "t \<noteq> tid \<Longrightarrow> upsf_slots w' t = upsf_slots w t" and "uses_slot c \<Longrightarrow> upsf_slots w' = upsf_slots w"
  using assms
  by (cases c; auto simp: returned_int_def upsf_open_def upsf_close_def Let_def
      dest: item_call_slots split: if_splits)+

section \<open>The order of the remote calls\<close>

lemma calls_snoc:
  "calls no so net (cs @ [(t, c)]) w = do {
     (rs, w) \<leftarrow> calls no so net cs w; (r, w) \<leftarrow> call no so net t c w; Some (rs @ [r], w) }"
proof (induction cs arbitrary: w)
  case Nil
  then show ?case by (cases "call no so net t c w") auto
next
  case (Cons tc cs)
  then show ?case
    by (cases tc; cases "call no so net (fst tc) (snd tc) w")
      (auto simp: bind_assoc split_beta intro!: Option.bind_cong)
qed

definition fine_inv ::
    "nc_iteration \<Rightarrow> sh_iteration \<Rightarrow> (string \<Rightarrow> 's upsf_stub) \<Rightarrow> 's world \<Rightarrow> 's fine_state \<Rightarrow> bool" where
  "fine_inv no so net w s \<longleftrightarrow>
     (\<forall>t c slot. fs_pending s t = Some (c, slot) \<longrightarrow> uses_slot c \<and> upsf_slots (fs_world s) t = Some slot) \<and>
     calls no so net (done_calls s) w = Some (done_results s, fs_world s)"

lemma fine_inv_start: "fine_inv no so net w (fine_start w)"
  by (simp add: fine_inv_def fine_start_def done_calls_def done_results_def)

lemma fine_inv_step:
  assumes "fine_step no so net s s'" and "fine_inv no so net w s"
  shows "fine_inv no so net w s'"
  using assms
proof cases
  case (at_once t c r w')
  have "fs_pending s t' = Some p \<Longrightarrow> upsf_slots w' t' = upsf_slots (fs_world s) t'" for t' p
    using call_slots(1)[OF at_once(4), of t'] at_once(2) by (cases "t' = t") auto
  with at_once assms(2) show ?thesis
    by (simp add: fine_inv_def done_calls_def done_results_def calls_snoc)
next
  case (look_up t c slot)
  with assms(2) show ?thesis
    by (simp add: fine_inv_def done_calls_def done_results_def)
next
  case (remote_call t c slot r w')
  from remote_call(2) assms(2) have c: "uses_slot c" and slot: "upsf_slots (fs_world s) t = Some slot"
    by (auto simp: fine_inv_def)
  from call_own_slot[of c "[t \<mapsto> slot]" t "fs_world s", OF c] slot remote_call(3)
  obtain v where call: "call no so net t c (fs_world s) = Some (r, v)" and w': "w' = v\<lparr>upsf_slots := [t \<mapsto> slot]\<rparr>"
    by auto
  from call_slots(2)[OF call c] have "v = (fs_world s)\<lparr>peers := peers w'\<rparr>" by (simp add: w')
  with call remote_call(1) assms(2) show ?thesis
    by (simp add: fine_inv_def done_calls_def done_results_def calls_snoc)
qed

lemma fine_inv_run:
  "(fine_step no so net)\<^sup>*\<^sup>* (fine_start w) s \<Longrightarrow> fine_inv no so net w s"
  by (induction rule: rtranclp_induct) (simp_all add: fine_inv_start fine_inv_step)

text \<open>The other way round: calls that follow one another are such a run.\<close>

lemma fine_whole_call:
  assumes "call no so net t c (fs_world s) = Some (r, w')" and "fs_pending s = (\<lambda>_. None)"
  shows "(fine_step no so net)\<^sup>*\<^sup>* s (s\<lparr>fs_world := w', fs_done := fs_done s @ [(t, c, r)]\<rparr>)"
proof (cases "uses_slot c \<and> upsf_slots (fs_world s) t \<noteq> None")
  case False
  with assms show ?thesis by (intro r_into_rtranclp at_once) auto
next
  case True
  then obtain slot where c: "uses_slot c" and slot: "upsf_slots (fs_world s) t = Some slot" by blast
  let ?s = "s\<lparr>fs_pending := (fs_pending s)(t \<mapsto> (c, slot))\<rparr>"
  have "call no so net t c ((fs_world ?s)\<lparr>upsf_slots := [t \<mapsto> slot]\<rparr>) = Some (r, w'\<lparr>upsf_slots := [t \<mapsto> slot]\<rparr>)"
    using call_own_slot[of c "[t \<mapsto> slot]" t "fs_world s", OF c] slot assms(1) by simp
  then have "fine_step no so net ?s (?s\<lparr>fs_world := (fs_world ?s)\<lparr>peers := peers (w'\<lparr>upsf_slots := [t \<mapsto> slot]\<rparr>)\<rparr>,
      fs_pending := (fs_pending ?s)(t := None), fs_done := fs_done ?s @ [(t, c, r)]\<rparr>)"
    by (intro remote_call) simp_all
  moreover have "(fs_world s)\<lparr>peers := peers w'\<rparr> = w'"
    using call_slots(2)[OF assms(1) c] by simp
  moreover have "(fs_pending s)(t := None) = fs_pending s"
    using assms(2) by auto
  ultimately have "fine_step no so net ?s (s\<lparr>fs_world := w', fs_done := fs_done s @ [(t, c, r)]\<rparr>)"
    by simp
  moreover have "fine_step no so net s ?s"
    using c slot assms(2) by (intro look_up) simp_all
  ultimately show ?thesis by (meson r_into_rtranclp rtranclp.rtrancl_into_rtrancl)
qed

lemma calls_fine:
  "calls no so net cs w = Some (rs, w') \<Longrightarrow>
   \<exists>s. (fine_step no so net)\<^sup>*\<^sup>* (fine_start w) s \<and> fs_pending s = (\<lambda>_. None) \<and>
     done_calls s = cs \<and> done_results s = rs \<and> fs_world s = w'"
proof (induction cs arbitrary: rs w' rule: rev_induct)
  case Nil
  then show ?case
    by (intro exI[of _ "fine_start w"]) (simp add: fine_start_def done_calls_def done_results_def)
next
  case (snoc tc cs)
  obtain t c where tc: "tc = (t, c)" by (cases tc)
  from snoc.prems obtain rs0 w0 r where before: "calls no so net cs w = Some (rs0, w0)"
    and call: "call no so net t c w0 = Some (r, w')" and rs: "rs = rs0 @ [r]"
    by (auto simp: tc calls_snoc bind_eq_Some_conv)
  from snoc.IH[OF before] obtain s where run: "(fine_step no so net)\<^sup>*\<^sup>* (fine_start w) s"
    and idle: "fs_pending s = (\<lambda>_. None)" and s: "done_calls s = cs" "done_results s = rs0" "fs_world s = w0"
    by blast
  from fine_whole_call[of no so net t c s r w', OF _ idle] call s(3) run
  have "(fine_step no so net)\<^sup>*\<^sup>* (fine_start w) (s\<lparr>fs_world := w', fs_done := fs_done s @ [(t, c, r)]\<rparr>)"
    by (auto intro: rtranclp_trans)
  with idle s rs show ?case
    by (intro exI[of _ "s\<lparr>fs_world := w', fs_done := fs_done s @ [(t, c, r)]\<rparr>"])
      (simp add: tc done_calls_def done_results_def)
qed

section \<open>Properties\<close>

text \<open>
  C10. Calls of any threads that overlap in any way have exactly the results and the effect of
  calls that follow one another: in the order of their remote calls.
\<close>

theorem concurrent_calls_atomic:
  "(\<exists>s. (fine_step nc_ord sh_ord net)\<^sup>*\<^sup>* (fine_start w) s \<and>
      done_calls s = cs \<and> done_results s = rs \<and> fs_world s = w')
    \<longleftrightarrow> calls nc_ord sh_ord net cs w = Some (rs, w')"
  using fine_inv_run[of nc_ord sh_ord net w] calls_fine[of nc_ord sh_ord net cs w rs w']
  by (auto simp: fine_inv_def)

text \<open>
  C9. At a server that keeps items and merges updates by whatever function \<open>merge\<close>, threads whose
  calls overlap share a map from types and names to items: with readable structures, the results
  of the calls that are over are those of the map, taken in some order, where a creation replaces
  the item of the map and an update merges with it by the default options; and the server holds
  what the map holds then. No call under way is stuck.
\<close>

theorem concurrent_calls_share_map:
  assumes "(fine_step nc_ord sh_ord net)\<^sup>*\<^sup>* (fine_start w) s" and "\<And>a. keeps merge (net a) held"
    and "\<And>t c. (t, c) \<in> set (done_calls s) \<Longrightarrow> call_ok c"
  shows "spec_run merge nc_ord sh_ord (done_calls s) (spec_of held w) = (done_results s, spec_of held (fs_world s)) \<and>
    (\<forall>t c slot. fs_pending s t = Some (c, slot) \<and> call_ok c \<longrightarrow>
       (\<exists>s'. fine_step nc_ord sh_ord net s s' \<and> fs_pending s' = (fs_pending s)(t := None)))"
proof (intro conjI allI impI)
  have "calls nc_ord sh_ord net (done_calls s) w = Some (done_results s, fs_world s)"
    using fine_inv_run[OF assms(1)] by (simp add: fine_inv_def)
  moreover have "viewed held (calls nc_ord sh_ord net (done_calls s) w)
      = Some (spec_run merge nc_ord sh_ord (done_calls s) (spec_of held w))"
    using assms(2,3) by (rule calls_viewed)
  ultimately show "spec_run merge nc_ord sh_ord (done_calls s) (spec_of held w)
      = (done_results s, spec_of held (fs_world s))" by (simp add: viewed_def)
next
  fix t c slot assume c: "fs_pending s t = Some (c, slot) \<and> call_ok c"
  let ?w = "(fs_world s)\<lparr>upsf_slots := [t \<mapsto> slot]\<rparr>"
  have "viewed held (call nc_ord sh_ord net t c ?w) = Some (spec_step merge nc_ord sh_ord t c (spec_of held ?w))"
    using assms(2) c by (intro call_viewed) simp_all
  then obtain r w' where "call nc_ord sh_ord net t c ?w = Some (r, w')"
    by (auto simp: viewed_def)
  with c show "\<exists>s'. fine_step nc_ord sh_ord net s s' \<and> fs_pending s' = (fs_pending s)(t := None)"
    by (intro exI[of _ "s\<lparr>fs_world := (fs_world s)\<lparr>peers := peers w'\<rparr>,
      fs_pending := (fs_pending s)(t := None), fs_done := fs_done s @ [(t, c, r)]\<rparr>"])
      (auto intro: remote_call)
qed

text \<open>
  At a server that merges lists by union, as the default options ask for, thread 2 updates the
  service groups of the user plane that thread 1 created, and thread 1 gets those of both.
\<close>

definition demo_plane :: "string list \<Rightarrow> ServiceGatewayUserPlane" where
  "demo_plane gs = example_user_plane\<lparr>up_spec := Some (dflt_ServiceGatewayUserPlaneSpec\<lparr>
     ups_supported_service_group := gs,
     ups_default_endpoint := Some (dflt_Endpoint\<lparr>ep_transport := TE_vtep dflt_Vtep\<rparr>)\<rparr>)\<rparr>"

abbreviation demo_item :: "string list \<Rightarrow> c_item" where
  "demo_item gs \<equiv> CI_service_gateway_user_plane (c_ServiceGatewayUserPlane (demo_plane gs))"

definition demo_calls :: "(pthread_t \<times> api_call) list" where
  "demo_calls = [(1, Call_open ''host'' 1), (2, Call_open ''host'' 1),
     (1, Call_create (demo_item [''red''])), (2, Call_update (demo_item [''blue''])),
     (1, Call_get (demo_item []))]"

lemma demo_plane_fits:
  "gs \<in> {[], [''red''], [''blue'']} \<Longrightarrow> fits_ServiceGatewayUserPlane (demo_plane gs)"
  using example_user_plane_fits
  by (auto simp: demo_plane_def fits_ServiceGatewayUserPlane_def fits_ServiceGatewayUserPlaneSpec_def
      fits_Endpoint_def fits_Vtep_def fits_list_def fits_string_def dflt_defs UPSF_MAX_STRING_SIZE_def
      UPSF_MAX_ELEMS_def)

lemma demo_plane_name: "p_string (c_up_name (c_ServiceGatewayUserPlane (demo_plane gs))) = ''up-1''"
  by (simp add: demo_plane_def example_user_plane_def c_ServiceGatewayUserPlane_def c_cut_fits
      fits_string_def UPSF_MAX_STRING_SIZE_def)

lemma demo_merge:
  "merge_item dflt_UpdateOptions (Some (Item_service_gateway_user_plane (demo_plane [''red''])))
     (Item_service_gateway_user_plane (demo_plane [''blue'']))
   = Item_service_gateway_user_plane (demo_plane [''red'', ''blue''])"
  by (simp add: merge_item_def merge_user_plane_def merge_part_def merge_list_def demo_plane_def
      dflt_UpdateOptions_def item_service_gateway_user_plane_def)

lemmas demo_plane_simps = demo_plane_name demo_merge up.p_c[OF demo_plane_fits]

lemma concurrent_calls_share_map_witness:
  "\<exists>s. (fine_step sorted_list_of_fmap sorted_list_of_fmap (\<lambda>_. item_server merge_item))\<^sup>*\<^sup>*
      (fine_start \<lparr>upsf_slots = Map.empty, peers = []\<rparr>) s \<and> done_calls s = demo_calls \<and>
    done_results s = [Res_int 0, Res_int 0, Res_item True (demo_item [''red'']),
      Res_item True (demo_item [''red'', ''blue'']), Res_item True (demo_item [''red'', ''blue''])]"
proof -
  let ?w = "\<lparr>upsf_slots = Map.empty, peers = []\<rparr> :: Item list world"
  let ?net = "\<lambda>_. item_server merge_item"
  note server = item_server_keeps[OF merge_item_keyed]
  have ok: "call_ok c" if "(t, c) \<in> set demo_calls" for t c
    using that up.ok_c by (auto simp: demo_calls_def)
  have "viewed held_in (calls sorted_list_of_fmap sorted_list_of_fmap ?net demo_calls ?w)
      = Some (spec_run merge_item sorted_list_of_fmap sorted_list_of_fmap demo_calls (spec_of held_in ?w))"
    using server ok by (rule calls_viewed)
  then obtain rs w' where "calls sorted_list_of_fmap sorted_list_of_fmap ?net demo_calls ?w = Some (rs, w')"
    by (auto simp: viewed_def)
  from calls_fine[OF this] obtain s where
    run: "(fine_step sorted_list_of_fmap sorted_list_of_fmap ?net)\<^sup>*\<^sup>* (fine_start ?w) s"
    and s: "done_calls s = demo_calls" by blast
  from concurrent_calls_share_map[OF run server] ok s
  have "fst (spec_run merge_item sorted_list_of_fmap sorted_list_of_fmap demo_calls (spec_of held_in ?w))
      = done_results s" by simp
  then have "done_results s = [Res_int 0, Res_int 0, Res_item True (demo_item [''red'']),
      Res_item True (demo_item [''red'', ''blue'']), Res_item True (demo_item [''red'', ''blue''])]"
    by (simp add: demo_calls_def spec_of_def put_spec_def found_def demo_plane_simps)
  with run s show ?thesis by blast
qed

text \<open>
  C26. Whatever servers answer and whatever other threads do, the slot of a thread is what its own
  calls made of it: the address of the first opening since the last closing.
\<close>

theorem own_slot:
  assumes "(fine_step nc_ord sh_ord net)\<^sup>*\<^sup>* (fine_start w) s"
  shows "map_option upsf_addr (upsf_slots (fs_world s) t)
    = fold own_addr (map snd (filter (\<lambda>(t', _). t' = t) (done_calls s))) (map_option upsf_addr (upsf_slots w t))"
  using fine_inv_run[OF assms] by (auto simp: fine_inv_def dest: calls_addr)

lemma own_slot_witness:
  "\<exists>s. (fine_step sorted_list_of_fmap sorted_list_of_fmap (\<lambda>_. item_server merge_item))\<^sup>*\<^sup>*
      (fine_start \<lparr>upsf_slots = Map.empty, peers = []\<rparr>) s \<and>
    map_option upsf_addr (upsf_slots (fs_world s) 1) = Some (''a'' @ '':'' @ show_int 1)"
proof -
  let ?w = "\<lparr>upsf_slots = Map.empty, peers = []\<rparr> :: Item list world"
  let ?cs = "[(1, Call_open ''a'' 1), (2, Call_close), (1, Call_open ''b'' 2)]"
  have "\<exists>p. calls sorted_list_of_fmap sorted_list_of_fmap (\<lambda>_. item_server merge_item) ?cs ?w = Some p"
    by (simp add: returned_int_def upsf_open_def upsf_close_def)
  then obtain rs w' where "calls sorted_list_of_fmap sorted_list_of_fmap (\<lambda>_. item_server merge_item) ?cs ?w = Some (rs, w')" by auto
  from calls_fine[OF this] obtain s where
    run: "(fine_step sorted_list_of_fmap sorted_list_of_fmap (\<lambda>_. item_server merge_item))\<^sup>*\<^sup>* (fine_start ?w) s" and s: "done_calls s = ?cs"
    by blast
  from own_slot[OF run, of 1] run s show ?thesis by auto
qed

end
