(* ===== verification/Subscriber.thy ===== *)
theory Subscriber
  imports Wrapper
begin

text \<open>
  Subscriptions: \<^verbatim>\<open>UpsfSubscriber\<close> and \<^verbatim>\<open>UpsfClient::ReadV1(UpsfSubscriber&)\<close> of
  \<^verbatim>\<open>upsf/upsf.hpp\<close>, and \<^verbatim>\<open>UpsfSubscriberWrapper\<close> with \<^verbatim>\<open>upsf_subscribe\<close> of
  \<^verbatim>\<open>upsf/upsf_c_wrapper.cpp\<close>. A subscription with watch has no bound on its length, so the
  loop is modelled twice: as a function of the rounds of the outer loop that the server has
  gone through (each the items until \<^verbatim>\<open>Read\<close> returns false, and the status that
  \<^verbatim>\<open>Finish\<close> gives), whose result says that it still runs when the rounds are used up, and as
  a step relation over single events. The effects of notifications are functions on a state
  \<open>'u\<close>, which stands for the user data and all that a callback reaches.
\<close>

section \<open>Subscribers\<close>

record UpsfSubscriber =
  itemtypes :: "ItemType list"
  derivedstates :: "int32 list"
  parents :: "string list"
  names :: "string list"
  watch :: bool

definition subscriber_all :: "bool \<Rightarrow> UpsfSubscriber" where
  "subscriber_all w = \<lparr>
     itemtypes = [IT_service_gateway, IT_service_gateway_user_plane, IT_traffic_steering_function,
                  IT_network_connection, IT_shard, IT_session_context],
     derivedstates = [DerivedState_unknown, DerivedState_inactive, DerivedState_active,
                      DerivedState_updating],
     parents = [], names = [], watch = w\<rparr>"

definition subscriber_itemtypes :: "ItemType list \<Rightarrow> bool \<Rightarrow> UpsfSubscriber" where
  "subscriber_itemtypes ts w =
     \<lparr>itemtypes = ts, derivedstates = [], parents = [], names = [], watch = w\<rparr>"

definition subscriber_derivedstates :: "int32 list \<Rightarrow> bool \<Rightarrow> UpsfSubscriber" where
  "subscriber_derivedstates ds w =
     \<lparr>itemtypes = [], derivedstates = ds, parents = [], names = [], watch = w\<rparr>"

definition subscriber_filter ::
    "ItemType list \<Rightarrow> int32 list \<Rightarrow> string list \<Rightarrow> string list \<Rightarrow> bool \<Rightarrow> UpsfSubscriber" where
  "subscriber_filter ts ds ps ns w =
     \<lparr>itemtypes = ts, derivedstates = ds, parents = ps, names = ns, watch = w\<rparr>"

definition set_watch :: "bool \<Rightarrow> UpsfSubscriber \<Rightarrow> UpsfSubscriber" where
  "set_watch w s = s\<lparr>watch := w\<rparr>"

section \<open>The request\<close>

text \<open>
  \<^verbatim>\<open>for (auto it : xs) req.mutable_f(index++)->set_value(it);\<close>: \<^verbatim>\<open>mutable_f(i)\<close> is the
  element \<open>i\<close> of the repeated field, and undefined when there is none.
\<close>

fun set_values :: "string list \<Rightarrow> nat \<Rightarrow> string list \<Rightarrow> string list ub" where
  "set_values [] index field = Some field"
| "set_values (it # xs) index field = do {
     field \<leftarrow> arr_set field index it;
     set_values xs (index + 1) field
   }"

definition subscriber_request :: "UpsfSubscriber \<Rightarrow> ReadReq ub" where
  "subscriber_request subscriber = do {
     let req = dflt_ReadReq;
     let req = req\<lparr>rr_itemtype := rr_itemtype req @ itemtypes subscriber\<rparr>;
     let req = req\<lparr>rr_itemstate := rr_itemstate req @ derivedstates subscriber\<rparr>;
     ps \<leftarrow> set_values (parents subscriber) 0 (rr_parent req);
     let req = req\<lparr>rr_parent := ps\<rparr>;
     ns \<leftarrow> set_values (names subscriber) 0 (rr_name req);
     let req = req\<lparr>rr_name := ns\<rparr>;
     Some (req\<lparr>rr_watch := watch subscriber\<rparr>)
   }"

lemma set_values_empty: "set_values xs 0 [] = (if xs = [] then Some [] else None)"
  by (cases xs) simp_all

text \<open>There is a request only for a subscriber without parents and names.\<close>

lemma subscriber_request_eq:
  "subscriber_request s = (if parents s = [] \<and> names s = [] then
     Some \<lparr>rr_itemtype = itemtypes s, rr_itemstate = derivedstates s, rr_parent = [], rr_name = [],
           rr_watch = watch s\<rparr> else None)"
  by (simp add: subscriber_request_def dflt_ReadReq_def set_values_empty)

section \<open>Notifications\<close>

text \<open>The virtual \<^verbatim>\<open>notify\<close> functions of a subscriber.\<close>

record 'u notify_table =
  notify_shard :: "Shard \<Rightarrow> 'u \<Rightarrow> 'u ub"
  notify_session_context :: "SessionContext \<Rightarrow> 'u \<Rightarrow> 'u ub"
  notify_network_connection :: "NetworkConnection \<Rightarrow> 'u \<Rightarrow> 'u ub"
  notify_service_gateway_user_plane :: "ServiceGatewayUserPlane \<Rightarrow> 'u \<Rightarrow> 'u ub"
  notify_traffic_steering_function :: "TrafficSteeringFunction \<Rightarrow> 'u \<Rightarrow> 'u ub"
  notify_service_gateway :: "ServiceGateway \<Rightarrow> 'u \<Rightarrow> 'u ub"

definition notify_item :: "'u notify_table \<Rightarrow> Item \<Rightarrow> 'u \<Rightarrow> 'u ub" where
  "notify_item nt item u =
     (case item_shard item of Some m \<Rightarrow> notify_shard nt m u | None \<Rightarrow>
     (case item_session_context item of Some m \<Rightarrow> notify_session_context nt m u | None \<Rightarrow>
     (case item_network_connection item of Some m \<Rightarrow> notify_network_connection nt m u | None \<Rightarrow>
     (case item_service_gateway_user_plane item of
        Some m \<Rightarrow> notify_service_gateway_user_plane nt m u | None \<Rightarrow>
     (case item_traffic_steering_function item of
        Some m \<Rightarrow> notify_traffic_steering_function nt m u | None \<Rightarrow>
     (case item_service_gateway item of Some m \<Rightarrow> notify_service_gateway nt m u | None \<Rightarrow>
        Some u))))))"

text \<open>\<^verbatim>\<open>while (reader->Read(&item)) ...\<close>\<close>

fun notify_items :: "'u notify_table \<Rightarrow> Item list \<Rightarrow> 'u \<Rightarrow> 'u ub" where
  "notify_items nt [] u = Some u"
| "notify_items nt (i # is) u = do { u \<leftarrow> notify_item nt i u; notify_items nt is u }"

text \<open>
  The loop \<^verbatim>\<open>do { ... } while (subscriber.get_watch())\<close> on the rounds so far: the value
  returned, or \<open>None\<close> when it still runs.
\<close>

fun serve_rounds ::
    "'u notify_table \<Rightarrow> bool \<Rightarrow> (Item list \<times> bool) list \<Rightarrow> 'u \<Rightarrow> (bool option \<times> 'u) ub" where
  "serve_rounds nt w [] u = Some (None, u)"
| "serve_rounds nt w ((is, ok) # rs) u = do {
     u \<leftarrow> notify_items nt is u;
     if \<not> ok then Some (Some False, u)
     else if w then serve_rounds nt w rs u
     else Some (Some True, u)
   }"

definition ReadV1_subscriber ::
    "'u notify_table \<Rightarrow> UpsfSubscriber \<Rightarrow> (ReadReq \<Rightarrow> (Item list \<times> bool) list) \<Rightarrow> 'u
      \<Rightarrow> (bool option \<times> 'u) ub" where
  "ReadV1_subscriber nt subscriber rounds u = do {
     req \<leftarrow> subscriber_request subscriber;
     serve_rounds nt (watch subscriber) (rounds req) u
   }"

section \<open>The subscriber of the C interface\<close>

text \<open>
  A callback gets the structure and the user data; what it returns is not looked at.
\<close>

record 'u UpsfSubscriberWrapper =
  shard_cb :: "(upsf_shard_t \<Rightarrow> 'u \<Rightarrow> int32 \<times> 'u) option"
  session_context_cb :: "(upsf_session_context_t \<Rightarrow> 'u \<Rightarrow> int32 \<times> 'u) option"
  network_connection_cb :: "(upsf_network_connection_t \<Rightarrow> 'u \<Rightarrow> int32 \<times> 'u) option"
  service_gateway_user_plane_cb :: "(upsf_service_gateway_user_plane_t \<Rightarrow> 'u \<Rightarrow> int32 \<times> 'u) option"
  traffic_steering_function_cb :: "(upsf_traffic_steering_function_t \<Rightarrow> 'u \<Rightarrow> int32 \<times> 'u) option"
  service_gateway_cb :: "(upsf_service_gateway_t \<Rightarrow> 'u \<Rightarrow> int32 \<times> 'u) option"

text \<open>
  The body of the six \<^verbatim>\<open>notify\<close> functions: without a callback nothing, else the mapped
  structure goes to it. \<open>init\<close> stands for the uninitialised local structure.
\<close>

definition notify_with ::
    "('m \<Rightarrow> 'c \<Rightarrow> (bool \<times> 'c) ub) \<Rightarrow> 'c \<Rightarrow> ('c \<Rightarrow> 'u \<Rightarrow> int32 \<times> 'u) option \<Rightarrow> 'm \<Rightarrow> 'u \<Rightarrow> 'u ub" where
  "notify_with to_c init cb m userdata =
     (case cb of
        None \<Rightarrow> Some userdata
      | Some f \<Rightarrow> do {
          (_, c) \<leftarrow> to_c m init;
          let (_, userdata) = f c userdata;
          Some userdata
        })"

definition wrapper_notify ::
    "((string, bool) fmap \<Rightarrow> (string \<times> bool) list) \<Rightarrow> ((string, string) fmap \<Rightarrow> (string \<times> string) list)
      \<Rightarrow> 'u UpsfSubscriberWrapper \<Rightarrow> 'u notify_table" where
  "wrapper_notify nc_ord sh_ord s = \<lparr>
     notify_shard = notify_with (map_Shard sh_ord) zero_upsf_shard_t (shard_cb s),
     notify_session_context =
       notify_with map_SessionContext zero_upsf_session_context_t (session_context_cb s),
     notify_network_connection =
       notify_with (map_NetworkConnection nc_ord) zero_upsf_network_connection_t (network_connection_cb s),
     notify_service_gateway_user_plane =
       notify_with map_ServiceGatewayUserPlane zero_upsf_service_gateway_user_plane_t
         (service_gateway_user_plane_cb s),
     notify_traffic_steering_function =
       notify_with map_TrafficSteeringFunction zero_upsf_traffic_steering_function_t
         (traffic_steering_function_cb s),
     notify_service_gateway =
       notify_with map_ServiceGateway zero_upsf_service_gateway_t (service_gateway_cb s)\<rparr>"

text \<open>
  \<^verbatim>\<open>upsf_subscribe\<close>: \<open>rounds addr req\<close> is what the server at \<open>addr\<close> does with the request.
\<close>

definition upsf_subscribe ::
    "((string, bool) fmap \<Rightarrow> (string \<times> bool) list) \<Rightarrow> ((string, string) fmap \<Rightarrow> (string \<times> string) list)
      \<Rightarrow> (string \<Rightarrow> ReadReq \<Rightarrow> (Item list \<times> bool) list) \<Rightarrow> string \<Rightarrow> int32
      \<Rightarrow> 'u UpsfSubscriberWrapper \<Rightarrow> 'u \<Rightarrow> (int32 option \<times> 'u) ub" where
  "upsf_subscribe nc_ord sh_ord rounds upsf_host upsf_port s userdata = do {
     let upsfaddr = upsf_host @ '':'' @ show_int upsf_port;
     (result, userdata) \<leftarrow>
       ReadV1_subscriber (wrapper_notify nc_ord sh_ord s) (subscriber_all True) (rounds upsfaddr) userdata;
     Some (case result of
        None \<Rightarrow> (None, userdata)
      | Some b \<Rightarrow> if b = False then (Some (- 1), userdata) else (Some 0, userdata))
   }"

section \<open>Facts\<close>

text \<open>What the rounds of a watching subscriber deliver: all items up to a failed round.\<close>

fun delivered :: "bool \<Rightarrow> (Item list \<times> bool) list \<Rightarrow> Item list" where
  "delivered w [] = []"
| "delivered w ((is, ok) # rs) = is @ (if ok \<and> w then delivered w rs else [])"

lemma notify_items_append:
  "notify_items nt (xs @ ys) u = do { u \<leftarrow> notify_items nt xs u; notify_items nt ys u }"
proof (induction xs arbitrary: u)
  case (Cons x xs)
  then show ?case by (cases "notify_item nt x u") simp_all
qed simp

lemma serve_rounds_delivered:
  "serve_rounds nt w rs u = do {
     u \<leftarrow> notify_items nt (delivered w rs) u;
     Some (if w then (if \<exists>r\<in>set rs. \<not> snd r then Some False else None)
           else (case rs of [] \<Rightarrow> None | r # _ \<Rightarrow> Some (snd r)), u)
   }"
proof (induction nt w rs u rule: serve_rounds.induct)
  case (2 nt w "is" ok rs u)
  then show ?case
    by (cases "notify_items nt is u"; cases ok; cases w) (auto simp: notify_items_append)
qed simp

text \<open>The effect of one item on the user data.\<close>

definition call_back :: "('c \<Rightarrow> 'u \<Rightarrow> int32 \<times> 'u) option \<Rightarrow> 'c \<Rightarrow> 'u \<Rightarrow> 'u" where
  "call_back cb c u = (case cb of None \<Rightarrow> u | Some f \<Rightarrow> snd (f c u))"

definition received ::
    "((string, bool) fmap \<Rightarrow> (string \<times> bool) list) \<Rightarrow> ((string, string) fmap \<Rightarrow> (string \<times> string) list)
      \<Rightarrow> 'u UpsfSubscriberWrapper \<Rightarrow> Item \<Rightarrow> 'u \<Rightarrow> 'u" where
  "received nc_ord sh_ord s item = (case item of
       Item_not_set \<Rightarrow> (\<lambda>u. u)
     | Item_shard m \<Rightarrow> call_back (shard_cb s) (c_Shard sh_ord m)
     | Item_session_context m \<Rightarrow> call_back (session_context_cb s) (c_SessionContext m)
     | Item_network_connection m \<Rightarrow> call_back (network_connection_cb s) (c_NetworkConnection nc_ord m)
     | Item_service_gateway_user_plane m \<Rightarrow>
         call_back (service_gateway_user_plane_cb s) (c_ServiceGatewayUserPlane m)
     | Item_traffic_steering_function m \<Rightarrow>
         call_back (traffic_steering_function_cb s) (c_TrafficSteeringFunction m)
     | Item_service_gateway m \<Rightarrow> call_back (service_gateway_cb s) (c_ServiceGateway m))"

lemma notify_with_eq:
  "(\<And>m c. to_c m c = Some (True, f m)) \<Longrightarrow>
   notify_with to_c z cb m u = Some (call_back cb (f m) u)"
  by (simp add: notify_with_def call_back_def split: option.split prod.split)

lemma notify_item_wrapper:
  "notify_item (wrapper_notify nc_ord sh_ord s) i u = Some (received nc_ord sh_ord s i u)"
  by (cases i) (simp_all add: notify_item_def item_selectors wrapper_notify_def received_def
      notify_with_eq[where f = "c_Shard sh_ord"] notify_with_eq[where f = c_SessionContext]
      notify_with_eq[where f = "c_NetworkConnection nc_ord"]
      notify_with_eq[where f = c_ServiceGatewayUserPlane]
      notify_with_eq[where f = c_TrafficSteeringFunction] notify_with_eq[where f = c_ServiceGateway])

lemma notify_items_wrapper:
  "notify_items (wrapper_notify nc_ord sh_ord s) is u = Some (fold (received nc_ord sh_ord s) is u)"
  by (induction "is" arbitrary: u) (simp_all add: notify_item_wrapper)

definition all_request :: "bool \<Rightarrow> ReadReq" where
  "all_request w = \<lparr>
     rr_itemtype = [IT_service_gateway, IT_service_gateway_user_plane, IT_traffic_steering_function,
                    IT_network_connection, IT_shard, IT_session_context],
     rr_itemstate = [DerivedState_unknown, DerivedState_inactive, DerivedState_active,
                     DerivedState_updating],
     rr_parent = [], rr_name = [], rr_watch = w\<rparr>"

lemma upsf_subscribe_eq:
  fixes nc_ord sh_ord rounds h p
  defines "rs \<equiv> rounds (h @ '':'' @ show_int p) (all_request True)"
  shows "upsf_subscribe nc_ord sh_ord rounds h p s u =
    Some (if \<exists>r\<in>set rs. \<not> snd r then Some (- 1) else None,
          fold (received nc_ord sh_ord s) (delivered True rs) u)"
  unfolding rs_def
  by (simp add: upsf_subscribe_def ReadV1_subscriber_def subscriber_request_eq subscriber_all_def
      serve_rounds_delivered notify_items_wrapper flip: all_request_def)

section \<open>The loop, event by event\<close>

datatype sub_phase = Reading | Finishing | Returned bool

datatype sub_event = Ev_read Item | Ev_end | Ev_finish bool

record 'u sub_state =
  phase :: sub_phase
  finishes :: nat
  user :: 'u

text \<open>
  One call on the reader: \<^verbatim>\<open>Read\<close> delivers an item or ends, \<^verbatim>\<open>Finish\<close> gives a status.
  \<open>finishes\<close> counts the calls of \<^verbatim>\<open>Finish\<close>.
\<close>

inductive sub_step :: "'u notify_table \<Rightarrow> bool \<Rightarrow> 'u sub_state \<Rightarrow> sub_event \<Rightarrow> 'u sub_state \<Rightarrow> bool"
  for nt w where
  read: "phase s = Reading \<Longrightarrow> notify_item nt i (user s) = Some u \<Longrightarrow>
     sub_step nt w s (Ev_read i) (s\<lparr>user := u\<rparr>)"
| read_end: "phase s = Reading \<Longrightarrow> sub_step nt w s Ev_end (s\<lparr>phase := Finishing\<rparr>)"
| finish: "phase s = Finishing \<Longrightarrow>
     sub_step nt w s (Ev_finish ok) (s\<lparr>finishes := finishes s + 1,
       phase := (if \<not> ok then Returned False else if w then Reading else Returned True)\<rparr>)"

inductive_cases sub_step_readE: "sub_step nt w s (Ev_read i) s'"
inductive_cases sub_step_endE: "sub_step nt w s Ev_end s'"
inductive_cases sub_step_finishE: "sub_step nt w s (Ev_finish ok) s'"

inductive sub_run :: "'u notify_table \<Rightarrow> bool \<Rightarrow> 'u sub_state \<Rightarrow> sub_event list \<Rightarrow> 'u sub_state \<Rightarrow> bool"
  for nt w where
  start: "sub_run nt w s [] s"
| step: "sub_run nt w s es s' \<Longrightarrow> sub_step nt w s' e s'' \<Longrightarrow> sub_run nt w s (es @ [e]) s''"

definition sub_init :: "'u \<Rightarrow> 'u sub_state" where
  "sub_init u = \<lparr>phase = Reading, finishes = 0, user = u\<rparr>"

definition items_read :: "sub_event list \<Rightarrow> Item list" where
  "items_read es = List.map_filter (\<lambda>e. case e of Ev_read i \<Rightarrow> Some i | _ \<Rightarrow> None) es"

lemma items_read_append [simp]: "items_read (es @ es') = items_read es @ items_read es'"
  by (simp add: items_read_def List.map_filter_def)

lemma items_read_simps [simp]:
  "items_read [] = []" "items_read [Ev_read i] = [i]" "items_read [Ev_end] = []"
  "items_read [Ev_finish ok] = []"
  by (simp_all add: items_read_def List.map_filter_simps)

text \<open>Invariant: the user data is the notifications of the items read so far, in order.\<close>

lemma sub_run_notified:
  "sub_run nt w s es s' \<Longrightarrow> notify_items nt (items_read es) (user s) = Some (user s')"
proof (induction rule: sub_run.induct)
  case (step s es s' e s'')
  from step.hyps(2) step.IH show ?case
    by cases (simp_all add: notify_items_append)
qed simp

text \<open>
  Invariant: with watch the calls of \<^verbatim>\<open>Finish\<close> are as many as the ends of streams, and only an
  error ends the run.
\<close>

lemma sub_run_statuses:
  "sub_run nt True s es s' \<Longrightarrow> s = sub_init u \<Longrightarrow>
   count_list es Ev_end = finishes s' + (if phase s' = Finishing then 1 else 0) \<and>
   (phase s' = Returned False \<longleftrightarrow> Ev_finish False \<in> set es) \<and> phase s' \<noteq> Returned True \<and>
   Ev_finish False \<notin> set (butlast es)"
proof (induction rule: sub_run.induct)
  case (step s es s' e s'')
  from step.IH[OF step.prems] have "phase s' \<noteq> Returned False \<Longrightarrow> Ev_finish False \<notin> set es" by blast
  with step.hyps(2) step.IH[OF step.prems] show ?case
    by cases (auto simp: butlast_append)
qed (simp add: sub_init_def)

text \<open>Invariant: without watch \<^verbatim>\<open>Finish\<close> is called once, at the end.\<close>

lemma sub_run_finish_once:
  "sub_run nt False s es s' \<Longrightarrow> s = sub_init u \<Longrightarrow>
   finishes s' = (case phase s' of Returned _ \<Rightarrow> 1 | _ \<Rightarrow> 0)"
proof (induction rule: sub_run.induct)
  case (step s es s' e s'')
  from step.hyps(2) step.IH step.prems show ?case by cases auto
qed (simp add: sub_init_def)

text \<open>Runs can be put together.\<close>

lemma sub_run_trans: "sub_run nt w s es s' \<Longrightarrow> sub_run nt w s' es' s'' \<Longrightarrow> sub_run nt w s (es @ es') s''"
  by (rotate_tac, induction rule: sub_run.induct) (auto intro: sub_run.step simp flip: append_assoc)

lemma sub_run_one: "sub_step nt w s e s' \<Longrightarrow> sub_run nt w s [e] s'"
  using sub_run.step[OF sub_run.start] by fastforce

lemma sub_run_items:
  "phase s = Reading \<Longrightarrow> notify_items nt is (user s) = Some u \<Longrightarrow>
   sub_run nt w s (map Ev_read is) (s\<lparr>user := u\<rparr>)"
proof (induction "is" arbitrary: s)
  case (Cons i "is")
  from Cons.prems obtain u1 where u1: "notify_item nt i (user s) = Some u1"
    and rest: "notify_items nt is u1 = Some u" by (auto simp: bind_eq_Some_conv)
  have "sub_run nt w s [Ev_read i] (s\<lparr>user := u1\<rparr>)"
    by (rule sub_run_one, rule sub_step.read[OF Cons.prems(1) u1])
  moreover have "sub_run nt w (s\<lparr>user := u1\<rparr>) (map Ev_read is) (s\<lparr>user := u1\<rparr>\<lparr>user := u\<rparr>)"
    using Cons.prems(1) rest by (intro Cons.IH) simp_all
  ultimately show ?case using sub_run_trans by fastforce
qed (auto intro: sub_run.start)

fun events_of :: "bool \<Rightarrow> (Item list \<times> bool) list \<Rightarrow> sub_event list" where
  "events_of w [] = []"
| "events_of w ((is, ok) # rs) =
     map Ev_read is @ [Ev_end, Ev_finish ok] @ (if ok \<and> w then events_of w rs else [])"

text \<open>The function on rounds is a run of the step relation.\<close>

lemma serve_rounds_run:
  assumes "serve_rounds nt w rs (user s) = Some (r, u')" and "phase s = Reading"
  shows "\<exists>s'. sub_run nt w s (events_of w rs) s' \<and> user s' = u' \<and>
    phase s' = (case r of None \<Rightarrow> Reading | Some b \<Rightarrow> Returned b)"
  using assms
proof (induction rs arbitrary: s)
  case Nil
  then show ?case by (auto intro: sub_run.start)
next
  case (Cons round rs)
  obtain "is" ok where round: "round = (is, ok)" by fastforce
  from Cons.prems(1) obtain u1 where u1: "notify_items nt is (user s) = Some u1"
    by (auto simp: bind_eq_Some_conv round)
  let ?s1 = "s\<lparr>user := u1\<rparr>" and ?s2 = "s\<lparr>user := u1, phase := Finishing\<rparr>"
  let ?s3 = "?s2\<lparr>finishes := finishes ?s2 + 1,
    phase := (if \<not> ok then Returned False else if w then Reading else Returned True)\<rparr>"
  have read: "sub_run nt w s (map Ev_read is) ?s1"
    by (rule sub_run_items[OF Cons.prems(2) u1])
  have "sub_step nt w ?s1 Ev_end ?s2"
    using sub_step.read_end[of ?s1 nt w] Cons.prems(2) by simp
  moreover have "sub_step nt w ?s2 (Ev_finish ok) ?s3" by (rule sub_step.finish) simp
  ultimately have "sub_run nt w s (map Ev_read is @ [Ev_end] @ [Ev_finish ok]) ?s3"
    by (intro sub_run_trans[OF read] sub_run_trans[OF sub_run_one] sub_run_one)
  then have run: "sub_run nt w s (map Ev_read is @ [Ev_end, Ev_finish ok]) ?s3" by simp
  show ?case
  proof (cases "ok \<and> w")
    case True
    with Cons.IH[of ?s3] Cons.prems(1) u1 round obtain s'
      where "sub_run nt w ?s3 (events_of w rs) s'" "user s' = u'"
        "phase s' = (case r of None \<Rightarrow> Reading | Some b \<Rightarrow> Returned b)" by auto
    with sub_run_trans[OF run] True show ?thesis by (auto simp: round)
  next
    case False
    with run Cons.prems(1) u1 show ?thesis
      by (intro exI[of _ ?s3]) (auto simp: round split: if_splits)
  qed
qed

section \<open>Properties\<close>

text \<open>
  C16. A subscription by the C interface asks the server at the given host and port, with
  watch, for all item types in the four states from unknown to updating; the callbacks get, in
  the order of the stream, the structures of all items up to the first round that ends with an
  error (an item without callback or alternative is passed over), and what they return plays no
  role; it returns -1 when a round ended with an error and runs on otherwise.
\<close>

theorem subscribe_delivers:
  "upsf_subscribe nc_ord sh_ord rounds host port s u =
    (let rs = rounds (host @ '':'' @ show_int port)
       \<lparr>rr_itemtype = [IT_service_gateway, IT_service_gateway_user_plane, IT_traffic_steering_function,
          IT_network_connection, IT_shard, IT_session_context],
        rr_itemstate = [DerivedState_unknown, DerivedState_inactive, DerivedState_active,
          DerivedState_updating],
        rr_parent = [], rr_name = [], rr_watch = True\<rparr>
     in Some (if list_all snd rs then None else Some (- 1),
          fold (received nc_ord sh_ord s) (delivered True rs) u))"
  by (simp add: upsf_subscribe_eq all_request_def Let_def list_all_iff)

text \<open>
  The success value 0 of a subscription by the C interface is never returned.
\<close>

theorem subscribe_never_succeeds:
  "map_option fst (upsf_subscribe nc_ord sh_ord rounds host port s u) \<noteq> Some (Some 0)"
  by (simp add: upsf_subscribe_eq)

text \<open>
  C23. A subscriber has a request only when it filters neither by parent nor by name: a filter
  by either writes to elements of repeated fields that are empty.
\<close>

theorem subscriber_filter_undefined:
  "subscriber_request (subscriber_filter ts ds ps ns w) =
    (if ps = [] \<and> ns = [] then Some \<lparr>rr_itemtype = ts, rr_itemstate = ds, rr_parent = [], rr_name = [],
       rr_watch = w\<rparr> else None)"
  by (simp add: subscriber_request_eq subscriber_filter_def)

definition logging :: "Item list notify_table" where
  "logging = \<lparr>notify_shard = (\<lambda>m u. Some (u @ [Item_shard m])),
     notify_session_context = (\<lambda>m u. Some (u @ [Item_session_context m])),
     notify_network_connection = (\<lambda>m u. Some (u @ [Item_network_connection m])),
     notify_service_gateway_user_plane = (\<lambda>m u. Some (u @ [Item_service_gateway_user_plane m])),
     notify_traffic_steering_function = (\<lambda>m u. Some (u @ [Item_traffic_steering_function m])),
     notify_service_gateway = (\<lambda>m u. Some (u @ [Item_service_gateway m]))\<rparr>"

lemma logging_run:
  "sub_run logging w (sub_init []) [Ev_read (Item_shard dflt_Shard), Ev_end, Ev_finish True]
     \<lparr>phase = (if w then Reading else Returned True), finishes = 1, user = [Item_shard dflt_Shard]\<rparr>"
proof -
  have "sub_step logging w (sub_init []) (Ev_read (Item_shard dflt_Shard))
      (sub_init [Item_shard dflt_Shard])"
    using sub_step.read[of "sub_init []" logging "Item_shard dflt_Shard" "[Item_shard dflt_Shard]" w]
    by (simp add: sub_init_def notify_item_def item_shard_def logging_def)
  moreover have "sub_step logging w (sub_init [Item_shard dflt_Shard]) Ev_end
      \<lparr>phase = Finishing, finishes = 0, user = [Item_shard dflt_Shard]\<rparr>"
    using sub_step.read_end[of "sub_init [Item_shard dflt_Shard]" logging w] by (simp add: sub_init_def)
  moreover have "sub_step logging w \<lparr>phase = Finishing, finishes = 0, user = [Item_shard dflt_Shard]\<rparr>
      (Ev_finish True)
      \<lparr>phase = (if w then Reading else Returned True), finishes = 1, user = [Item_shard dflt_Shard]\<rparr>"
    using sub_step.finish[of "\<lparr>phase = Finishing, finishes = 0, user = [Item_shard dflt_Shard]\<rparr>"
        logging w True] by simp
  ultimately have "sub_run logging w (sub_init [])
      ([Ev_read (Item_shard dflt_Shard)] @ [Ev_end] @ [Ev_finish True])
      \<lparr>phase = (if w then Reading else Returned True), finishes = 1, user = [Item_shard dflt_Shard]\<rparr>"
    by (intro sub_run_trans[OF sub_run_one] sub_run_one)
  then show ?thesis by simp
qed

text \<open>
  C21. At any point of a subscription by the C interface, call by call on the reader: the user data
  is what the callbacks made of the structures of the items read so far, each passed to the
  callback of its type, once and in order; \<^verbatim>\<open>Finish\<close> was called once for every end of a stream,
  but the one at hand; the loop returns on the first status that is an error and on no other,
  never with success, and calls nothing afterwards.
\<close>

theorem subscription_events:
  assumes "sub_run (wrapper_notify nc_ord sh_ord s) True (sub_init u) es st"
  shows "user st = fold (received nc_ord sh_ord s) (items_read es) u \<and>
    count_list es Ev_end = finishes st + (if phase st = Finishing then 1 else 0) \<and>
    (phase st = Returned False \<longleftrightarrow> Ev_finish False \<in> set es) \<and> phase st \<noteq> Returned True \<and>
    Ev_finish False \<notin> set (butlast es)"
proof -
  have "user st = fold (received nc_ord sh_ord s) (items_read es) u"
    using sub_run_notified[OF assms] by (simp add: notify_items_wrapper sub_init_def)
  with sub_run_statuses[OF assms refl] show ?thesis by blast
qed

text \<open>A callback that notes the names of shards, and one that ignores service gateways.\<close>

definition shard_names :: "string list UpsfSubscriberWrapper" where
  "shard_names = \<lparr>shard_cb = Some (\<lambda>c names. (1, names @ [p_string (c_sh_name c)])),
     session_context_cb = None, network_connection_cb = None, service_gateway_user_plane_cb = None,
     traffic_steering_function_cb = None, service_gateway_cb = Some (\<lambda>c names. (0, names))\<rparr>"

definition demo_events :: "sub_event list" where
  "demo_events = events_of True [([Item_shard (dflt_Shard\<lparr>sh_name := ''a''\<rparr>), Item_service_gateway dflt_ServiceGateway], True),
     ([Item_shard (dflt_Shard\<lparr>sh_name := ''b''\<rparr>)], False)]"

lemma subscription_events_witness:
  "\<exists>st. sub_run (wrapper_notify sorted_list_of_fmap sorted_list_of_fmap shard_names) True (sub_init []) demo_events st \<and>
    user st = [''a'', ''b''] \<and> finishes st = 2 \<and> phase st = Returned False"
proof -
  let ?nt = "wrapper_notify sorted_list_of_fmap sorted_list_of_fmap shard_names"
  let ?rs = "[([Item_shard (dflt_Shard\<lparr>sh_name := ''a''\<rparr>), Item_service_gateway dflt_ServiceGateway], True),
     ([Item_shard (dflt_Shard\<lparr>sh_name := ''b''\<rparr>)], False)]"
  have "serve_rounds ?nt True ?rs (user (sub_init [])) = Some (Some False,
      fold (received sorted_list_of_fmap sorted_list_of_fmap shard_names) (delivered True ?rs) [])"
    by (simp add: notify_item_wrapper sub_init_def)
  from serve_rounds_run[OF this] obtain st where run: "sub_run ?nt True (sub_init []) demo_events st"
    by (auto simp: demo_events_def sub_init_def)
  have names: "p_string (c_sh_name (c_Shard ord (dflt_Shard\<lparr>sh_name := [x]\<rparr>))) = [x]" if "x \<noteq> NUL" for ord x
    using that by (simp add: c_Shard_def p_string_c_string c_cut_fits fits_string_def UPSF_MAX_STRING_SIZE_def)
  from subscription_events[OF run]
  have "user st = [''a'', ''b''] \<and> finishes st = 2 \<and> phase st = Returned False"
    by (auto simp: demo_events_def items_read_def List.map_filter_def received_def call_back_def shard_names_def names)
  with run show ?thesis by blast
qed

text \<open>
  A subscriber that does not watch calls \<^verbatim>\<open>Finish\<close> once on the reader, right before it
  returns.
\<close>

theorem finish_called_once:
  assumes "sub_run nt False (sub_init u) es s"
  shows "finishes s = (case phase s of Returned _ \<Rightarrow> 1 | _ \<Rightarrow> 0)"
  by (rule sub_run_finish_once[OF assms refl])

lemma finish_called_once_witness:
  "finishes \<lparr>phase = Returned True, finishes = 1, user = [Item_shard dflt_Shard]\<rparr> = 1"
  using finish_called_once[OF logging_run[of False, simplified]] by simp

text \<open>
  C22. The loop as a function of rounds implements the step relation: its result on the
  rounds of a server is reached by the run over the calls on the reader in these rounds.
\<close>

theorem rounds_refine_steps:
  assumes "ReadV1_subscriber nt sub rounds u = Some (r, u')"
  shows "\<exists>req s. subscriber_request sub = Some req \<and>
    sub_run nt (watch sub) (sub_init u) (events_of (watch sub) (rounds req)) s \<and> user s = u' \<and>
    phase s = (case r of None \<Rightarrow> Reading | Some b \<Rightarrow> Returned b)"
proof -
  from assms obtain req where req: "subscriber_request sub = Some req"
    "serve_rounds nt (watch sub) (rounds req) (user (sub_init u)) = Some (r, u')"
    by (auto simp: ReadV1_subscriber_def bind_eq_Some_conv sub_init_def)
  with serve_rounds_run[OF req(2)] show ?thesis by (simp add: sub_init_def)
qed

lemma rounds_refine_steps_witness:
  "\<exists>s. sub_run logging False (sub_init []) (events_of False [([Item_shard dflt_Shard], True)]) s \<and>
    phase s = Returned True"
  using rounds_refine_steps[of logging "subscriber_all False" "\<lambda>_. [([Item_shard dflt_Shard], True)]" "[]"
      "Some True" "[Item_shard dflt_Shard]"]
  by (auto simp: ReadV1_subscriber_def subscriber_request_eq subscriber_all_def notify_item_def
      item_shard_def logging_def)

end
