(* ===== verification/Locks.thy ===== *)
theory Locks
  imports Prelude
begin

text \<open>
  The locking of \<^verbatim>\<open>upsf/upsf_c_wrapper.cpp\<close>, interleaved: the shared mutex
  \<^verbatim>\<open>upsf_slots_mutex\<close> over the table of slots, the mutex \<^verbatim>\<open>upsf_slot_mutex\<close> of each slot
  and the \<^verbatim>\<open>stub_mutex\<close> of its client. A state has the program counter of every thread, the
  table (a slot is named by the number of its allocation) and the owners of the mutexes; a step
  is one action of one thread on them. Every operation on items, and the lookup, has the same
  locking: a shared lock, the slot of the calling thread, the mutex of the slot, and around
  the remote call the mutex of the stub; the locks are released in reverse order by the
  destructors. \<^verbatim>\<open>upsf_open\<close> and \<^verbatim>\<open>upsf_close\<close> take the table's mutex exclusively,
  \<^verbatim>\<open>upsf_exists\<close> takes it shared. A close that finds no slot returns early; here it erases
  nothing, under the same lock. Nothing is assumed of the order in which waiting threads
  are served.
\<close>

section \<open>States and steps\<close>

type_synonym tid = "64 word"

datatype pc =
    Idle
  | Call_start            \<comment> \<open>wants \<^verbatim>\<open>rlock\<close>\<close>
  | Call_reading          \<comment> \<open>holds \<^verbatim>\<open>rlock\<close>, looks for the slot\<close>
  | Call_slot nat         \<comment> \<open>has the pointer to the slot, wants \<^verbatim>\<open>slock\<close>\<close>
  | Call_locked nat       \<comment> \<open>holds \<^verbatim>\<open>slock\<close>, maps the request, wants the stub\<close>
  | Call_rpc nat          \<comment> \<open>inside the remote call\<close>
  | Call_reply nat        \<comment> \<open>maps the reply, holds \<^verbatim>\<open>slock\<close>\<close>
  | Call_leave            \<comment> \<open>holds \<^verbatim>\<open>rlock\<close> only\<close>
  | Open_start | Open_writing | Open_leave
  | Close_start | Close_writing | Close_leave
  | Exists_start | Exists_reading

record lock_state =
  pc_of :: "tid \<Rightarrow> pc"
  readers :: "tid set"
  writer :: "tid option"
  table :: "tid \<rightharpoonup> nat"
  next_slot :: nat
  slot_owner :: "nat \<Rightarrow> tid option"
  stub_owner :: "nat \<Rightarrow> tid option"

definition init_locks :: lock_state where
  "init_locks = \<lparr>pc_of = (\<lambda>_. Idle), readers = {}, writer = None, table = Map.empty, next_slot = 0,
     slot_owner = (\<lambda>_. None), stub_owner = (\<lambda>_. None)\<rparr>"

definition goto :: "tid \<Rightarrow> pc \<Rightarrow> lock_state \<Rightarrow> lock_state" where
  "goto t p s = s\<lparr>pc_of := (pc_of s)(t := p)\<rparr>"

inductive lock_step :: "lock_state \<Rightarrow> tid \<Rightarrow> lock_state \<Rightarrow> bool" where
  call: "pc_of s t = Idle \<Longrightarrow> lock_step s t (goto t Call_start s)"
| call_lock: "pc_of s t = Call_start \<Longrightarrow> writer s = None \<Longrightarrow>
     lock_step s t (goto t Call_reading (s\<lparr>readers := insert t (readers s)\<rparr>))"
| call_no_slot: "pc_of s t = Call_reading \<Longrightarrow> table s t = None \<Longrightarrow>
     lock_step s t (goto t Call_leave s)"
| call_slot: "pc_of s t = Call_reading \<Longrightarrow> table s t = Some n \<Longrightarrow>
     lock_step s t (goto t (Call_slot n) s)"
| call_slot_lock: "pc_of s t = Call_slot n \<Longrightarrow> slot_owner s n = None \<Longrightarrow>
     lock_step s t (goto t (Call_locked n) (s\<lparr>slot_owner := (slot_owner s)(n := Some t)\<rparr>))"
| call_stub_lock: "pc_of s t = Call_locked n \<Longrightarrow> stub_owner s n = None \<Longrightarrow>
     lock_step s t (goto t (Call_rpc n) (s\<lparr>stub_owner := (stub_owner s)(n := Some t)\<rparr>))"
| call_rpc: "pc_of s t = Call_rpc n \<Longrightarrow>
     lock_step s t (goto t (Call_reply n) (s\<lparr>stub_owner := (stub_owner s)(n := None)\<rparr>))"
| call_slot_unlock: "pc_of s t = Call_reply n \<Longrightarrow>
     lock_step s t (goto t Call_leave (s\<lparr>slot_owner := (slot_owner s)(n := None)\<rparr>))"
| call_unlock: "pc_of s t = Call_leave \<Longrightarrow>
     lock_step s t (goto t Idle (s\<lparr>readers := readers s - {t}\<rparr>))"
| open_call: "pc_of s t = Idle \<Longrightarrow> lock_step s t (goto t Open_start s)"
| open_lock: "pc_of s t = Open_start \<Longrightarrow> writer s = None \<Longrightarrow> readers s = {} \<Longrightarrow>
     lock_step s t (goto t Open_writing (s\<lparr>writer := Some t\<rparr>))"
| open_new: "pc_of s t = Open_writing \<Longrightarrow> table s t = None \<Longrightarrow>
     lock_step s t (goto t Open_leave
       (s\<lparr>table := (table s)(t \<mapsto> next_slot s), next_slot := next_slot s + 1\<rparr>))"
| open_old: "pc_of s t = Open_writing \<Longrightarrow> table s t = Some n \<Longrightarrow>
     lock_step s t (goto t Open_leave s)"
| open_unlock: "pc_of s t = Open_leave \<Longrightarrow>
     lock_step s t (goto t Idle (s\<lparr>writer := None\<rparr>))"
| close_call: "pc_of s t = Idle \<Longrightarrow> lock_step s t (goto t Close_start s)"
| close_lock: "pc_of s t = Close_start \<Longrightarrow> writer s = None \<Longrightarrow> readers s = {} \<Longrightarrow>
     lock_step s t (goto t Close_writing (s\<lparr>writer := Some t\<rparr>))"
| close_erase: "pc_of s t = Close_writing \<Longrightarrow>
     lock_step s t (goto t Close_leave (s\<lparr>table := (table s)(t := None)\<rparr>))"
| close_unlock: "pc_of s t = Close_leave \<Longrightarrow>
     lock_step s t (goto t Idle (s\<lparr>writer := None\<rparr>))"
| exists_call: "pc_of s t = Idle \<Longrightarrow> lock_step s t (goto t Exists_start s)"
| exists_lock: "pc_of s t = Exists_start \<Longrightarrow> writer s = None \<Longrightarrow>
     lock_step s t (goto t Exists_reading (s\<lparr>readers := insert t (readers s)\<rparr>))"
| exists_unlock: "pc_of s t = Exists_reading \<Longrightarrow>
     lock_step s t (goto t Idle (s\<lparr>readers := readers s - {t}\<rparr>))"

inductive lock_reachable :: "lock_state \<Rightarrow> bool" where
  init: "lock_reachable init_locks"
| step: "lock_reachable s \<Longrightarrow> lock_step s t s' \<Longrightarrow> lock_reachable s'"

section \<open>The invariant\<close>

fun holds_shared :: "pc \<Rightarrow> bool" where
  "holds_shared Call_reading = True"
| "holds_shared (Call_slot _) = True"
| "holds_shared (Call_locked _) = True"
| "holds_shared (Call_rpc _) = True"
| "holds_shared (Call_reply _) = True"
| "holds_shared Call_leave = True"
| "holds_shared Exists_reading = True"
| "holds_shared _ = False"

fun holds_exclusive :: "pc \<Rightarrow> bool" where
  "holds_exclusive Open_writing = True"
| "holds_exclusive Open_leave = True"
| "holds_exclusive Close_writing = True"
| "holds_exclusive Close_leave = True"
| "holds_exclusive _ = False"

text \<open>The slot a thread points to, the slot whose mutex it holds, and whose stub it uses.\<close>

fun slot_of :: "pc \<Rightarrow> nat option" where
  "slot_of (Call_slot n) = Some n"
| "slot_of (Call_locked n) = Some n"
| "slot_of (Call_rpc n) = Some n"
| "slot_of (Call_reply n) = Some n"
| "slot_of _ = None"

fun locked_of :: "pc \<Rightarrow> nat option" where
  "locked_of (Call_locked n) = Some n"
| "locked_of (Call_rpc n) = Some n"
| "locked_of (Call_reply n) = Some n"
| "locked_of _ = None"

fun stub_of :: "pc \<Rightarrow> nat option" where
  "stub_of (Call_rpc n) = Some n"
| "stub_of _ = None"

lemma locked_slot: "locked_of p = Some n \<Longrightarrow> slot_of p = Some n"
  by (cases p) simp_all

lemma stub_slot: "stub_of p = Some n \<Longrightarrow> slot_of p = Some n"
  by (cases p) simp_all

definition inv_readers :: "lock_state \<Rightarrow> bool" where
  "inv_readers s \<longleftrightarrow> (\<forall>t. t \<in> readers s \<longleftrightarrow> holds_shared (pc_of s t))"

definition inv_writer :: "lock_state \<Rightarrow> bool" where
  "inv_writer s \<longleftrightarrow> (\<forall>t. writer s = Some t \<longleftrightarrow> holds_exclusive (pc_of s t))"

definition inv_exclusion :: "lock_state \<Rightarrow> bool" where
  "inv_exclusion s \<longleftrightarrow> (writer s \<noteq> None \<longrightarrow> readers s = {})"

definition inv_slot :: "lock_state \<Rightarrow> bool" where
  "inv_slot s \<longleftrightarrow> (\<forall>t n. slot_of (pc_of s t) = Some n \<longrightarrow> table s t = Some n)"

definition inv_table :: "lock_state \<Rightarrow> bool" where
  "inv_table s \<longleftrightarrow> (\<forall>t n. table s t = Some n \<longrightarrow> n < next_slot s) \<and>
     (\<forall>t t' n. table s t = Some n \<longrightarrow> table s t' = Some n \<longrightarrow> t = t')"

definition inv_owners :: "lock_state \<Rightarrow> bool" where
  "inv_owners s \<longleftrightarrow> (\<forall>n t. slot_owner s n = Some t \<longleftrightarrow> locked_of (pc_of s t) = Some n) \<and>
     (\<forall>n t. stub_owner s n = Some t \<longleftrightarrow> stub_of (pc_of s t) = Some n)"

lemmas inv_defs = inv_readers_def inv_writer_def inv_exclusion_def inv_slot_def inv_table_def
  inv_owners_def

lemma goto_simps [simp]:
  "pc_of (goto t p s) = (pc_of s)(t := p)" "readers (goto t p s) = readers s"
  "writer (goto t p s) = writer s" "table (goto t p s) = table s"
  "next_slot (goto t p s) = next_slot s" "slot_owner (goto t p s) = slot_owner s"
  "stub_owner (goto t p s) = stub_owner s"
  by (simp_all add: goto_def)

lemma step_readers: "lock_step s t s' \<Longrightarrow> inv_readers s \<Longrightarrow> inv_readers s'"
  by (cases rule: lock_step.cases) (auto simp: inv_readers_def split: if_splits)

lemma step_writer:
  "lock_step s t s' \<Longrightarrow> inv_writer s \<Longrightarrow> inv_writer s'"
  by (cases rule: lock_step.cases) (auto simp: inv_writer_def split: if_splits,
      (metis holds_exclusive.simps(2,4) option.inject)+)

lemma step_exclusion: "lock_step s t s' \<Longrightarrow> inv_exclusion s \<Longrightarrow> inv_exclusion s'"
  by (cases rule: lock_step.cases) (auto simp: inv_exclusion_def)

lemma step_slot:
  assumes "lock_step s t s'" and "inv_slot s"
  shows "inv_slot s'"
  using assms by cases (auto simp: inv_slot_def split: if_splits)

lemma step_table:
  assumes "lock_step s t s'" and inv: "inv_table s"
  shows "inv_table s'"
  using assms(1)
proof cases
  case open_new
  from inv have "table s t' \<noteq> Some (next_slot s)" for t'
    unfolding inv_table_def by blast
  with open_new inv show ?thesis by (auto simp: inv_table_def less_Suc_eq)
qed (use inv in \<open>auto simp: inv_table_def split: if_splits\<close>)

lemma step_owners: "lock_step s t s' \<Longrightarrow> inv_owners s \<Longrightarrow> inv_owners s'"
  by (cases rule: lock_step.cases)
    (auto simp: inv_owners_def split: if_splits,
      (metis locked_of.simps(3) stub_of.simps(1) option.distinct(1) option.inject)+)

definition lock_inv :: "lock_state \<Rightarrow> bool" where
  "lock_inv s \<longleftrightarrow> inv_readers s \<and> inv_writer s \<and> inv_exclusion s \<and> inv_slot s \<and> inv_table s \<and>
     inv_owners s"

lemma lock_inv_init: "lock_inv init_locks"
  by (simp add: lock_inv_def inv_defs init_locks_def)

lemma lock_inv_step: "lock_step s t s' \<Longrightarrow> lock_inv s \<Longrightarrow> lock_inv s'"
  by (simp add: lock_inv_def step_readers step_writer step_exclusion step_slot step_table step_owners)

lemma lock_inv_reachable: "lock_reachable s \<Longrightarrow> lock_inv s"
  by (induction rule: lock_reachable.induct) (auto intro: lock_inv_init lock_inv_step)

section \<open>Consequences\<close>

text \<open>A thread that holds the table exclusively is alone.\<close>

lemma lock_exclusive:
  assumes "lock_inv s" and "holds_exclusive (pc_of s t)" and "t' \<noteq> t"
  shows "\<not> holds_shared (pc_of s t') \<and> \<not> holds_exclusive (pc_of s t')"
proof -
  from assms(1,2) have w: "writer s = Some t" and "readers s = {}"
    by (auto simp: lock_inv_def inv_writer_def inv_exclusion_def)
  with assms(1,3) show ?thesis
    by (metis empty_iff inv_readers_def inv_writer_def lock_inv_def option.inject)
qed

text \<open>While some thread has the lock on the table, shared, no step of any thread changes the table.\<close>

lemma lock_frozen:
  assumes "lock_inv s" and "holds_shared (pc_of s t)" and "lock_step s t' s'"
  shows "table s' = table s"
proof -
  have "\<not> holds_exclusive (pc_of s t')"
    using lock_exclusive[OF assms(1), of t' t] assms(2) by (cases "t = t'"; cases "pc_of s t'") auto
  with assms(3) show ?thesis by cases simp_all
qed

text \<open>The slot that a thread points to is its own.\<close>

lemma slot_valid:
  "lock_inv s \<Longrightarrow> slot_of (pc_of s t) = Some n \<Longrightarrow> table s t = Some n"
  by (simp add: lock_inv_def inv_slot_def)

lemma slot_private:
  assumes "lock_inv s" and "slot_of (pc_of s t) = Some n" and "slot_of (pc_of s t') = Some n"
  shows "t = t'"
  using assms slot_valid[OF assms(1,2)] slot_valid[OF assms(1,3)]
  by (auto simp: lock_inv_def inv_table_def)

text \<open>So the mutexes of the slot and of the stub are always free when a thread wants them.\<close>

lemma slot_mutex_free:
  assumes inv: "lock_inv s" and pc: "pc_of s t = Call_slot n"
  shows "slot_owner s n = None"
proof (rule ccontr)
  assume "slot_owner s n \<noteq> None"
  then obtain t' where "slot_owner s n = Some t'" by auto
  with inv have locked: "locked_of (pc_of s t') = Some n"
    by (auto simp: lock_inv_def inv_owners_def)
  then have "slot_of (pc_of s t') = Some n" by (rule locked_slot)
  with slot_private[OF inv, of t n t'] pc have "t' = t" by simp
  with locked pc show False by simp
qed

lemma stub_mutex_free:
  assumes inv: "lock_inv s" and pc: "pc_of s t = Call_locked n"
  shows "stub_owner s n = None"
proof (rule ccontr)
  assume "stub_owner s n \<noteq> None"
  then obtain t' where "stub_owner s n = Some t'" by auto
  with inv have stub: "stub_of (pc_of s t') = Some n"
    by (auto simp: lock_inv_def inv_owners_def)
  then have "slot_of (pc_of s t') = Some n" by (rule stub_slot)
  with slot_private[OF inv, of t n t'] pc have "t' = t" by simp
  with stub pc show False by simp
qed

section \<open>Progress\<close>

text \<open>Only the table's mutex makes a thread wait.\<close>

definition waits :: "pc \<Rightarrow> bool" where
  "waits p \<longleftrightarrow> p \<in> {Call_start, Open_start, Close_start, Exists_start}"

lemma not_waiting_steps:
  assumes inv: "lock_inv s" and "pc_of s t \<noteq> Idle" and "\<not> waits (pc_of s t)"
  shows "\<exists>s'. lock_step s t s'"
proof (cases "pc_of s t")
  case Call_reading
  then show ?thesis by (cases "table s t") (auto intro: call_no_slot call_slot)
next
  case (Call_slot n)
  with slot_mutex_free[OF inv this] show ?thesis by (auto intro: call_slot_lock)
next
  case (Call_locked n)
  with stub_mutex_free[OF inv this] show ?thesis by (auto intro: call_stub_lock)
next
  case Open_writing
  then show ?thesis by (cases "table s t") (auto intro: open_new open_old)
qed (use assms in \<open>auto simp: waits_def intro: lock_step.intros\<close>)

text \<open>When some thread is inside an operation, some thread inside an operation can go on.\<close>

lemma lock_progress:
  assumes inv: "lock_inv s" and busy: "pc_of s t \<noteq> Idle"
  shows "\<exists>t' s'. pc_of s t' \<noteq> Idle \<and> lock_step s t' s'"
proof (cases "writer s = None \<and> readers s = {}")
  case True
  then show ?thesis
    using not_waiting_steps[OF inv busy] busy
    by (auto simp: waits_def intro: call_lock open_lock close_lock exists_lock)
next
  case False
  then obtain t' where "holds_shared (pc_of s t') \<or> holds_exclusive (pc_of s t')"
    using inv unfolding lock_inv_def inv_readers_def inv_writer_def by (meson equals0I not_Some_eq)
  then have "pc_of s t' \<noteq> Idle" "\<not> waits (pc_of s t')"
    by (cases "pc_of s t'"; simp add: waits_def)+
  with not_waiting_steps[OF inv] show ?thesis by blast
qed

text \<open>How many steps an operation has left at most.\<close>

fun steps_left :: "pc \<Rightarrow> nat" where
  "steps_left Idle = 0"
| "steps_left Call_start = 7"
| "steps_left Call_reading = 6"
| "steps_left (Call_slot _) = 5"
| "steps_left (Call_locked _) = 4"
| "steps_left (Call_rpc _) = 3"
| "steps_left (Call_reply _) = 2"
| "steps_left Call_leave = 1"
| "steps_left Open_start = 3"
| "steps_left Open_writing = 2"
| "steps_left Open_leave = 1"
| "steps_left Close_start = 3"
| "steps_left Close_writing = 2"
| "steps_left Close_leave = 1"
| "steps_left Exists_start = 2"
| "steps_left Exists_reading = 1"

lemma steps_left_decrease:
  assumes "lock_step s t s'" and "pc_of s t \<noteq> Idle"
  shows "steps_left (pc_of s' t) < steps_left (pc_of s t)"
  using assms by cases simp_all

lemma step_frame: "lock_step s t s' \<Longrightarrow> t' \<noteq> t \<Longrightarrow> pc_of s' t' = pc_of s t'"
  by (erule lock_step.cases) simp_all

lemma steps_left_0: "steps_left p = 0 \<longleftrightarrow> p = Idle"
  by (cases p) simp_all

inductive lock_run :: "lock_state \<Rightarrow> lock_state \<Rightarrow> bool" where
  run_refl: "lock_run s s"
| run_step: "lock_step s t s' \<Longrightarrow> pc_of s t \<noteq> Idle \<Longrightarrow> lock_run s' s'' \<Longrightarrow> lock_run s s''"

text \<open>
  Without new calls, the threads inside operations come to their ends, whatever the order
  of the steps so far.
\<close>

lemma lock_drain:
  assumes "lock_inv s" and "finite T" and "\<And>t. t \<notin> T \<Longrightarrow> pc_of s t = Idle"
  shows "\<exists>s'. lock_run s s' \<and> (\<forall>t. pc_of s' t = Idle)"
  using assms(1,3)
proof (induction "\<Sum>t\<in>T. steps_left (pc_of s t)" arbitrary: s rule: less_induct)
  case less
  show ?case
  proof (cases "\<forall>t. pc_of s t = Idle")
    case False
    with lock_progress[OF less.prems(1)] obtain t s1
      where busy: "pc_of s t \<noteq> Idle" and step: "lock_step s t s1" by blast
    then have t: "t \<in> T" using less.prems(2) by blast
    have "(\<Sum>t\<in>T. steps_left (pc_of s1 t)) < (\<Sum>t\<in>T. steps_left (pc_of s t))"
      by (rule sum_strict_mono_ex1[OF assms(2)])
        (use t steps_left_decrease[OF step busy] step_frame[OF step] in \<open>auto, metis less_imp_le order_refl\<close>)
    moreover have "pc_of s1 t' = Idle" if "t' \<notin> T" for t'
      using that t less.prems(2) step_frame[OF step] by metis
    ultimately obtain s' where "lock_run s1 s'" "\<forall>t. pc_of s' t = Idle"
      using less.hyps[OF _ lock_inv_step[OF step less.prems(1)]] by blast
    with run_step[OF step busy] show ?thesis by blast
  qed (auto intro: run_refl)
qed

section \<open>An example\<close>

text \<open>An opening and the beginning of a call of the thread 1, step by step.\<close>

definition demo_start :: lock_state where
  "demo_start = goto 1 Open_start init_locks"

definition demo_writing :: lock_state where
  "demo_writing = goto 1 Open_writing (demo_start\<lparr>writer := Some 1\<rparr>)"

definition demo_leaving :: lock_state where
  "demo_leaving = goto 1 Open_leave (demo_writing\<lparr>table := (table demo_writing)(1 \<mapsto> next_slot demo_writing),
     next_slot := next_slot demo_writing + 1\<rparr>)"

definition demo_open :: lock_state where
  "demo_open = goto 1 Idle (demo_leaving\<lparr>writer := None\<rparr>)"

definition demo_call :: lock_state where
  "demo_call = goto 1 Call_start demo_open"

definition demo_reading :: lock_state where
  "demo_reading = goto 1 Call_reading (demo_call\<lparr>readers := insert 1 (readers demo_call)\<rparr>)"

definition demo_slot :: lock_state where
  "demo_slot = goto 1 (Call_slot 0) demo_reading"

lemmas demo_defs = demo_start_def demo_writing_def demo_leaving_def demo_open_def demo_call_def
  demo_reading_def demo_slot_def init_locks_def

lemma demo_writing_reachable: "lock_reachable demo_writing"
proof -
  have "lock_step init_locks 1 demo_start"
    unfolding demo_start_def by (rule lock_step.open_call) (simp add: init_locks_def)
  moreover have "lock_step demo_start 1 demo_writing"
    unfolding demo_writing_def by (rule lock_step.open_lock) (simp_all add: demo_defs)
  ultimately show ?thesis by (blast intro: lock_reachable.intros)
qed

lemma demo_reading_reachable: "lock_reachable demo_reading"
proof -
  have 1: "lock_step demo_writing 1 demo_leaving"
    unfolding demo_leaving_def by (rule lock_step.open_new) (simp_all add: demo_defs)
  have 2: "lock_step demo_leaving 1 demo_open"
    unfolding demo_open_def by (rule lock_step.open_unlock) (simp add: demo_defs)
  have 3: "lock_step demo_open 1 demo_call"
    unfolding demo_call_def by (rule lock_step.call) (simp add: demo_defs)
  have 4: "lock_step demo_call 1 demo_reading"
    unfolding demo_reading_def by (rule lock_step.call_lock) (simp_all add: demo_defs)
  note reach = lock_reachable.step[OF demo_writing_reachable 1]
  note reach = lock_reachable.step[OF lock_reachable.step[OF reach 2] 3]
  show ?thesis by (rule lock_reachable.step[OF reach 4])
qed

lemma demo_slot_reachable: "lock_reachable demo_slot"
proof (rule lock_reachable.step[OF demo_reading_reachable])
  show "lock_step demo_reading 1 demo_slot"
    unfolding demo_slot_def by (rule lock_step.call_slot) (simp_all add: demo_defs)
qed

lemma demo_pc: "pc_of demo_writing 1 = Open_writing" "pc_of demo_slot 1 = Call_slot 0"
  by (simp_all add: demo_writing_def demo_slot_def)

section \<open>Properties\<close>

text \<open>
  C19. In every reachable state, while a thread is inside the exclusive part of open or close no
  other thread is inside an operation that holds the lock on the table of slots.
\<close>

theorem table_exclusive:
  assumes "lock_reachable s" and "holds_exclusive (pc_of s t)" and "t' \<noteq> t"
  shows "\<not> holds_shared (pc_of s t') \<and> \<not> holds_exclusive (pc_of s t')"
  by (rule lock_exclusive[OF lock_inv_reachable[OF assms(1)] assms(2,3)])

lemma table_exclusive_witness: "\<not> holds_shared (pc_of demo_writing 2)"
  using table_exclusive[OF demo_writing_reachable, of 1 2] by (simp add: demo_pc)

text \<open>
  C18. As long as a call of some thread holds the lock on the table of slots, nothing that any
  thread does changes the table, neither its own entries nor those of others: the pointer that the
  call found in it stays valid to the end of the call.
\<close>

theorem table_frozen:
  assumes "lock_reachable s"
    and "(\<lambda>s s'. holds_shared (pc_of s t) \<and> (\<exists>t'. lock_step s t' s'))\<^sup>*\<^sup>* s s'"
  shows "table s' = table s \<and> (\<forall>n. slot_of (pc_of s' t) = Some n \<longrightarrow> table s t = Some n)"
proof -
  from assms(2) have "lock_reachable s' \<and> table s' = table s"
  proof (induction rule: rtranclp_induct)
    case base
    with assms(1) show ?case by simp
  next
    case (step s1 s2)
    then obtain t' where t': "lock_step s1 t' s2" and "holds_shared (pc_of s1 t)" by blast
    with step.IH lock_frozen[OF lock_inv_reachable] show ?case by (metis lock_reachable.step)
  qed
  then show ?thesis using slot_valid[OF lock_inv_reachable, of s' t] by simp
qed

lemma table_frozen_witness:
  "table (goto 2 Open_start demo_slot) = table demo_reading \<and> pc_of (goto 2 Open_start demo_slot) 1 = Call_slot 0"
proof -
  let ?R = "\<lambda>s s'. holds_shared (pc_of s 1) \<and> (\<exists>t'. lock_step s t' s')"
  have "lock_step demo_reading 1 demo_slot"
    unfolding demo_slot_def by (rule lock_step.call_slot) (simp_all add: demo_defs)
  then have 1: "?R demo_reading demo_slot" by (auto simp: demo_defs)
  have "lock_step demo_slot 2 (goto 2 Open_start demo_slot)"
    by (rule lock_step.open_call) (simp add: demo_defs)
  then have 2: "?R demo_slot (goto 2 Open_start demo_slot)" by (auto simp: demo_pc)
  have "?R\<^sup>*\<^sup>* demo_reading (goto 2 Open_start demo_slot)"
    by (rule rtranclp.rtrancl_into_rtrancl[where r = ?R, OF r_into_rtranclp[where r = ?R, OF 1] 2])
  from table_frozen[OF demo_reading_reachable this] show ?thesis by (simp add: demo_pc)
qed

text \<open>
  In every reachable state the mutex of a slot is free when a thread is about to lock it,
  and so is the mutex of its stub: as each thread has a slot of its own, they are never
  contended, and two calls on the same slot cannot overlap.
\<close>

theorem private_mutexes_free:
  assumes "lock_reachable s" and "slot_of (pc_of s t) = Some n"
  shows "(pc_of s t = Call_slot n \<longrightarrow> slot_owner s n = None) \<and>
    (pc_of s t = Call_locked n \<longrightarrow> stub_owner s n = None) \<and>
    (slot_of (pc_of s t') = Some n \<longrightarrow> t' = t)"
  using lock_inv_reachable[OF assms(1)] slot_mutex_free stub_mutex_free slot_private assms(2) by blast

lemma private_mutexes_free_witness: "slot_owner demo_slot 0 = None"
  using private_mutexes_free[OF demo_slot_reachable, of 1 0 1] by (simp add: demo_pc)

text \<open>
  C17. In every reachable state in which some thread is inside an operation, some thread inside
  an operation can take its next step: the locks cannot deadlock.
\<close>

theorem no_deadlock:
  assumes "lock_reachable s" and "pc_of s t \<noteq> Idle"
  shows "\<exists>t' s'. pc_of s t' \<noteq> Idle \<and> lock_step s t' s'"
  by (rule lock_progress[OF lock_inv_reachable[OF assms(1)] assms(2)])

lemma no_deadlock_witness: "\<exists>t' s'. pc_of demo_slot t' \<noteq> Idle \<and> lock_step demo_slot t' s'"
  by (rule no_deadlock[OF demo_slot_reachable, of 1]) (simp add: demo_pc)

text \<open>
  C20. From every reachable state with finitely many threads inside operations, steps of these
  threads alone lead to a state with all threads outside: every operation can be brought to its
  end, provided the remote calls return.
\<close>

theorem operations_end:
  assumes "lock_reachable s" and "finite {t. pc_of s t \<noteq> Idle}"
  shows "\<exists>s'. lock_run s s' \<and> (\<forall>t. pc_of s' t = Idle)"
  by (rule lock_drain[OF lock_inv_reachable[OF assms(1)] assms(2)]) simp

lemma operations_end_witness: "\<exists>s'. lock_run demo_slot s' \<and> (\<forall>t. pc_of s' t = Idle)"
proof -
  have "{t. pc_of demo_slot t \<noteq> Idle} \<subseteq> {1}" by (auto simp: demo_defs)
  then have "finite {t. pc_of demo_slot t \<noteq> Idle}" by (rule finite_subset) simp
  from operations_end[OF demo_slot_reachable this] show ?thesis .
qed

end
