(* ===== verification/Streams.thy ===== *)
theory Streams
  imports Wrapper
begin

text \<open>
  The printers of \<^verbatim>\<open>upsf/upsf_stream.hpp\<close> and the dump functions of
  \<^verbatim>\<open>upsf/upsf_c_wrapper.cpp\<close> that copy what they print. \<open>X_stream\<close> is what
  \<^verbatim>\<open>os << XStream(x)\<close> appends to \<open>os\<close>. Printers that look up a name are partial, as the
  look-up reads before the table for a negative number. \<open>time_string\<close> is
  \<^verbatim>\<open>google::protobuf::util::TimeUtil::ToString\<close>, and \<open>ord\<close> the iteration order of a map. The
  streams are without format flags, so that a boolean prints as 0 or 1.
\<close>

section \<open>Loops\<close>

text \<open>\<^verbatim>\<open>for (int i = 0; i < n; i++) os << "[" << i << "]" << x(i) << ", ";\<close>\<close>

fun indexed :: "nat \<Rightarrow> ('a \<Rightarrow> string) \<Rightarrow> 'a list \<Rightarrow> string" where
  "indexed i f [] = []"
| "indexed i f (x # xs) = ''['' @ decimal i @ '']'' @ f x @ '', '' @ indexed (i + 1) f xs"

text \<open>\<^verbatim>\<open>for (auto it : m) os << it.first.c_str() << ":" << it.second << ", ";\<close>\<close>

fun entries :: "('v \<Rightarrow> string) \<Rightarrow> (string \<times> 'v) list \<Rightarrow> string" where
  "entries f [] = []"
| "entries f ((k, v) # es) = c_str k @ '':'' @ f v @ '', '' @ entries f es"

section \<open>Metadata, maintenance and endpoints\<close>

definition MetaData_stream :: "(Timestamp \<Rightarrow> string) \<Rightarrow> MetaData \<Rightarrow> string ub" where
  "MetaData_stream time_string s = do {
     let os = ''MetaData('';
     let os = os @ ''desc='' @ c_str (md_description s) @ '', '';
     n \<leftarrow> upsf_derived_state_to_name (md_derived_state s);
     let os = os @ ''DerivedState='' @ n @ '', '';
     let os = os @ ''created='' @ time_string (sub_msg (0, 0) (md_created s)) @ '', '';
     let os = os @ ''last_updated='' @ time_string (sub_msg (0, 0) (md_last_updated s));
     Some (os @ '')'')
   }"

definition Maintenance_stream :: "Maintenance \<Rightarrow> string ub" where
  "Maintenance_stream s = do {
     let os = ''Maintenance('';
     n \<leftarrow> upsf_maintenance_req_to_name (mt_maintenance_req s);
     let os = os @ ''req='' @ n;
     Some (os @ '')'')
   }"

definition Vtep_stream :: "Vtep \<Rightarrow> string" where
  "Vtep_stream s = ''Vtep('' @
     ''ip_address='' @ c_str (vt_ip_address s) @ '', '' @
     ''udp_port='' @ show_int (vt_udp_port s) @ '', '' @
     ''vni='' @ show_int (vt_vni s) @
     '')''"

definition PortVlan_stream :: "PortVlan \<Rightarrow> string" where
  "PortVlan_stream s = ''PortVlan('' @
     ''logical_port='' @ c_str (pv_logical_port s) @ '', '' @
     ''svlan='' @ show_int (pv_svlan s) @ '', '' @
     ''cvlan='' @ show_int (pv_cvlan s) @
     '')''"

definition L2vpn_stream :: "L2vpn \<Rightarrow> string" where
  "L2vpn_stream s = ''L2vpn('' @ ''vpn_id='' @ show_int (l2_vpn_id s) @ '')''"

definition Endpoint_stream :: "Endpoint \<Rightarrow> string" where
  "Endpoint_stream s = ''Endpoint('' @
     ''name='' @ c_str (ep_endpoint_name s) @ '', '' @
     (case ep_transport s of
        TE_vtep v \<Rightarrow> Vtep_stream v
      | TE_l2vpn v \<Rightarrow> L2vpn_stream v
      | TE_port_vlan v \<Rightarrow> PortVlan_stream v
      | TE_not_set \<Rightarrow> []) @
     '')''"

section \<open>Network connection\<close>

definition SsPtpSpec_stream :: "SsPtpSpec \<Rightarrow> string" where
  "SsPtpSpec_stream s = ''SsPtpSpec('' @
     ''SgUpEndpoints('' @ indexed 0 Endpoint_stream (ssp_sgup_endpoint s) @ ''), '' @
     ''TsfEndpoint('' @ Endpoint_stream (sub_msg dflt_Endpoint (ssp_tsf_endpoint s)) @ '')'' @
     '')''"

definition SsMptpSpec_stream :: "SsMptpSpec \<Rightarrow> string" where
  "SsMptpSpec_stream s = ''SsMptpSpec('' @
     ''SgUpEndpoints('' @ indexed 0 Endpoint_stream (ssm_sgup_endpoint s) @ ''), '' @
     ''TsfEndpoints('' @ indexed 0 Endpoint_stream (ssm_tsf_endpoint s) @ '')'' @
     '')''"

definition MsPtpSpec_stream :: "MsPtpSpec \<Rightarrow> string" where
  "MsPtpSpec_stream s = ''MsPtpSpec('' @
     ''SgUpEndpoint('' @ Endpoint_stream (sub_msg dflt_Endpoint (msp_sgup_endpoint s)) @ ''), '' @
     ''TsfEndpoint('' @ Endpoint_stream (sub_msg dflt_Endpoint (msp_tsf_endpoint s)) @ '')'' @
     '')''"

definition MsMptpSpec_stream :: "MsMptpSpec \<Rightarrow> string" where
  "MsMptpSpec_stream s = ''MsMptpSpec('' @
     ''SgUpEndpoint('' @ Endpoint_stream (sub_msg dflt_Endpoint (msm_sgup_endpoint s)) @ ''), '' @
     ''TsfEndpoints('' @ indexed 0 Endpoint_stream (msm_tsf_endpoint s) @ '')'' @
     '')''"

definition NetworkConnectionSpec_stream :: "NetworkConnectionSpec \<Rightarrow> string" where
  "NetworkConnectionSpec_stream s = ''Spec('' @
     ''max_supp_quality='' @ show_int (ncs_maximum_supported_quality s) @ '', '' @
     (case ncs_nc_spec s of
        NC_ss_ptp v \<Rightarrow> ''SsPtp='' @ SsPtpSpec_stream v
      | NC_ss_mptpc v \<Rightarrow> ''SsMptp='' @ SsMptpSpec_stream v
      | NC_ms_ptp v \<Rightarrow> ''MsPtp='' @ MsPtpSpec_stream v
      | NC_ms_mptp v \<Rightarrow> ''MsMptp='' @ MsMptpSpec_stream v
      | NC_not_set \<Rightarrow> []) @
     '')''"

definition NetworkConnectionStatus_stream ::
    "((string, bool) fmap \<Rightarrow> (string \<times> bool) list) \<Rightarrow> NetworkConnectionStatus \<Rightarrow> string" where
  "NetworkConnectionStatus_stream ord s = ''Status('' @
     ''nc_active('' @ entries (\<lambda>b. if b then ''1'' else ''0'') (ord (nct_nc_active s)) @ ''), '' @
     ''allocated_shards='' @ show_int (nct_allocated_shards s) @ '', '' @
     '')''"

definition NetworkConnection_stream ::
    "(Timestamp \<Rightarrow> string) \<Rightarrow> ((string, bool) fmap \<Rightarrow> (string \<times> bool) list) \<Rightarrow> NetworkConnection
      \<Rightarrow> string ub" where
  "NetworkConnection_stream time_string ord s = do {
     let os = ''NetworkConnection('';
     let os = os @ ''name='' @ c_str (nc_name s) @ '', '';
     md \<leftarrow> MetaData_stream time_string (sub_msg dflt_MetaData (nc_metadata s));
     let os = os @ md @ '', '';
     let os = os @ NetworkConnectionSpec_stream (sub_msg dflt_NetworkConnectionSpec (nc_spec s)) @ '', '';
     let os = os @ NetworkConnectionStatus_stream ord (sub_msg dflt_NetworkConnectionStatus (nc_status s));
     Some (os @ '')'')
   }"

section \<open>Traffic steering function, service gateway and user plane\<close>

definition TrafficSteeringFunctionSpec_stream :: "TrafficSteeringFunctionSpec \<Rightarrow> string" where
  "TrafficSteeringFunctionSpec_stream s = ''Spec('' @
     ''default_endpoint='' @ Endpoint_stream (sub_msg dflt_Endpoint (tss_default_endpoint s)) @
     '')''"

definition TrafficSteeringFunction_stream ::
    "(Timestamp \<Rightarrow> string) \<Rightarrow> TrafficSteeringFunction \<Rightarrow> string ub" where
  "TrafficSteeringFunction_stream time_string s = do {
     let os = ''TrafficSteeringFunction('';
     let os = os @ ''name='' @ c_str (tsf_name s) @ '', '';
     md \<leftarrow> MetaData_stream time_string (sub_msg dflt_MetaData (tsf_metadata s));
     let os = os @ md @ '', '';
     let os = os @ TrafficSteeringFunctionSpec_stream (sub_msg dflt_TrafficSteeringFunctionSpec (tsf_spec s));
     Some (os @ '')'')
   }"

definition ServiceGateway_stream :: "(Timestamp \<Rightarrow> string) \<Rightarrow> ServiceGateway \<Rightarrow> string ub" where
  "ServiceGateway_stream time_string s = do {
     let os = ''ServiceGateway('';
     let os = os @ ''name='' @ c_str (sg_name s) @ '', '';
     md \<leftarrow> MetaData_stream time_string (sub_msg dflt_MetaData (sg_metadata s));
     let os = os @ md;
     Some (os @ '')'')
   }"

definition ServiceGatewayUserPlaneSpec_stream :: "ServiceGatewayUserPlaneSpec \<Rightarrow> string" where
  "ServiceGatewayUserPlaneSpec_stream s = ''Spec('' @
     ''max_session_count='' @ show_int (ups_max_session_count s) @ '', '' @
     ''max_shards='' @ show_int (ups_max_shards s) @ '', '' @
     ''SupportedServiceGroup('' @ indexed 0 c_str (ups_supported_service_group s) @ ''), '' @
     ''default_endpoint='' @ Endpoint_stream (sub_msg dflt_Endpoint (ups_default_endpoint s)) @
     '')''"

definition ServiceGatewayUserPlaneStatus_stream :: "ServiceGatewayUserPlaneStatus \<Rightarrow> string" where
  "ServiceGatewayUserPlaneStatus_stream s = ''Status('' @
     ''allocated_session_count='' @ show_int (upt_allocated_session_count s) @ '', '' @
     ''allocated_shards='' @ show_int (upt_allocated_shards s) @
     '')''"

definition ServiceGatewayUserPlane_stream ::
    "(Timestamp \<Rightarrow> string) \<Rightarrow> ServiceGatewayUserPlane \<Rightarrow> string ub" where
  "ServiceGatewayUserPlane_stream time_string s = do {
     let os = ''ServiceGatewayUserPlane('';
     let os = os @ ''name='' @ c_str (up_name s) @ '', '';
     let os = os @ ''sg_name='' @ c_str (up_service_gateway_name s) @ '', '';
     md \<leftarrow> MetaData_stream time_string (sub_msg dflt_MetaData (up_metadata s));
     let os = os @ md @ '', '';
     mt \<leftarrow> Maintenance_stream (sub_msg dflt_Maintenance (up_maintenance s));
     let os = os @ mt @ '', '';
     let os = os @ ServiceGatewayUserPlaneSpec_stream
                (sub_msg dflt_ServiceGatewayUserPlaneSpec (up_spec s)) @ '', '';
     let os = os @ ServiceGatewayUserPlaneStatus_stream
                (sub_msg dflt_ServiceGatewayUserPlaneStatus (up_status s));
     Some (os @ '')'')
   }"

section \<open>Shard\<close>

definition ShardSpecDesiredState_stream :: "ShardSpecDesiredState \<Rightarrow> string" where
  "ShardSpecDesiredState_stream s = ''DesiredState('' @
     ''sgup='' @ c_str (shd_service_gateway_user_plane s) @ '', '' @
     ''NetworkConnection='' @ indexed 0 c_str (shd_network_connection s) @ '')'' @
     '')''"

definition ShardSpec_stream :: "ShardSpec \<Rightarrow> string" where
  "ShardSpec_stream s = ''Spec('' @
     ''max_session_count='' @ show_int (shs_max_session_count s) @ '', '' @
     ''virtual_mac='' @ c_str (shs_virtual_mac s) @ '', '' @
     ShardSpecDesiredState_stream (sub_msg dflt_ShardSpecDesiredState (shs_desired_state s)) @ '', '' @
     ''Prefix='' @ indexed 0 c_str (shs_prefix s) @ '')'' @
     '')''"

definition ShardStatusCurrentState_stream ::
    "((string, string) fmap \<Rightarrow> (string \<times> string) list) \<Rightarrow> ShardStatusCurrentState \<Rightarrow> string" where
  "ShardStatusCurrentState_stream ord s = ''CurrentState('' @
     ''sgup='' @ c_str (shc_service_gateway_user_plane s) @ '', '' @
     ''TsfNetworkConnection='' @ entries c_str (ord (shc_tsf_network_connection s)) @ '')'' @
     '')''"

definition ShardStatus_stream ::
    "((string, string) fmap \<Rightarrow> (string \<times> string) list) \<Rightarrow> ShardStatus \<Rightarrow> string" where
  "ShardStatus_stream ord s = ''Status('' @
     ''allocated_session_count='' @ show_int (sht_allocated_session_count s) @ '', '' @
     ''maximum_allocated_quality='' @ show_int (sht_maximum_allocated_quality s) @ '', '' @
     ShardStatusCurrentState_stream ord (sub_msg dflt_ShardStatusCurrentState (sht_current_state s)) @
     '')''"

definition ShardMbb_stream :: "ShardMbb \<Rightarrow> string ub" where
  "ShardMbb_stream s = do {
     let os = ''Mbb('';
     n \<leftarrow> upsf_mbb_state_to_name (shm_mbb_state s);
     let os = os @ ''State='' @ n;
     Some (os @ '')'')
   }"

definition Shard_stream ::
    "(Timestamp \<Rightarrow> string) \<Rightarrow> ((string, string) fmap \<Rightarrow> (string \<times> string) list) \<Rightarrow> Shard \<Rightarrow> string ub" where
  "Shard_stream time_string ord s = do {
     let os = ''Shard('';
     let os = os @ ''name='' @ c_str (sh_name s) @ '', '';
     md \<leftarrow> MetaData_stream time_string (sub_msg dflt_MetaData (sh_metadata s));
     let os = os @ md @ '', '';
     let os = os @ ShardSpec_stream (sub_msg dflt_ShardSpec (sh_spec s)) @ '', '';
     let os = os @ ShardStatus_stream ord (sub_msg dflt_ShardStatus (sh_status s)) @ '', '';
     mb \<leftarrow> ShardMbb_stream (sub_msg dflt_ShardMbb (sh_mbb s));
     let os = os @ mb;
     Some (os @ '')'')
   }"

section \<open>Session context\<close>

definition SessionFilter_stream :: "SessionFilter \<Rightarrow> string" where
  "SessionFilter_stream s = ''SessionFilter('' @
     ''smac='' @ c_str (sf_source_mac_address s) @ '', '' @
     ''svlan='' @ show_int (sf_svlan s) @ '', '' @
     ''cvlan='' @ show_int (sf_cvlan s) @
     '')''"

definition SessionContextSpecDesiredState_stream :: "SessionContextSpecDesiredState \<Rightarrow> string" where
  "SessionContextSpecDesiredState_stream s = ''DesiredState('' @
     ''shard='' @ c_str (scd_shard s) @ '', '' @
     '')''"

definition SessionContextSpec_stream :: "SessionContextSpec \<Rightarrow> string" where
  "SessionContextSpec_stream s = ''Spec('' @
     ''tsf='' @ c_str (scs_traffic_steering_function s) @ '', '' @
     ''RequiredServiceGroup('' @ indexed 0 c_str (scs_required_service_group s) @ ''), '' @
     ''required_quality='' @ show_int (scs_required_quality s) @ '', '' @
     ''circuit_id='' @ c_str (scs_circuit_id s) @ '', '' @
     ''remote_id='' @ c_str (scs_remote_id s) @ '', '' @
     SessionFilter_stream (sub_msg dflt_SessionFilter (scs_session_filter s)) @ '', '' @
     SessionContextSpecDesiredState_stream
       (sub_msg dflt_SessionContextSpecDesiredState (scs_desired_state s)) @
     '')''"

definition SessionContextStatusCurrentState_stream :: "SessionContextStatusCurrentState \<Rightarrow> string" where
  "SessionContextStatusCurrentState_stream s = ''CurrentState('' @
     ''up_shard='' @ c_str (scc_user_plane_shard s) @ '', '' @
     ''tsf_shard='' @ c_str (scc_tsf_shard s) @ '', '' @
     '')''"

definition SessionContextStatus_stream :: "SessionContextStatus \<Rightarrow> string" where
  "SessionContextStatus_stream s = ''Status('' @
     SessionContextStatusCurrentState_stream
       (sub_msg dflt_SessionContextStatusCurrentState (sct_current_state s)) @
     '')''"

definition SessionContext_stream :: "(Timestamp \<Rightarrow> string) \<Rightarrow> SessionContext \<Rightarrow> string ub" where
  "SessionContext_stream time_string s = do {
     let os = ''SessionContext('';
     let os = os @ ''name='' @ c_str (sc_name s) @ '', '';
     md \<leftarrow> MetaData_stream time_string (sub_msg dflt_MetaData (sc_metadata s));
     let os = os @ md @ '', '';
     let os = os @ SessionContextSpec_stream (sub_msg dflt_SessionContextSpec (sc_spec s)) @ '', '';
     let os = os @ SessionContextStatus_stream (sub_msg dflt_SessionContextStatus (sc_status s));
     Some (os @ '')'')
   }"

section \<open>Dump\<close>

text \<open>
  \<^verbatim>\<open>upsf_dump_X(str, size, x)\<close>: the boolean says whether \<open>str\<close> is returned, the rest is
  what \<open>str\<close> points to afterwards.
\<close>

definition dump_item ::
    "('c \<Rightarrow> 'm \<Rightarrow> (bool \<times> 'm) ub) \<Rightarrow> 'm \<Rightarrow> ('m \<Rightarrow> string ub) \<Rightarrow> string option \<Rightarrow> size_t \<Rightarrow> 'c option
      \<Rightarrow> (bool \<times> string option) ub" where
  "dump_item from_c dflt stream str n ptr =
     (case (ptr, str) of
        (Some x, Some buf) \<Rightarrow>
          if n = 0 then Some (False, str)
          else do {
            (_, m) \<leftarrow> from_c x dflt;
            sstr \<leftarrow> stream m;
            buf \<leftarrow> strncpy buf sstr (min (unat n) (length sstr));
            Some (True, Some buf)
          }
      | _ \<Rightarrow> Some (False, str))"

definition upsf_dump_service_gateway ::
    "(Timestamp \<Rightarrow> string) \<Rightarrow> string option \<Rightarrow> size_t \<Rightarrow> upsf_service_gateway_t option
      \<Rightarrow> (bool \<times> string option) ub" where
  "upsf_dump_service_gateway time_string =
     dump_item map_upsf_service_gateway_t dflt_ServiceGateway (ServiceGateway_stream time_string)"

definition upsf_dump_service_gateway_user_plane ::
    "(Timestamp \<Rightarrow> string) \<Rightarrow> string option \<Rightarrow> size_t \<Rightarrow> upsf_service_gateway_user_plane_t option
      \<Rightarrow> (bool \<times> string option) ub" where
  "upsf_dump_service_gateway_user_plane time_string =
     dump_item map_upsf_service_gateway_user_plane_t dflt_ServiceGatewayUserPlane
       (ServiceGatewayUserPlane_stream time_string)"

definition upsf_dump_traffic_steering_function ::
    "(Timestamp \<Rightarrow> string) \<Rightarrow> string option \<Rightarrow> size_t \<Rightarrow> upsf_traffic_steering_function_t option
      \<Rightarrow> (bool \<times> string option) ub" where
  "upsf_dump_traffic_steering_function time_string =
     dump_item map_upsf_traffic_steering_function_t dflt_TrafficSteeringFunction
       (TrafficSteeringFunction_stream time_string)"

definition upsf_dump_network_connection ::
    "(Timestamp \<Rightarrow> string) \<Rightarrow> ((string, bool) fmap \<Rightarrow> (string \<times> bool) list) \<Rightarrow> string option \<Rightarrow> size_t
      \<Rightarrow> upsf_network_connection_t option \<Rightarrow> (bool \<times> string option) ub" where
  "upsf_dump_network_connection time_string ord =
     dump_item map_upsf_network_connection_t dflt_NetworkConnection (NetworkConnection_stream time_string ord)"

definition upsf_dump_shard ::
    "(Timestamp \<Rightarrow> string) \<Rightarrow> ((string, string) fmap \<Rightarrow> (string \<times> string) list) \<Rightarrow> string option \<Rightarrow> size_t
      \<Rightarrow> upsf_shard_t option \<Rightarrow> (bool \<times> string option) ub" where
  "upsf_dump_shard time_string ord =
     dump_item map_upsf_shard_t dflt_Shard (Shard_stream time_string ord)"

definition upsf_dump_session_context ::
    "(Timestamp \<Rightarrow> string) \<Rightarrow> string option \<Rightarrow> size_t \<Rightarrow> upsf_session_context_t option
      \<Rightarrow> (bool \<times> string option) ub" where
  "upsf_dump_session_context time_string =
     dump_item map_upsf_session_context_t dflt_SessionContext (SessionContext_stream time_string)"

section \<open>When printing is defined\<close>

lemma to_name_None:
  "(upsf_derived_state_to_name v = None) = (sint v < 0)"
  "(upsf_maintenance_req_to_name v = None) = (sint v < 0)"
  "(upsf_mbb_state_to_name v = None) = (sint v < 0)"
  by (auto simp: to_name_defs name_limits name_tables Let_def name_at_def arr_get_def)

lemma MetaData_stream_None:
  "(MetaData_stream time_string m = None) = (sint (md_derived_state m) < 0)"
  by (auto simp: MetaData_stream_def bind_eq_None_conv to_name_None)

lemma Maintenance_stream_None:
  "(Maintenance_stream m = None) = (sint (mt_maintenance_req m) < 0)"
  by (auto simp: Maintenance_stream_def bind_eq_None_conv to_name_None)

lemma ShardMbb_stream_None: "(ShardMbb_stream m = None) = (sint (shm_mbb_state m) < 0)"
  by (auto simp: ShardMbb_stream_def bind_eq_None_conv to_name_None)

lemmas stream_None = bind_eq_None_conv MetaData_stream_None Maintenance_stream_None ShardMbb_stream_None

lemma item_stream_None:
  "(ServiceGateway_stream time_string x1 = None)
     = (sint (md_derived_state (sub_msg dflt_MetaData (sg_metadata x1))) < 0)"
  "(ServiceGatewayUserPlane_stream time_string x2 = None)
     = (sint (md_derived_state (sub_msg dflt_MetaData (up_metadata x2))) < 0 \<or>
        sint (mt_maintenance_req (sub_msg dflt_Maintenance (up_maintenance x2))) < 0)"
  "(TrafficSteeringFunction_stream time_string x3 = None)
     = (sint (md_derived_state (sub_msg dflt_MetaData (tsf_metadata x3))) < 0)"
  "(NetworkConnection_stream time_string nc_ord x4 = None)
     = (sint (md_derived_state (sub_msg dflt_MetaData (nc_metadata x4))) < 0)"
  "(Shard_stream time_string sh_ord x5 = None)
     = (sint (md_derived_state (sub_msg dflt_MetaData (sh_metadata x5))) < 0 \<or>
        sint (shm_mbb_state (sub_msg dflt_ShardMbb (sh_mbb x5))) < 0)"
  "(SessionContext_stream time_string x6 = None)
     = (sint (md_derived_state (sub_msg dflt_MetaData (sc_metadata x6))) < 0)"
  by (auto simp: ServiceGateway_stream_def ServiceGatewayUserPlane_stream_def
      TrafficSteeringFunction_stream_def NetworkConnection_stream_def Shard_stream_def
      SessionContext_stream_def Let_def stream_None)

section \<open>What a dump writes\<close>

text \<open>A string printed into a buffer without its terminator.\<close>

definition printed :: "string \<Rightarrow> nat \<Rightarrow> string \<Rightarrow> string" where
  "printed text n buf = take n text @ drop (min n (length text)) buf"

lemma length_printed: "n \<le> length buf \<Longrightarrow> length (printed text n buf) = length buf"
  by (simp add: printed_def)

lemma drop_printed: "drop n (printed text n buf) = drop n buf"
  by (simp add: printed_def min_def)

lemma c_str_append: "NUL \<notin> set s \<Longrightarrow> c_str (s @ t) = s @ c_str t"
  by (auto simp: c_str_def takeWhile_append)

lemma c_str_printed:
  "NUL \<notin> set text \<Longrightarrow> length text \<le> n \<Longrightarrow>
     c_str (printed text n buf) = text @ c_str (drop (length text) buf)"
  by (simp add: printed_def min_def c_str_append)

lemma printed_unterminated:
  "NUL \<notin> set text \<Longrightarrow> length buf = n \<Longrightarrow> n \<le> length text \<Longrightarrow> strlen (printed text n buf) = None"
  by (auto simp: printed_def strlen_def dest: in_set_takeD)

lemma strncpy_printed:
  assumes "n \<le> length buf" and "NUL \<notin> set text"
  shows "strncpy buf text (min n (length text)) = Some (printed text n buf)"
  using assms by (simp add: strncpy_def printed_def min_def)

lemma strncpy_None: "(strncpy buf text k = None) = (length buf < k)"
  by (simp add: strncpy_def Let_def not_le)

context item_mapping begin

lemma dump_item_printed:
  assumes "ok c" and "stream (p_of c dflt) = Some text" and "NUL \<notin> set text"
    and "n \<noteq> 0" and "unat n \<le> length buf"
  shows "dump_item from_c dflt stream (Some buf) n (Some c) = Some (True, Some (printed text (unat n) buf))"
  using assms by (simp add: dump_item_def from_c_eq strncpy_printed)

lemma dump_item_None:
  assumes "ok c" and "n \<noteq> 0" and "unat n \<le> length buf"
  shows "(dump_item from_c dflt stream (Some buf) n (Some c) = None) = (stream (p_of c dflt) = None)"
  using assms by (auto simp: dump_item_def from_c_eq bind_eq_None_conv strncpy_None)

end

lemmas dump_defs = upsf_dump_service_gateway_def upsf_dump_service_gateway_user_plane_def
  upsf_dump_traffic_steering_function_def upsf_dump_network_connection_def upsf_dump_shard_def
  upsf_dump_session_context_def

section \<open>Balance of parentheses\<close>

text \<open>The opening less the closing parentheses of a text.\<close>

definition depth :: "string \<Rightarrow> int" where
  "depth s = (\<Sum>c\<leftarrow>s. if c = CHR ''('' then 1 else if c = CHR '')'' then - 1 else 0)"

definition plain :: "string \<Rightarrow> bool" where
  "plain s \<longleftrightarrow> CHR ''('' \<notin> set s \<and> CHR '')'' \<notin> set s"

lemma depth_simps [simp]:
  "depth [] = 0"
  "depth (c # s) = (if c = CHR ''('' then 1 else if c = CHR '')'' then - 1 else 0) + depth s"
  "depth (s @ t) = depth s + depth t"
  by (simp_all add: depth_def)

lemma depth_plain: "plain s \<Longrightarrow> depth s = 0"
  by (induction s) (auto simp: plain_def)

lemma depth_c_str [simp]: "plain s \<Longrightarrow> depth (c_str s) = 0"
  by (rule depth_plain) (auto simp: plain_def c_str_def dest: set_takeWhileD)

lemma depth_digit: "(n :: nat) < 10 \<Longrightarrow> depth [char_of (48 + n)] = 0"
proof -
  assume "n < 10"
  then have "n = 0 \<or> n = 1 \<or> n = 2 \<or> n = 3 \<or> n = 4 \<or> n = 5 \<or> n = 6 \<or> n = 7 \<or> n = 8 \<or> n = 9"
    by presburger
  then show ?thesis by (elim disjE) (simp_all add: char_of_def)
qed

lemma depth_decimal [simp]: "depth (decimal n) = 0"
proof (induction n rule: decimal.induct)
  case (1 n)
  then show ?case
    using depth_digit[of n] depth_digit[of "n mod 10"]
    by (subst decimal.simps) (auto simp del: depth_simps(2))
qed

lemma depth_show_int [simp]: "depth (show_int i) = 0"
  by (simp add: show_int_def)

lemma depth_indexed [simp]: "(\<And>x. x \<in> set xs \<Longrightarrow> depth (f x) = 0) \<Longrightarrow> depth (indexed i f xs) = 0"
  by (induction xs arbitrary: i) auto

lemma depth_entries [simp]:
  "list_all (\<lambda>(k, v). plain k \<and> depth (f v) = 0) es \<Longrightarrow> depth (entries f es) = 0"
  by (induction f es rule: entries.induct) auto

lemma name_at_mem: "name_at names i = Some n \<Longrightarrow> n \<in> set names"
  by (auto simp: name_at_def arr_get_def split: if_splits)

lemma depth_names [simp]:
  "upsf_derived_state_to_name v = Some n \<Longrightarrow> depth n = 0"
  "upsf_maintenance_req_to_name v = Some n \<Longrightarrow> depth n = 0"
  "upsf_mbb_state_to_name v = Some n \<Longrightarrow> depth n = 0"
  by (auto simp: to_name_defs Let_def name_tables dest!: name_at_mem)

lemma depth_MetaData_stream [simp]:
  assumes "\<And>t. plain (time_string t)" and "plain (md_description m)"
    and "MetaData_stream time_string m = Some os"
  shows "depth os = 0"
proof -
  from assms(3) obtain y where "upsf_derived_state_to_name (md_derived_state m) = Some y"
    and "os = ''MetaData('' @ ''desc='' @ c_str (md_description m) @ '', '' @ ''DerivedState='' @ y @ '', '' @
      ''created='' @ time_string (sub_msg (0, 0) (md_created m)) @ '', '' @
      ''last_updated='' @ time_string (sub_msg (0, 0) (md_last_updated m)) @ '')''"
    unfolding MetaData_stream_def Let_def bind_eq_Some_conv by simp blast
  then show ?thesis using assms(2) by (simp add: depth_plain[OF assms(1)])
qed

lemma depth_ShardMbb_stream [simp]: "ShardMbb_stream m = Some os \<Longrightarrow> depth os = 0"
  by (auto simp: ShardMbb_stream_def bind_eq_Some_conv)

text \<open>The strings of a shard that are printed.\<close>

definition plain_Shard :: "((string, string) fmap \<Rightarrow> (string \<times> string) list) \<Rightarrow> Shard \<Rightarrow> bool" where
  "plain_Shard ord m \<longleftrightarrow>
     (let md = sub_msg dflt_MetaData (sh_metadata m); sp = sub_msg dflt_ShardSpec (sh_spec m);
          ds = sub_msg dflt_ShardSpecDesiredState (shs_desired_state sp);
          cs = sub_msg dflt_ShardStatusCurrentState
                 (sht_current_state (sub_msg dflt_ShardStatus (sh_status m)))
      in plain (sh_name m) \<and> plain (md_description md) \<and> plain (shs_virtual_mac sp) \<and>
         plain (shd_service_gateway_user_plane ds) \<and> list_all plain (shd_network_connection ds) \<and>
         list_all plain (shs_prefix sp) \<and> plain (shc_service_gateway_user_plane cs) \<and>
         list_all (\<lambda>(k, v). plain k \<and> plain v) (ord (shc_tsf_network_connection cs)))"

lemma depth_ShardSpec_stream:
  "plain (shs_virtual_mac sp) \<Longrightarrow> list_all plain (shs_prefix sp) \<Longrightarrow>
   plain (shd_service_gateway_user_plane (sub_msg dflt_ShardSpecDesiredState (shs_desired_state sp))) \<Longrightarrow>
   list_all plain (shd_network_connection (sub_msg dflt_ShardSpecDesiredState (shs_desired_state sp))) \<Longrightarrow>
   depth (ShardSpec_stream sp) = - 2"
  by (simp add: ShardSpec_stream_def ShardSpecDesiredState_stream_def list_all_iff)

lemma depth_ShardStatus_stream:
  "plain (shc_service_gateway_user_plane (sub_msg dflt_ShardStatusCurrentState (sht_current_state st))) \<Longrightarrow>
   list_all (\<lambda>(k, v). plain k \<and> plain v)
     (ord (shc_tsf_network_connection (sub_msg dflt_ShardStatusCurrentState (sht_current_state st)))) \<Longrightarrow>
   depth (ShardStatus_stream ord st) = - 1"
  by (auto simp: ShardStatus_stream_def ShardStatusCurrentState_stream_def 
      list_all_iff intro!: depth_entries) fastforce+

section \<open>Properties\<close>

text \<open>
  C34. Dumping a readable shard whose states are not negative is defined and returns the
  buffer. Let the text be free of NUL. The bytes of the buffer beyond the size are kept, the
  text is cut to the size, and no terminator is written: a buffer of the given size that the text
  fills is no string afterwards, and what a larger buffer held behind the text follows the text.
\<close>

theorem dump_shard_writes:
  assumes "ok_Shard c" and "0 \<le> sint (c_md_derived_state (c_sh_metadata c))"
    and "0 \<le> sint (c_shm_mbb_state (c_sh_mbb c))" and "n \<noteq> 0" and "unat n \<le> length buf"
  shows "\<exists>text. Shard_stream time_string ord (p_Shard c dflt_Shard) = Some text \<and>
    (NUL \<notin> set text \<longrightarrow> (\<exists>buf'.
       upsf_dump_shard time_string ord (Some buf) n (Some c) = Some (True, Some buf') \<and>
       length buf' = length buf \<and> drop (unat n) buf' = drop (unat n) buf \<and>
       take (min (unat n) (length text)) buf' = take (unat n) text \<and>
       (unat n \<le> length text \<and> length buf = unat n \<longrightarrow> strlen buf' = None) \<and>
       (length text \<le> unat n \<longrightarrow> c_str buf' = text @ c_str (drop (length text) buf))))"
proof -
  have "Shard_stream time_string ord (p_Shard c dflt_Shard) \<noteq> None"
    using assms(2,3) by (simp add: item_stream_None p_Shard_def p_MetaData_def p_ShardMbb_def)
  then obtain os where stream: "Shard_stream time_string ord (p_Shard c dflt_Shard) = Some os"
    by blast
  have "upsf_dump_shard time_string ord (Some buf) n (Some c) = Some (True, Some (printed os (unat n) buf))"
    if "NUL \<notin> set os"
    unfolding dump_defs by (rule sh.dump_item_printed) (use assms stream that in auto)
  moreover have "take (min (unat n) (length os)) (printed os (unat n) buf) = take (unat n) os"
    by (simp add: printed_def min_def)
  ultimately show ?thesis
    using stream assms(5) by (intro exI[of _ os])
      (auto simp: length_printed drop_printed c_str_printed printed_unterminated)
qed

lemma p_string_zero [simp]: "p_string zero_string = []"
  by (simp add: p_string_def zero_string_def UPSF_MAX_STRING_SIZE_def c_str_def)

lemma ok_string_zero [simp]: "ok_string zero_string"
  by (simp add: ok_string_def zero_string_def UPSF_MAX_STRING_SIZE_def)

lemma show_int_zero [simp]: "show_int 0 = ''0''"
  by (simp add: show_int_def) (simp add: decimal.simps char_of_def bit_0)

lemma zero_shard:
  "p_Shard zero_upsf_shard_t dflt_Shard =
     \<lparr>sh_name = [], sh_metadata = Some dflt_MetaData,
      sh_spec = Some (dflt_ShardSpec\<lparr>shs_desired_state := Some dflt_ShardSpecDesiredState\<rparr>),
      sh_status = Some (dflt_ShardStatus\<lparr>sht_current_state := Some dflt_ShardStatusCurrentState\<rparr>),
      sh_mbb = Some dflt_ShardMbb\<rparr>"
  by (simp add: p_defs p_MetaData_def dflt_defs p_array_def p_key_values_def
      zero_upsf_shard_t_def zero_upsf_metadata_t_def zero_upsf_shard_spec_t_def
      zero_upsf_shard_spec_desired_state_t_def zero_upsf_shard_status_t_def
      zero_upsf_shard_status_current_state_t_def zero_upsf_shard_mbb_t_def)

lemma zero_shard_ok: "ok_Shard zero_upsf_shard_t"
  by (simp add: ok_defs ok_MetaData_def ok_array_def
      zero_upsf_shard_t_def zero_upsf_metadata_t_def zero_upsf_shard_spec_t_def
      zero_upsf_shard_spec_desired_state_t_def zero_upsf_shard_status_t_def zero_strings_def zero_key_values_def
      zero_upsf_shard_status_current_state_t_def zero_upsf_shard_mbb_t_def)

lemma zero_shard_states:
  "c_md_derived_state (c_sh_metadata zero_upsf_shard_t) = 0"
  "c_shm_mbb_state (c_sh_mbb zero_upsf_shard_t) = 0"
  by (simp_all add: zero_upsf_shard_t_def zero_upsf_metadata_t_def zero_upsf_shard_mbb_t_def)

lemma zero_shard_plain: "plain_Shard (\<lambda>_. []) (p_Shard zero_upsf_shard_t dflt_Shard)"
  unfolding zero_shard by (simp add: plain_Shard_def Let_def plain_def dflt_defs)

lemma zero_shard_stream:
  "Shard_stream (\<lambda>_. ''0'') (\<lambda>_. []) (p_Shard zero_upsf_shard_t dflt_Shard) =
     Some (''Shard(name=, MetaData(desc=, DerivedState=unknown, created=0, last_updated=0), '' @
       ''Spec(max_session_count=0, virtual_mac=, DesiredState(sgup=, NetworkConnection=)), Prefix=)), '' @
       ''Status(allocated_session_count=0, maximum_allocated_quality=0, '' @
       ''CurrentState(sgup=, TsfNetworkConnection=))), Mbb(State=non-mbb-move-required))'')"
  unfolding zero_shard
  by (simp add: Shard_stream_def MetaData_stream_def ShardSpec_stream_def
      ShardSpecDesiredState_stream_def ShardStatus_stream_def ShardStatusCurrentState_stream_def
      ShardMbb_stream_def dflt_defs to_name_defs name_limits name_tables name_at_def)

lemma dump_shard_writes_witness:
  "\<exists>buf'. upsf_dump_shard (\<lambda>_. ''0'') (\<lambda>_. []) (Some [CHR ''x'', CHR ''y'']) 2
      (Some zero_upsf_shard_t) = Some (True, Some buf') \<and> length buf' = 2 \<and> strlen buf' = None"
  using dump_shard_writes[of zero_upsf_shard_t 2 "[CHR ''x'', CHR ''y'']" "\<lambda>_. ''0''" "\<lambda>_. []"]
  by (auto simp: zero_shard_ok zero_shard_stream zero_shard_states)

text \<open>
  C35. A dump of a readable structure into a buffer of at least the given size is undefined
  exactly if the structure carries a negative state, which the look-up of its name reads before
  the table for: the derived state of every item, the maintenance request of a user plane and the
  mbb state of a shard. Every other number is printed.
\<close>

theorem dump_undefined_iff:
  assumes "n \<noteq> 0" and "unat n \<le> length buf"
    and "ok_ServiceGateway x1" and "ok_ServiceGatewayUserPlane x2" and "ok_TrafficSteeringFunction x3"
    and "ok_NetworkConnection x4" and "ok_Shard x5" and "ok_SessionContext x6"
  shows
   "((upsf_dump_service_gateway time_string (Some buf) n (Some x1) = None)
      = (sint (c_md_derived_state (c_sg_metadata x1)) < 0)) \<and>
    ((upsf_dump_service_gateway_user_plane time_string (Some buf) n (Some x2) = None)
      = (sint (c_md_derived_state (c_up_metadata x2)) < 0 \<or>
         sint (c_mt_maintenance_req (c_up_maintenance x2)) < 0)) \<and>
    ((upsf_dump_traffic_steering_function time_string (Some buf) n (Some x3) = None)
      = (sint (c_md_derived_state (c_tsf_metadata x3)) < 0)) \<and>
    ((upsf_dump_network_connection time_string nc_ord (Some buf) n (Some x4) = None)
      = (sint (c_md_derived_state (c_nc_metadata x4)) < 0)) \<and>
    ((upsf_dump_shard time_string sh_ord (Some buf) n (Some x5) = None)
      = (sint (c_md_derived_state (c_sh_metadata x5)) < 0 \<or> sint (c_shm_mbb_state (c_sh_mbb x5)) < 0)) \<and>
    ((upsf_dump_session_context time_string (Some buf) n (Some x6) = None)
      = (sint (c_md_derived_state (c_sc_metadata x6)) < 0))"
  unfolding dump_defs
    sg.dump_item_None[OF assms(3,1,2)] up.dump_item_None[OF assms(4,1,2)]
    tsf.dump_item_None[OF assms(5,1,2)] nc.dump_item_None[OF assms(6,1,2)]
    sh.dump_item_None[OF assms(7,1,2)] sc.dump_item_None[OF assms(8,1,2)]
  by (simp add: item_stream_None p_defs p_MetaData_def p_Maintenance_def)

lemma dump_undefined_iff_witness:
  "upsf_dump_service_gateway (\<lambda>_. ''0'') (Some [CHR ''x'']) 1
     (Some (c_ServiceGateway dflt_ServiceGateway)) \<noteq> None \<and>
   upsf_dump_shard (\<lambda>_. ''0'') (\<lambda>_. []) (Some [CHR ''x'']) 1
     (Some (c_Shard (\<lambda>_. []) (dflt_Shard\<lparr>sh_mbb := Some \<lparr>shm_mbb_state = - 1\<rparr>\<rparr>))) = None"
  using dump_undefined_iff[of 1 "[CHR ''x'']", OF _ _ sg.ok_c[of dflt_ServiceGateway]
      up.ok_c[of dflt_ServiceGatewayUserPlane] tsf.ok_c[of dflt_TrafficSteeringFunction]
      nc.ok_c[of _ dflt_NetworkConnection] sh.ok_c[of "\<lambda>_. []" "dflt_Shard\<lparr>sh_mbb := Some \<lparr>shm_mbb_state = - 1\<rparr>\<rparr>"]
      sc.ok_c[of dflt_SessionContext], of "\<lambda>_. ''0''" _ "\<lambda>_. []"]
  by (simp add: c_ServiceGateway_def c_Shard_def c_MetaData_def c_ShardMbb_def dflt_ServiceGateway_def dflt_MetaData_def)

text \<open>
  The text of a shard whose strings hold no parentheses closes three more of them
  than it opens: the lists of network connections, of prefixes and of steering functions are closed
  but never opened.
\<close>

theorem shard_stream_unbalanced:
  assumes "\<forall>t. plain (time_string t)" and "plain_Shard ord m"
    and "Shard_stream time_string ord m = Some os"
  shows "depth os = - 3"
proof -
  from assms(3) obtain md mb where
    md: "MetaData_stream time_string (sub_msg dflt_MetaData (sh_metadata m)) = Some md"
    and mb: "ShardMbb_stream (sub_msg dflt_ShardMbb (sh_mbb m)) = Some mb"
    and os: "os = ''Shard('' @ ''name='' @ c_str (sh_name m) @ '', '' @ md @ '', '' @
      ShardSpec_stream (sub_msg dflt_ShardSpec (sh_spec m)) @ '', '' @
      ShardStatus_stream ord (sub_msg dflt_ShardStatus (sh_status m)) @ '', '' @ mb @ '')''"
    unfolding Shard_stream_def Let_def bind_eq_Some_conv by auto
  have "depth md = 0"
    using assms(1,2) md by (intro depth_MetaData_stream) (auto simp: plain_Shard_def Let_def)
  with os mb assms(2) show ?thesis
    by (simp add: plain_Shard_def Let_def depth_ShardSpec_stream depth_ShardStatus_stream)
qed

lemma shard_stream_unbalanced_witness:
  "\<exists>os. Shard_stream (\<lambda>_. ''0'') (\<lambda>_. []) (p_Shard zero_upsf_shard_t dflt_Shard) = Some os \<and>
     depth os = - 3"
  using shard_stream_unbalanced[OF _ zero_shard_plain zero_shard_stream] zero_shard_stream
  by (simp add: plain_def)

end
