(* ===== verification/CppExample.thy ===== *)
theory CppExample
  imports Servers Streams
begin

text \<open>
  The C++ example, \<^verbatim>\<open>examples/cpp/upsf_cpp_example.cpp\<close>: a program that creates one item of each
  type (and two user planes) with \<^verbatim>\<open>UpsfClient\<close> and removes them again, printing requests and
  replies. The functions of the six types are written alike; each is an instance of a function that
  has the calls, the printer and the texts as arguments. The state is that behind the stub and
  what was written to \<^verbatim>\<open>std::cout\<close>; the error log is left out. Printing is partial, so is
  the program.
\<close>

section \<open>The example object\<close>

definition endl :: string where
  "endl = [CHR 0x0A]"

text \<open>What the printers take from the libraries.\<close>

record printers =
  time_string :: "Timestamp \<Rightarrow> string"
  nc_order :: "(string, bool) fmap \<Rightarrow> (string \<times> bool) list"
  sh_order :: "(string, string) fmap \<Rightarrow> (string \<times> string) list"

record 's UpsfCppExample =
  ex_srvaddr :: string
  ex_sg_name :: string
  ex_sg_desc :: string
  ex_up_names :: "(string \<times> string) list"
  ex_sgrp_name :: string
  ex_sgrp_desc :: string
  ex_sctx_name :: string
  ex_sctx_desc :: string
  ex_tsf_name :: string
  ex_tsf_desc :: string
  ex_nc_name :: string
  ex_nc_desc :: string
  ex_client :: "'s upsf_stub"

text \<open>The constructor with its defaults for the descriptions; the map \<open>up_names\<close> in key order.\<close>

definition upsf_cpp_example ::
    "(string \<Rightarrow> 's upsf_stub) \<Rightarrow> string \<Rightarrow> string \<Rightarrow> string \<Rightarrow> string \<Rightarrow> string \<Rightarrow> string
      \<Rightarrow> 's UpsfCppExample" where
  "upsf_cpp_example net srvaddr sg tsf sgrp sctx nc = \<lparr>
     ex_srvaddr = srvaddr,
     ex_sg_name = sg,
     ex_sg_desc = ''this is my service gateway'',
     ex_up_names = [(''my-up-a'', ''this is my service gateway user plane A''),
                    (''my-up-b'', ''this is my service gateway user plane B'')],
     ex_sgrp_name = sgrp,
     ex_sgrp_desc = ''this is my subscriber group'',
     ex_sctx_name = sctx,
     ex_sctx_desc = ''this is my session context'',
     ex_tsf_name = tsf,
     ex_tsf_desc = ''this is my traffic steering function'',
     ex_nc_name = nc,
     ex_nc_desc = ''this is my network connection'',
     ex_client = net srvaddr\<rparr>"

record 's ex_state =
  ex_peers :: 's
  ex_out :: string

definition cout :: "string \<Rightarrow> 's ex_state \<Rightarrow> 's ex_state" where
  "cout t st = st\<lparr>ex_out := ex_out st @ t @ endl\<rparr>"

section \<open>The functions of an item type\<close>

text \<open>\<^verbatim>\<open>for (int i = 0; i < items.size(); i++) std::cout << ">>> " << i << ". " << ...\<close>\<close>

fun print_items :: "('m \<Rightarrow> string ub) \<Rightarrow> nat \<Rightarrow> 'm list \<Rightarrow> 's ex_state \<Rightarrow> 's ex_state ub" where
  "print_items stream i [] st = Some st"
| "print_items stream i (m # ms) st = do {
     t \<leftarrow> stream m;
     print_items stream (i + 1) ms (cout (''>>> '' @ decimal i @ ''. '' @ t) st)
   }"

definition list_type ::
    "string \<Rightarrow> ('s upsf_stub \<Rightarrow> 'm list \<Rightarrow> 's \<Rightarrow> bool \<times> 'm list \<times> 's) \<Rightarrow> ('m \<Rightarrow> string ub)
      \<Rightarrow> 's upsf_stub \<Rightarrow> 's ex_state \<Rightarrow> 's ex_state ub" where
  "list_type title readV1 stream client st =
     (let st = cout (''=== '' @ title @ '' list'') st;
          (ok, items, s) = readV1 client [] (ex_peers st);
          st = st\<lparr>ex_peers := s\<rparr>
      in if \<not> ok then Some st else print_items stream 0 items st)"

definition read_type ::
    "string \<Rightarrow> ('s upsf_stub \<Rightarrow> string \<Rightarrow> 'm \<Rightarrow> 's \<Rightarrow> bool \<times> 'm \<times> 's) \<Rightarrow> ('m \<Rightarrow> string ub) \<Rightarrow> 'm
      \<Rightarrow> 's upsf_stub \<Rightarrow> string \<Rightarrow> 's ex_state \<Rightarrow> 's ex_state ub" where
  "read_type title readV1 stream dflt client name st =
     (let st = cout (''=== '' @ title @ ''('' @ name @ '') read'') st;
          (ok, r_reply, s) = readV1 client name dflt (ex_peers st);
          st = st\<lparr>ex_peers := s\<rparr>
      in if \<not> ok then Some st
         else do { t \<leftarrow> stream r_reply; Some (cout (''>>> reply: '' @ t) st) })"

definition exists_type ::
    "('s upsf_stub \<Rightarrow> string \<Rightarrow> 'm \<Rightarrow> 's \<Rightarrow> bool \<times> 'm \<times> 's) \<Rightarrow> 'm
      \<Rightarrow> 's upsf_stub \<Rightarrow> string \<Rightarrow> 's ex_state \<Rightarrow> bool \<times> 's ex_state" where
  "exists_type readV1 dflt client name st =
     (let (ok, r_reply, s) = readV1 client name dflt (ex_peers st);
          st = st\<lparr>ex_peers := s\<rparr>
      in if \<not> ok then (False, st) else (True, st))"

text \<open>
  Create unless it exists, then update. \<open>head\<close> is the text between \<^verbatim>\<open>=== \<close> and the verb, and
  \<open>extra\<close> what is printed of the request once more before the update.
\<close>

definition create_type ::
    "string \<Rightarrow> (string \<Rightarrow> 's ex_state \<Rightarrow> bool \<times> 's ex_state)
      \<Rightarrow> ('s upsf_stub \<Rightarrow> 'm \<Rightarrow> 'm \<Rightarrow> 's \<Rightarrow> bool \<times> 'm \<times> 's)
      \<Rightarrow> ('s upsf_stub \<Rightarrow> 'm \<Rightarrow> 'm \<Rightarrow> UpdateOptions \<Rightarrow> 's \<Rightarrow> bool \<times> 'm \<times> 's)
      \<Rightarrow> ('m \<Rightarrow> string ub) \<Rightarrow> 'm \<Rightarrow> (string \<Rightarrow> 's ex_state \<Rightarrow> 's ex_state)
      \<Rightarrow> 's upsf_stub \<Rightarrow> string \<Rightarrow> 'm \<Rightarrow> 'm \<Rightarrow> UpdateOptions \<Rightarrow> 's ex_state \<Rightarrow> 's ex_state ub" where
  "create_type head exists createV1 updateV1 stream dflt extra client name c_request u_request options st = do {
     let (found, st) = exists name st;
     (go, st) \<leftarrow>
       (if \<not> found then do {
          let st = cout (''=== '' @ head @ '' create'') st;
          t \<leftarrow> stream c_request;
          let st = cout (''<<< request: '' @ t) st;
          let (ok, c_reply, s) = createV1 client c_request dflt (ex_peers st);
          let st = st\<lparr>ex_peers := s\<rparr>;
          if \<not> ok then Some (False, st)
          else do { t \<leftarrow> stream c_reply; Some (True, cout (''>>> reply: '' @ t) st) }
        } else Some (True, st));
     if \<not> go then Some st
     else do {
       let st = cout (''=== '' @ head @ '' update'') st;
       t \<leftarrow> stream u_request;
       let st = extra t (cout (''<<< request: '' @ t) st);
       let (ok, u_reply, s) = updateV1 client u_request dflt options (ex_peers st);
       let st = st\<lparr>ex_peers := s\<rparr>;
       if \<not> ok then Some st
       else do { t \<leftarrow> stream u_reply; Some (cout (''>>> reply: '' @ t) st) }
     }
   }"

definition delete_type ::
    "string \<Rightarrow> 's upsf_stub \<Rightarrow> string \<Rightarrow> 's ex_state \<Rightarrow> 's ex_state ub" where
  "delete_type title client name st =
     (let st = cout (''=== '' @ title @ ''('' @ name @ '') delete'') st;
          (ok, d_reply, s) = DeleteV1_string client name [] (ex_peers st);
          st = st\<lparr>ex_peers := s\<rparr>
      in if \<not> ok then Some st else Some (cout (''>>> reply: '' @ d_reply) st))"

section \<open>The requests of the updates\<close>

text \<open>The mbb state of the shard is \<^verbatim>\<open>upstream_switchover_required\<close>, number 2.\<close>

definition sg_update_request :: "'s UpsfCppExample \<Rightarrow> string \<Rightarrow> ServiceGateway" where
  "sg_update_request ex name = dflt_ServiceGateway\<lparr>
     sg_name := name,
     sg_metadata := Some (dflt_MetaData\<lparr>
       md_description := ex_sg_desc ex,
       md_derived_state := DerivedState_active\<rparr>)\<rparr>"

definition up_update_request :: "'s UpsfCppExample \<Rightarrow> string \<Rightarrow> string \<Rightarrow> ServiceGatewayUserPlane" where
  "up_update_request ex name desc = dflt_ServiceGatewayUserPlane\<lparr>
     up_name := name,
     up_service_gateway_name := ex_sg_name ex,
     up_metadata := Some (dflt_MetaData\<lparr>
       md_description := desc,
       md_derived_state := DerivedState_updating\<rparr>),
     up_spec := Some (dflt_ServiceGatewayUserPlaneSpec\<lparr>
       ups_max_session_count := 128,
       ups_max_shards := 16,
       ups_supported_service_group := [''ssg-1'', ''ssg-2''],
       ups_default_endpoint := Some (dflt_Endpoint\<lparr>
         ep_endpoint_name := ''ep-1'',
         ep_transport := TE_vtep (dflt_Vtep\<lparr>
           vt_ip_address := ''192.168.56.11'', vt_udp_port := 4789, vt_vni := 12345\<rparr>)\<rparr>)\<rparr>),
     up_status := Some (dflt_ServiceGatewayUserPlaneStatus\<lparr>
       upt_allocated_session_count := 7,
       upt_allocated_shards := 1\<rparr>)\<rparr>"

definition tsf_update_request :: "'s UpsfCppExample \<Rightarrow> string \<Rightarrow> TrafficSteeringFunction" where
  "tsf_update_request ex name = dflt_TrafficSteeringFunction\<lparr>
     tsf_name := name,
     tsf_metadata := Some (dflt_MetaData\<lparr>
       md_description := ex_tsf_desc ex,
       md_derived_state := DerivedState_updating\<rparr>),
     tsf_spec := Some (dflt_TrafficSteeringFunctionSpec\<lparr>
       tss_default_endpoint := Some (dflt_Endpoint\<lparr>
         ep_endpoint_name := ''ep-0'',
         ep_transport := TE_vtep (dflt_Vtep\<lparr>
           vt_ip_address := ''192.168.30.11'', vt_udp_port := 4789, vt_vni := 12345\<rparr>)\<rparr>)\<rparr>)\<rparr>"

definition sgrp_update_request :: "'s UpsfCppExample \<Rightarrow> string \<Rightarrow> Shard" where
  "sgrp_update_request ex name = dflt_Shard\<lparr>
     sh_name := name,
     sh_metadata := Some (dflt_MetaData\<lparr>
       md_description := ex_sgrp_desc ex,
       md_derived_state := DerivedState_updating\<rparr>),
     sh_spec := Some (dflt_ShardSpec\<lparr>
       shs_max_session_count := 4096,
       shs_virtual_mac := ''22:22:22:22:22:22'',
       shs_desired_state := Some (dflt_ShardSpecDesiredState\<lparr>
         shd_service_gateway_user_plane := ''up-a'',
         shd_network_connection := [''net-conn-1'', ''net-conn-2'']\<rparr>),
       shs_prefix := [''192.168.2.0/24'', ''192.168.3.0/24'']\<rparr>),
     sh_status := Some (dflt_ShardStatus\<lparr>
       sht_allocated_session_count := 64,
       sht_current_state := Some (dflt_ShardStatusCurrentState\<lparr>
         shc_service_gateway_user_plane := ''up-b'',
         shc_tsf_network_connection :=
           fmupd ''key2'' ''value2'' (fmupd ''key1'' ''value1'' fmempty)\<rparr>)\<rparr>),
     sh_mbb := Some (dflt_ShardMbb\<lparr>shm_mbb_state := 2\<rparr>)\<rparr>"

definition sctx_update_request :: "'s UpsfCppExample \<Rightarrow> string \<Rightarrow> SessionContext" where
  "sctx_update_request ex name = dflt_SessionContext\<lparr>
     sc_name := name,
     sc_metadata := Some (dflt_MetaData\<lparr>
       md_description := ex_sctx_desc ex,
       md_derived_state := DerivedState_updating\<rparr>),
     sc_spec := Some (dflt_SessionContextSpec\<lparr>
       scs_traffic_steering_function := ''tsf-a'',
       scs_required_service_group := [''rsg-1'', ''rsg-2''],
       scs_required_quality := 3,
       scs_circuit_id := ''circuit-id'',
       scs_remote_id := ''remote-id'',
       scs_session_filter := Some (dflt_SessionFilter\<lparr>
         sf_source_mac_address := ''00:11:22:33:44:55'', sf_svlan := 50, sf_cvlan := 100\<rparr>),
       scs_desired_state := Some (dflt_SessionContextSpecDesiredState\<lparr>scd_shard := ex_sgrp_name ex\<rparr>)\<rparr>),
     sc_status := Some (dflt_SessionContextStatus\<lparr>
       sct_current_state := Some (dflt_SessionContextStatusCurrentState\<lparr>
         scc_user_plane_shard := ''up-a'', scc_tsf_shard := ''tsf-a''\<rparr>)\<rparr>)\<rparr>"

definition nc_update_request :: "'s UpsfCppExample \<Rightarrow> string \<Rightarrow> NetworkConnection" where
  "nc_update_request ex name = dflt_NetworkConnection\<lparr>
     nc_name := name,
     nc_metadata := Some (dflt_MetaData\<lparr>
       md_description := ex_nc_desc ex,
       md_derived_state := DerivedState_updating\<rparr>),
     nc_spec := Some (dflt_NetworkConnectionSpec\<lparr>
       ncs_maximum_supported_quality := 7,
       ncs_nc_spec := NC_ss_ptp \<lparr>
         ssp_sgup_endpoint = [
           \<lparr>ep_endpoint_name = ''vxlan0'', ep_transport = TE_vtep
             \<lparr>vt_ip_address = ''1.1.1.1'', vt_udp_port = 4789, vt_vni = 12345\<rparr>\<rparr>,
           \<lparr>ep_endpoint_name = ''l2vpn0'', ep_transport = TE_l2vpn \<lparr>l2_vpn_id = 3333\<rparr>\<rparr>,
           \<lparr>ep_endpoint_name = ''port0'', ep_transport = TE_port_vlan
             \<lparr>pv_logical_port = ''eth0'', pv_svlan = 50, pv_cvlan = 0\<rparr>\<rparr>],
         ssp_tsf_endpoint = Some
           \<lparr>ep_endpoint_name = ''vxl100'', ep_transport = TE_vtep
             \<lparr>vt_ip_address = ''192.168.30.11'', vt_udp_port = 4789, vt_vni = 12345\<rparr>\<rparr>\<rparr>\<rparr>),
     nc_status := Some (dflt_NetworkConnectionStatus\<lparr>
       nct_nc_active := fmupd ''net-conn-3'' True (fmupd ''net-conn-2'' True
         (fmupd ''net-conn-1'' True fmempty)),
       nct_allocated_shards := 97\<rparr>)\<rparr>"

section \<open>Service gateways\<close>

definition sg_list :: "printers \<Rightarrow> 's UpsfCppExample \<Rightarrow> 's ex_state \<Rightarrow> 's ex_state ub" where
  "sg_list p ex =
     list_type ''ServiceGateway'' ReadV1_ServiceGateways (ServiceGateway_stream (time_string p)) (ex_client ex)"

definition sg_read ::
    "printers \<Rightarrow> 's UpsfCppExample \<Rightarrow> string \<Rightarrow> 's ex_state \<Rightarrow> 's ex_state ub" where
  "sg_read p ex =
     read_type ''ServiceGateway'' ReadV1_ServiceGateway (ServiceGateway_stream (time_string p)) dflt_ServiceGateway (ex_client ex)"

definition sg_exists ::
    "'s UpsfCppExample \<Rightarrow> string \<Rightarrow> 's ex_state \<Rightarrow> bool \<times> 's ex_state" where
  "sg_exists ex = exists_type ReadV1_ServiceGateway dflt_ServiceGateway (ex_client ex)"

definition sg_create ::
    "printers \<Rightarrow> 's UpsfCppExample \<Rightarrow> string \<Rightarrow> 's ex_state \<Rightarrow> 's ex_state ub" where
  "sg_create p ex name =
     create_type (''ServiceGateway('' @ name @ '')'') (sg_exists ex) CreateV1_ServiceGateway UpdateV1_ServiceGateway
       (ServiceGateway_stream (time_string p)) dflt_ServiceGateway (\<lambda>_ st. st) (ex_client ex) name
       (dflt_ServiceGateway\<lparr>sg_name := name\<rparr>) (sg_update_request ex name) (dflt_UpdateOptions\<lparr>uo_list_merge_strategy := LMS_replace\<rparr>)"

definition sg_delete ::
    "'s UpsfCppExample \<Rightarrow> string \<Rightarrow> 's ex_state \<Rightarrow> 's ex_state ub" where
  "sg_delete ex = delete_type ''ServiceGateway'' (ex_client ex)"

section \<open>Service gateway user planes\<close>

definition up_list :: "printers \<Rightarrow> 's UpsfCppExample \<Rightarrow> 's ex_state \<Rightarrow> 's ex_state ub" where
  "up_list p ex =
     list_type ''ServiceGatewayUserPlane'' ReadV1_ServiceGatewayUserPlanes (ServiceGatewayUserPlane_stream (time_string p)) (ex_client ex)"

definition up_read ::
    "printers \<Rightarrow> 's UpsfCppExample \<Rightarrow> string \<Rightarrow> 's ex_state \<Rightarrow> 's ex_state ub" where
  "up_read p ex =
     read_type ''ServiceGatewayUserPlane'' ReadV1_ServiceGatewayUserPlane (ServiceGatewayUserPlane_stream (time_string p)) dflt_ServiceGatewayUserPlane (ex_client ex)"

definition up_exists ::
    "'s UpsfCppExample \<Rightarrow> string \<Rightarrow> 's ex_state \<Rightarrow> bool \<times> 's ex_state" where
  "up_exists ex = exists_type ReadV1_ServiceGatewayUserPlane dflt_ServiceGatewayUserPlane (ex_client ex)"

definition up_create ::
    "printers \<Rightarrow> 's UpsfCppExample \<Rightarrow> string \<Rightarrow> string \<Rightarrow> 's ex_state \<Rightarrow> 's ex_state ub" where
  "up_create p ex name desc =
     create_type (''ServiceGatewayUserPlane('' @ name @ '')'') (up_exists ex) CreateV1_ServiceGatewayUserPlane UpdateV1_ServiceGatewayUserPlane
       (ServiceGatewayUserPlane_stream (time_string p)) dflt_ServiceGatewayUserPlane (\<lambda>_ st. st) (ex_client ex) name
       (dflt_ServiceGatewayUserPlane\<lparr>up_name := name\<rparr>) (up_update_request ex name desc) dflt_UpdateOptions"

definition up_delete ::
    "'s UpsfCppExample \<Rightarrow> string \<Rightarrow> 's ex_state \<Rightarrow> 's ex_state ub" where
  "up_delete ex = delete_type ''ServiceGatewayUserPlane'' (ex_client ex)"

section \<open>Traffic steering functions\<close>

definition tsf_list :: "printers \<Rightarrow> 's UpsfCppExample \<Rightarrow> 's ex_state \<Rightarrow> 's ex_state ub" where
  "tsf_list p ex =
     list_type ''TrafficSteeringFunctions'' ReadV1_TrafficSteeringFunctions (TrafficSteeringFunction_stream (time_string p)) (ex_client ex)"

definition tsf_read ::
    "printers \<Rightarrow> 's UpsfCppExample \<Rightarrow> string \<Rightarrow> 's ex_state \<Rightarrow> 's ex_state ub" where
  "tsf_read p ex =
     read_type ''TrafficSteeringFunction'' ReadV1_TrafficSteeringFunction (TrafficSteeringFunction_stream (time_string p)) dflt_TrafficSteeringFunction (ex_client ex)"

definition tsf_exists ::
    "'s UpsfCppExample \<Rightarrow> string \<Rightarrow> 's ex_state \<Rightarrow> bool \<times> 's ex_state" where
  "tsf_exists ex = exists_type ReadV1_TrafficSteeringFunction dflt_TrafficSteeringFunction (ex_client ex)"

definition tsf_create ::
    "printers \<Rightarrow> 's UpsfCppExample \<Rightarrow> string \<Rightarrow> 's ex_state \<Rightarrow> 's ex_state ub" where
  "tsf_create p ex name =
     create_type (''TrafficSteeringFunction('' @ name @ '')'') (tsf_exists ex) CreateV1_TrafficSteeringFunction UpdateV1_TrafficSteeringFunction
       (TrafficSteeringFunction_stream (time_string p)) dflt_TrafficSteeringFunction (\<lambda>_ st. st) (ex_client ex) name
       (dflt_TrafficSteeringFunction\<lparr>tsf_name := name\<rparr>) (tsf_update_request ex name) dflt_UpdateOptions"

definition tsf_delete ::
    "'s UpsfCppExample \<Rightarrow> string \<Rightarrow> 's ex_state \<Rightarrow> 's ex_state ub" where
  "tsf_delete ex = delete_type ''TrafficSteeringFunction'' (ex_client ex)"

section \<open>Shards, called subscriber groups\<close>

definition sgrp_list :: "printers \<Rightarrow> 's UpsfCppExample \<Rightarrow> 's ex_state \<Rightarrow> 's ex_state ub" where
  "sgrp_list p ex =
     list_type ''SubscriberGroup'' ReadV1_Shards (Shard_stream (time_string p) (sh_order p)) (ex_client ex)"

definition sgrp_read ::
    "printers \<Rightarrow> 's UpsfCppExample \<Rightarrow> string \<Rightarrow> 's ex_state \<Rightarrow> 's ex_state ub" where
  "sgrp_read p ex =
     read_type ''SubscriberGroup'' ReadV1_Shard (Shard_stream (time_string p) (sh_order p)) dflt_Shard (ex_client ex)"

definition sgrp_exists ::
    "'s UpsfCppExample \<Rightarrow> string \<Rightarrow> 's ex_state \<Rightarrow> bool \<times> 's ex_state" where
  "sgrp_exists ex = exists_type ReadV1_Shard dflt_Shard (ex_client ex)"

text \<open>The texts of the heading name the traffic steering function.\<close>

definition sgrp_create ::
    "printers \<Rightarrow> 's UpsfCppExample \<Rightarrow> string \<Rightarrow> 's ex_state \<Rightarrow> 's ex_state ub" where
  "sgrp_create p ex name =
     create_type (''SubscriberGroup('' @ ex_tsf_name ex @ '')'') (sgrp_exists ex) CreateV1_Shard UpdateV1_Shard
       (Shard_stream (time_string p) (sh_order p)) dflt_Shard (\<lambda>_ st. st) (ex_client ex) name
       (dflt_Shard\<lparr>sh_name := name\<rparr>) (sgrp_update_request ex name) dflt_UpdateOptions"

definition sgrp_delete ::
    "'s UpsfCppExample \<Rightarrow> string \<Rightarrow> 's ex_state \<Rightarrow> 's ex_state ub" where
  "sgrp_delete ex = delete_type ''SubscriberGroup'' (ex_client ex)"

section \<open>Session contexts\<close>

definition sctx_list :: "printers \<Rightarrow> 's UpsfCppExample \<Rightarrow> 's ex_state \<Rightarrow> 's ex_state ub" where
  "sctx_list p ex =
     list_type ''SessionContext'' ReadV1_SessionContexts (SessionContext_stream (time_string p)) (ex_client ex)"

definition sctx_read ::
    "printers \<Rightarrow> 's UpsfCppExample \<Rightarrow> string \<Rightarrow> 's ex_state \<Rightarrow> 's ex_state ub" where
  "sctx_read p ex =
     read_type ''SessionContext'' ReadV1_SessionContext (SessionContext_stream (time_string p)) dflt_SessionContext (ex_client ex)"

definition sctx_exists ::
    "'s UpsfCppExample \<Rightarrow> string \<Rightarrow> 's ex_state \<Rightarrow> bool \<times> 's ex_state" where
  "sctx_exists ex = exists_type ReadV1_SessionContext dflt_SessionContext (ex_client ex)"

definition sctx_create ::
    "printers \<Rightarrow> 's UpsfCppExample \<Rightarrow> string \<Rightarrow> 's ex_state \<Rightarrow> 's ex_state ub" where
  "sctx_create p ex name =
     create_type (''SessionContext('' @ name @ '')'') (sctx_exists ex) CreateV1_SessionContext UpdateV1_SessionContext
       (SessionContext_stream (time_string p)) dflt_SessionContext (\<lambda>_ st. st) (ex_client ex) name
       (dflt_SessionContext\<lparr>sc_name := name\<rparr>) (sctx_update_request ex name) dflt_UpdateOptions"

definition sctx_delete ::
    "'s UpsfCppExample \<Rightarrow> string \<Rightarrow> 's ex_state \<Rightarrow> 's ex_state ub" where
  "sctx_delete ex = delete_type ''SessionContext'' (ex_client ex)"

section \<open>Network connections\<close>

definition nc_list :: "printers \<Rightarrow> 's UpsfCppExample \<Rightarrow> 's ex_state \<Rightarrow> 's ex_state ub" where
  "nc_list p ex =
     list_type ''NetworkConnection'' ReadV1_NetworkConnections (NetworkConnection_stream (time_string p) (nc_order p)) (ex_client ex)"

definition nc_read ::
    "printers \<Rightarrow> 's UpsfCppExample \<Rightarrow> string \<Rightarrow> 's ex_state \<Rightarrow> 's ex_state ub" where
  "nc_read p ex =
     read_type ''NetworkConnection'' ReadV1_NetworkConnection (NetworkConnection_stream (time_string p) (nc_order p)) dflt_NetworkConnection (ex_client ex)"

text \<open>The reply of the check is a session context here.\<close>

definition nc_exists ::
    "'s UpsfCppExample \<Rightarrow> string \<Rightarrow> 's ex_state \<Rightarrow> bool \<times> 's ex_state" where
  "nc_exists ex = exists_type ReadV1_SessionContext dflt_SessionContext (ex_client ex)"

definition nc_create ::
    "printers \<Rightarrow> 's UpsfCppExample \<Rightarrow> string \<Rightarrow> 's ex_state \<Rightarrow> 's ex_state ub" where
  "nc_create p ex name =
     create_type (''NetworkConnection('' @ name @ '')'') (nc_exists ex) CreateV1_NetworkConnection UpdateV1_NetworkConnection
       (NetworkConnection_stream (time_string p) (nc_order p)) dflt_NetworkConnection cout (ex_client ex) name
       (dflt_NetworkConnection\<lparr>nc_name := name\<rparr>) (nc_update_request ex name) dflt_UpdateOptions"

definition nc_delete ::
    "'s UpsfCppExample \<Rightarrow> string \<Rightarrow> 's ex_state \<Rightarrow> 's ex_state ub" where
  "nc_delete ex = delete_type ''NetworkConnection'' (ex_client ex)"

section \<open>The program\<close>

definition heading :: "string \<Rightarrow> 's ex_state \<Rightarrow> 's ex_state" where
  "heading t st = st\<lparr>ex_out := ex_out st @ endl @ ''<<< '' @ t @ '' >>>'' @ endl @ endl\<rparr>"

text \<open>\<^verbatim>\<open>for (auto up : up_names) { ... }\<close>\<close>

fun create_ups ::
    "printers \<Rightarrow> 's UpsfCppExample \<Rightarrow> (string \<times> string) list \<Rightarrow> 's ex_state \<Rightarrow> 's ex_state ub" where
  "create_ups p ex [] st = Some st"
| "create_ups p ex (up # ups) st = do {
     st \<leftarrow> up_create p ex (fst up) (snd up) st;
     st \<leftarrow> up_read p ex (fst up) st;
     st \<leftarrow> up_list p ex st;
     create_ups p ex ups st
   }"

fun delete_ups :: "'s UpsfCppExample \<Rightarrow> (string \<times> string) list \<Rightarrow> 's ex_state \<Rightarrow> 's ex_state ub" where
  "delete_ups ex [] st = Some st"
| "delete_ups ex (up # ups) st = do {
     st \<leftarrow> up_delete ex (fst up) st;
     delete_ups ex ups st
   }"

definition create_items :: "printers \<Rightarrow> 's UpsfCppExample \<Rightarrow> 's ex_state \<Rightarrow> 's ex_state ub" where
  "create_items p ex st = do {
     st \<leftarrow> sg_list p ex (heading ''SERVICE GATEWAYS'' st);
     st \<leftarrow> sg_create p ex (ex_sg_name ex) st;
     st \<leftarrow> sg_read p ex (ex_sg_name ex) st;
     st \<leftarrow> sg_list p ex st;
     st \<leftarrow> up_list p ex (heading ''SERVICE GATEWAY USER PLANES'' st);
     st \<leftarrow> create_ups p ex (ex_up_names ex) st;
     st \<leftarrow> tsf_list p ex (heading ''TRAFFIC STEERING FUNCTIONS'' st);
     st \<leftarrow> tsf_create p ex (ex_tsf_name ex) st;
     st \<leftarrow> tsf_read p ex (ex_tsf_name ex) st;
     st \<leftarrow> tsf_list p ex st;
     st \<leftarrow> sgrp_list p ex (heading ''SHARDS (SUBSCRIBER GROUPS)'' st);
     st \<leftarrow> sgrp_create p ex (ex_sgrp_name ex) st;
     st \<leftarrow> sgrp_read p ex (ex_sgrp_name ex) st;
     st \<leftarrow> sgrp_list p ex st;
     st \<leftarrow> sctx_list p ex (heading ''SESSION CONTEXTS'' st);
     st \<leftarrow> sctx_create p ex (ex_sctx_name ex) st;
     st \<leftarrow> sctx_read p ex (ex_sctx_name ex) st;
     st \<leftarrow> sctx_list p ex st;
     st \<leftarrow> nc_list p ex (heading ''NETWORK CONNECTIONS'' st);
     st \<leftarrow> nc_create p ex (ex_nc_name ex) st;
     st \<leftarrow> nc_read p ex (ex_nc_name ex) st;
     nc_list p ex st
   }"

definition delete_items :: "printers \<Rightarrow> 's UpsfCppExample \<Rightarrow> 's ex_state \<Rightarrow> 's ex_state ub" where
  "delete_items p ex st = do {
     st \<leftarrow> nc_delete ex (ex_nc_name ex) (heading ''NETWORK CONNECTIONS'' st);
     st \<leftarrow> nc_list p ex st;
     st \<leftarrow> sctx_delete ex (ex_sctx_name ex) (heading ''SESSION CONTEXTS'' st);
     st \<leftarrow> sctx_list p ex st;
     st \<leftarrow> sgrp_delete ex (ex_sgrp_name ex) (heading ''SHARDS (SUBSCRIBER GROUPS)'' st);
     st \<leftarrow> sgrp_list p ex st;
     st \<leftarrow> tsf_delete ex (ex_tsf_name ex) (heading ''TRAFFIC STEERING FUNCTIONS'' st);
     st \<leftarrow> tsf_list p ex st;
     st \<leftarrow> delete_ups ex (ex_up_names ex) (heading ''SERVICE GATEWAY USER PLANES'' st);
     st \<leftarrow> up_list p ex st;
     st \<leftarrow> sg_delete ex (ex_sg_name ex) (heading ''SERVICE GATEWAYS'' st);
     sg_list p ex st
   }"

text \<open>\<^verbatim>\<open>main\<close> after the flags are parsed: the value returned and the state.\<close>

definition cpp_main ::
    "printers \<Rightarrow> (string \<Rightarrow> 's upsf_stub) \<Rightarrow> string \<Rightarrow> int32 \<Rightarrow> string \<Rightarrow> string \<Rightarrow> string \<Rightarrow> string
      \<Rightarrow> string \<Rightarrow> 's ex_state \<Rightarrow> (int32 \<times> 's ex_state) ub" where
  "cpp_main p net upsfhost upsfport sgname tsfname sgrpname sctxname ncname st = do {
     let upsfaddr = upsfhost @ '':'' @ show_int upsfport;
     let example = upsf_cpp_example net upsfaddr sgname tsfname sgrpname sctxname ncname;
     st \<leftarrow> create_items p example st;
     st \<leftarrow> delete_items p example st;
     Some (0, st)
   }"

end
