(* ===== verification/CppExampleRuns.thy ===== *)
theory CppExampleRuns
  imports CppExample
begin

text \<open>
  What the C++ example does at a server that keeps items and merges updates in some way (\<open>keeps merge\<close>
  of \<open>Servers\<close>). \<open>runs held f h h'\<close> is total
  correctness of a function of the example: it is defined and takes a server that holds \<open>h\<close> to
  one that holds \<open>h'\<close>. The functions of a type are proved once in the locale
  \<open>example_type\<close>, and the program by composing them.
\<close>

section \<open>Items that can be printed\<close>

definition item_text :: "printers \<Rightarrow> Item \<Rightarrow> string ub" where
  "item_text p i = (case i of
       Item_not_set \<Rightarrow> Some []
     | Item_shard m \<Rightarrow> Shard_stream (time_string p) (sh_order p) m
     | Item_session_context m \<Rightarrow> SessionContext_stream (time_string p) m
     | Item_network_connection m \<Rightarrow> NetworkConnection_stream (time_string p) (nc_order p) m
     | Item_service_gateway_user_plane m \<Rightarrow> ServiceGatewayUserPlane_stream (time_string p) m
     | Item_traffic_steering_function m \<Rightarrow> TrafficSteeringFunction_stream (time_string p) m
     | Item_service_gateway m \<Rightarrow> ServiceGateway_stream (time_string p) m)"

text \<open>A store from which everything can be printed: no item has a negative state.\<close>

definition printable :: "printers \<Rightarrow> store \<Rightarrow> bool" where
  "printable p h \<longleftrightarrow> (\<forall>k i. h k = Some i \<longrightarrow> item_text p i \<noteq> None)"

lemma printable_empty [simp]: "printable p Map.empty"
  by (simp add: printable_def)

lemma printable_put: "printable p h \<Longrightarrow> item_text p i \<noteq> None \<Longrightarrow> printable p (h(k \<mapsto> i))"
  by (simp add: printable_def)

lemma printable_without: "printable p h \<Longrightarrow> printable p (without ns h)"
  by (auto simp: printable_def without_def split: if_splits)

text \<open>
  A server that merges printable items to printable items: the states that it gives to an item are
  not negative when those of the items merged are not.
\<close>

definition prints :: "(Item \<Rightarrow> string ub) \<Rightarrow> merge \<Rightarrow> bool" where
  "prints text merge \<longleftrightarrow> (\<forall>opts old i. (\<forall>j. old = Some j \<longrightarrow> text j \<noteq> None) \<and> text i \<noteq> None \<longrightarrow>
     text (merge opts old i) \<noteq> None)"

lemma printsD:
  "prints text merge \<Longrightarrow> (\<And>j. old = Some j \<Longrightarrow> text j \<noteq> None) \<Longrightarrow> text i \<noteq> None \<Longrightarrow>
   text (merge opts old i) \<noteq> None"
  unfolding prints_def by blast

lemma merge_item_prints: "prints (item_text p) merge_item"
  unfolding prints_def
proof (intro allI impI)
  fix opts old i
  assume "(\<forall>j. old = Some j \<longrightarrow> item_text p j \<noteq> None) \<and> item_text p i \<noteq> None"
  then show "item_text p (merge_item opts old i) \<noteq> None"
    by (cases i) (simp_all add: merge_item_def merge_defs item_text_def item_stream_None split: option.split)
qed

text \<open>
  What a server holds after an item is created unless an item with the key \<open>x\<close> is there, and then
  updated; \<open>before\<close> is what the update finds. To ask for the empty name succeeds even when nothing is
  there, and then nothing is created.
\<close>

definition before :: "ItemType \<Rightarrow> ItemType \<Rightarrow> string \<Rightarrow> Item \<Rightarrow> store \<Rightarrow> Item option" where
  "before xt ty n c h = (if n = [] \<or> h (xt, n) \<noteq> None then h (ty, n) else Some c)"

definition put_type ::
    "merge \<Rightarrow> UpdateOptions \<Rightarrow> ItemType \<Rightarrow> ItemType \<Rightarrow> string \<Rightarrow> Item \<Rightarrow> Item \<Rightarrow> store \<Rightarrow> store" where
  "put_type merge opts xt ty n c u h = h((ty, n) \<mapsto> merge opts (before xt ty n c h) u)"

lemma put_type_prints:
  assumes "printable p h" and "prints (item_text p) merge" and "item_text p c \<noteq> None" and "item_text p u \<noteq> None"
  shows "item_text p (merge opts (before xt ty n c h) u) \<noteq> None"
  by (rule printsD[OF assms(2) _ assms(4)])
    (use assms(1,3) in \<open>auto simp: printable_def before_def split: if_splits\<close>)

lemma printable_put_type:
  assumes "printable p h" and "prints (item_text p) merge" and "item_text p c \<noteq> None" and "item_text p u \<noteq> None"
  shows "printable p (put_type merge opts xt ty n c u h)"
  unfolding put_type_def by (rule printable_put[OF assms(1) put_type_prints[OF assms]])

lemma without_put_type [simp]: "n \<in> ns \<Longrightarrow> without ns (put_type merge opts xt ty n c u h) = without ns h"
  by (simp add: put_type_def)

section \<open>Total correctness\<close>

text \<open>
  \<open>runs held f h h'\<close>: from any state whose server holds \<open>h\<close> the program \<open>f\<close> is defined and ends
  in a state whose server holds \<open>h'\<close>.
\<close>

definition runs :: "('s \<Rightarrow> store) \<Rightarrow> ('s ex_state \<Rightarrow> 's ex_state ub) \<Rightarrow> store \<Rightarrow> store \<Rightarrow> bool" where
  "runs held f h h' \<longleftrightarrow>
     (\<forall>st. held (ex_peers st) = h \<longrightarrow> (\<exists>st'. f st = Some st' \<and> held (ex_peers st') = h'))"

lemma runsI:
  "(\<And>st. held (ex_peers st) = h \<Longrightarrow> \<exists>st'. f st = Some st' \<and> held (ex_peers st') = h') \<Longrightarrow>
   runs held f h h'"
  by (simp add: runs_def)

lemma runsD:
  "runs held f h h' \<Longrightarrow> held (ex_peers st) = h \<Longrightarrow>
   \<exists>st'. f st = Some st' \<and> held (ex_peers st') = h'"
  by (simp add: runs_def)

lemma runs_seq:
  "runs held f h h' \<Longrightarrow> runs held g h' h'' \<Longrightarrow> runs held (\<lambda>st. do { st \<leftarrow> f st; g st }) h h''"
  by (fastforce simp: runs_def)

lemma runs_skip: "runs held Some h h"
  by (simp add: runs_def)

lemma ex_peers_cout [simp]: "ex_peers (cout t st) = ex_peers st"
  by (simp add: cout_def)

lemma ex_peers_heading [simp]: "ex_peers (heading t st) = ex_peers st"
  by (simp add: heading_def)

lemma runs_heading: "runs held f h h' \<Longrightarrow> runs held (\<lambda>st. f (heading t st)) h h'"
  by (simp add: runs_def)

lemma print_items_defined:
  "(\<And>m. m \<in> set ms \<Longrightarrow> stream m \<noteq> None) \<Longrightarrow>
   \<exists>st'. print_items stream i ms st = Some st' \<and> ex_peers st' = ex_peers st"
proof (induction ms arbitrary: i st)
  case (Cons m ms)
  from Cons.prems[of m] obtain t where t: "stream m = Some t" by auto
  have "\<exists>st'. print_items stream (i + 1) ms st = Some st' \<and> ex_peers st' = ex_peers st" for st :: "'b ex_state"
    using Cons by auto
  from this[of "cout (''>>> '' @ decimal i @ ''. '' @ t) st"] t show ?case by simp
qed simp

section \<open>The functions of a type at a server that keeps items\<close>

locale example_type = item_type mk sel dflt name_of ty
  for mk :: "'m \<Rightarrow> Item" and sel dflt name_of ty +
  fixes text_of :: "Item \<Rightarrow> string ub"
    and stream :: "'m \<Rightarrow> string ub"
  assumes text_mk: "text_of (mk m) = stream m"
begin

lemma list_type_runs:
  assumes "keeps merge client held" and "\<And>n i. h (ty, n) = Some i \<Longrightarrow> text_of i \<noteq> None"
  shows "runs held (list_type title (read_list_as ty sel) stream client) h h"
proof (rule runsI)
  fix st :: "'a ex_state" assume h: "held (ex_peers st) = h"
  from read_list_as_kept[OF assms(1), of "ex_peers st"] obtain ms s' where
    call: "read_list_as ty sel client [] (ex_peers st) = (True, ms, s')" and s': "held s' = h"
    and ms: "mk ` set ms = {i. \<exists>n. h (ty, n) = Some i}" by (auto simp: h)
  have "stream m \<noteq> None" if "m \<in> set ms" for m
  proof -
    from that ms have "mk m \<in> {i. \<exists>n. h (ty, n) = Some i}" by blast
    then show ?thesis using assms(2) by (auto simp flip: text_mk)
  qed
  then have "\<exists>st'. print_items stream 0 ms st = Some st' \<and> ex_peers st' = ex_peers st" for st :: "'a ex_state"
    by (rule print_items_defined)
  from this[of "(cout (''=== '' @ title @ '' list'') st)\<lparr>ex_peers := s'\<rparr>"] call s'
  show "\<exists>st'. list_type title (read_list_as ty sel) stream client st = Some st' \<and> held (ex_peers st') = h"
    by (auto simp: list_type_def)
qed

lemma read_type_runs:
  assumes "keeps merge client held" and "h (ty, n) = Some i" and "text_of i \<noteq> None"
  shows "runs held (read_type title (read_as ty sel dflt name_of) stream dflt client n) h h"
proof (rule runsI)
  fix st :: "'a ex_state" assume h: "held (ex_peers st) = h"
  from read_as_kept[OF assms(1), of n dflt "ex_peers st"] assms(2) obtain m s' where
    "read_as ty sel dflt name_of client n dflt (ex_peers st) = (True, m, s')"
    and "held s' = h" and "i = mk m" by (auto simp: h)
  with assms(3) show "\<exists>st'. read_type title (read_as ty sel dflt name_of) stream dflt client n st
      = Some st' \<and> held (ex_peers st') = h"
    by (auto simp: read_type_def text_mk)
qed

lemma exists_type_kept:
  assumes "keeps merge client held"
  shows "\<exists>st'. exists_type (read_as ty sel dflt name_of) dflt client n st
      = (n = [] \<or> held (ex_peers st) (ty, n) \<noteq> None, st') \<and> held (ex_peers st') = held (ex_peers st)"
proof -
  from read_as_kept[OF assms, of n dflt "ex_peers st"] obtain b m s' where
    call: "read_as ty sel dflt name_of client n dflt (ex_peers st) = (b, m, s')"
    and same: "held s' = held (ex_peers st)"
    and found: "case held (ex_peers st) (ty, n) of
      Some i \<Rightarrow> b \<and> i = mk m \<and> name_of m = n | None \<Rightarrow> b = (n = []) \<and> m = dflt" by blast
  from found have "b \<longleftrightarrow> n = [] \<or> held (ex_peers st) (ty, n) \<noteq> None"
    by (cases "held (ex_peers st) (ty, n)") simp_all
  with call same show ?thesis by (cases b) (simp_all add: exists_type_def)
qed

lemma create_type_runs:
  assumes k: "keeps merge client held"
    and exists: "\<And>st. \<exists>st'. exists n st = (n = [] \<or> held (ex_peers st) (xt, n) \<noteq> None, st') \<and>
      held (ex_peers st') = held (ex_peers st)"
    and extra: "\<And>t st. ex_peers (extra t st) = ex_peers st"
    and n: "name_of c = n" "name_of u = n" and texts: "stream c \<noteq> None" "stream u \<noteq> None"
    and answer: "text_of (merge opts (before xt ty n (mk c) h) (mk u)) \<noteq> None"
  shows "runs held (create_type head exists (create_as mk sel dflt) (update_as mk sel dflt) stream dflt
      extra client n c u opts) h (put_type merge opts xt ty n (mk c) (mk u) h)"
proof (rule runsI)
  fix st :: "'a ex_state" assume h: "held (ex_peers st) = h"
  from exists[of st] obtain st1 where
    st1: "exists n st = (n = [] \<or> h (xt, n) \<noteq> None, st1)" "held (ex_peers st1) = h" by (auto simp: h)
  from texts obtain tc tu where t: "stream c = Some tc" "stream u = Some tu" by blast
  let ?found = "n = [] \<or> h (xt, n) \<noteq> None" and ?h = "put_type merge opts xt ty n (mk c) (mk u) h"
  have update: "\<exists>m tm s'. update_as mk sel dflt client u dflt opts s = (True, m, s') \<and>
      stream m = Some tm \<and> held s' = ?h"
    if s: "held s = (if ?found then h else h((ty, n) \<mapsto> mk c))" for s
  proof -
    have "held s (ty, n) = before xt ty n (mk c) h" by (simp add: s before_def)
    with update_as_kept[OF k, of u dflt opts s, unfolded n(2)] obtain m s' where
      "update_as mk sel dflt client u dflt opts s = (True, m, s')"
      and m: "mk m = merge opts (before xt ty n (mk c) h) (mk u)"
      and h': "held s' = (held s)((ty, n) \<mapsto> mk m)" by auto
    moreover from answer have "stream m \<noteq> None" by (simp flip: text_mk add: m)
    moreover from h' have "held s' = ?h" by (simp add: s m put_type_def)
    ultimately show ?thesis by blast
  qed
  show "\<exists>st'. create_type head exists (create_as mk sel dflt) (update_as mk sel dflt) stream dflt
      extra client n c u opts st = Some st' \<and> held (ex_peers st') = ?h"
  proof (cases ?found)
    case True
    with st1 t update[of "ex_peers st1"] show ?thesis
      by (auto simp: create_type_def extra)
  next
    case False
    from create_as_kept[OF keeps_serves[OF k], of c dflt "ex_peers st1"] st1 n obtain s2 where
      s2: "create_as mk sel dflt client c dflt (ex_peers st1) = (True, c, s2)"
        "held s2 = h((ty, n) \<mapsto> mk c)" by auto
    with False st1 t update[of s2] show ?thesis
      by (auto simp: create_type_def extra)
  qed
qed

end

lemma delete_type_runs:
  assumes "keeps merge client held"
  shows "runs held (delete_type title client n) h (without {n} h)"
proof (rule runsI)
  fix st :: "'a ex_state" assume h: "held (ex_peers st) = h"
  from sg_type.DeleteV1_string_kept[OF keeps_serves[OF assms], of n "[]" "ex_peers st"] obtain r' s' where
    "DeleteV1_string client n [] (ex_peers st) = (True, r', s')"
    and "held s' = (\<lambda>(t, m). if m = n then None else held (ex_peers st) (t, m))" by blast
  then show "\<exists>st'. delete_type title client n st = Some st' \<and> held (ex_peers st') = without {n} h"
    unfolding h without_def by (simp add: delete_type_def)
qed

interpretation sg_example: example_type Item_service_gateway item_service_gateway dflt_ServiceGateway
  sg_name IT_service_gateway "item_text p" "ServiceGateway_stream (time_string p)" for p
  by unfold_locales (simp add: item_text_def)

interpretation up_example: example_type Item_service_gateway_user_plane item_service_gateway_user_plane
  dflt_ServiceGatewayUserPlane up_name IT_service_gateway_user_plane "item_text p"
  "ServiceGatewayUserPlane_stream (time_string p)" for p
  by unfold_locales (simp add: item_text_def)

interpretation tsf_example: example_type Item_traffic_steering_function item_traffic_steering_function
  dflt_TrafficSteeringFunction tsf_name IT_traffic_steering_function "item_text p"
  "TrafficSteeringFunction_stream (time_string p)" for p
  by unfold_locales (simp add: item_text_def)

interpretation sgrp_example: example_type Item_shard item_shard dflt_Shard sh_name IT_shard "item_text p"
  "Shard_stream (time_string p) (sh_order p)" for p
  by unfold_locales (simp add: item_text_def)

interpretation sctx_example: example_type Item_session_context item_session_context dflt_SessionContext
  sc_name IT_session_context "item_text p" "SessionContext_stream (time_string p)" for p
  by unfold_locales (simp add: item_text_def)

interpretation nc_example: example_type Item_network_connection item_network_connection
  dflt_NetworkConnection nc_name IT_network_connection "item_text p"
  "NetworkConnection_stream (time_string p) (nc_order p)" for p
  by unfold_locales (simp add: item_text_def)

section \<open>The functions of the example\<close>

lemmas list_defs = sg_list_def up_list_def tsf_list_def sgrp_list_def sctx_list_def nc_list_def
lemmas read_defs = sg_read_def up_read_def tsf_read_def sgrp_read_def sctx_read_def nc_read_def
lemmas exists_defs = sg_exists_def up_exists_def tsf_exists_def sgrp_exists_def sctx_exists_def
  nc_exists_def
lemmas create_defs = sg_create_def up_create_def tsf_create_def sgrp_create_def sctx_create_def
  nc_create_def
lemmas delete_defs = sg_delete_def up_delete_def tsf_delete_def sgrp_delete_def sctx_delete_def
  nc_delete_def
lemmas request_defs = sg_update_request_def up_update_request_def tsf_update_request_def
  sgrp_update_request_def sctx_update_request_def nc_update_request_def

lemma list_runs:
  assumes "keeps merge (ex_client ex) held" and "printable p h"
  shows "runs held (sg_list p ex) h h" and "runs held (up_list p ex) h h"
    and "runs held (tsf_list p ex) h h" and "runs held (sgrp_list p ex) h h"
    and "runs held (sctx_list p ex) h h" and "runs held (nc_list p ex) h h"
  unfolding list_defs call_defs using assms(2)
  by (auto simp: printable_def intro!: sg_example.list_type_runs[OF assms(1)] up_example.list_type_runs[OF assms(1)]
      tsf_example.list_type_runs[OF assms(1)] sgrp_example.list_type_runs[OF assms(1)]
      sctx_example.list_type_runs[OF assms(1)] nc_example.list_type_runs[OF assms(1)])

lemma read_runs:
  assumes "keeps merge (ex_client ex) held" and "printable p h"
  shows "h (IT_service_gateway, n) \<noteq> None \<Longrightarrow> runs held (sg_read p ex n) h h"
    and "h (IT_service_gateway_user_plane, n) \<noteq> None \<Longrightarrow> runs held (up_read p ex n) h h"
    and "h (IT_traffic_steering_function, n) \<noteq> None \<Longrightarrow> runs held (tsf_read p ex n) h h"
    and "h (IT_shard, n) \<noteq> None \<Longrightarrow> runs held (sgrp_read p ex n) h h"
    and "h (IT_session_context, n) \<noteq> None \<Longrightarrow> runs held (sctx_read p ex n) h h"
    and "h (IT_network_connection, n) \<noteq> None \<Longrightarrow> runs held (nc_read p ex n) h h"
  unfolding read_defs call_defs using assms(2)
  by (auto simp: printable_def intro!: sg_example.read_type_runs[OF assms(1)] up_example.read_type_runs[OF assms(1)]
      tsf_example.read_type_runs[OF assms(1)] sgrp_example.read_type_runs[OF assms(1)]
      sctx_example.read_type_runs[OF assms(1)] nc_example.read_type_runs[OF assms(1)])

lemma exists_kept:
  assumes "keeps merge (ex_client ex) held"
  shows "\<exists>st'. sg_exists ex n st = (n = [] \<or> held (ex_peers st) (IT_service_gateway, n) \<noteq> None, st') \<and>
      held (ex_peers st') = held (ex_peers st)"
    and "\<exists>st'. up_exists ex n st = (n = [] \<or> held (ex_peers st) (IT_service_gateway_user_plane, n) \<noteq> None, st') \<and>
      held (ex_peers st') = held (ex_peers st)"
    and "\<exists>st'. tsf_exists ex n st = (n = [] \<or> held (ex_peers st) (IT_traffic_steering_function, n) \<noteq> None, st') \<and>
      held (ex_peers st') = held (ex_peers st)"
    and "\<exists>st'. sgrp_exists ex n st = (n = [] \<or> held (ex_peers st) (IT_shard, n) \<noteq> None, st') \<and>
      held (ex_peers st') = held (ex_peers st)"
    and "\<exists>st'. sctx_exists ex n st = (n = [] \<or> held (ex_peers st) (IT_session_context, n) \<noteq> None, st') \<and>
      held (ex_peers st') = held (ex_peers st)"
    and "\<exists>st'. nc_exists ex n st = (n = [] \<or> held (ex_peers st) (IT_session_context, n) \<noteq> None, st') \<and>
      held (ex_peers st') = held (ex_peers st)"
  unfolding exists_defs call_defs
  by (rule sg_example.exists_type_kept[OF assms] up_example.exists_type_kept[OF assms]
      tsf_example.exists_type_kept[OF assms] sgrp_example.exists_type_kept[OF assms]
      sctx_example.exists_type_kept[OF assms])+

text \<open>The requests have names and states that can be printed.\<close>

lemma request_simps [simp]:
  "sg_name (sg_update_request ex n) = n" "up_name (up_update_request ex n d) = n"
  "tsf_name (tsf_update_request ex n) = n" "sh_name (sgrp_update_request ex n) = n"
  "sc_name (sctx_update_request ex n) = n" "nc_name (nc_update_request ex n) = n"
  by (simp_all add: request_defs)

lemma request_texts:
  "ServiceGateway_stream ts (sg_update_request ex n) \<noteq> None"
  "ServiceGatewayUserPlane_stream ts (up_update_request ex n d) \<noteq> None"
  "TrafficSteeringFunction_stream ts (tsf_update_request ex n) \<noteq> None"
  "Shard_stream ts so (sgrp_update_request ex n) \<noteq> None"
  "SessionContext_stream ts (sctx_update_request ex n) \<noteq> None"
  "NetworkConnection_stream ts no (nc_update_request ex n) \<noteq> None"
  by (simp_all add: item_stream_None request_defs dflt_defs DerivedState_active_def DerivedState_updating_def)

lemma empty_request_texts:
  "ServiceGateway_stream ts (dflt_ServiceGateway\<lparr>sg_name := n\<rparr>) \<noteq> None"
  "ServiceGatewayUserPlane_stream ts (dflt_ServiceGatewayUserPlane\<lparr>up_name := n\<rparr>) \<noteq> None"
  "TrafficSteeringFunction_stream ts (dflt_TrafficSteeringFunction\<lparr>tsf_name := n\<rparr>) \<noteq> None"
  "Shard_stream ts so (dflt_Shard\<lparr>sh_name := n\<rparr>) \<noteq> None"
  "SessionContext_stream ts (dflt_SessionContext\<lparr>sc_name := n\<rparr>) \<noteq> None"
  "NetworkConnection_stream ts no (dflt_NetworkConnection\<lparr>nc_name := n\<rparr>) \<noteq> None"
  by (simp_all add: item_stream_None dflt_defs)

text \<open>
  What the server holds after the creation function of a type. Only service gateways are updated with
  a strategy of their own, and the check for a network connection asks for a session context.
\<close>

definition sg_put :: "merge \<Rightarrow> 's UpsfCppExample \<Rightarrow> string \<Rightarrow> store \<Rightarrow> store" where
  "sg_put merge ex n = put_type merge (dflt_UpdateOptions\<lparr>uo_list_merge_strategy := LMS_replace\<rparr>)
     IT_service_gateway IT_service_gateway n
     (Item_service_gateway (dflt_ServiceGateway\<lparr>sg_name := n\<rparr>)) (Item_service_gateway (sg_update_request ex n))"

definition up_put :: "merge \<Rightarrow> 's UpsfCppExample \<Rightarrow> string \<Rightarrow> string \<Rightarrow> store \<Rightarrow> store" where
  "up_put merge ex n d = put_type merge dflt_UpdateOptions
     IT_service_gateway_user_plane IT_service_gateway_user_plane n
     (Item_service_gateway_user_plane (dflt_ServiceGatewayUserPlane\<lparr>up_name := n\<rparr>)) (Item_service_gateway_user_plane (up_update_request ex n d))"

definition tsf_put :: "merge \<Rightarrow> 's UpsfCppExample \<Rightarrow> string \<Rightarrow> store \<Rightarrow> store" where
  "tsf_put merge ex n = put_type merge dflt_UpdateOptions
     IT_traffic_steering_function IT_traffic_steering_function n
     (Item_traffic_steering_function (dflt_TrafficSteeringFunction\<lparr>tsf_name := n\<rparr>)) (Item_traffic_steering_function (tsf_update_request ex n))"

definition sgrp_put :: "merge \<Rightarrow> 's UpsfCppExample \<Rightarrow> string \<Rightarrow> store \<Rightarrow> store" where
  "sgrp_put merge ex n = put_type merge dflt_UpdateOptions
     IT_shard IT_shard n
     (Item_shard (dflt_Shard\<lparr>sh_name := n\<rparr>)) (Item_shard (sgrp_update_request ex n))"

definition sctx_put :: "merge \<Rightarrow> 's UpsfCppExample \<Rightarrow> string \<Rightarrow> store \<Rightarrow> store" where
  "sctx_put merge ex n = put_type merge dflt_UpdateOptions
     IT_session_context IT_session_context n
     (Item_session_context (dflt_SessionContext\<lparr>sc_name := n\<rparr>)) (Item_session_context (sctx_update_request ex n))"

definition nc_put :: "merge \<Rightarrow> 's UpsfCppExample \<Rightarrow> string \<Rightarrow> store \<Rightarrow> store" where
  "nc_put merge ex n = put_type merge dflt_UpdateOptions
     IT_session_context IT_network_connection n
     (Item_network_connection (dflt_NetworkConnection\<lparr>nc_name := n\<rparr>)) (Item_network_connection (nc_update_request ex n))"

lemmas put_defs = sg_put_def up_put_def tsf_put_def sgrp_put_def sctx_put_def nc_put_def

lemma request_items:
  "item_text p (Item_service_gateway (sg_update_request ex n)) \<noteq> None"
  "item_text p (Item_service_gateway_user_plane (up_update_request ex n d)) \<noteq> None"
  "item_text p (Item_traffic_steering_function (tsf_update_request ex n)) \<noteq> None"
  "item_text p (Item_shard (sgrp_update_request ex n)) \<noteq> None"
  "item_text p (Item_session_context (sctx_update_request ex n)) \<noteq> None"
  "item_text p (Item_network_connection (nc_update_request ex n)) \<noteq> None"
  unfolding item_text_def Item.case by (rule request_texts)+

lemma empty_request_items:
  "item_text p (Item_service_gateway (dflt_ServiceGateway\<lparr>sg_name := n\<rparr>)) \<noteq> None"
  "item_text p (Item_service_gateway_user_plane (dflt_ServiceGatewayUserPlane\<lparr>up_name := n\<rparr>)) \<noteq> None"
  "item_text p (Item_traffic_steering_function (dflt_TrafficSteeringFunction\<lparr>tsf_name := n\<rparr>)) \<noteq> None"
  "item_text p (Item_shard (dflt_Shard\<lparr>sh_name := n\<rparr>)) \<noteq> None"
  "item_text p (Item_session_context (dflt_SessionContext\<lparr>sc_name := n\<rparr>)) \<noteq> None"
  "item_text p (Item_network_connection (dflt_NetworkConnection\<lparr>nc_name := n\<rparr>)) \<noteq> None"
  unfolding item_text_def Item.case by (rule empty_request_texts)+

lemma printable_puts:
  assumes "prints (item_text p) merge" and "printable p h"
  shows "printable p (sg_put merge ex n h)" and "printable p (up_put merge ex n d h)"
    and "printable p (tsf_put merge ex n h)" and "printable p (sgrp_put merge ex n h)"
    and "printable p (sctx_put merge ex n h)" and "printable p (nc_put merge ex n h)"
  unfolding put_defs
  by (rule printable_put_type[OF assms(2,1) empty_request_items(1) request_items(1)]
      printable_put_type[OF assms(2,1) empty_request_items(2) request_items(2)]
      printable_put_type[OF assms(2,1) empty_request_items(3) request_items(3)]
      printable_put_type[OF assms(2,1) empty_request_items(4) request_items(4)]
      printable_put_type[OF assms(2,1) empty_request_items(5) request_items(5)]
      printable_put_type[OF assms(2,1) empty_request_items(6) request_items(6)])+

lemma without_puts [simp]:
  "n \<in> ns \<Longrightarrow> without ns (sg_put merge ex n h) = without ns h"
  "n \<in> ns \<Longrightarrow> without ns (up_put merge ex n d h) = without ns h"
  "n \<in> ns \<Longrightarrow> without ns (tsf_put merge ex n h) = without ns h"
  "n \<in> ns \<Longrightarrow> without ns (sgrp_put merge ex n h) = without ns h"
  "n \<in> ns \<Longrightarrow> without ns (sctx_put merge ex n h) = without ns h"
  "n \<in> ns \<Longrightarrow> without ns (nc_put merge ex n h) = without ns h"
  by (simp_all add: put_defs)

lemma puts_held:
  "sg_put merge ex n h (IT_service_gateway, n) \<noteq> None"
  "up_put merge ex n d h (IT_service_gateway_user_plane, n) \<noteq> None"
  "tsf_put merge ex n h (IT_traffic_steering_function, n) \<noteq> None"
  "sgrp_put merge ex n h (IT_shard, n) \<noteq> None"
  "sctx_put merge ex n h (IT_session_context, n) \<noteq> None"
  "nc_put merge ex n h (IT_network_connection, n) \<noteq> None"
  by (simp_all add: put_defs put_type_def)

lemma create_runs:
  assumes k: "keeps merge (ex_client ex) held" and p: "prints (item_text p) merge" "printable p h"
  shows "runs held (sg_create p ex n) h (sg_put merge ex n h)"
    and "runs held (up_create p ex n d) h (up_put merge ex n d h)"
    and "runs held (tsf_create p ex n) h (tsf_put merge ex n h)"
    and "runs held (sgrp_create p ex n) h (sgrp_put merge ex n h)"
    and "runs held (sctx_create p ex n) h (sctx_put merge ex n h)"
    and "runs held (nc_create p ex n) h (nc_put merge ex n h)"
  unfolding create_defs call_defs put_defs
  by (rule sg_example.create_type_runs[OF k exists_kept(1)[OF k]] up_example.create_type_runs[OF k exists_kept(2)[OF k]]
      tsf_example.create_type_runs[OF k exists_kept(3)[OF k]] sgrp_example.create_type_runs[OF k exists_kept(4)[OF k]]
      sctx_example.create_type_runs[OF k exists_kept(5)[OF k]] nc_example.create_type_runs[OF k exists_kept(6)[OF k]],
      simp, simp add: dflt_defs, simp, rule empty_request_texts, rule request_texts,
      rule put_type_prints[OF p(2,1)], rule empty_request_items, rule request_items)+

lemma delete_runs:
  assumes "keeps merge (ex_client ex) held"
  shows "runs held (sg_delete ex n) h (without {n} h)" and "runs held (up_delete ex n) h (without {n} h)"
    and "runs held (tsf_delete ex n) h (without {n} h)" and "runs held (sgrp_delete ex n) h (without {n} h)"
    and "runs held (sctx_delete ex n) h (without {n} h)" and "runs held (nc_delete ex n) h (without {n} h)"
  unfolding delete_defs by (rule delete_type_runs[OF assms])+

section \<open>The program at a server that keeps items\<close>

text \<open>What the server holds after the creations.\<close>

definition put_ups :: "merge \<Rightarrow> 's UpsfCppExample \<Rightarrow> (string \<times> string) list \<Rightarrow> store \<Rightarrow> store" where
  "put_ups merge ex = fold (\<lambda>up. up_put merge ex (fst up) (snd up))"

definition created :: "merge \<Rightarrow> 's UpsfCppExample \<Rightarrow> store \<Rightarrow> store" where
  "created merge ex h =
     nc_put merge ex (ex_nc_name ex) (sctx_put merge ex (ex_sctx_name ex) (sgrp_put merge ex (ex_sgrp_name ex)
       (tsf_put merge ex (ex_tsf_name ex) (put_ups merge ex (ex_up_names ex) (sg_put merge ex (ex_sg_name ex) h)))))"

definition example_names :: "'s UpsfCppExample \<Rightarrow> string set" where
  "example_names ex = {ex_sg_name ex, ex_tsf_name ex, ex_sgrp_name ex, ex_sctx_name ex, ex_nc_name ex}
     \<union> fst ` set (ex_up_names ex)"

lemma printable_put_ups: "prints (item_text p) merge \<Longrightarrow> printable p h \<Longrightarrow> printable p (put_ups merge ex ups h)"
  by (induction ups arbitrary: h) (simp_all add: put_ups_def printable_puts)

lemma without_put_ups: "fst ` set ups \<subseteq> ns \<Longrightarrow> without ns (put_ups merge ex ups h) = without ns h"
  by (induction ups arbitrary: h) (simp_all add: put_ups_def)

lemma printable_created:
  assumes "prints (item_text p) merge" and "printable p h"
  shows "printable p (created merge ex h)"
  unfolding created_def by (intro printable_puts printable_put_ups assms)

lemma create_ups_runs:
  assumes k: "keeps merge (ex_client ex) held" and p: "prints (item_text p) merge" and "printable p h"
  shows "runs held (create_ups p ex ups) h (put_ups merge ex ups h)"
  using assms(3)
proof (induction ups arbitrary: h)
  case Nil
  then show ?case by (simp add: put_ups_def runs_def)
next
  case (Cons up ups)
  let ?h = "up_put merge ex (fst up) (snd up) h"
  have ph: "printable p ?h" by (rule printable_puts(2)[OF p Cons.prems])
  have "put_ups merge ex (up # ups) h = put_ups merge ex ups ?h" by (simp add: put_ups_def)
  moreover have "runs held (\<lambda>st. do { st \<leftarrow> up_create p ex (fst up) (snd up) st;
      st \<leftarrow> up_read p ex (fst up) st; st \<leftarrow> up_list p ex st; create_ups p ex ups st })
      h (put_ups merge ex ups ?h)"
    by (intro runs_seq[OF create_runs(2)[OF k p Cons.prems]] runs_seq[OF read_runs(2)[OF k ph puts_held(2)]]
        runs_seq[OF list_runs(2)[OF k ph]] Cons.IH[OF ph])
  ultimately show ?case by (simp add: runs_def)
qed

lemma delete_ups_runs:
  assumes "keeps merge (ex_client ex) held"
  shows "runs held (delete_ups ex ups) h (without (fst ` set ups) h)"
proof (induction ups arbitrary: h)
  case Nil
  then show ?case by (simp add: runs_def without_def)
next
  case (Cons up ups)
  have "without (fst ` set (up # ups)) h = without (fst ` set ups) (without {fst up} h)"
    by (simp add: Un_commute)
  moreover have "runs held (\<lambda>st. do { st \<leftarrow> up_delete ex (fst up) st; delete_ups ex ups st }) h
      (without (fst ` set ups) (without {fst up} h))"
    by (rule runs_seq[OF delete_runs(2)[OF assms] Cons.IH])
  ultimately show ?case by (simp add: runs_def)
qed

lemma create_items_runs:
  assumes k: "keeps merge (ex_client ex) held" and p: "prints (item_text p) merge" and "printable p h"
  shows "runs held (create_items p ex) h (created merge ex h)"
proof -
  let ?h1 = "sg_put merge ex (ex_sg_name ex) h"
  let ?h2 = "put_ups merge ex (ex_up_names ex) ?h1"
  let ?h3 = "tsf_put merge ex (ex_tsf_name ex) ?h2"
  let ?h4 = "sgrp_put merge ex (ex_sgrp_name ex) ?h3"
  let ?h5 = "sctx_put merge ex (ex_sctx_name ex) ?h4"
  let ?h6 = "nc_put merge ex (ex_nc_name ex) ?h5"
  note p1 = printable_puts(1)[OF p assms(3), of ex "ex_sg_name ex"]
  note p2 = printable_put_ups[OF p p1, of ex "ex_up_names ex"]
  note p3 = printable_puts(3)[OF p p2, of ex "ex_tsf_name ex"]
  note p4 = printable_puts(4)[OF p p3, of ex "ex_sgrp_name ex"]
  note p5 = printable_puts(5)[OF p p4, of ex "ex_sctx_name ex"]
  note p6 = printable_puts(6)[OF p p5, of ex "ex_nc_name ex"]
  have "runs held (create_items p ex) h ?h6"
    unfolding create_items_def
    by (rule runs_seq runs_heading list_runs[OF k assms(3)] create_runs[OF k p] list_runs[OF k p1]
        create_ups_runs[OF k p p1] list_runs[OF k p2] list_runs[OF k p3] list_runs[OF k p4]
        list_runs[OF k p5] list_runs[OF k p6] read_runs[OF k p1] read_runs[OF k p3] read_runs[OF k p4]
        read_runs[OF k p5] read_runs[OF k p6] puts_held assms(3) p1 p2 p3 p4 p5)+
  then show ?thesis by (simp add: created_def)
qed

lemma delete_items_runs:
  assumes k: "keeps merge (ex_client ex) held" and "printable p h"
  shows "runs held (delete_items p ex) h (without (example_names ex) h)"
proof -
  have "runs held (delete_items p ex) h
     (without {ex_sg_name ex} (without (fst ` set (ex_up_names ex)) (without {ex_tsf_name ex}
       (without {ex_sgrp_name ex} (without {ex_sctx_name ex} (without {ex_nc_name ex} h))))))"
    unfolding delete_items_def
    by (rule runs_seq runs_heading delete_runs[OF k] delete_ups_runs[OF k]
        list_runs[OF k] printable_without assms(2))+
  moreover have "without {ex_sg_name ex} (without (fst ` set (ex_up_names ex)) (without {ex_tsf_name ex}
       (without {ex_sgrp_name ex} (without {ex_sctx_name ex} (without {ex_nc_name ex} h)))))
     = without (example_names ex) h"
    by (auto simp: without_def example_names_def fun_eq_iff)
  ultimately show ?thesis by (simp only:)
qed

lemma without_created: "without (example_names ex) (created merge ex h) = without (example_names ex) h"
proof -
  have "fst ` set (ex_up_names ex) \<subseteq> example_names ex" by (auto simp: example_names_def)
  moreover have "ex_sg_name ex \<in> example_names ex" "ex_tsf_name ex \<in> example_names ex"
    "ex_sgrp_name ex \<in> example_names ex" "ex_sctx_name ex \<in> example_names ex"
    "ex_nc_name ex \<in> example_names ex" by (simp_all add: example_names_def)
  ultimately show ?thesis by (simp add: created_def without_put_ups)
qed

text \<open>What is there of the shard: its update, merged with what was there before.\<close>

lemma put_ups_other: "ty \<noteq> IT_service_gateway_user_plane \<Longrightarrow> put_ups merge ex ups h (ty, n) = h (ty, n)"
  by (induction ups arbitrary: h) (simp_all add: put_ups_def up_put_def put_type_def)

lemma created_shard:
  "created merge ex h (IT_shard, ex_sgrp_name ex) = Some (merge dflt_UpdateOptions
     (before IT_shard IT_shard (ex_sgrp_name ex) (Item_shard (dflt_Shard\<lparr>sh_name := ex_sgrp_name ex\<rparr>)) h)
     (Item_shard (sgrp_update_request ex (ex_sgrp_name ex))))"
proof -
  have "tsf_put merge ex n (put_ups merge ex ups (sg_put merge ex n' h)) (IT_shard, m) = h (IT_shard, m)" for n n' m ups
    by (simp add: tsf_put_def sg_put_def put_type_def put_ups_other)
  then show ?thesis
    by (simp add: created_def nc_put_def sctx_put_def sgrp_put_def put_type_def before_def)
qed

section \<open>Properties\<close>

definition demo_printers :: printers where
  "demo_printers = \<lparr>time_string = \<lambda>_. ''1970-01-01T00:00:00Z'', nc_order = sorted_list_of_fmap,
     sh_order = sorted_list_of_fmap\<rparr>"

definition demo_example :: "Item list UpsfCppExample" where
  "demo_example = upsf_cpp_example (\<lambda>_. item_server merge_item) ''localhost:50051'' ''my-sg'' ''my-tsf''
     ''my-sgrp'' ''my-sctx'' ''my-nc''"

text \<open>
  C8. Against a server that keeps items and merges updates by whatever function \<open>merge\<close>, and that
  holds and makes only items that can be printed, the creation phase is defined, and afterwards
  the server holds, beside what it held, an item of each type and two user planes under the names
  of the example: the request of the update, merged by the strategy replace for the service gateway
  and by the default strategy for the others, with the item that was there, or with the one with
  nothing but a name that was created when there was none. Whether a network connection was there
  is decided by a session context of its name.
\<close>

theorem create_items_result:
  assumes "keeps merge (ex_client ex) held" and "prints (item_text p) merge" and "printable p (held (ex_peers st))"
  shows "\<exists>st'. create_items p ex st = Some st' \<and>
    held (ex_peers st') = created merge ex (held (ex_peers st))"
  using runsD[OF create_items_runs[OF assms] refl] .

text \<open>A shard of the name is there, and the server unites the prefixes.\<close>

definition demo_shard :: Shard where
  "demo_shard = dflt_Shard\<lparr>sh_name := ''my-sgrp'',
     sh_spec := Some (dflt_ShardSpec\<lparr>shs_prefix := [''10.0.0.0/8'']\<rparr>)\<rparr>"

lemma demo_shard_text: "item_text p (Item_shard demo_shard) \<noteq> None"
  by (simp add: item_text_def item_stream_None demo_shard_def dflt_defs)

lemma create_items_result_witness:
  "\<exists>st' m t. create_items demo_printers demo_example \<lparr>ex_peers = [Item_shard demo_shard], ex_out = []\<rparr> = Some st' \<and>
     held_in (ex_peers st') (IT_shard, ''my-sgrp'') = Some (Item_shard m) \<and> sh_spec m = Some t \<and>
     shs_prefix t = [''10.0.0.0/8'', ''192.168.2.0/24'', ''192.168.3.0/24'']"
proof -
  let ?st = "\<lparr>ex_peers = [Item_shard demo_shard], ex_out = []\<rparr>"
  have k: "keeps merge_item (ex_client demo_example) held_in"
    using item_server_keeps[OF merge_item_keyed] by (simp add: demo_example_def upsf_cpp_example_def)
  have "printable demo_printers (held_in (ex_peers ?st))"
    using demo_shard_text by (auto simp: printable_def held_in_def split: if_splits)
  from create_items_result[OF k merge_item_prints this]
  obtain st' where "create_items demo_printers demo_example ?st = Some st'"
    and st': "held_in (ex_peers st') = created merge_item demo_example (held_in (ex_peers ?st))" by blast
  moreover have "held_in (ex_peers ?st) (IT_shard, ''my-sgrp'') = Some (Item_shard demo_shard)"
    by (simp add: held_in_def item_key_def demo_shard_def)
  then have "created merge_item demo_example (held_in (ex_peers ?st)) (IT_shard, ''my-sgrp'')
      = Some (Item_shard (merge_shard LMS_union demo_shard (sgrp_update_request demo_example ''my-sgrp'')))"
    using created_shard[of merge_item demo_example "held_in (ex_peers ?st)"]
    by (simp add: before_def demo_example_def upsf_cpp_example_def merge_item_def dflt_UpdateOptions_def
        item_shard_def)
  ultimately show ?thesis
    by (simp add: merge_shard_def merge_part_def merge_list_def demo_shard_def sgrp_update_request_def)
qed

text \<open>
  C6. Against such a server, however it merges, the whole program is defined, returns 0, and
  removes what it created: the server ends with the items it began with, less those under one of
  the names that the program uses, of whatever type. A server that held nothing holds nothing in
  the end.
\<close>

theorem cpp_main_cleans_up:
  assumes "keeps merge (net (h @ '':'' @ show_int port)) held" and "prints (item_text p) merge"
    and "printable p (held (ex_peers st))"
    and "ns = {sg, tsf, sgrp, sctx, nc, ''my-up-a'', ''my-up-b''}"
  shows "\<exists>st'. cpp_main p net h port sg tsf sgrp sctx nc st = Some (0, st') \<and>
    held (ex_peers st') = (\<lambda>(ty, n). if n \<in> ns then None else held (ex_peers st) (ty, n))"
proof -
  let ?ex = "upsf_cpp_example net (h @ '':'' @ show_int port) sg tsf sgrp sctx nc"
  have k: "keeps merge (ex_client ?ex) held" using assms(1) by (simp add: upsf_cpp_example_def)
  from runsD[OF create_items_runs[OF k assms(2,3)] refl] obtain st1 where
    st1: "create_items p ?ex st = Some st1" "held (ex_peers st1) = created merge ?ex (held (ex_peers st))"
    by blast
  from runsD[OF delete_items_runs[OF k printable_created[OF assms(2,3)]] st1(2)] obtain st2 where
    "delete_items p ?ex st1 = Some st2"
    "held (ex_peers st2) = without (example_names ?ex) (held (ex_peers st))"
    unfolding without_created by blast
  moreover have "example_names ?ex = ns"
    by (auto simp: example_names_def upsf_cpp_example_def assms(4))
  ultimately show ?thesis using st1 by (simp add: cpp_main_def without_def)
qed

lemma cpp_main_cleans_up_witness:
  "\<exists>st'. cpp_main demo_printers (\<lambda>_. item_server merge_item) ''localhost'' 50051 ''my-sg'' ''my-tsf'' ''my-sgrp''
      ''my-sctx'' ''my-nc'' \<lparr>ex_peers = [Item_shard (dflt_Shard\<lparr>sh_name := ''mine''\<rparr>), Item_shard demo_shard],
        ex_out = []\<rparr>
    = Some (0, st') \<and> held_in (ex_peers st') (IT_shard, ''my-sgrp'') = None \<and>
    held_in (ex_peers st') (IT_shard, ''mine'') = Some (Item_shard (dflt_Shard\<lparr>sh_name := ''mine''\<rparr>))"
proof -
  let ?st = "\<lparr>ex_peers = [Item_shard (dflt_Shard\<lparr>sh_name := ''mine''\<rparr>), Item_shard demo_shard], ex_out = []\<rparr>"
  have "printable demo_printers (held_in (ex_peers ?st))"
    using empty_request_items(4)[of demo_printers "''mine''"] demo_shard_text
    by (auto simp: printable_def held_in_def split: if_splits)
  from cpp_main_cleans_up[where net = "\<lambda>_. item_server merge_item" and h = "''localhost''" and port = 50051
      and sg = "''my-sg''" and tsf = "''my-tsf''" and sgrp = "''my-sgrp''" and sctx = "''my-sctx''"
      and nc = "''my-nc''", OF item_server_keeps[OF merge_item_keyed] merge_item_prints this refl]
  obtain st' where "cpp_main demo_printers (\<lambda>_. item_server merge_item) ''localhost'' 50051 ''my-sg'' ''my-tsf''
      ''my-sgrp'' ''my-sctx'' ''my-nc'' ?st = Some (0, st')"
    and "held_in (ex_peers st') = (\<lambda>(ty, n). if n \<in> {''my-sg'', ''my-tsf'', ''my-sgrp'', ''my-sctx'', ''my-nc'',
      ''my-up-a'', ''my-up-b''} then None else held_in (ex_peers ?st) (ty, n))" by blast
  moreover have "held_in (ex_peers ?st) (IT_shard, ''mine'') = Some (Item_shard (dflt_Shard\<lparr>sh_name := ''mine''\<rparr>))"
    by (simp add: held_in_def item_key_def)
  ultimately show ?thesis by auto
qed

text \<open>
  C36. The check for an existing network connection reads a session context: when there is none of
  the name, the function tries to create the connection even if the server holds it, and when the
  server refuses, it returns without the update, leaving the server as the refusal left it.
\<close>

theorem nc_create_gives_up:
  assumes "stub_ReadV1 (ex_client ex) (name_request IT_session_context n) (ex_peers st) = ([], True, s1)"
    and "n \<noteq> []"
    and "stub_CreateV1 (ex_client ex) (Item_network_connection (dflt_NetworkConnection\<lparr>nc_name := n\<rparr>))
      Item_not_set s1 = (False, i, s2)"
  shows "\<exists>st'. nc_create p ex n st = Some st' \<and> ex_peers st' = s2"
proof -
  have "nc_exists ex n st = (False, st\<lparr>ex_peers := s1\<rparr>)"
    using assms(1,2) by (simp add: nc_exists_def exists_type_def ReadV1_SessionContext_def read_as_def
        dflt_ReadReq_def)
  moreover obtain t where
    "NetworkConnection_stream (time_string p) (nc_order p) (dflt_NetworkConnection\<lparr>nc_name := n\<rparr>) = Some t"
    using empty_request_texts(6) by blast
  ultimately show ?thesis
    using assms(3) by (simp add: nc_create_def create_type_def CreateV1_NetworkConnection_def
        create_as_def CreateV1_def)
qed

text \<open>A server that refuses to create what it holds.\<close>

definition strict_server :: "Item list upsf_stub" where
  "strict_server = (item_server merge_item)\<lparr>stub_CreateV1 := (\<lambda>i r s.
     case item_key i of None \<Rightarrow> (False, r, s)
     | Some k \<Rightarrow> if held_in s k = None then (True, i, put_item i s) else (False, r, s))\<rparr>"

lemma nc_create_gives_up_witness:
  "\<exists>st'. nc_create demo_printers (demo_example\<lparr>ex_client := strict_server\<rparr>) ''my-nc''
      \<lparr>ex_peers = [Item_network_connection (dflt_NetworkConnection\<lparr>nc_name := ''my-nc''\<rparr>)], ex_out = []\<rparr>
    = Some st' \<and>
    ex_peers st' = [Item_network_connection (dflt_NetworkConnection\<lparr>nc_name := ''my-nc''\<rparr>)]"
  by (rule nc_create_gives_up) (auto simp: strict_server_def item_server_def held_in_def item_key_def)

end
