(* ===== verification/CExample.thy ===== *)
theory CExample
  imports Servers Streams Subscriber CppExample
begin

text \<open>
  The C example, \<^verbatim>\<open>examples/c/upsf_c_example.c\<close>: a program that opens a slot, creates, updates,
  gets, lists and deletes an item of every type, subscribes, and closes the slot, printing what it gets with
  the dump functions. The \<open>list\<close>, \<open>dump\<close> and \<open>test\<close> functions of the six types are
  written alike; each is an instance of one function. The state is the world of the C interface
  and what was written to \<^verbatim>\<open>stderr\<close>.
\<close>

section \<open>The environment\<close>

text \<open>
  What the program meets: the servers, its thread, the libraries below the printers, what an
  uninitialised buffer of 1024 bytes holds (it may depend on all that was printed before), and
  what the server does for the subscription.
\<close>

record 's c_env =
  env_net :: "string \<Rightarrow> 's upsf_stub"
  env_tid :: pthread_t
  env_printers :: printers
  env_buf :: "string \<Rightarrow> string"
  env_rounds :: "string \<Rightarrow> ReadReq \<Rightarrow> (Item list \<times> bool) list"

record 's c_state =
  ce_world :: "'s world"
  ce_stderr :: string

text \<open>\<open>snprintf(buf, n, s)\<close> of a text without conversions, with its terminator.\<close>

definition snprintf :: "string \<Rightarrow> nat \<Rightarrow> string \<Rightarrow> string ub" where
  "snprintf buf n s =
     (if n = 0 then Some buf
      else let c = take (n - 1) (c_str s) @ [NUL]
           in if length c \<le> length buf then Some (c @ drop (length c) buf) else None)"

definition set_string :: "string \<Rightarrow> upsf_string_t \<Rightarrow> upsf_string_t ub" where
  "set_string s e = do { b \<leftarrow> snprintf (cs_str e) UPSF_MAX_STRING_SIZE s; Some (e\<lparr>cs_str := b\<rparr>) }"

text \<open>The conversion \<^verbatim>\<open>%s\<close> of a buffer: it is read up to a NUL, which must be inside.\<close>

definition format_s :: "string \<Rightarrow> string ub" where
  "format_s b = (if NUL \<in> set b then Some (c_str b) else None)"

section \<open>The functions of an item type\<close>

text \<open>\<^verbatim>\<open>size_t buflen = sizeof(buf) - 1\<close>\<close>

definition buflen :: size_t where
  "buflen = 1023"

text \<open>
  \<open>list_X\<close>: the array is cleared by the list function before anything of it is read, so that it
  may start as any array of 64 structures. The buffer is one for all rounds of the loop.
\<close>

definition example_list ::
    "string \<Rightarrow> 'c \<Rightarrow> ('c list option \<Rightarrow> size_t \<Rightarrow> 's world \<Rightarrow> (int32 \<times> 'c list option \<times> 's world) ub)
      \<Rightarrow> (string option \<Rightarrow> size_t \<Rightarrow> 'c option \<Rightarrow> (bool \<times> string option) ub)
      \<Rightarrow> 's c_env \<Rightarrow> 's c_state \<Rightarrow> (int32 \<times> 's c_state) ub" where
  "example_list label zero upsf_list upsf_dump env st = do {
     let buf = env_buf env (ce_stderr st);
     let items = replicate 64 zero;
     (n_elems, arr, w) \<leftarrow> upsf_list (Some items) 64 (ce_world st);
     items \<leftarrow> arr;
     let st = st\<lparr>ce_world := w\<rparr>;
     if sint n_elems < 0 then Some (- 1, st)
     else do {
       (buf, err) \<leftarrow> for_up 0 (nat (sint n_elems)) (\<lambda>i (buf, err). do {
           x \<leftarrow> arr_get items i;
           (_, str) \<leftarrow> upsf_dump (Some buf) buflen (Some x);
           buf \<leftarrow> str;
           s \<leftarrow> format_s buf;
           Some (buf, err @ ''LIST '' @ label @ ''['' @ decimal i @ '']: '' @ s @ endl)
         }) (buf, ce_stderr st);
       Some (0, st\<lparr>ce_stderr := err\<rparr>)
     }
   }"

definition example_dump ::
    "(string option \<Rightarrow> size_t \<Rightarrow> 'c option \<Rightarrow> (bool \<times> string option) ub)
      \<Rightarrow> 's c_env \<Rightarrow> string \<Rightarrow> 'c \<Rightarrow> string \<Rightarrow> string ub" where
  "example_dump upsf_dump env intro item err = do {
     let buf = env_buf env err;
     (_, str) \<leftarrow> upsf_dump (Some buf) buflen (Some item);
     buf \<leftarrow> str;
     s \<leftarrow> format_s buf;
     Some (err @ intro @ '' '' @ s @ endl)
   }"

text \<open>
  \<open>test_X\<close>. \<^verbatim>\<open>upsf_get_X(&item) < 0\<close> compares a pointer, which is never less than 0.
\<close>

definition example_test ::
    "string \<Rightarrow> 'c \<Rightarrow> ('s c_state \<Rightarrow> (int32 \<times> 's c_state) ub) \<Rightarrow> (string \<Rightarrow> 'c \<Rightarrow> string \<Rightarrow> string ub)
      \<Rightarrow> ('c option \<Rightarrow> 's world \<Rightarrow> (bool \<times> 'c option \<times> 's world) ub)
      \<Rightarrow> ('c option \<Rightarrow> 's world \<Rightarrow> (bool \<times> 'c option \<times> 's world) ub)
      \<Rightarrow> ('c option \<Rightarrow> 's world \<Rightarrow> (bool \<times> 'c option \<times> 's world) ub)
      \<Rightarrow> ('c option \<Rightarrow> 's world \<Rightarrow> (int32 \<times> 's world) ub)
      \<Rightarrow> ('c \<Rightarrow> 'c ub) \<Rightarrow> ('c \<Rightarrow> 'c ub) \<Rightarrow> ('c \<Rightarrow> 'c ub) \<Rightarrow> 's c_state \<Rightarrow> (int32 \<times> 's c_state) ub" where
  "example_test label zero list dump create update get delete fill_create fill_update fill_get st = do {
     let item = zero;
     (_, st) \<leftarrow> list st;
     item \<leftarrow> fill_create item;
     (ok, ptr, w) \<leftarrow> create (Some item) (ce_world st);
     item \<leftarrow> ptr;
     let st = st\<lparr>ce_world := w\<rparr>;
     if \<not> ok then Some (- 1, st)
     else do {
       err \<leftarrow> dump (''CREATE '' @ label @ '':'') item (ce_stderr st);
       let st = st\<lparr>ce_stderr := err\<rparr>;
       item \<leftarrow> fill_update item;
       (ok, ptr, w) \<leftarrow> update (Some item) (ce_world st);
       item \<leftarrow> ptr;
       let st = st\<lparr>ce_world := w\<rparr>;
       if \<not> ok then Some (- 1, st)
       else do {
         err \<leftarrow> dump (''UPDATE '' @ label @ '':'') item (ce_stderr st);
         let st = st\<lparr>ce_stderr := err\<rparr>;
         item \<leftarrow> fill_get item;
         (_, ptr, w) \<leftarrow> get (Some item) (ce_world st);
         item \<leftarrow> ptr;
         let st = st\<lparr>ce_world := w\<rparr>;
         err \<leftarrow> dump (''GET '' @ label @ '':'') item (ce_stderr st);
         let st = st\<lparr>ce_stderr := err\<rparr>;
         (_, st) \<leftarrow> list st;
         (r, w) \<leftarrow> delete (Some item) (ce_world st);
         let st = st\<lparr>ce_world := w\<rparr>;
         if sint r < 0 then Some (- 1, st)
         else do {
           err \<leftarrow> dump (''DELETE '' @ label @ '':'') item (ce_stderr st);
           let st = st\<lparr>ce_stderr := err\<rparr>;
           (_, st) \<leftarrow> list st;
           Some (0, st)
         }
       }
     }
   }"

section \<open>Service gateway\<close>

definition list_service_gateways :: "'s c_env \<Rightarrow> 's c_state \<Rightarrow> (int32 \<times> 's c_state) ub" where
  "list_service_gateways env =
     example_list ''service_gateway'' zero_upsf_service_gateway_t (upsf_list_service_gateways (env_net env) (env_tid env))
       (upsf_dump_service_gateway (time_string (env_printers env))) env"

definition dump_service_gateway ::
    "'s c_env \<Rightarrow> string \<Rightarrow> upsf_service_gateway_t \<Rightarrow> string \<Rightarrow> string ub" where
  "dump_service_gateway env = example_dump (upsf_dump_service_gateway (time_string (env_printers env))) env"

definition fill_create_service_gateway :: "upsf_service_gateway_t \<Rightarrow> upsf_service_gateway_t ub" where
  "fill_create_service_gateway item = do {
     s \<leftarrow> set_string ''sg-test'' (c_sg_name item);
     let item = item\<lparr>c_sg_name := s\<rparr>;
     Some item
   }"

definition fill_update_service_gateway :: "upsf_service_gateway_t \<Rightarrow> upsf_service_gateway_t ub" where
  "fill_update_service_gateway item = do {
     s \<leftarrow> set_string ''sg-test'' (c_sg_name item);
     let item = item\<lparr>c_sg_name := s\<rparr>;
     s \<leftarrow> set_string ''sg-test description'' (c_md_description (c_sg_metadata item));
     let item = item\<lparr>c_sg_metadata := (c_sg_metadata item)\<lparr>c_md_description := s\<rparr>\<rparr>;
     Some item
   }"

definition fill_get_service_gateway :: "upsf_service_gateway_t \<Rightarrow> upsf_service_gateway_t ub" where
  "fill_get_service_gateway item = do {
     s \<leftarrow> set_string ''sg-test'' (c_sg_name item);
     let item = item\<lparr>c_sg_name := s\<rparr>;
     Some item
   }"

definition test_service_gateway :: "'s c_env \<Rightarrow> 's c_state \<Rightarrow> (int32 \<times> 's c_state) ub" where
  "test_service_gateway env =
     example_test ''service_gateway'' zero_upsf_service_gateway_t (list_service_gateways env) (dump_service_gateway env)
       (upsf_create_service_gateway (env_net env) (env_tid env)) (upsf_update_service_gateway (env_net env) (env_tid env))
       (upsf_get_service_gateway (env_net env) (env_tid env)) (upsf_delete_service_gateway (env_net env) (env_tid env))
       fill_create_service_gateway fill_update_service_gateway fill_get_service_gateway"

section \<open>Service gateway user plane\<close>

definition list_service_gateway_user_planes :: "'s c_env \<Rightarrow> 's c_state \<Rightarrow> (int32 \<times> 's c_state) ub" where
  "list_service_gateway_user_planes env =
     example_list ''service_gateway_user_plane'' zero_upsf_service_gateway_user_plane_t (upsf_list_service_gateway_user_planes (env_net env) (env_tid env))
       (upsf_dump_service_gateway_user_plane (time_string (env_printers env))) env"

definition dump_service_gateway_user_plane ::
    "'s c_env \<Rightarrow> string \<Rightarrow> upsf_service_gateway_user_plane_t \<Rightarrow> string \<Rightarrow> string ub" where
  "dump_service_gateway_user_plane env = example_dump (upsf_dump_service_gateway_user_plane (time_string (env_printers env))) env"

definition fill_create_service_gateway_user_plane :: "upsf_service_gateway_user_plane_t \<Rightarrow> upsf_service_gateway_user_plane_t ub" where
  "fill_create_service_gateway_user_plane item = do {
     s \<leftarrow> set_string ''up-test'' (c_up_name item);
     let item = item\<lparr>c_up_name := s\<rparr>;
     s \<leftarrow> set_string ''sg-test'' (c_up_service_gateway_name item);
     let item = item\<lparr>c_up_service_gateway_name := s\<rparr>;
     let ep = c_ups_default_endpoint (c_up_spec item);
     let ep = ep\<lparr>c_ep_type := UPSF_EP_TYPE_VTEP\<rparr>;
     s \<leftarrow> set_string ''up-test'' (c_ep_endpoint_name ep);
     let ep = ep\<lparr>c_ep_endpoint_name := s\<rparr>;
     v \<leftarrow> ep_spec_vtep (c_ep_spec ep);
     s \<leftarrow> set_string ''1.2.3.4'' (c_vt_ip_address v);
     let v = v\<lparr>c_vt_ip_address := s\<rparr>;
     let v = v\<lparr>c_vt_udp_port := 4789\<rparr>;
     let v = v\<lparr>c_vt_vni := 1234\<rparr>;
     let ep = ep\<lparr>c_ep_spec := EPU_vtep v\<rparr>;
     let item = item\<lparr>c_up_spec := (c_up_spec item)\<lparr>c_ups_default_endpoint := ep\<rparr>\<rparr>;
     Some item
   }"

definition fill_update_service_gateway_user_plane :: "upsf_service_gateway_user_plane_t \<Rightarrow> upsf_service_gateway_user_plane_t ub" where
  "fill_update_service_gateway_user_plane item = do {
     s \<leftarrow> set_string ''up-test'' (c_up_name item);
     let item = item\<lparr>c_up_name := s\<rparr>;
     s \<leftarrow> set_string ''up-test description'' (c_md_description (c_up_metadata item));
     let item = item\<lparr>c_up_metadata := (c_up_metadata item)\<lparr>c_md_description := s\<rparr>\<rparr>;
     Some item
   }"

definition fill_get_service_gateway_user_plane :: "upsf_service_gateway_user_plane_t \<Rightarrow> upsf_service_gateway_user_plane_t ub" where
  "fill_get_service_gateway_user_plane item = do {
     s \<leftarrow> set_string ''up-test'' (c_up_name item);
     let item = item\<lparr>c_up_name := s\<rparr>;
     Some item
   }"

definition test_service_gateway_user_plane :: "'s c_env \<Rightarrow> 's c_state \<Rightarrow> (int32 \<times> 's c_state) ub" where
  "test_service_gateway_user_plane env =
     example_test ''service_gateway_user_plane'' zero_upsf_service_gateway_user_plane_t (list_service_gateway_user_planes env) (dump_service_gateway_user_plane env)
       (upsf_create_service_gateway_user_plane (env_net env) (env_tid env)) (upsf_update_service_gateway_user_plane (env_net env) (env_tid env))
       (upsf_get_service_gateway_user_plane (env_net env) (env_tid env)) (upsf_delete_service_gateway_user_plane (env_net env) (env_tid env))
       fill_create_service_gateway_user_plane fill_update_service_gateway_user_plane fill_get_service_gateway_user_plane"

section \<open>Shard\<close>

definition list_shards :: "'s c_env \<Rightarrow> 's c_state \<Rightarrow> (int32 \<times> 's c_state) ub" where
  "list_shards env =
     example_list ''shard'' zero_upsf_shard_t (upsf_list_shards (sh_order (env_printers env)) (env_net env) (env_tid env))
       (upsf_dump_shard (time_string (env_printers env)) (sh_order (env_printers env))) env"

definition dump_shard ::
    "'s c_env \<Rightarrow> string \<Rightarrow> upsf_shard_t \<Rightarrow> string \<Rightarrow> string ub" where
  "dump_shard env = example_dump (upsf_dump_shard (time_string (env_printers env)) (sh_order (env_printers env))) env"

definition fill_create_shard :: "upsf_shard_t \<Rightarrow> upsf_shard_t ub" where
  "fill_create_shard item = do {
     s \<leftarrow> set_string ''shard-test'' (c_sh_name item);
     let item = item\<lparr>c_sh_name := s\<rparr>;
     Some item
   }"

definition fill_update_shard :: "upsf_shard_t \<Rightarrow> upsf_shard_t ub" where
  "fill_update_shard item = do {
     s \<leftarrow> set_string ''shard-test'' (c_sh_name item);
     let item = item\<lparr>c_sh_name := s\<rparr>;
     s \<leftarrow> set_string ''shard-test description'' (c_md_description (c_sh_metadata item));
     let item = item\<lparr>c_sh_metadata := (c_sh_metadata item)\<lparr>c_md_description := s\<rparr>\<rparr>;
     Some item
   }"

definition fill_get_shard :: "upsf_shard_t \<Rightarrow> upsf_shard_t ub" where
  "fill_get_shard item = do {
     s \<leftarrow> set_string ''shard-test'' (c_sh_name item);
     let item = item\<lparr>c_sh_name := s\<rparr>;
     Some item
   }"

definition test_shard :: "'s c_env \<Rightarrow> 's c_state \<Rightarrow> (int32 \<times> 's c_state) ub" where
  "test_shard env =
     example_test ''shard'' zero_upsf_shard_t (list_shards env) (dump_shard env)
       (upsf_create_shard (sh_order (env_printers env)) (env_net env) (env_tid env)) (upsf_update_shard (sh_order (env_printers env)) (env_net env) (env_tid env))
       (upsf_get_shard (sh_order (env_printers env)) (env_net env) (env_tid env)) (upsf_delete_shard (env_net env) (env_tid env))
       fill_create_shard fill_update_shard fill_get_shard"

section \<open>Session context\<close>

definition list_session_contexts :: "'s c_env \<Rightarrow> 's c_state \<Rightarrow> (int32 \<times> 's c_state) ub" where
  "list_session_contexts env =
     example_list ''session_context'' zero_upsf_session_context_t (upsf_list_session_contexts (env_net env) (env_tid env))
       (upsf_dump_session_context (time_string (env_printers env))) env"

definition dump_session_context ::
    "'s c_env \<Rightarrow> string \<Rightarrow> upsf_session_context_t \<Rightarrow> string \<Rightarrow> string ub" where
  "dump_session_context env = example_dump (upsf_dump_session_context (time_string (env_printers env))) env"

definition fill_create_session_context :: "upsf_session_context_t \<Rightarrow> upsf_session_context_t ub" where
  "fill_create_session_context item = do {
     s \<leftarrow> set_string ''session-context-test'' (c_sc_name item);
     let item = item\<lparr>c_sc_name := s\<rparr>;
     Some item
   }"

definition fill_update_session_context :: "upsf_session_context_t \<Rightarrow> upsf_session_context_t ub" where
  "fill_update_session_context item = do {
     s \<leftarrow> set_string ''session-context-test'' (c_sc_name item);
     let item = item\<lparr>c_sc_name := s\<rparr>;
     s \<leftarrow> set_string ''session-context-test description'' (c_md_description (c_sc_metadata item));
     let item = item\<lparr>c_sc_metadata := (c_sc_metadata item)\<lparr>c_md_description := s\<rparr>\<rparr>;
     Some item
   }"

definition fill_get_session_context :: "upsf_session_context_t \<Rightarrow> upsf_session_context_t ub" where
  "fill_get_session_context item = do {
     s \<leftarrow> set_string ''session-context-test'' (c_sc_name item);
     let item = item\<lparr>c_sc_name := s\<rparr>;
     Some item
   }"

definition test_session_context :: "'s c_env \<Rightarrow> 's c_state \<Rightarrow> (int32 \<times> 's c_state) ub" where
  "test_session_context env =
     example_test ''session_context'' zero_upsf_session_context_t (list_session_contexts env) (dump_session_context env)
       (upsf_create_session_context (env_net env) (env_tid env)) (upsf_update_session_context (env_net env) (env_tid env))
       (upsf_get_session_context (env_net env) (env_tid env)) (upsf_delete_session_context (env_net env) (env_tid env))
       fill_create_session_context fill_update_session_context fill_get_session_context"

section \<open>Network connection\<close>

definition list_network_connections :: "'s c_env \<Rightarrow> 's c_state \<Rightarrow> (int32 \<times> 's c_state) ub" where
  "list_network_connections env =
     example_list ''network_connection'' zero_upsf_network_connection_t (upsf_list_network_connections (nc_order (env_printers env)) (env_net env) (env_tid env))
       (upsf_dump_network_connection (time_string (env_printers env)) (nc_order (env_printers env))) env"

definition dump_network_connection ::
    "'s c_env \<Rightarrow> string \<Rightarrow> upsf_network_connection_t \<Rightarrow> string \<Rightarrow> string ub" where
  "dump_network_connection env = example_dump (upsf_dump_network_connection (time_string (env_printers env)) (nc_order (env_printers env))) env"

definition fill_create_network_connection :: "upsf_network_connection_t \<Rightarrow> upsf_network_connection_t ub" where
  "fill_create_network_connection item = do {
     s \<leftarrow> set_string ''nc-test'' (c_nc_name item);
     let item = item\<lparr>c_nc_name := s\<rparr>;
     let sp = c_nc_spec item;
     let sp = sp\<lparr>c_ncs_nc_spec_type := UPSF_NC_SPEC_TYPE_SS_PTP\<rparr>;
     v \<leftarrow> nc_spec_ss_ptp (c_ncs_nc_spec sp);
     let v = v\<lparr>c_ssp_sgup_endpoint_size := 2\<rparr>;
     ep \<leftarrow> arr_get (c_ssp_sgup_endpoint v) 0;
     s \<leftarrow> set_string ''sgup-ep-name-1'' (c_ep_endpoint_name ep);
     let ep = ep\<lparr>c_ep_endpoint_name := s\<rparr>;
     let ep = ep\<lparr>c_ep_type := UPSF_EP_TYPE_L2VPN\<rparr>;
     l \<leftarrow> ep_spec_l2vpn (c_ep_spec ep);
     let ep = ep\<lparr>c_ep_spec := EPU_l2vpn (l\<lparr>c_l2_vpn_id := 1111\<rparr>)\<rparr>;
     a \<leftarrow> arr_set (c_ssp_sgup_endpoint v) 0 ep;
     let v = v\<lparr>c_ssp_sgup_endpoint := a\<rparr>;
     ep \<leftarrow> arr_get (c_ssp_sgup_endpoint v) 1;
     s \<leftarrow> set_string ''sgup-ep-name-2'' (c_ep_endpoint_name ep);
     let ep = ep\<lparr>c_ep_endpoint_name := s\<rparr>;
     let ep = ep\<lparr>c_ep_type := UPSF_EP_TYPE_PORT_VLAN\<rparr>;
     pv \<leftarrow> ep_spec_port_vlan (c_ep_spec ep);
     s \<leftarrow> set_string ''eth0'' (c_pv_logical_port pv);
     let pv = pv\<lparr>c_pv_logical_port := s\<rparr>;
     let pv = pv\<lparr>c_pv_svlan := 50\<rparr>;
     let pv = pv\<lparr>c_pv_cvlan := 10\<rparr>;
     let ep = ep\<lparr>c_ep_spec := EPU_port_vlan pv\<rparr>;
     a \<leftarrow> arr_set (c_ssp_sgup_endpoint v) 1 ep;
     let v = v\<lparr>c_ssp_sgup_endpoint := a\<rparr>;
     let ep = c_ssp_tsf_endpoint v;
     s \<leftarrow> set_string ''tsf-ep-name'' (c_ep_endpoint_name ep);
     let ep = ep\<lparr>c_ep_endpoint_name := s\<rparr>;
     let ep = ep\<lparr>c_ep_type := UPSF_EP_TYPE_VTEP\<rparr>;
     vt \<leftarrow> ep_spec_vtep (c_ep_spec ep);
     s \<leftarrow> set_string ''1.2.3.4'' (c_vt_ip_address vt);
     let vt = vt\<lparr>c_vt_ip_address := s\<rparr>;
     let vt = vt\<lparr>c_vt_udp_port := 4789\<rparr>;
     let vt = vt\<lparr>c_vt_vni := 1234\<rparr>;
     let ep = ep\<lparr>c_ep_spec := EPU_vtep vt\<rparr>;
     let v = v\<lparr>c_ssp_tsf_endpoint := ep\<rparr>;
     let sp = sp\<lparr>c_ncs_nc_spec := NCU_ss_ptp v\<rparr>;
     let item = item\<lparr>c_nc_spec := sp\<rparr>;
     Some item
   }"

definition fill_update_network_connection :: "upsf_network_connection_t \<Rightarrow> upsf_network_connection_t ub" where
  "fill_update_network_connection item = do {
     s \<leftarrow> set_string ''nc-test'' (c_nc_name item);
     let item = item\<lparr>c_nc_name := s\<rparr>;
     s \<leftarrow> set_string ''nc-test description'' (c_md_description (c_nc_metadata item));
     let item = item\<lparr>c_nc_metadata := (c_nc_metadata item)\<lparr>c_md_description := s\<rparr>\<rparr>;
     Some item
   }"

definition fill_get_network_connection :: "upsf_network_connection_t \<Rightarrow> upsf_network_connection_t ub" where
  "fill_get_network_connection item = do {
     s \<leftarrow> set_string ''nc-test'' (c_nc_name item);
     let item = item\<lparr>c_nc_name := s\<rparr>;
     Some item
   }"

definition test_network_connection :: "'s c_env \<Rightarrow> 's c_state \<Rightarrow> (int32 \<times> 's c_state) ub" where
  "test_network_connection env =
     example_test ''network connection'' zero_upsf_network_connection_t (list_network_connections env) (dump_network_connection env)
       (upsf_create_network_connection (nc_order (env_printers env)) (env_net env) (env_tid env)) (upsf_update_network_connection (nc_order (env_printers env)) (env_net env) (env_tid env))
       (upsf_get_network_connection (nc_order (env_printers env)) (env_net env) (env_tid env)) (upsf_delete_network_connection (env_net env) (env_tid env))
       fill_create_network_connection fill_update_network_connection fill_get_network_connection"

section \<open>Traffic steering function\<close>

text \<open>Writing \<^verbatim>\<open>ep_spec.l2vpn.vpn_id\<close>, the only field of the member, makes it the active one.\<close>

definition list_traffic_steering_functions :: "'s c_env \<Rightarrow> 's c_state \<Rightarrow> (int32 \<times> 's c_state) ub" where
  "list_traffic_steering_functions env =
     example_list ''traffic_steering_function'' zero_upsf_traffic_steering_function_t (upsf_list_traffic_steering_functions (env_net env) (env_tid env))
       (upsf_dump_traffic_steering_function (time_string (env_printers env))) env"

definition dump_traffic_steering_function ::
    "'s c_env \<Rightarrow> string \<Rightarrow> upsf_traffic_steering_function_t \<Rightarrow> string \<Rightarrow> string ub" where
  "dump_traffic_steering_function env = example_dump (upsf_dump_traffic_steering_function (time_string (env_printers env))) env"

definition fill_create_traffic_steering_function :: "upsf_traffic_steering_function_t \<Rightarrow> upsf_traffic_steering_function_t ub" where
  "fill_create_traffic_steering_function item = do {
     s \<leftarrow> set_string ''tsf-test'' (c_tsf_name item);
     let item = item\<lparr>c_tsf_name := s\<rparr>;
     let ep = c_tss_default_endpoint (c_tsf_spec item);
     s \<leftarrow> set_string ''tsf-ep-name'' (c_ep_endpoint_name ep);
     let ep = ep\<lparr>c_ep_endpoint_name := s\<rparr>;
     let ep = ep\<lparr>c_ep_type := UPSF_EP_TYPE_L2VPN\<rparr>;
     let ep = ep\<lparr>c_ep_spec := EPU_l2vpn \<lparr>c_l2_vpn_id = 1234\<rparr>\<rparr>;
     let item = item\<lparr>c_tsf_spec := (c_tsf_spec item)\<lparr>c_tss_default_endpoint := ep\<rparr>\<rparr>;
     Some item
   }"

definition fill_update_traffic_steering_function :: "upsf_traffic_steering_function_t \<Rightarrow> upsf_traffic_steering_function_t ub" where
  "fill_update_traffic_steering_function item = do {
     s \<leftarrow> set_string ''tsf-test'' (c_tsf_name item);
     let item = item\<lparr>c_tsf_name := s\<rparr>;
     s \<leftarrow> set_string ''tsf-test description'' (c_md_description (c_tsf_metadata item));
     let item = item\<lparr>c_tsf_metadata := (c_tsf_metadata item)\<lparr>c_md_description := s\<rparr>\<rparr>;
     let ep = c_tss_default_endpoint (c_tsf_spec item);
     s \<leftarrow> set_string ''tsf-ep-name'' (c_ep_endpoint_name ep);
     let ep = ep\<lparr>c_ep_endpoint_name := s\<rparr>;
     let ep = ep\<lparr>c_ep_type := UPSF_EP_TYPE_L2VPN\<rparr>;
     let ep = ep\<lparr>c_ep_spec := EPU_l2vpn \<lparr>c_l2_vpn_id = 1234\<rparr>\<rparr>;
     let item = item\<lparr>c_tsf_spec := (c_tsf_spec item)\<lparr>c_tss_default_endpoint := ep\<rparr>\<rparr>;
     Some item
   }"

definition fill_get_traffic_steering_function :: "upsf_traffic_steering_function_t \<Rightarrow> upsf_traffic_steering_function_t ub" where
  "fill_get_traffic_steering_function item = do {
     s \<leftarrow> set_string ''tsf-test'' (c_tsf_name item);
     let item = item\<lparr>c_tsf_name := s\<rparr>;
     Some item
   }"

definition test_traffic_steering_function :: "'s c_env \<Rightarrow> 's c_state \<Rightarrow> (int32 \<times> 's c_state) ub" where
  "test_traffic_steering_function env =
     example_test ''traffic steering function'' zero_upsf_traffic_steering_function_t (list_traffic_steering_functions env) (dump_traffic_steering_function env)
       (upsf_create_traffic_steering_function (env_net env) (env_tid env)) (upsf_update_traffic_steering_function (env_net env) (env_tid env))
       (upsf_get_traffic_steering_function (env_net env) (env_tid env)) (upsf_delete_traffic_steering_function (env_net env) (env_tid env))
       fill_create_traffic_steering_function fill_update_traffic_steering_function fill_get_traffic_steering_function"

section \<open>Subscription\<close>

text \<open>
  The callbacks print. What they thread through is \<^verbatim>\<open>stderr\<close>; \<open>None\<close> is a callback whose
  behaviour was undefined. All return 1.
\<close>

definition example_cb ::
    "('s c_env \<Rightarrow> string \<Rightarrow> 'c \<Rightarrow> string \<Rightarrow> string ub) \<Rightarrow> 's c_env \<Rightarrow> string \<Rightarrow> 'c \<Rightarrow> string ub
      \<Rightarrow> int32 \<times> string ub" where
  "example_cb dump env intro data err = (1, do { err \<leftarrow> err; dump env intro data err })"

definition example_callbacks :: "'s c_env \<Rightarrow> string ub UpsfSubscriberWrapper" where
  "example_callbacks env = \<lparr>
     shard_cb = Some (example_cb dump_shard env ''callback: shard''),
     session_context_cb = Some (example_cb dump_session_context env ''callback: session context''),
     network_connection_cb = Some (example_cb dump_network_connection env ''callback: network connection''),
     service_gateway_user_plane_cb =
       Some (example_cb dump_service_gateway_user_plane env ''callback: service gateway user plane''),
     traffic_steering_function_cb =
       Some (example_cb dump_traffic_steering_function env ''callback: traffic steering function''),
     service_gateway_cb = Some (example_cb dump_service_gateway env ''callback: service gateway'')\<rparr>"

text \<open>The value returned is \<open>None\<close> while the subscription runs.\<close>

definition test_subscribe :: "'s c_env \<Rightarrow> 's c_state \<Rightarrow> (int32 option \<times> 's c_state) ub" where
  "test_subscribe env st = do {
     (r, err) \<leftarrow> upsf_subscribe (nc_order (env_printers env)) (sh_order (env_printers env)) (env_rounds env)
       ''127.0.0.1'' 50051 (example_callbacks env) (Some (ce_stderr st));
     err \<leftarrow> err;
     let st = st\<lparr>ce_stderr := err\<rparr>;
     Some (case r of None \<Rightarrow> (None, st) | Some v \<Rightarrow> if sint v < 0 then (Some (- 1), st) else (Some 0, st))
   }"

section \<open>The program\<close>

text \<open>\<^verbatim>\<open>if (test_X() < 0) { return -1; }\<close>, test by test.\<close>

fun run_tests ::
    "('s c_state \<Rightarrow> (int32 \<times> 's c_state) ub) list \<Rightarrow> 's c_state \<Rightarrow> (int32 \<times> 's c_state) ub" where
  "run_tests [] st = Some (0, st)"
| "run_tests (t # ts) st = do {
     (r, st) \<leftarrow> t st;
     if sint r < 0 then Some (- 1, st) else run_tests ts st
   }"

definition c_main :: "'s c_env \<Rightarrow> 's c_state \<Rightarrow> (int32 option \<times> 's c_state) ub" where
  "c_main env st = do {
     let (r, w) = upsf_open (env_tid env) ''127.0.0.1'' 50051 (ce_world st);
     let st = st\<lparr>ce_world := w\<rparr>;
     if sint r < 0 then Some (Some (- 1), st)
     else do {
       (r, st) \<leftarrow> run_tests [test_service_gateway env, test_service_gateway_user_plane env, test_shard env,
         test_session_context env, test_network_connection env, test_traffic_steering_function env] st;
       if sint r < 0 then Some (Some (- 1), st)
       else do {
         (r, st) \<leftarrow> test_subscribe env st;
         case r of None \<Rightarrow> Some (None, st)
         | Some v \<Rightarrow>
             if sint v < 0 then Some (Some (- 1), st)
             else (let (r, w) = upsf_close (env_tid env) (ce_world st);
                       st = st\<lparr>ce_world := w\<rparr>
                   in if sint r < 0 then Some (Some (- 1), st) else Some (Some 0, st))
       }
     }
   }"

end
