(* ===== verification/CExampleRuns.thy ===== *)
theory CExampleRuns
  imports CExample WrapperApi CppExampleRuns
begin

text \<open>
  The test of an item type in the C example. The locale \<open>c_example_type\<close> has the functions of one
  type at a server that keeps items and merges updates in some way, as long as the uninitialised
  buffers happen to end with a NUL and the server makes printable items of printable ones: \<open>fine\<close> is a
  structure that can be read and printed, and each step of a test keeps it. The
  locale is interpreted for the six types.
\<close>

section \<open>Writing strings\<close>

lemma snprintf_fits:
  assumes "fits_string s" and "length b = UPSF_MAX_STRING_SIZE"
  shows "snprintf b UPSF_MAX_STRING_SIZE s = Some (s @ NUL # drop (length s + 1) b)"
  using assms by (simp add: snprintf_def fits_string_def UPSF_MAX_STRING_SIZE_def Let_def)

definition filled :: "string \<Rightarrow> upsf_string_t \<Rightarrow> upsf_string_t" where
  "filled s e = e\<lparr>cs_str := s @ NUL # drop (length s + 1) (cs_str e)\<rparr>"

lemma set_string_fits [simp]:
  "fits_string s \<Longrightarrow> ok_string e \<Longrightarrow> set_string s e = Some (filled s e)"
  by (simp add: set_string_def filled_def ok_string_def snprintf_fits)

lemma filled [simp]:
  assumes "fits_string s"
  shows "ok_string e \<Longrightarrow> ok_string (filled s e)" and "p_string (filled s e) = s"
  using assms by (auto simp: filled_def ok_string_def fits_string_def p_string_def c_str_append_NUL)

text \<open>The texts of the example fit.\<close>

lemma example_fits [simp]:
  "fits_string ''sg-test''" "fits_string ''sg-test description''" "fits_string ''up-test''"
  "fits_string ''up-test description''" "fits_string ''1.2.3.4''" "fits_string ''shard-test''"
  "fits_string ''shard-test description''" "fits_string ''session-context-test''"
  "fits_string ''session-context-test description''" "fits_string ''nc-test''"
  "fits_string ''nc-test description''" "fits_string ''sgup-ep-name-1''"
  "fits_string ''sgup-ep-name-2''" "fits_string ''eth0''" "fits_string ''tsf-ep-name''"
  "fits_string ''tsf-test''" "fits_string ''tsf-test description''"
  by (simp_all add: fits_string_def UPSF_MAX_STRING_SIZE_def)

section \<open>Buffers\<close>

definition good_buf :: "string \<Rightarrow> bool" where
  "good_buf b \<longleftrightarrow> length b = 1024 \<and> b ! 1023 = NUL"

lemma good_buf_format: "good_buf b \<Longrightarrow> \<exists>s. format_s b = Some s"
  by (auto simp: good_buf_def format_s_def in_set_conv_nth intro!: exI[of _ 1023])

lemma good_buf_strncpy:
  assumes "good_buf b" and "k \<le> 1023"
  shows "\<exists>b'. strncpy b t k = Some b' \<and> good_buf b'"
proof -
  define c where "c = take k (c_str t) @ replicate (k - length (take k (c_str t))) NUL"
  have len: "length c = k" by (simp add: c_def)
  then have "(c @ drop k b) ! 1023 = b ! 1023"
    using assms by (simp add: nth_append good_buf_def)
  moreover have "strncpy b t k = Some (c @ drop k b)"
    using assms by (simp add: strncpy_def Let_def good_buf_def c_def)
  ultimately show ?thesis using assms len by (simp add: good_buf_def)
qed

lemma unat_buflen [simp]: "unat buflen = 1023" "buflen \<noteq> 0"
  by (simp_all add: buflen_def)

section \<open>The course of a test\<close>

text \<open>A test in which every step has the result named goes to its end.\<close>

lemma example_test_run:
  assumes "list st = Some (r0, st0)" and "fill_create zero = Some x1"
    and "create (Some x1) (ce_world st0) = Some (True, Some y1, w1)"
    and "dump (''CREATE '' @ label @ '':'') y1 (ce_stderr st0) = Some e1"
    and "fill_update y1 = Some x2" and "update (Some x2) w1 = Some (True, Some y2, w2)"
    and "dump (''UPDATE '' @ label @ '':'') y2 e1 = Some e2"
    and "fill_get y2 = Some x3" and "get (Some x3) w2 = Some (ok, Some y3, w3)"
    and "dump (''GET '' @ label @ '':'') y3 e2 = Some e3"
    and "list (st0\<lparr>ce_world := w3, ce_stderr := e3\<rparr>) = Some (r4, st4)"
    and "delete (Some y3) (ce_world st4) = Some (0, w5)"
    and "dump (''DELETE '' @ label @ '':'') y3 (ce_stderr st4) = Some e5"
    and "list (st4\<lparr>ce_world := w5, ce_stderr := e5\<rparr>) = Some (r6, st6)"
  shows "example_test label zero list dump create update get delete fill_create fill_update fill_get st
    = Some (0, st6)"
  using assms by (simp add: example_test_def)

section \<open>The functions of a type\<close>

locale c_example_type =
  item_api to_c from_c c_of p_of dflt ok clean mk sel name_of ty c_name +
  example_type mk sel dflt name_of ty text_of stream
  for to_c :: "'m \<Rightarrow> 'c \<Rightarrow> (bool \<times> 'c) ub" and from_c c_of p_of dflt ok clean mk sel name_of ty c_name
    and text_of :: "Item \<Rightarrow> string ub" and stream +
  fixes zero :: 'c
    and fill_create fill_update fill_get :: "'c \<Rightarrow> 'c ub"
    and n :: string
    and fine :: "'c \<Rightarrow> bool"
  assumes fine_ok: "fine x \<Longrightarrow> ok x"
    and fine_c: "stream m \<noteq> None \<Longrightarrow> fine (c_of m)"
    and fine_text: "fine x \<Longrightarrow> stream (p_of x dflt) \<noteq> None"
    and fill_create: "\<exists>y. fill_create zero = Some y \<and> fine y \<and> p_string (c_name y) = n"
    and fill_update: "fine x \<Longrightarrow> \<exists>y. fill_update x = Some y \<and> fine y \<and> p_string (c_name y) = n"
    and fill_get: "fine x \<Longrightarrow> \<exists>y. fill_get x = Some y \<and> fine y \<and> p_string (c_name y) = n"
    and n_fits: "fits_string n" and n_ne: "n \<noteq> []"
begin

abbreviation "dump \<equiv> dump_item from_c dflt stream"

lemma dump_good:
  assumes "fine x" and "good_buf b"
  shows "\<exists>b'. dump (Some b) buflen (Some x) = Some (True, Some b') \<and> good_buf b'"
proof -
  from fine_text[OF assms(1)] obtain t where t: "stream (p_of x dflt) = Some t" by blast
  from good_buf_strncpy[OF assms(2), of "min 1023 (length t)" t] t fine_ok[OF assms(1)]
  show ?thesis by (auto simp: dump_item_def from_c_eq)
qed

lemma example_dump_good:
  assumes "fine x" and "\<And>err. good_buf (env_buf env err)"
  shows "\<exists>err'. example_dump dump env intro x err = Some err'"
proof -
  from dump_good[OF assms(1) assms(2)[of err]] obtain b' where
    "dump (Some (env_buf env err)) buflen (Some x) = Some (True, Some b')" "good_buf b'" by blast
  with good_buf_format[of b'] show ?thesis by (auto simp: example_dump_def)
qed

text \<open>Listing at most 64 items.\<close>

lemma example_list_good:
  assumes buf: "\<And>err. good_buf (env_buf env err)"
    and slot: "upsf_slots (ce_world st) tid = Some slot"
    and rd: "rl (net (upsf_addr slot)) [] (peers (ce_world st)) = (True, ms, s)"
    and ms: "length ms \<le> 64" "\<And>m. m \<in> set ms \<Longrightarrow> fine (c_of m)"
  shows "\<exists>st'. example_list label zero (list_items to_c zero rl net tid) dump env st = Some (0, st') \<and>
    ce_world st' = (ce_world st)\<lparr>peers := s\<rparr>"
proof -
  let ?items = "map c_of ms @ replicate (64 - length ms) zero"
  have list: "list_items to_c zero rl net tid (Some (replicate 64 zero)) 64 (ce_world st)
      = Some (of_nat (length ms), Some ?items, (ce_world st)\<lparr>peers := s\<rparr>)"
    using list_items_eq[where rl = rl and z = zero and net = net and a = "replicate 64 zero" and n = 64, OF slot _ _ rd] ms(1) by simp
  have n: "sint (of_nat (length ms) :: int32) = int (length ms)"
    using ms(1) by (intro sint_of_nat_int32) simp
  let ?body = "\<lambda>i (buf, err). do {
           x \<leftarrow> arr_get ?items i;
           (_, str) \<leftarrow> dump (Some buf) buflen (Some x);
           buf \<leftarrow> str;
           s \<leftarrow> format_s buf;
           Some (buf, err @ ''LIST '' @ label @ ''['' @ decimal i @ '']: '' @ s @ endl)
         }"
  have "\<exists>t. for_up 0 (length ms) ?body (env_buf env (ce_stderr st), ce_stderr st) = Some t \<and> good_buf (fst t)"
  proof (rule for_up_invariant)
    fix k and t :: "string \<times> string" assume k: "k < length ms" and t: "good_buf (fst t)"
    obtain b err where bt: "t = (b, err)" by (cases t)
    from k have "arr_get ?items k = Some (c_of (ms ! k))"
      by (simp add: arr_get_def nth_append)
    moreover from k ms(2) dump_good[of "c_of (ms ! k)" b] t bt obtain b' where
      "dump (Some b) buflen (Some (c_of (ms ! k))) = Some (True, Some b')" "good_buf b'" by auto
    moreover with good_buf_format obtain x where "format_s b' = Some x" by blast
    ultimately show "\<exists>t'. ?body k t = Some t' \<and> good_buf (fst t')"
      by (simp add: bt)
  qed (use buf in simp_all)
  then obtain b err where "for_up 0 (length ms) ?body (env_buf env (ce_stderr st), ce_stderr st) = Some (b, err)"
    by force
  then show ?thesis by (simp add: example_list_def list n)
qed

lemma example_list_kept:
  assumes "\<And>err. good_buf (env_buf env err)"
    and "upsf_slots (ce_world st) tid = Some slot" and "keeps merge (net (upsf_addr slot)) held"
    and one: "\<And>k i. held (peers (ce_world st)) (ty, k) = Some i \<Longrightarrow> k = n \<and> (\<exists>m. stream m \<noteq> None \<and> i = mk m)"
  shows "\<exists>st'. example_list label zero (list_items to_c zero (read_list_as ty sel) net tid) dump env st
      = Some (0, st') \<and> upsf_slots (ce_world st') = upsf_slots (ce_world st) \<and>
    held (peers (ce_world st')) = held (peers (ce_world st))"
proof -
  from read_list_as_kept[OF assms(3), of "peers (ce_world st)"] obtain ms s' where
    call: "read_list_as ty sel (net (upsf_addr slot)) [] (peers (ce_world st)) = (True, ms, s')"
    and same: "held s' = held (peers (ce_world st))" and d: "distinct ms"
    and ms: "mk ` set ms = {i. \<exists>k. held (peers (ce_world st)) (ty, k) = Some i}" by blast
  have held_ms: "\<exists>k. held (peers (ce_world st)) (ty, k) = Some (mk m)" if "m \<in> set ms" for m
    using that ms by blast
  then have "held (peers (ce_world st)) (ty, n) = Some (mk m)" if "m \<in> set ms" for m
    using that one by blast
  then have eq: "a = b" if "a \<in> set ms" "b \<in> set ms" for a b
    using that by (metis mk_eq option.inject)
  have "length ms \<le> 64"
  proof (cases ms)
    case (Cons a r)
    then show ?thesis using d eq[of a "hd r"] by (cases r) simp_all
  qed simp
  moreover have "fine (c_of m)" if "m \<in> set ms" for m
    using held_ms[OF that] one fine_c by (metis mk_eq)
  ultimately have "\<exists>st'. example_list label zero (list_items to_c zero (read_list_as ty sel) net tid) dump env st
      = Some (0, st') \<and> ce_world st' = (ce_world st)\<lparr>peers := s'\<rparr>"
    by (intro example_list_good[where net = net and rl = "read_list_as ty sel", OF assms(1,2) call])
  with same show ?thesis by auto
qed

text \<open>
  The calls of a test. All leave the server with, of the type, at most the item of the test;
  \<open>holds\<close> says which. It can be printed, and has the name of the test.
\<close>

definition holds :: "('s \<Rightarrow> store) \<Rightarrow> 's world \<Rightarrow> store \<Rightarrow> 'm \<Rightarrow> bool" where
  "holds held w h m \<longleftrightarrow> held (peers w) = h((ty, n) \<mapsto> mk m) \<and> stream m \<noteq> None \<and> name_of m = n"

lemma cut_n [simp]: "c_cut n = n"
  using n_fits by (rule c_cut_fits)

lemma holds_fine: "holds held w h m \<Longrightarrow> fine (c_of m) \<and> p_string (c_name (c_of m)) = n"
  by (simp add: holds_def fine_c c_name_c)

text \<open>Each call together with the assignments before it.\<close>

lemma create_step:
  assumes "keeps merge (net (upsf_addr slot)) held" and "upsf_slots w tid = Some slot"
  shows "\<exists>x m w'. fill_create zero = Some x \<and>
    create_item from_c to_c dflt (create_as mk sel dflt) net tid (Some x) w = Some (True, Some (c_of m), w') \<and>
    upsf_slots w' = upsf_slots w \<and> holds held w' (held (peers w)) m"
proof -
  from fill_create obtain x where x: "fill_create zero = Some x" "fine x" "p_string (c_name x) = n" by blast
  with create_item_refines[where net = net, OF keeps_serves[OF assms(1)] assms(2) fine_ok[OF x(2)]]
    fine_text[OF x(2)] show ?thesis
    by (intro exI[of _ x] exI[of _ "p_of x dflt"]) (auto simp: holds_def name_p)
qed

lemma update_step:
  assumes "keeps merge (net (upsf_addr slot)) held" and "prints text_of merge"
    and "upsf_slots w tid = Some slot" and "fine z" and "holds held w h m"
  shows "\<exists>x m' w'. fill_update z = Some x \<and>
    update_item from_c to_c dflt (update_as mk sel dflt) net tid (Some x) w = Some (True, Some (c_of m'), w') \<and>
    upsf_slots w' = upsf_slots w \<and> holds held w' h m'"
proof -
  from fill_update[OF assms(4)] obtain x where
    x: "fill_update z = Some x" "fine x" "p_string (c_name x) = n" by blast
  from assms(5) x(3) have held: "held (peers w) (ty, name_of (p_of x dflt)) = Some (mk m)" and m: "stream m \<noteq> None"
    by (simp_all add: holds_def name_p)
  let ?i = "merge dflt_UpdateOptions (Some (mk m)) (mk (p_of x dflt))"
  from update_as_kept[OF assms(1), of "p_of x dflt" dflt dflt_UpdateOptions "peers w"] x(3) assms(5) held
  obtain m' s' where call: "update_as mk sel dflt (net (upsf_addr slot)) (p_of x dflt) dflt dflt_UpdateOptions (peers w)
      = (True, m', s')" and m': "mk m' = ?i" "name_of m' = n" and "held s' = h((ty, n) \<mapsto> mk m')"
    by (auto simp: holds_def name_p)
  moreover have "text_of ?i \<noteq> None"
    by (rule printsD[OF assms(2)]) (use m fine_text[OF x(2)] in \<open>simp_all add: text_mk\<close>)
  then have "stream m' \<noteq> None" by (simp flip: text_mk m'(1))
  ultimately have "holds held (w\<lparr>peers := s'\<rparr>) h m'" by (simp add: holds_def)
  with x(1) call show ?thesis
    by (intro exI[of _ x] exI[of _ m'] exI[of _ "w\<lparr>peers := s'\<rparr>"])
      (simp add: update_item_eq[OF assms(3) fine_ok[OF x(2)]])
qed

lemma get_step:
  assumes "keeps merge (net (upsf_addr slot)) held" and "upsf_slots w tid = Some slot"
    and "fine z" and "holds held w h m"
  shows "\<exists>x w'. fill_get z = Some x \<and>
    get_item c_name name_of to_c dflt (read_as ty sel dflt name_of) net tid (Some x) w
      = Some (True, Some (c_of m), w') \<and> upsf_slots w' = upsf_slots w \<and> holds held w' h m"
proof -
  from fill_get[OF assms(3)] obtain x where
    x: "fill_get z = Some x" "fine x" "p_string (c_name x) = n" by blast
  have "held (peers w) (ty, n) = Some (mk m)" using assms(4) by (simp add: holds_def)
  with get_item_refines[where net = net and w = w, OF keeps_serves[OF assms(1)] assms(2) fine_ok[OF x(2)]]
    keeps_key[OF assms(1)] x n_ne assms(4)
  show ?thesis by (auto simp: holds_def)
qed

lemma delete_kept:
  assumes "keeps merge (net (upsf_addr slot)) held" and "upsf_slots w tid = Some slot"
    and "holds held w h m"
  shows "\<exists>w'. delete_item c_name net tid (Some (c_of m)) w = Some (0, w') \<and> upsf_slots w' = upsf_slots w \<and>
    held (peers w') = without {n} h"
proof -
  from holds_fine[OF assms(3)] have "fine (c_of m)" "p_string (c_name (c_of m)) = n" by simp_all
  with delete_item_refines[where net = net, OF keeps_serves[OF assms(1)] assms(2) fine_ok, of "c_of m"] assms(3)
  show ?thesis by (auto simp: holds_def without_def fun_eq_iff)
qed

text \<open>
  The whole test: at a server without items of the type it returns 0, and the server is as before,
  but for items of other types that had the name of the test.
\<close>

lemma example_test_kept:
  assumes buf: "\<And>err. good_buf (env_buf env err)"
    and slot: "upsf_slots (ce_world st) tid = Some slot" and k: "keeps merge (net (upsf_addr slot)) held"
    and prints: "prints text_of merge"
    and none: "\<And>m. held (peers (ce_world st)) (ty, m) = None"
  shows "\<exists>st'. example_test label zero
      (example_list label' zero (list_items to_c zero (read_list_as ty sel) net tid) dump env)
      (example_dump dump env)
      (create_item from_c to_c dflt (create_as mk sel dflt) net tid)
      (update_item from_c to_c dflt (update_as mk sel dflt) net tid)
      (get_item c_name name_of to_c dflt (read_as ty sel dflt name_of) net tid)
      (delete_item c_name net tid) fill_create fill_update fill_get st = Some (0, st') \<and>
    upsf_slots (ce_world st') = upsf_slots (ce_world st) \<and>
    held (peers (ce_world st')) = without {n} (held (peers (ce_world st)))"
proof -
  define h where "h = held (peers (ce_world st))"
  define list where "list = example_list label' zero (list_items to_c zero (read_list_as ty sel) net tid) dump env"
  let ?slots = "upsf_slots (ce_world st)"
  have lists: "\<exists>st'. list st1 = Some (0, st') \<and> upsf_slots (ce_world st') = ?slots \<and>
      held (peers (ce_world st')) = held (peers (ce_world st1))"
    if "upsf_slots (ce_world st1) = ?slots"
      and "\<And>k i. held (peers (ce_world st1)) (ty, k) = Some i \<Longrightarrow> k = n \<and> (\<exists>m. stream m \<noteq> None \<and> i = mk m)"
    for st1 unfolding list_def that(1)[symmetric]
    by (rule example_list_kept[where net = net, OF buf _ k that(2)]) (simp add: slot that(1))
  have dumps: "\<exists>err'. example_dump dump env intro x err = Some err'" if "fine x" for intro x err
    by (rule example_dump_good[OF that buf])
  from lists[of st] none obtain st0 where st0: "list st = Some (0, st0)"
    "upsf_slots (ce_world st0) = ?slots" "held (peers (ce_world st0)) = h" by (auto simp: h_def)
  from create_step[where net = net and w = "ce_world st0" and tid = tid, OF k] slot st0(2,3) obtain x1 m1 w1 where
    w1: "fill_create zero = Some x1"
      "create_item from_c to_c dflt (create_as mk sel dflt) net tid (Some x1) (ce_world st0)
        = Some (True, Some (c_of m1), w1)" "upsf_slots w1 = ?slots" "holds held w1 h m1" by auto
  note y1 = holds_fine[OF w1(4), THEN conjunct1]
  from dumps[OF y1, of "''CREATE '' @ label @ '':''" "ce_stderr st0"] obtain e1 where
    e1: "example_dump dump env (''CREATE '' @ label @ '':'') (c_of m1) (ce_stderr st0) = Some e1" ..
  from update_step[where net = net and w = w1 and tid = tid, OF k prints _ y1 w1(4)] slot w1(3) obtain x2 m w2 where
    w2: "fill_update (c_of m1) = Some x2"
      "update_item from_c to_c dflt (update_as mk sel dflt) net tid (Some x2) w1
        = Some (True, Some (c_of m), w2)" "upsf_slots w2 = ?slots" "holds held w2 h m" by auto
  note y2 = holds_fine[OF w2(4), THEN conjunct1]
  from dumps[OF y2, of "''UPDATE '' @ label @ '':''" e1] obtain e2 where
    e2: "example_dump dump env (''UPDATE '' @ label @ '':'') (c_of m) e1 = Some e2" ..
  from get_step[where net = net and w = w2 and tid = tid, OF k _ y2 w2(4)] slot w2(3) obtain x3 w3 where
    w3: "fill_get (c_of m) = Some x3"
      "get_item c_name name_of to_c dflt (read_as ty sel dflt name_of) net tid (Some x3) w2
        = Some (True, Some (c_of m), w3)" "upsf_slots w3 = ?slots" "holds held w3 h m" by auto
  from dumps[OF y2, of "''GET '' @ label @ '':''" e2] obtain e3 where
    e3: "example_dump dump env (''GET '' @ label @ '':'') (c_of m) e2 = Some e3" ..
  let ?st3 = "st0\<lparr>ce_world := w3, ce_stderr := e3\<rparr>"
  have "k = n \<and> (\<exists>m. stream m \<noteq> None \<and> i = mk m)"
    if "held (peers (ce_world ?st3)) (ty, k) = Some i" for k i
    using that w3(4) none by (auto simp: holds_def h_def split: if_splits)
  from lists[of ?st3, OF _ this] w3(3,4) obtain st4 where st4: "list ?st3 = Some (0, st4)"
    "upsf_slots (ce_world st4) = ?slots" "holds held (ce_world st4) h m" by (auto simp: holds_def)
  from delete_kept[where net = net and w = "ce_world st4" and tid = tid, OF k _ st4(3)] slot st4(2) obtain w5 where
    w5: "delete_item c_name net tid (Some (c_of m)) (ce_world st4) = Some (0, w5)"
      "upsf_slots w5 = ?slots" "held (peers w5) = without {n} h" by auto
  from dumps[OF y2, of "''DELETE '' @ label @ '':''" "ce_stderr st4"] obtain e5 where
    e5: "example_dump dump env (''DELETE '' @ label @ '':'') (c_of m) (ce_stderr st4) = Some e5" ..
  let ?st5 = "st4\<lparr>ce_world := w5, ce_stderr := e5\<rparr>"
  have "k = n \<and> (\<exists>m. stream m \<noteq> None \<and> i = mk m)"
    if "held (peers (ce_world ?st5)) (ty, k) = Some i" for k i
    using that w5(3) none by (simp add: without_def h_def split: if_splits)
  from lists[of ?st5, OF _ this] w5(2,3) obtain st6 where
    st6: "list ?st5 = Some (0, st6)"
    "upsf_slots (ce_world st6) = ?slots" "held (peers (ce_world st6)) = without {n} h" by auto
  from example_test_run[where list = list and dump = "example_dump dump env"
      and create = "create_item from_c to_c dflt (create_as mk sel dflt) net tid"
      and update = "update_item from_c to_c dflt (update_as mk sel dflt) net tid"
      and get = "get_item c_name name_of to_c dflt (read_as ty sel dflt name_of) net tid"
      and delete = "delete_item c_name net tid" and fill_create = fill_create and zero = zero
      and fill_update = fill_update and fill_get = fill_get and label = label, OF st0(1) w1(1,2) e1 w2(1,2) e2 w3(1,2) e3 st4(1) w5(1) e5 st6(1)]
    st6(2,3)
  show ?thesis unfolding list_def h_def by blast
qed

end

section \<open>The six types\<close>

text \<open>A structure is fine when it can be sent and its message can be printed.\<close>

lemma zero_parts [simp]: "ok_string zero_string" "ok_MetaData zero_upsf_metadata_t"
  by (simp_all add: ok_MetaData_def zero_upsf_metadata_t_def)

lemmas zero_arrays = zero_strings_def zero_key_values_def zero_endpoints_def

lemma take_two: "2 \<le> length xs \<Longrightarrow> take 2 (xs[0 := a, Suc 0 := b]) = [a, b]"
  by (cases xs; cases "tl xs") (auto simp: numeral_2_eq_2)

lemma ok_array_none [simp]: "ok_array p (replicate UPSF_MAX_ELEMS z) 0"
  by (simp add: ok_array_def)

definition fine_sg :: "upsf_service_gateway_t \<Rightarrow> bool" where
  "fine_sg x \<longleftrightarrow> ok_ServiceGateway x \<and> 0 \<le> sint (c_md_derived_state (c_sg_metadata x))"

lemma fine_c_sg: "ServiceGateway_stream ts m \<noteq> None \<Longrightarrow> fine_sg (c_ServiceGateway m)"
  by (simp add: fine_sg_def item_stream_None sg.ok_c)
    (simp add: c_ServiceGateway_def c_MetaData_def c_Maintenance_def c_ShardMbb_def)

lemma fine_sg_text: "fine_sg x \<Longrightarrow> ServiceGateway_stream ts (p_ServiceGateway x dflt_ServiceGateway) \<noteq> None"
  by (simp add: fine_sg_def item_stream_None p_ServiceGateway_def p_MetaData_def p_Maintenance_def p_ShardMbb_def)

lemma fill_create_service_gateway:
  "\<exists>y. fill_create_service_gateway zero_upsf_service_gateway_t = Some y \<and> fine_sg y \<and> p_string (c_sg_name y) = ''sg-test''"
  by (simp add: fill_create_service_gateway_def fine_sg_def zero_defs zero_arrays ok_defs ok_MetaData_def union_reads ep_types
      del: zero_string_def)

lemma fill_update_service_gateway:
  "fine_sg x \<Longrightarrow> \<exists>y. fill_update_service_gateway x = Some y \<and> fine_sg y \<and> p_string (c_sg_name y) = ''sg-test''"
  by (simp add: fill_update_service_gateway_def fine_sg_def ok_defs ok_MetaData_def union_reads ep_types Let_def)

lemma fill_get_service_gateway:
  "fine_sg x \<Longrightarrow> \<exists>y. fill_get_service_gateway x = Some y \<and> fine_sg y \<and> p_string (c_sg_name y) = ''sg-test''"
  by (simp add: fill_get_service_gateway_def fine_sg_def ok_ServiceGateway_def)

interpretation sg_test: c_example_type map_ServiceGateway map_upsf_service_gateway_t c_ServiceGateway
  p_ServiceGateway dflt_ServiceGateway ok_ServiceGateway clean_ServiceGateway Item_service_gateway
  item_service_gateway sg_name IT_service_gateway c_sg_name "item_text p"
  "ServiceGateway_stream (time_string p)" zero_upsf_service_gateway_t
  fill_create_service_gateway fill_update_service_gateway
  fill_get_service_gateway "''sg-test''" fine_sg for p
  by unfold_locales (simp_all add: fine_c_sg item_text_def fine_sg_text fill_create_service_gateway
      fill_update_service_gateway fill_get_service_gateway, simp add: fine_sg_def)

definition fine_up :: "upsf_service_gateway_user_plane_t \<Rightarrow> bool" where
  "fine_up x \<longleftrightarrow> ok_ServiceGatewayUserPlane x \<and> 0 \<le> sint (c_md_derived_state (c_up_metadata x)) \<and>
     0 \<le> sint (c_mt_maintenance_req (c_up_maintenance x))"

lemma fine_c_up: "ServiceGatewayUserPlane_stream ts m \<noteq> None \<Longrightarrow> fine_up (c_ServiceGatewayUserPlane m)"
  by (simp add: fine_up_def item_stream_None up.ok_c)
    (simp add: c_ServiceGatewayUserPlane_def c_MetaData_def c_Maintenance_def c_ShardMbb_def)

lemma fine_up_text: "fine_up x \<Longrightarrow> ServiceGatewayUserPlane_stream ts (p_ServiceGatewayUserPlane x dflt_ServiceGatewayUserPlane) \<noteq> None"
  by (simp add: fine_up_def item_stream_None p_ServiceGatewayUserPlane_def p_MetaData_def p_Maintenance_def p_ShardMbb_def)

lemma fill_create_service_gateway_user_plane:
  "\<exists>y. fill_create_service_gateway_user_plane zero_upsf_service_gateway_user_plane_t = Some y \<and> fine_up y \<and> p_string (c_up_name y) = ''up-test''"
  by (simp add: fill_create_service_gateway_user_plane_def fine_up_def zero_defs zero_arrays ok_defs ok_MetaData_def union_reads ep_types
      del: zero_string_def)

lemma fill_update_service_gateway_user_plane:
  "fine_up x \<Longrightarrow> \<exists>y. fill_update_service_gateway_user_plane x = Some y \<and> fine_up y \<and> p_string (c_up_name y) = ''up-test''"
  by (simp add: fill_update_service_gateway_user_plane_def fine_up_def ok_defs ok_MetaData_def union_reads ep_types Let_def)

lemma fill_get_service_gateway_user_plane:
  "fine_up x \<Longrightarrow> \<exists>y. fill_get_service_gateway_user_plane x = Some y \<and> fine_up y \<and> p_string (c_up_name y) = ''up-test''"
  by (simp add: fill_get_service_gateway_user_plane_def fine_up_def ok_ServiceGatewayUserPlane_def)

interpretation up_test: c_example_type map_ServiceGatewayUserPlane map_upsf_service_gateway_user_plane_t c_ServiceGatewayUserPlane
  p_ServiceGatewayUserPlane dflt_ServiceGatewayUserPlane ok_ServiceGatewayUserPlane clean_ServiceGatewayUserPlane Item_service_gateway_user_plane
  item_service_gateway_user_plane up_name IT_service_gateway_user_plane c_up_name "item_text p"
  "ServiceGatewayUserPlane_stream (time_string p)" zero_upsf_service_gateway_user_plane_t
  fill_create_service_gateway_user_plane fill_update_service_gateway_user_plane
  fill_get_service_gateway_user_plane "''up-test''" fine_up for p
  by unfold_locales (simp_all add: fine_c_up item_text_def fine_up_text fill_create_service_gateway_user_plane
      fill_update_service_gateway_user_plane fill_get_service_gateway_user_plane, simp add: fine_up_def)

definition fine_tsf :: "upsf_traffic_steering_function_t \<Rightarrow> bool" where
  "fine_tsf x \<longleftrightarrow> ok_TrafficSteeringFunction x \<and> 0 \<le> sint (c_md_derived_state (c_tsf_metadata x))"

lemma fine_c_tsf: "TrafficSteeringFunction_stream ts m \<noteq> None \<Longrightarrow> fine_tsf (c_TrafficSteeringFunction m)"
  by (simp add: fine_tsf_def item_stream_None tsf.ok_c)
    (simp add: c_TrafficSteeringFunction_def c_MetaData_def c_Maintenance_def c_ShardMbb_def)

lemma fine_tsf_text: "fine_tsf x \<Longrightarrow> TrafficSteeringFunction_stream ts (p_TrafficSteeringFunction x dflt_TrafficSteeringFunction) \<noteq> None"
  by (simp add: fine_tsf_def item_stream_None p_TrafficSteeringFunction_def p_MetaData_def p_Maintenance_def p_ShardMbb_def)

lemma fill_create_traffic_steering_function:
  "\<exists>y. fill_create_traffic_steering_function zero_upsf_traffic_steering_function_t = Some y \<and> fine_tsf y \<and> p_string (c_tsf_name y) = ''tsf-test''"
  by (simp add: fill_create_traffic_steering_function_def fine_tsf_def zero_defs zero_arrays ok_defs ok_MetaData_def union_reads ep_types
      del: zero_string_def)

lemma fill_update_traffic_steering_function:
  "fine_tsf x \<Longrightarrow> \<exists>y. fill_update_traffic_steering_function x = Some y \<and> fine_tsf y \<and> p_string (c_tsf_name y) = ''tsf-test''"
  by (simp add: fill_update_traffic_steering_function_def fine_tsf_def ok_defs ok_MetaData_def union_reads ep_types Let_def)

lemma fill_get_traffic_steering_function:
  "fine_tsf x \<Longrightarrow> \<exists>y. fill_get_traffic_steering_function x = Some y \<and> fine_tsf y \<and> p_string (c_tsf_name y) = ''tsf-test''"
  by (simp add: fill_get_traffic_steering_function_def fine_tsf_def ok_TrafficSteeringFunction_def)

interpretation tsf_test: c_example_type map_TrafficSteeringFunction map_upsf_traffic_steering_function_t c_TrafficSteeringFunction
  p_TrafficSteeringFunction dflt_TrafficSteeringFunction ok_TrafficSteeringFunction clean_TrafficSteeringFunction Item_traffic_steering_function
  item_traffic_steering_function tsf_name IT_traffic_steering_function c_tsf_name "item_text p"
  "TrafficSteeringFunction_stream (time_string p)" zero_upsf_traffic_steering_function_t
  fill_create_traffic_steering_function fill_update_traffic_steering_function
  fill_get_traffic_steering_function "''tsf-test''" fine_tsf for p
  by unfold_locales (simp_all add: fine_c_tsf item_text_def fine_tsf_text fill_create_traffic_steering_function
      fill_update_traffic_steering_function fill_get_traffic_steering_function, simp add: fine_tsf_def)

definition fine_nc :: "upsf_network_connection_t \<Rightarrow> bool" where
  "fine_nc x \<longleftrightarrow> ok_NetworkConnection x \<and> 0 \<le> sint (c_md_derived_state (c_nc_metadata x))"

lemma fine_c_nc: "NetworkConnection_stream ts no m \<noteq> None \<Longrightarrow> fine_nc (c_NetworkConnection ord m)"
  by (simp add: fine_nc_def item_stream_None nc.ok_c)
    (simp add: c_NetworkConnection_def c_MetaData_def c_Maintenance_def c_ShardMbb_def)

lemma fine_nc_text: "fine_nc x \<Longrightarrow> NetworkConnection_stream ts ord (p_NetworkConnection x dflt_NetworkConnection) \<noteq> None"
  by (simp add: fine_nc_def item_stream_None p_NetworkConnection_def p_MetaData_def p_Maintenance_def p_ShardMbb_def)

lemma fill_create_network_connection:
  "\<exists>y. fill_create_network_connection zero_upsf_network_connection_t = Some y \<and> fine_nc y \<and> p_string (c_nc_name y) = ''nc-test''"
  by (simp add: fill_create_network_connection_def fine_nc_def zero_defs zero_arrays ok_defs ok_MetaData_def union_reads ep_types nc_spec_types
      ok_array_def arr_get_def arr_set_def take_two UPSF_MAX_ELEMS_def Let_def
      del: zero_string_def)

lemma fill_update_network_connection:
  "fine_nc x \<Longrightarrow> \<exists>y. fill_update_network_connection x = Some y \<and> fine_nc y \<and> p_string (c_nc_name y) = ''nc-test''"
  by (simp add: fill_update_network_connection_def fine_nc_def ok_defs ok_MetaData_def union_reads ep_types Let_def)

lemma fill_get_network_connection:
  "fine_nc x \<Longrightarrow> \<exists>y. fill_get_network_connection x = Some y \<and> fine_nc y \<and> p_string (c_nc_name y) = ''nc-test''"
  by (simp add: fill_get_network_connection_def fine_nc_def ok_NetworkConnection_def)

interpretation nc_test: c_example_type "map_NetworkConnection ord" map_upsf_network_connection_t "c_NetworkConnection ord"
  p_NetworkConnection dflt_NetworkConnection ok_NetworkConnection clean_NetworkConnection Item_network_connection
  item_network_connection nc_name IT_network_connection c_nc_name "item_text p"
  "NetworkConnection_stream (time_string p) (nc_order p)" zero_upsf_network_connection_t
  fill_create_network_connection fill_update_network_connection
  fill_get_network_connection "''nc-test''" fine_nc for p ord
  by unfold_locales (simp_all add: fine_c_nc item_text_def fine_nc_text fill_create_network_connection
      fill_update_network_connection fill_get_network_connection, simp add: fine_nc_def)

definition fine_sh :: "upsf_shard_t \<Rightarrow> bool" where
  "fine_sh x \<longleftrightarrow> ok_Shard x \<and> 0 \<le> sint (c_md_derived_state (c_sh_metadata x)) \<and>
     0 \<le> sint (c_shm_mbb_state (c_sh_mbb x))"

lemma fine_c_sh: "Shard_stream ts so m \<noteq> None \<Longrightarrow> fine_sh (c_Shard ord m)"
  by (simp add: fine_sh_def item_stream_None sh.ok_c)
    (simp add: c_Shard_def c_MetaData_def c_Maintenance_def c_ShardMbb_def)

lemma fine_sh_text: "fine_sh x \<Longrightarrow> Shard_stream ts ord (p_Shard x dflt_Shard) \<noteq> None"
  by (simp add: fine_sh_def item_stream_None p_Shard_def p_MetaData_def p_Maintenance_def p_ShardMbb_def)

lemma fill_create_shard:
  "\<exists>y. fill_create_shard zero_upsf_shard_t = Some y \<and> fine_sh y \<and> p_string (c_sh_name y) = ''shard-test''"
  by (simp add: fill_create_shard_def fine_sh_def zero_defs zero_arrays ok_defs ok_MetaData_def union_reads ep_types
      del: zero_string_def)

lemma fill_update_shard:
  "fine_sh x \<Longrightarrow> \<exists>y. fill_update_shard x = Some y \<and> fine_sh y \<and> p_string (c_sh_name y) = ''shard-test''"
  by (simp add: fill_update_shard_def fine_sh_def ok_defs ok_MetaData_def union_reads ep_types Let_def)

lemma fill_get_shard:
  "fine_sh x \<Longrightarrow> \<exists>y. fill_get_shard x = Some y \<and> fine_sh y \<and> p_string (c_sh_name y) = ''shard-test''"
  by (simp add: fill_get_shard_def fine_sh_def ok_Shard_def)

interpretation sh_test: c_example_type "map_Shard ord" map_upsf_shard_t "c_Shard ord"
  p_Shard dflt_Shard ok_Shard clean_Shard Item_shard
  item_shard sh_name IT_shard c_sh_name "item_text p"
  "Shard_stream (time_string p) (sh_order p)" zero_upsf_shard_t
  fill_create_shard fill_update_shard
  fill_get_shard "''shard-test''" fine_sh for p ord
  by unfold_locales (simp_all add: fine_c_sh item_text_def fine_sh_text fill_create_shard
      fill_update_shard fill_get_shard, simp add: fine_sh_def)

definition fine_sc :: "upsf_session_context_t \<Rightarrow> bool" where
  "fine_sc x \<longleftrightarrow> ok_SessionContext x \<and> 0 \<le> sint (c_md_derived_state (c_sc_metadata x))"

lemma fine_c_sc: "SessionContext_stream ts m \<noteq> None \<Longrightarrow> fine_sc (c_SessionContext m)"
  by (simp add: fine_sc_def item_stream_None sc.ok_c)
    (simp add: c_SessionContext_def c_MetaData_def c_Maintenance_def c_ShardMbb_def)

lemma fine_sc_text: "fine_sc x \<Longrightarrow> SessionContext_stream ts (p_SessionContext x dflt_SessionContext) \<noteq> None"
  by (simp add: fine_sc_def item_stream_None p_SessionContext_def p_MetaData_def p_Maintenance_def p_ShardMbb_def)

lemma fill_create_session_context:
  "\<exists>y. fill_create_session_context zero_upsf_session_context_t = Some y \<and> fine_sc y \<and> p_string (c_sc_name y) = ''session-context-test''"
  by (simp add: fill_create_session_context_def fine_sc_def zero_defs zero_arrays ok_defs ok_MetaData_def union_reads ep_types
      del: zero_string_def)

lemma fill_update_session_context:
  "fine_sc x \<Longrightarrow> \<exists>y. fill_update_session_context x = Some y \<and> fine_sc y \<and> p_string (c_sc_name y) = ''session-context-test''"
  by (simp add: fill_update_session_context_def fine_sc_def ok_defs ok_MetaData_def union_reads ep_types Let_def)

lemma fill_get_session_context:
  "fine_sc x \<Longrightarrow> \<exists>y. fill_get_session_context x = Some y \<and> fine_sc y \<and> p_string (c_sc_name y) = ''session-context-test''"
  by (simp add: fill_get_session_context_def fine_sc_def ok_SessionContext_def)

interpretation sc_test: c_example_type map_SessionContext map_upsf_session_context_t c_SessionContext
  p_SessionContext dflt_SessionContext ok_SessionContext clean_SessionContext Item_session_context
  item_session_context sc_name IT_session_context c_sc_name "item_text p"
  "SessionContext_stream (time_string p)" zero_upsf_session_context_t
  fill_create_session_context fill_update_session_context
  fill_get_session_context "''session-context-test''" fine_sc for p
  by unfold_locales (simp_all add: fine_c_sc item_text_def fine_sc_text fill_create_session_context
      fill_update_session_context fill_get_session_context, simp add: fine_sc_def)

end
