(* ===== verification/CExampleProgram.thy ===== *)
theory CExampleProgram
  imports CExampleRuns
begin

text \<open>
  The C example as a program: its six tests at an empty server that keeps items, the whole
  program there, that it never ends with success, and what it does beyond the provisos of
  \<open>CExampleRuns\<close>: dumps into buffers that hold no NUL, and lists of more than 64 items.
\<close>

section \<open>The tests at an empty server\<close>

text \<open>
  A test passes: it is defined, returns 0, and leaves the slots and the empty server as they
  were.
\<close>

definition passes ::
    "('s \<Rightarrow> store) \<Rightarrow> pthread_t \<Rightarrow> UpsfSlot \<Rightarrow> ('s c_state \<Rightarrow> (int32 \<times> 's c_state) ub) \<Rightarrow> bool" where
  "passes held tid slot t \<longleftrightarrow>
     (\<forall>st. upsf_slots (ce_world st) tid = Some slot \<and> held (peers (ce_world st)) = Map.empty \<longrightarrow>
       (\<exists>st'. t st = Some (0, st') \<and> upsf_slots (ce_world st') = upsf_slots (ce_world st) \<and>
         held (peers (ce_world st')) = Map.empty))"

context c_example_type begin

lemma example_test_passes:
  fixes env :: "'s c_env"
  assumes "\<And>err. good_buf (env_buf env err)" and "keeps merge (net (upsf_addr slot)) held"
    and "prints text_of merge"
  shows "passes held tid slot (example_test label zero
      (example_list label' zero (list_items to_c zero (read_list_as ty sel) net tid) dump env)
      (example_dump dump env)
      (create_item from_c to_c dflt (create_as mk sel dflt) net tid)
      (update_item from_c to_c dflt (update_as mk sel dflt) net tid)
      (get_item c_name name_of to_c dflt (read_as ty sel dflt name_of) net tid)
      (delete_item c_name net tid) fill_create fill_update fill_get)"
  unfolding passes_def
proof (intro allI impI)
  fix st :: "'s c_state"
  assume st: "upsf_slots (ce_world st) tid = Some slot \<and> held (peers (ce_world st)) = Map.empty"
  then have "\<And>m. held (peers (ce_world st)) (ty, m) = None" by simp
  from example_test_kept[where net = net and tid = tid and slot = slot and st = st and label = label
      and label' = label', OF assms(1) _ assms(2,3) this] st
  show "\<exists>st'. example_test label zero
      (example_list label' zero (list_items to_c zero (read_list_as ty sel) net tid) dump env)
      (example_dump dump env)
      (create_item from_c to_c dflt (create_as mk sel dflt) net tid)
      (update_item from_c to_c dflt (update_as mk sel dflt) net tid)
      (get_item c_name name_of to_c dflt (read_as ty sel dflt name_of) net tid)
      (delete_item c_name net tid) fill_create fill_update fill_get st = Some (0, st') \<and>
      upsf_slots (ce_world st') = upsf_slots (ce_world st) \<and> held (peers (ce_world st')) = Map.empty"
    by simp
qed

end

lemmas test_defs = test_service_gateway_def test_service_gateway_user_plane_def test_shard_def
  test_session_context_def test_network_connection_def test_traffic_steering_function_def
  list_service_gateways_def list_service_gateway_user_planes_def list_shards_def
  list_session_contexts_def list_network_connections_def list_traffic_steering_functions_def
  dump_service_gateway_def dump_service_gateway_user_plane_def dump_shard_def
  dump_session_context_def dump_network_connection_def dump_traffic_steering_function_def

lemma tests_pass:
  assumes "\<And>err. good_buf (env_buf env err)" and "keeps merge (env_net env (upsf_addr slot)) held"
    and "prints (item_text (env_printers env)) merge"
  shows "passes held (env_tid env) slot (test_service_gateway env)"
    and "passes held (env_tid env) slot (test_service_gateway_user_plane env)"
    and "passes held (env_tid env) slot (test_shard env)"
    and "passes held (env_tid env) slot (test_session_context env)"
    and "passes held (env_tid env) slot (test_network_connection env)"
    and "passes held (env_tid env) slot (test_traffic_steering_function env)"
  unfolding test_defs api_defs call_defs dump_defs
  using assms(2)
  by (auto intro!: sg_test.example_test_passes[OF assms(1) _ assms(3)] up_test.example_test_passes[OF assms(1) _ assms(3)]
      sh_test.example_test_passes[OF assms(1) _ assms(3)] sc_test.example_test_passes[OF assms(1) _ assms(3)]
      nc_test.example_test_passes[OF assms(1) _ assms(3)] tsf_test.example_test_passes[OF assms(1) _ assms(3)])

lemma run_tests_pass:
  fixes held :: "'s \<Rightarrow> store"
  assumes "list_all (passes held tid slot) ts"
  shows "passes held tid slot (run_tests ts)"
  using assms
proof (induction ts)
  case Nil
  then show ?case by (simp add: passes_def)
next
  case (Cons t ts)
  then have t: "passes held tid slot t" and ts: "passes held tid slot (run_tests ts)" by simp_all
  show ?case
    unfolding passes_def
  proof (intro allI impI)
    fix st :: "'s c_state"
    assume st: "upsf_slots (ce_world st) tid = Some slot \<and> held (peers (ce_world st)) = Map.empty"
    with t obtain st1 where st1: "t st = Some (0, st1)" "upsf_slots (ce_world st1) = upsf_slots (ce_world st)"
      "held (peers (ce_world st1)) = Map.empty" unfolding passes_def by blast
    with ts st obtain st2 where "run_tests ts st1 = Some (0, st2)"
      "upsf_slots (ce_world st2) = upsf_slots (ce_world st1)" "held (peers (ce_world st2)) = Map.empty"
      unfolding passes_def by metis
    with st1 show "\<exists>st'. run_tests (t # ts) st = Some (0, st') \<and>
        upsf_slots (ce_world st') = upsf_slots (ce_world st) \<and> held (peers (ce_world st')) = Map.empty"
      by simp
  qed
qed

section \<open>The subscription\<close>

lemma call_back_prints:
  assumes "\<And>err. \<exists>err'. dump env intro c err = Some err'"
  shows "\<exists>err'. call_back (Some (example_cb dump env intro)) c (Some err) = Some err'"
  using assms by (simp add: call_back_def example_cb_def)

lemma received_prints:
  assumes buf: "\<And>err. good_buf (env_buf env err)" and printable: "item_text (env_printers env) i \<noteq> None"
  shows "\<exists>err'. received (nc_order (env_printers env)) (sh_order (env_printers env))
    (example_callbacks env) i (Some err) = Some err'"
proof -
  note d = sg_test.example_dump_good[OF _ buf] up_test.example_dump_good[OF _ buf]
    tsf_test.example_dump_good[OF _ buf] nc_test.example_dump_good[OF _ buf]
    sh_test.example_dump_good[OF _ buf] sc_test.example_dump_good[OF _ buf]
  show ?thesis
    using printable unfolding received_def example_callbacks_def test_defs dump_defs item_text_def
    by (cases i) (simp, auto intro!: call_back_prints d fine_c_sg fine_c_up fine_c_tsf fine_c_nc fine_c_sh fine_c_sc simp del: not_None_eq)
qed

lemma fold_received_prints:
  assumes "\<And>err. good_buf (env_buf env err)"
    and "\<And>i. i \<in> set is \<Longrightarrow> item_text (env_printers env) i \<noteq> None"
  shows "\<exists>err'. fold (received (nc_order (env_printers env)) (sh_order (env_printers env))
    (example_callbacks env)) is (Some err) = Some err'"
  using assms(2)
proof (induction "is" arbitrary: err)
  case (Cons i "is")
  from received_prints[OF assms(1), of i err] Cons.prems obtain e where
    "received (nc_order (env_printers env)) (sh_order (env_printers env)) (example_callbacks env) i
      (Some err) = Some e" by force
  with Cons show ?case by simp
qed simp

text \<open>The address of the example, and what its server does with the subscription.\<close>

definition c_address :: string where
  "c_address = ''127.0.0.1:50051''"

definition c_rounds :: "'s c_env \<Rightarrow> (Item list \<times> bool) list" where
  "c_rounds env = env_rounds env c_address (all_request True)"

lemma show_int_port [simp]: "show_int 50051 = ''50051''"
  by (simp add: show_int_def decimal.simps char_of_def bit_0)

lemma test_subscribe_result:
  assumes "\<And>err. good_buf (env_buf env err)"
    and "\<And>i. i \<in> set (delivered True (c_rounds env)) \<Longrightarrow> item_text (env_printers env) i \<noteq> None"
  shows "\<exists>err. test_subscribe env st
    = Some (if list_all snd (c_rounds env) then None else Some (- 1), st\<lparr>ce_stderr := err\<rparr>)"
proof -
  from fold_received_prints[OF assms, of "delivered True (c_rounds env)" "ce_stderr st"] obtain err where
    "fold (received (nc_order (env_printers env)) (sh_order (env_printers env)) (example_callbacks env))
      (delivered True (c_rounds env)) (Some (ce_stderr st)) = Some err" by auto
  then have "upsf_subscribe (nc_order (env_printers env)) (sh_order (env_printers env)) (env_rounds env)
      ''127.0.0.1'' 50051 (example_callbacks env) (Some (ce_stderr st))
      = Some (if list_all snd (c_rounds env) then None else Some (- 1), Some err)"
    by (simp add: upsf_subscribe_eq c_rounds_def c_address_def list_all_iff)
  then show ?thesis by (auto simp: test_subscribe_def)
qed

section \<open>The slot of the program\<close>

definition keeps_slots :: "('s c_state \<Rightarrow> (int32 \<times> 's c_state) ub) \<Rightarrow> bool" where
  "keeps_slots f \<longleftrightarrow>
     (\<forall>st r st'. f st = Some (r, st') \<longrightarrow> upsf_slots (ce_world st') = upsf_slots (ce_world st))"

lemma keeps_slotsD:
  "keeps_slots f \<Longrightarrow> f st = Some (r, st') \<Longrightarrow> upsf_slots (ce_world st') = upsf_slots (ce_world st)"
  by (simp add: keeps_slots_def)

lemma example_list_slots:
  "keeps_slots (example_list label zero (list_items to_c z rl net tid) dump env)"
  by (auto simp: keeps_slots_def example_list_def bind_eq_Some_conv Let_def split: if_splits dest: item_slots)

lemma example_test_slots:
  assumes "keeps_slots list"
  shows "keeps_slots (example_test label zero list dump (create_item from_c to_c d cr net tid)
    (update_item from_c to_c d up net tid) (get_item c_name name_of to_c d rd net tid)
    (delete_item c_name net tid) fill_create fill_update fill_get)"
  by (auto simp: keeps_slots_def example_test_def bind_eq_Some_conv Let_def split: if_splits
      dest!: item_slots keeps_slotsD[OF assms])

lemma tests_slots:
  "keeps_slots (test_service_gateway env)" "keeps_slots (test_service_gateway_user_plane env)"
  "keeps_slots (test_shard env)" "keeps_slots (test_session_context env)"
  "keeps_slots (test_network_connection env)" "keeps_slots (test_traffic_steering_function env)"
  unfolding test_defs api_defs by (intro example_test_slots example_list_slots)+

lemma run_tests_slots: "list_all keeps_slots ts \<Longrightarrow> keeps_slots (run_tests ts)"
proof (induction ts)
  case (Cons t ts)
  then have "keeps_slots t" "keeps_slots (run_tests ts)" by simp_all
  then show ?case
    by (auto simp: keeps_slots_def bind_eq_Some_conv split: if_splits)
qed (simp add: keeps_slots_def)

lemma test_subscribe_slots:
  assumes "test_subscribe env st = Some (r, st')"
  shows "ce_world st' = ce_world st" and "r = None \<or> r = Some (- 1)"
  using assms
  by (auto simp: test_subscribe_def upsf_subscribe_eq bind_eq_Some_conv split: option.splits if_splits)

section \<open>Long lists\<close>

context c_example_type begin

lemma example_list_long:
  assumes "upsf_slots (ce_world st) tid = Some slot"
    and "rl (net (upsf_addr slot)) [] (peers (ce_world st)) = (True, ms, s)"
    and "64 < length ms" and "length ms < 2 ^ 31"
  shows "example_list label zero (list_items to_c zero rl net tid) dump env st = None"
proof -
  let ?items = "map c_of (take 64 ms)"
  have "list_items to_c zero rl net tid (Some (replicate 64 zero)) 64 (ce_world st)
      = Some (of_nat (length ms), Some ?items, (ce_world st)\<lparr>peers := s\<rparr>)"
    using list_items_eq[where rl = rl and z = zero and net = net and a = "replicate 64 zero" and n = 64,
        OF assms(1) _ _ assms(2)] assms(3) by simp
  moreover have "sint (of_nat (length ms) :: int32) = int (length ms)"
    using assms(4) by (intro sint_of_nat_int32)
  moreover have "for_up 0 (length ms) (\<lambda>i (buf, err). do {
      x \<leftarrow> arr_get ?items i;
      (_, str) \<leftarrow> dump (Some buf) buflen (Some x);
      buf \<leftarrow> str;
      s \<leftarrow> format_s buf;
      Some (buf, err @ ''LIST '' @ label @ ''['' @ decimal i @ '']: '' @ s @ endl)
    }) t = None" for t
    by (rule for_up_undefined[of 0 64]) (use assms(3) in \<open>auto simp: arr_get_def\<close>)
  ultimately show ?thesis by (simp add: example_list_def)
qed

end

section \<open>Properties\<close>

text \<open>
  C7. Started without a slot, against an empty server that keeps items and merges updates by
  whatever function \<open>merge\<close> that makes printable items of printable ones, with buffers that happen
  to end in a NUL and as long as the subscription delivers items that can be printed: the program
  is defined, passes its six tests, leaves the server empty and its slot open, and returns -1 when
  a round of the subscription fails; otherwise it does not return.
\<close>

theorem c_main_at_empty_server:
  assumes "\<And>err. good_buf (env_buf env err)" and "keeps merge (env_net env c_address) held"
    and "prints (item_text (env_printers env)) merge"
    and "upsf_slots (ce_world st) (env_tid env) = None" and "held (peers (ce_world st)) = Map.empty"
    and "\<And>i. i \<in> set (delivered True (c_rounds env)) \<Longrightarrow> item_text (env_printers env) i \<noteq> None"
  shows "\<exists>st'. c_main env st = Some (if list_all snd (c_rounds env) then None else Some (- 1), st') \<and>
    held (peers (ce_world st')) = Map.empty \<and>
    upsf_slots (ce_world st') = (upsf_slots (ce_world st))(env_tid env \<mapsto> \<lparr>upsf_addr = c_address\<rparr>)"
proof -
  define slot where "slot = \<lparr>upsf_addr = c_address\<rparr>"
  define w where "w = (ce_world st)\<lparr>upsf_slots := (upsf_slots (ce_world st))(env_tid env \<mapsto> slot)\<rparr>"
  let ?tests = "[test_service_gateway env, test_service_gateway_user_plane env, test_shard env,
    test_session_context env, test_network_connection env, test_traffic_steering_function env]"
  have "upsf_open (env_tid env) ''127.0.0.1'' 50051 (ce_world st) = (0, w)"
    using assms(4) by (simp add: upsf_open_def w_def slot_def c_address_def)
  moreover have "passes held (env_tid env) slot (run_tests ?tests)"
    using tests_pass[of env merge slot held, OF assms(1) _ assms(3)] assms(2) by (simp add: run_tests_pass slot_def)
  then obtain st1 where "run_tests ?tests (st\<lparr>ce_world := w\<rparr>) = Some (0, st1)"
    and st1: "upsf_slots (ce_world st1) = upsf_slots w" "held (peers (ce_world st1)) = Map.empty"
    using assms(5) unfolding passes_def by (auto simp: w_def dest!: spec[of _ "st\<lparr>ce_world := w\<rparr>"])
  moreover from test_subscribe_result[OF assms(1,6), of st1] obtain err where "test_subscribe env st1
      = Some (if list_all snd (c_rounds env) then None else Some (- 1), st1\<lparr>ce_stderr := err\<rparr>)" by blast
  ultimately have "c_main env st
      = Some (if list_all snd (c_rounds env) then None else Some (- 1), st1\<lparr>ce_stderr := err\<rparr>)"
    by (simp add: c_main_def del: run_tests.simps)
  with st1 show ?thesis by (simp add: w_def slot_def)
qed

definition demo_env :: "Item list c_env" where
  "demo_env = \<lparr>env_net = \<lambda>_. item_server merge_item, env_tid = 7, env_printers = demo_printers,
     env_buf = \<lambda>_. replicate 1024 NUL,
     env_rounds = \<lambda>_ _. [([Item_shard (dflt_Shard\<lparr>sh_name := ''mine''\<rparr>)], False)]\<rparr>"

definition demo_c_state :: "Item list c_state" where
  "demo_c_state = \<lparr>ce_world = \<lparr>upsf_slots = Map.empty, peers = []\<rparr>, ce_stderr = []\<rparr>"

lemma c_main_at_empty_server_witness:
  "\<exists>st'. c_main demo_env demo_c_state = Some (Some (- 1), st') \<and>
     held_in (peers (ce_world st')) = Map.empty"
proof -
  have rounds: "c_rounds demo_env = [([Item_shard (dflt_Shard\<lparr>sh_name := ''mine''\<rparr>)], False)]"
    by (simp add: c_rounds_def demo_env_def)
  have buf: "good_buf (env_buf demo_env err)" for err
    by (simp add: demo_env_def good_buf_def)
  have server: "keeps merge_item (env_net demo_env c_address) held_in"
    using item_server_keeps[OF merge_item_keyed] by (simp add: demo_env_def)
  have slots: "upsf_slots (ce_world demo_c_state) (env_tid demo_env) = None"
    by (simp add: demo_c_state_def)
  have empty: "held_in (peers (ce_world demo_c_state)) = Map.empty"
    by (simp add: demo_c_state_def held_in_def fun_eq_iff)
  have items: "item_text (env_printers demo_env) i \<noteq> None"
    if "i \<in> set (delivered True (c_rounds demo_env))" for i
  proof -
    from that have "i = Item_shard (dflt_Shard\<lparr>sh_name := ''mine''\<rparr>)" by (simp add: rounds)
    then show ?thesis using empty_request_texts(4) by (simp add: item_text_def)
  qed
  from c_main_at_empty_server[OF buf server merge_item_prints slots empty items] show ?thesis
    unfolding rounds by auto
qed

text \<open>
  C37. The program never returns 0, as its subscription never succeeds, and so never gets to
  close its slot: whenever it returns, or waits in the subscription, the slot of its thread is open.
\<close>

theorem c_main_never_closes:
  "case c_main env st of None \<Rightarrow> True
   | Some (r, st') \<Rightarrow> r \<in> {None, Some (- 1)} \<and> upsf_slots (ce_world st') (env_tid env) \<noteq> None"
proof (cases "c_main env st")
  case (Some p)
  let ?tests = "[test_service_gateway env, test_service_gateway_user_plane env, test_shard env,
    test_session_context env, test_network_connection env, test_traffic_steering_function env]"
  obtain r0 w where w: "upsf_open (env_tid env) ''127.0.0.1'' 50051 (ce_world st) = (r0, w)"
    by (cases "upsf_open (env_tid env) ''127.0.0.1'' 50051 (ce_world st)")
  then have r0: "r0 = 0" and slot: "upsf_slots w (env_tid env) \<noteq> None"
    by (auto simp: upsf_open_def split: if_splits)
  from Some w r0 obtain r1 st1 where run: "run_tests ?tests (st\<lparr>ce_world := w\<rparr>) = Some (r1, st1)"
    by (auto simp: c_main_def bind_eq_Some_conv simp del: run_tests.simps)
  from run_tests_slots[of ?tests] tests_slots[of env] have "keeps_slots (run_tests ?tests)" by simp
  from keeps_slotsD[OF this run] slot have st1: "upsf_slots (ce_world st1) (env_tid env) \<noteq> None" by simp
  show ?thesis
  proof (cases "sint r1 < 0")
    case True
    with Some w r0 run st1 show ?thesis by (auto simp: c_main_def simp del: run_tests.simps)
  next
    case False
    with Some w r0 run obtain r2 st2 where sub: "test_subscribe env st1 = Some (r2, st2)"
      by (auto simp: c_main_def bind_eq_Some_conv simp del: run_tests.simps)
    from test_subscribe_slots[OF sub] False w r0 run sub st1 show ?thesis by (auto simp: c_main_def simp del: run_tests.simps)
  qed
qed simp

text \<open>
  C38. The dump of a shard with readable strings and states into the example's buffer of 1024
  uninitialised bytes is undefined unless a NUL happens to stand behind the text, and
  otherwise prints what the buffer held up to there after the text.
\<close>

theorem dump_shard_buffer:
  assumes "ok_Shard x" and "Shard_stream (time_string (env_printers env)) (sh_order (env_printers env))
      (p_Shard x dflt_Shard) = Some t" and "NUL \<notin> set t" and "length (env_buf env err) = 1024"
  shows "dump_shard env intro x err =
    (let rest = drop (min 1023 (length t)) (env_buf env err) in
     if NUL \<in> set rest then Some (err @ intro @ '' '' @ take 1023 t @ c_str rest @ endl) else None)"
proof -
  have "upsf_dump_shard (time_string (env_printers env)) (sh_order (env_printers env))
      (Some (env_buf env err)) buflen (Some x) = Some (True, Some (printed t 1023 (env_buf env err)))"
    using sh.dump_item_printed[where stream =
      "Shard_stream (time_string (env_printers env)) (sh_order (env_printers env))", OF assms(1,2,3), of buflen "env_buf env err"] assms(4)
    by (simp add: dump_defs)
  moreover have "NUL \<notin> set (take 1023 t)" using assms(3) by (auto dest: in_set_takeD)
  ultimately show ?thesis
    by (auto simp: dump_shard_def example_dump_def format_s_def printed_def Let_def c_str_append)
qed

text \<open>A buffer without NUL.\<close>

definition unlucky_env :: "unit c_env" where
  "unlucky_env = \<lparr>env_net = \<lambda>_. item_stub (replicate 65 (Item_shard dflt_Shard)) True, env_tid = 7,
     env_printers = \<lparr>time_string = \<lambda>_. ''0'', nc_order = \<lambda>_. [], sh_order = \<lambda>_. []\<rparr>,
     env_buf = \<lambda>_. replicate 1024 (CHR ''x''), env_rounds = \<lambda>_ _. []\<rparr>"

lemma dump_shard_buffer_witness: "dump_shard unlucky_env ''CREATE shard:'' zero_upsf_shard_t [] = None"
proof -
  have "NUL \<notin> set (drop k (replicate 1024 (CHR ''x'')))" for k by simp
  then show ?thesis
    using dump_shard_buffer[of zero_upsf_shard_t unlucky_env, OF zero_shard_ok]
    by (simp add: unlucky_env_def zero_shard_stream Let_def)
qed

text \<open>
  C39. When the server lists more than the 64 shards that the array of the example has room for,
  listing them reads behind the array: the list operation returns the number of all shards, and the
  example prints that many.
\<close>

theorem list_shards_long:
  assumes "upsf_slots (ce_world st) (env_tid env) = Some slot"
    and "stub_ReadV1 (env_net env (upsf_addr slot)) \<lparr>rr_itemtype = [IT_shard], rr_itemstate = [],
      rr_parent = [], rr_name = [], rr_watch = False\<rparr> (peers (ce_world st)) = (items, True, s)"
    and "64 < length (List.map_filter item_shard items)"
    and "length (List.map_filter item_shard items) < 2 ^ 31"
  shows "list_shards env st = None"
  unfolding test_defs api_defs call_defs dump_defs
  by (rule sh_test.example_list_long[OF assms(1) _ assms(3,4)]) (rule sh_kind.read_list_as_result[OF assms(2)])

lemma list_shards_long_witness:
  "list_shards unlucky_env \<lparr>ce_world = \<lparr>upsf_slots = Map.empty(7 \<mapsto> \<lparr>upsf_addr = []\<rparr>), peers = ()\<rparr>,
     ce_stderr = []\<rparr> = None"
  by (rule list_shards_long[where slot = "\<lparr>upsf_addr = []\<rparr>" and items = "replicate 65 (Item_shard dflt_Shard)"])
    (simp_all add: unlucky_env_def item_stub_def List.map_filter_def item_shard_def)

end
