(* ===== verification/Spec2Isabelle.thy ===== *)
theory Spec2Isabelle
  imports Interleaving Subscriber Locks Streams CppExampleRuns CExampleProgram
begin

text \<open>
  A verification development for libupsf, the client library of the BBF WT-474 user plane
  selection function (UPSF).

  The program. Applications talk to a UPSF server over gRPC. The library offers a C++
  interface (\<^verbatim>\<open>UpsfClient\<close> and \<^verbatim>\<open>UpsfSubscriber\<close>, \<^verbatim>\<open>upsf/upsf.hpp\<close>) on protobuf messages
  and on top of it a C interface (\<^verbatim>\<open>upsf/upsf_c_wrapper.cpp\<close>) on plain structures of fixed
  size (\<^verbatim>\<open>upsf/upsf.h\<close>). Between them stands \<^verbatim>\<open>UpsfMapping\<close>
  (\<^verbatim>\<open>upsf/upsf_c_mapping.cpp\<close>), which copies the messages into the structures and back. A
  thread of the C interface opens a slot, which holds the connection of the thread, and then
  creates, updates, gets, deletes, lists and looks up items of six types, or subscribes to them
  with callbacks. Two programs under \<^verbatim>\<open>examples/\<close> show the two interfaces at work: they create, read,
  list and delete an item of each type at a server.

  The theories, in the order of their imports.
  \<^item> \<open>Prelude\<close>: undefined behaviour as \<open>None\<close>, arrays, the counting loop, C strings and the
    copy loops of the mappings, each with a closed form and round trips.
  \<^item> \<open>Messages\<close>: the protobuf messages (\<^verbatim>\<open>messages_v1.proto\<close>, \<^verbatim>\<open>service_v1.proto\<close>) as the
    generated accessors present them. \<open>CTypes\<close>: the structures of \<^verbatim>\<open>upsf.h\<close>, with unions.
  \<^item> \<open>MapEndpoint\<close>, \<open>MapServiceGateway\<close> (service gateways, their user planes and traffic
    steering functions), \<open>MapSessionContext\<close>, \<open>MapShard\<close>, \<open>MapNetworkConnection\<close>: every overload
    of \<^verbatim>\<open>UpsfMapping::map\<close>, named \<open>map_T\<close> by the type \<open>T\<close> it maps from, written
    assignment by assignment. Each has a closed form (\<open>c_T\<close> towards the structure, \<open>p_T\<close> towards
    the message) that it is proved equal to, and the predicates \<open>ok_T\<close> (the structure can be
    read), \<open>clean_T\<close> (it is in the form the mapping makes) and \<open>fits_T\<close> (the message loses nothing).
    \<open>KeyValues\<close> has the arrays that protobuf maps become.
  \<^item> \<open>Codec\<close>: the contract of an item mapping as the locales \<open>item_mapping\<close>, \<open>lossless_mapping\<close>
    and \<open>exact_mapping\<close>, interpreted for the six item types in their theories.
  \<^item> \<open>Client\<close>: \<^verbatim>\<open>UpsfClient\<close> on a stub that is a parameter; the locale \<open>item_kind\<close> for the
    alternatives of an item.
  \<^item> \<open>Servers\<close>: what a server may promise. \<open>serves stub held\<close>: the stub stores, finds and removes
    items by type and name, \<open>held\<close> being the map of items that a state of the server stands for, and
    answers an update with some item of the same type and name; \<open>keeps merge stub held\<close>: it also
    lists them, and the item that an update stores and answers is a function \<open>merge\<close> of the options,
    the item held and the item sent. \<^verbatim>\<open>service_v1.proto\<close> has three strategies for lists (union, the
    default, replace and subtract) and says no more, so \<open>merge\<close> is a parameter of every theorem. The
    locale \<open>item_type\<close> has the calls of the client there, and \<open>item_server merge\<close> is an executable
    server that merges by \<open>merge\<close>; the examples take \<open>merge_item\<close>, which has the three strategies.
  \<^item> \<open>Wrapper\<close>: name tables, slots and the operations of the C interface; \<open>WrapperApi\<close>: the locale
    \<open>item_api\<close> that puts mapping and item type together, with the contract of the operations
    for all six types, and their refinement to a map from names to items at a server that
    \<open>serves\<close>.
  \<^item> \<open>SharedMap\<close>: calls of the C interface by many threads, one after the other (\<open>calls\<close>), and the
    shared map that they implement at a server that \<open>keeps\<close> items (\<open>spec_run\<close>), in which creations
    replace and updates merge by the default options; \<open>Interleaving\<close>: calls that overlap, the look-up of
    the slot and the remote call being steps of their own (\<open>fine_step\<close>), and their reduction to the
    former.
  \<^item> \<open>Subscriber\<close>: subscriptions as a function of the rounds a server goes through and as a step
    relation, with the refinement between them.
  \<^item> \<open>Locks\<close>: the mutexes of the C interface as a step relation over all threads, with an invariant
    on the owners of the mutexes and the table.
  \<^item> \<open>Streams\<close>: the printers of \<^verbatim>\<open>upsf/upsf_stream.hpp\<close> (\<open>X_stream\<close> is the text of an \<open>X\<close>) and
    the dump functions, with the bytes of the caller's buffer.
  \<^item> \<open>CppExample\<close>: the program \<^verbatim>\<open>examples/cpp\<close>, standard output included; \<open>CppExampleRuns\<close>: its
    total correctness at a server that \<open>keeps\<close> items, however it merges, function by function (\<open>runs\<close>,
    in the locale \<open>example_type\<close>). \<open>prints\<close> says of \<open>merge\<close> that it makes printable items of
    printable ones, as a negative state of an item cannot be printed.
  \<^item> \<open>CExample\<close>: the program \<^verbatim>\<open>examples/c\<close>, with its uninitialised buffers as a parameter;
    \<open>CExampleRuns\<close>: the test of an item type at a server that \<open>keeps\<close> items (the locale
    \<open>c_example_type\<close>, which puts \<open>item_api\<close> and \<open>example_type\<close> together); \<open>CExampleProgram\<close>: the program as a whole.

  What the theorems show. Filling a structure from a message never leaves its bounds, and what it
  gives can be sent again (\<open>receive_safe\<close>); which messages and structures survive the way
  forth and back, and what exactly is lost of the others; that the operations of the C interface
  write the caller's structure on success only and refine a map of items, which threads share
  however their calls overlap; that subscriptions deliver the items of the stream once and in
  order, and end with the first error; that nothing changes the table of slots while a call uses
  it, and that the locks cannot deadlock. Where the code
  trusts its caller (counts, sizes, negative numbers, filters of subscribers) theorems say what
  goes wrong; so they do for the buffer of a dump, which is left without a terminator. Of the
  examples: the C++ program leaves a server as it found it but for the names it uses, whatever
  printable items were there before; the C program passes its tests at an empty server, but
  can neither end with success nor close its slot, and is at the mercy of its uninitialised
  buffers.

  Parameters. The gRPC stub is a record of functions on an arbitrary state; nothing is assumed of
  it but where a theorem says so. The iteration order of protobuf maps is a parameter, with the
  hypothesis \<open>valid_order\<close> (each entry once) where it matters. Recursions are structural or on
  the length of lists, so no fuel is needed; the outer loop of a subscription, which need not
  end, is a function of the rounds so far.

  Choices. Enumerations are 32 bit words on both sides, and the casts between the enumerations of
  protobuf and of C (in the mappings of metadata, maintenance and the mbb state) are identities, as
  compilers make them; for a number that is no value of the C enumeration the C++ standard
  leaves them open. In \<open>Locks\<close> a close that finds no slot, which returns early, is an erasure
  without effect: it holds the same lock.

  Not modelled: logging (so that no printer runs but in a dump), channel creation beyond the
  address, the conversion of timestamps to texts (a parameter of the printers), copying of strings
  inside the standard library, the parsing of command line flags by the C++ example, and
  \<^verbatim>\<open>upsf_c_mapping.hpp\<close>, which only declares the mappings.
\<close>

section \<open>Properties across the item types\<close>

text \<open>
  C1. For every item type: filling a structure from any message, whatever the structure
  held and however long the strings and repeated fields of the message are, is defined, reports
  success and leaves a structure in canonical form, which can in turn be sent into any message.
\<close>

theorem receive_safe:
  "(\<exists>c. map_ServiceGateway sg x1 = Some (True, c) \<and> clean_ServiceGateway c \<and>
      (\<exists>m. map_upsf_service_gateway_t c sg' = Some (True, m))) \<and>
   (\<exists>c. map_ServiceGatewayUserPlane up x2 = Some (True, c) \<and> clean_ServiceGatewayUserPlane c \<and>
      (\<exists>m. map_upsf_service_gateway_user_plane_t c up' = Some (True, m))) \<and>
   (\<exists>c. map_TrafficSteeringFunction tsf x3 = Some (True, c) \<and> clean_TrafficSteeringFunction c \<and>
      (\<exists>m. map_upsf_traffic_steering_function_t c tsf' = Some (True, m))) \<and>
   (\<exists>c. map_NetworkConnection nc_ord nc x4 = Some (True, c) \<and> clean_NetworkConnection c \<and>
      (\<exists>m. map_upsf_network_connection_t c nc' = Some (True, m))) \<and>
   (\<exists>c. map_Shard sh_ord sh x5 = Some (True, c) \<and> clean_Shard c \<and>
      (\<exists>m. map_upsf_shard_t c sh' = Some (True, m))) \<and>
   (\<exists>c. map_SessionContext sc x6 = Some (True, c) \<and> clean_SessionContext c \<and>
      (\<exists>m. map_upsf_session_context_t c sc' = Some (True, m)))"
  by (simp add: sg.to_c_eq up.to_c_eq tsf.to_c_eq nc.to_c_eq sh.to_c_eq sc.to_c_eq
      sg.clean_c up.clean_c tsf.clean_c nc.clean_c sh.clean_c sc.clean_c
      sg.from_c_eq up.from_c_eq tsf.from_c_eq nc.from_c_eq sh.from_c_eq sc.from_c_eq
      sg.ok_c up.ok_c tsf.ok_c nc.ok_c sh.ok_c sc.ok_c)

end
